(* ===== verification/Prelude.thy ===== *)
theory Prelude
  imports Complex_Main "HOL-Library.Word" "HOL-Library.Char_ord" "HOL-Library.List_Lexorder"
begin

text \<open>
  Shared vocabulary of the development: machine integers, fallible state-passing operations
  (the \<^verbatim>\<open>Result\<close> and \<^verbatim>\<open>?\<close> of the source), byte strings with the operations of
  \<^verbatim>\<open>str\<close> that the server uses, decimal and hexadecimal text, and the generic list
  lemmas the components share. A Rust string is the list of its UTF-8 bytes, so
  \<^verbatim>\<open>len()\<close> is \<^const>\<open>length\<close> and the derived order is the lexicographic one.
\<close>

subsection \<open>Machine integers\<close>

type_synonym u64 = "64 word"
type_synonym u32 = "32 word"

text \<open>A signed 64-bit (32-bit) value is an \<^typ>\<open>int\<close>; the wrapping of release builds is written out.\<close>

definition i64_wrap :: "int \<Rightarrow> int" where
  "i64_wrap x = (x + 2 ^ 63) mod 2 ^ 64 - 2 ^ 63"

definition i32_wrap :: "int \<Rightarrow> int" where
  "i32_wrap x = (x + 2 ^ 31) mod 2 ^ 32 - 2 ^ 31"

lemma i64_wrap_id: "- (2 ^ 63) \<le> x \<Longrightarrow> x < 2 ^ 63 \<Longrightarrow> i64_wrap x = x"
  by (simp add: i64_wrap_def)

lemma i32_wrap_id: "- (2 ^ 31) \<le> x \<Longrightarrow> x < 2 ^ 31 \<Longrightarrow> i32_wrap x = x"
  by (simp add: i32_wrap_def)

lemma i64_wrap_range: "- (2 ^ 63) \<le> i64_wrap x \<and> i64_wrap x < 2 ^ 63"
  by (simp add: i64_wrap_def pos_mod_bound [of "2 ^ 64"] less_diff_eq)

subsection \<open>Fallible operations on a state\<close>

type_synonym ('e, 's, 'a) op = "'s \<Rightarrow> ('e + 'a) \<times> 's"

named_theorems op_simps \<open>unfolding the operations on a state\<close>

definition okR :: "'a \<Rightarrow> ('e, 's, 'a) op" where
  [op_simps]: "okR x s = (Inr x, s)"

definition errR :: "'e \<Rightarrow> ('e, 's, 'a) op" where
  [op_simps]: "errR e s = (Inl e, s)"

text \<open>Sequencing with the question mark operator: the first error ends the run.\<close>

definition bindR :: "('e, 's, 'a) op \<Rightarrow> ('a \<Rightarrow> ('e, 's, 'b) op) \<Rightarrow> ('e, 's, 'b) op" where
  [op_simps]: "bindR m f s = (case m s of (Inl e, t) \<Rightarrow> (Inl e, t) | (Inr x, t) \<Rightarrow> f x t)"

text \<open>\<^verbatim>\<open>let _ = op;\<close>: run an operation and drop its result.\<close>

definition ignoreR :: "('e, 's, 'a) op \<Rightarrow> ('e, 's, unit) op" where
  [op_simps]: "ignoreR m s = (Inr (), snd (m s))"

text \<open>A read that does not change the state.\<close>

definition readR :: "('s \<Rightarrow> 'e + 'a) \<Rightarrow> ('e, 's, 'a) op" where
  [op_simps]: "readR f s = (f s, s)"

definition modifyR :: "('s \<Rightarrow> 's) \<Rightarrow> ('e, 's, unit) op" where
  [op_simps]: "modifyR f s = (Inr (), f s)"

text \<open>A \<^verbatim>\<open>for\<close> loop whose body may fail.\<close>

fun forR :: "'a list \<Rightarrow> ('a \<Rightarrow> ('e, 's, unit) op) \<Rightarrow> ('e, 's, unit) op" where
  "forR [] f = okR ()"
| "forR (x # xs) f = bindR (f x) (\<lambda>_. forR xs f)"

text \<open>\<^verbatim>\<open>BEGIN TRANSACTION\<close>, body, then \<^verbatim>\<open>COMMIT\<close> on success and
  \<^verbatim>\<open>ROLLBACK\<close> on error.\<close>

definition transaction :: "('e, 's, 'a) op \<Rightarrow> ('e, 's, 'a) op" where
  [op_simps]: "transaction m s = (case m s of (Inr x, t) \<Rightarrow> (Inr x, t) | (Inl e, t) \<Rightarrow> (Inl e, s))"

text \<open>An operation whose error the caller handles.\<close>

definition tryR :: "('e, 's, 'a) op \<Rightarrow> ('e, 's, 'a option) op" where
  [op_simps]: "tryR m s = (case m s of (Inl e, t) \<Rightarrow> (Inr None, t) | (Inr x, t) \<Rightarrow> (Inr (Some x), t))"

lemma bindR_Inr: "bindR m f s = (Inr y, t) \<longleftrightarrow> (\<exists>x u. m s = (Inr x, u) \<and> f x u = (Inr y, t))"
  by (auto simp: bindR_def split: prod.splits sum.splits)

lemma bindR_ok: "bindR (okR x) f = f x"
  by (simp add: bindR_def okR_def fun_eq_iff)

lemma forR_filter: "forR bs (\<lambda>b. if P b then m b else okR ()) = forR (filter P bs) m"
  by (induction bs) (simp_all add: bindR_ok)

lemma bindR_Inl:
  "bindR m f s = (Inl e, t) \<longleftrightarrow> m s = (Inl e, t) \<or> (\<exists>x u. m s = (Inr x, u) \<and> f x u = (Inl e, t))"
  by (auto simp: bindR_def split: prod.splits sum.splits)

text \<open>An invariant of the state that every step keeps is kept by composed steps.\<close>

definition keeps :: "('s \<Rightarrow> bool) \<Rightarrow> ('e, 's, 'a) op \<Rightarrow> bool" where
  "keeps P m \<longleftrightarrow> (\<forall>s. P s \<longrightarrow> P (snd (m s)))"

named_theorems keeps_intros \<open>operations that keep an invariant\<close>

lemma keepsD: "keeps P m \<Longrightarrow> P s \<Longrightarrow> P (snd (m s))"
  by (simp add: keeps_def)

lemma keeps_run: "keeps P m \<Longrightarrow> P s \<Longrightarrow> m s = (r, t) \<Longrightarrow> P t"
  by (metis keepsD snd_conv)

lemma keeps_okR [keeps_intros]: "keeps P (okR x)"
  by (simp add: keeps_def okR_def)

lemma keeps_errR [keeps_intros]: "keeps P (errR e)"
  by (simp add: keeps_def errR_def)

lemma keeps_readR [keeps_intros]: "keeps P (readR f)"
  by (simp add: keeps_def readR_def)

lemma keeps_bindR [keeps_intros]: "keeps P m \<Longrightarrow> (\<And>x. keeps P (f x)) \<Longrightarrow> keeps P (bindR m f)"
  by (auto simp: keeps_def bindR_def split: prod.splits sum.splits)

lemma keeps_ignoreR [keeps_intros]: "keeps P m \<Longrightarrow> keeps P (ignoreR m)"
  by (simp add: keeps_def ignoreR_def)

lemma keeps_tryR [keeps_intros]: "keeps P m \<Longrightarrow> keeps P (tryR m)"
  by (auto simp: keeps_def tryR_def split: prod.splits sum.splits)

lemma keeps_transaction [keeps_intros]: "keeps P m \<Longrightarrow> keeps P (transaction m)"
  by (auto simp: keeps_def transaction_def split: prod.splits sum.splits)

lemma keeps_forR [keeps_intros]: "(\<And>x. keeps P (f x)) \<Longrightarrow> keeps P (forR xs f)"
  by (induction xs) (auto intro: keeps_okR keeps_bindR)

lemma keeps_if [keeps_intros]: "(b \<Longrightarrow> keeps P m) \<Longrightarrow> (\<not> b \<Longrightarrow> keeps P n) \<Longrightarrow> keeps P (if b then m else n)"
  by simp

lemma keeps_case_option [keeps_intros]:
  "keeps P m \<Longrightarrow> (\<And>x. keeps P (f x)) \<Longrightarrow> keeps P (case v of None \<Rightarrow> m | Some x \<Rightarrow> f x)"
  by (cases v) auto

lemma keeps_case_sum [keeps_intros]:
  "(\<And>x. keeps P (f x)) \<Longrightarrow> (\<And>y. keeps P (g y)) \<Longrightarrow> keeps P (case v of Inl x \<Rightarrow> f x | Inr y \<Rightarrow> g y)"
  by (cases v) auto

lemma keeps_forR_in: "(\<And>x. x \<in> set xs \<Longrightarrow> keeps P (f x)) \<Longrightarrow> keeps P (forR xs f)"
  by (induction xs) (auto intro: keeps_okR keeps_bindR)

text \<open>A failed transaction leaves the state as it found it.\<close>

lemma transaction_atomic: "transaction m s = (Inl e, t) \<Longrightarrow> t = s"
  by (auto simp: transaction_def split: prod.splits sum.splits)

lemma transaction_commit: "transaction m s = (Inr x, t) \<longleftrightarrow> m s = (Inr x, t)"
  by (auto simp: transaction_def split: prod.splits sum.splits)

lemma bindR_InrE:
  assumes "bindR m f s = (Inr y, t)"
  obtains x u where "m s = (Inr x, u)" "f x u = (Inr y, t)"
  using assms by (auto simp: bindR_Inr)

subsection \<open>Frames\<close>

text \<open>An operation leaves a part of the state alone.\<close>

definition frame :: "('s \<Rightarrow> 'a) \<Rightarrow> ('e, 's, 'b) op \<Rightarrow> bool" where
  "frame f m \<longleftrightarrow> (\<forall>s. f (snd (m s)) = f s)"

named_theorems frame_intros \<open>operations that leave a part of the state alone\<close>

lemma frameD: "frame f m \<Longrightarrow> m s = (r, t) \<Longrightarrow> f t = f s"
  by (metis frame_def snd_conv)

lemma frame_okR [frame_intros]: "frame f (okR x)"
  by (simp add: frame_def okR_def)

lemma frame_errR [frame_intros]: "frame f (errR e)"
  by (simp add: frame_def errR_def)

lemma frame_readR [frame_intros]: "frame f (readR g)"
  by (simp add: frame_def readR_def)

lemma frame_bindR [frame_intros]: "frame f m \<Longrightarrow> (\<And>x. frame f (g x)) \<Longrightarrow> frame f (bindR m g)"
  by (simp add: frame_def bindR_def split: prod.splits sum.splits) (metis snd_conv)

lemma frame_ignoreR [frame_intros]: "frame f m \<Longrightarrow> frame f (ignoreR m)"
  by (simp add: frame_def ignoreR_def)

lemma frame_tryR [frame_intros]: "frame f m \<Longrightarrow> frame f (tryR m)"
  by (simp add: frame_def tryR_def split: prod.splits sum.splits) (metis snd_conv)

lemma frame_transaction [frame_intros]: "frame f m \<Longrightarrow> frame f (transaction m)"
  by (simp add: frame_def transaction_def split: prod.splits sum.splits) (metis snd_conv)

lemma frame_forR [frame_intros]: "(\<And>x. frame f (g x)) \<Longrightarrow> frame f (forR xs g)"
  by (induction xs) (auto intro: frame_okR frame_bindR)

lemma frame_if [frame_intros]: "(b \<Longrightarrow> frame f m) \<Longrightarrow> (\<not> b \<Longrightarrow> frame f n) \<Longrightarrow> frame f (if b then m else n)"
  by simp

lemma frame_case_option [frame_intros]:
  "frame f m \<Longrightarrow> (\<And>x. frame f (g x)) \<Longrightarrow> frame f (case v of None \<Rightarrow> m | Some x \<Rightarrow> g x)"
  by (cases v) auto

lemma frame_case_sum [frame_intros]:
  "(\<And>x. frame f (g x)) \<Longrightarrow> (\<And>x. frame f (h x)) \<Longrightarrow> frame f (case v of Inl x \<Rightarrow> g x | Inr x \<Rightarrow> h x)"
  by (cases v) auto

lemma frame_case_prod [frame_intros]: "(\<And>x y. frame f (g x y)) \<Longrightarrow> frame f (case p of (x, y) \<Rightarrow> g x y)"
  by (cases p) auto

lemma frame_keeps: "frame f m \<Longrightarrow> (\<And>s. P s = Q (f s)) \<Longrightarrow> keeps P m"
  by (simp add: frame_def keeps_def)

subsection \<open>Operations as sequences of steps\<close>

text \<open>The effect of an operation is a sequence of steps of a relation, whatever its result.\<close>

definition via :: "('s \<Rightarrow> 's \<Rightarrow> bool) \<Rightarrow> ('e, 's, 'a) op \<Rightarrow> bool" where
  "via R m \<longleftrightarrow> (\<forall>s. R\<^sup>*\<^sup>* s (snd (m s)))"

named_theorems via_intros \<open>operations that are sequences of steps\<close>

lemma viaD: "via R m \<Longrightarrow> R\<^sup>*\<^sup>* s (snd (m s))"
  by (simp add: via_def)

lemma via_step: "(\<And>s. R s (snd (m s))) \<Longrightarrow> via R m"
  by (simp add: via_def r_into_rtranclp)

lemma via_okR [via_intros]: "via R (okR x)"
  by (simp add: via_def okR_def)

lemma via_errR [via_intros]: "via R (errR e)"
  by (simp add: via_def errR_def)

lemma via_readR [via_intros]: "via R (readR f)"
  by (simp add: via_def readR_def)

lemma via_bindR [via_intros]: "via R m \<Longrightarrow> (\<And>x. via R (f x)) \<Longrightarrow> via R (bindR m f)"
  unfolding via_def bindR_def
  by (auto split: prod.splits sum.splits) (metis snd_conv rtranclp_trans)+

lemma via_ignoreR [via_intros]: "via R m \<Longrightarrow> via R (ignoreR m)"
  by (simp add: via_def ignoreR_def)

lemma via_tryR [via_intros]: "via R m \<Longrightarrow> via R (tryR m)"
  unfolding via_def tryR_def by (auto split: prod.splits sum.splits) (metis snd_conv)+

lemma via_transaction [via_intros]: "via R m \<Longrightarrow> via R (transaction m)"
  unfolding via_def transaction_def by (auto split: prod.splits sum.splits) (metis snd_conv)

lemma via_frame: "frame f m \<Longrightarrow> (\<And>s t. f t = f s \<Longrightarrow> R s t) \<Longrightarrow> via R m"
  by (simp add: via_def frame_def r_into_rtranclp)

lemma via_forR [via_intros]: "(\<And>x. via R (f x)) \<Longrightarrow> via R (forR xs f)"
  by (induction xs) (auto intro: via_okR via_bindR)

lemma via_if [via_intros]: "(b \<Longrightarrow> via R m) \<Longrightarrow> (\<not> b \<Longrightarrow> via R n) \<Longrightarrow> via R (if b then m else n)"
  by simp

lemma via_case_option [via_intros]:
  "via R m \<Longrightarrow> (\<And>x. via R (f x)) \<Longrightarrow> via R (case v of None \<Rightarrow> m | Some x \<Rightarrow> f x)"
  by (cases v) auto

lemma via_case_sum [via_intros]:
  "(\<And>x. via R (f x)) \<Longrightarrow> (\<And>y. via R (g y)) \<Longrightarrow> via R (case v of Inl x \<Rightarrow> f x | Inr y \<Rightarrow> g y)"
  by (cases v) auto

lemma via_case_prod [via_intros]: "(\<And>x y. via R (g x y)) \<Longrightarrow> via R (case p of (x, y) \<Rightarrow> g x y)"
  by (cases p) auto

text \<open>An invariant of the steps holds after every sequence of them, and a preorder that contains
  the steps contains the sequences.\<close>

lemma rtranclp_invariant: "R\<^sup>*\<^sup>* s t \<Longrightarrow> (\<And>s t. R s t \<Longrightarrow> P s \<Longrightarrow> P t) \<Longrightarrow> P s \<Longrightarrow> P t"
  by (induction rule: rtranclp_induct) auto

lemma rtranclp_preorder:
  "R\<^sup>*\<^sup>* s t \<Longrightarrow> (\<And>s. Q s s) \<Longrightarrow> (\<And>s t u. Q s t \<Longrightarrow> Q t u \<Longrightarrow> Q s u) \<Longrightarrow> (\<And>s t. R s t \<Longrightarrow> Q s t) \<Longrightarrow> Q s t"
  by (induction rule: rtranclp_induct) blast+

subsection \<open>Decimal text\<close>

definition digit_char :: "nat \<Rightarrow> char" where
  "digit_char d = char_of (48 + d)"

fun show_nat :: "nat \<Rightarrow> string" where
  "show_nat n = (if n < 10 then [digit_char n] else show_nat (n div 10) @ [digit_char (n mod 10)])"

declare show_nat.simps [simp del]

definition show_int :: "int \<Rightarrow> string" where
  "show_int i = (if i < 0 then CHR ''-'' # show_nat (nat (- i)) else show_nat (nat i))"

abbreviation show_u64 :: "u64 \<Rightarrow> string" where
  "show_u64 w \<equiv> show_nat (unat w)"

definition is_digit :: "char \<Rightarrow> bool" where
  "is_digit c \<longleftrightarrow> 48 \<le> (of_char c :: nat) \<and> of_char c \<le> (57 :: nat)"

definition digit_val :: "char \<Rightarrow> nat" where
  "digit_val c = of_char c - 48"

definition read_digits :: "string \<Rightarrow> nat" where
  "read_digits s = fold (\<lambda>c acc. 10 * acc + digit_val c) s 0"

text \<open>\<^verbatim>\<open>str::parse\<close> for an unsigned type of the given width: an optional plus sign, then
  at least one digit, and no overflow.\<close>

definition parse_unsigned :: "nat \<Rightarrow> string \<Rightarrow> nat option" where
  "parse_unsigned w s =
     (let ds = (case s of CHR ''+'' # t \<Rightarrow> t | _ \<Rightarrow> s)
      in if ds \<noteq> [] \<and> list_all is_digit ds \<and> read_digits ds < 2 ^ w then Some (read_digits ds) else None)"

definition parse_u64 :: "string \<Rightarrow> u64 option" where
  "parse_u64 s = map_option word_of_nat (parse_unsigned 64 s)"

lemma digit_char_digit [simp]: "d < 10 \<Longrightarrow> is_digit (digit_char d)"
  by (simp add: is_digit_def digit_char_def)

lemma digit_val_char [simp]: "d < 10 \<Longrightarrow> digit_val (digit_char d) = d"
  by (simp add: digit_val_def digit_char_def)

lemma show_nat_digits: "list_all is_digit (show_nat n)"
proof (induction n rule: show_nat.induct)
  case (1 n)
  then show ?case by (cases "n < 10") (simp_all add: show_nat.simps [of n])
qed

lemma show_nat_nonempty [simp]: "show_nat n \<noteq> []"
  by (subst show_nat.simps) simp

lemma read_digits_snoc: "read_digits (s @ [c]) = 10 * read_digits s + digit_val c"
  by (simp add: read_digits_def)

lemma read_show_nat [simp]: "read_digits (show_nat n) = n"
proof (induction n rule: show_nat.induct)
  case (1 n)
  then show ?case
    by (cases "n < 10") (simp_all add: show_nat.simps [of n] read_digits_snoc, simp add: read_digits_def)
qed

lemma show_nat_inject [simp]: "show_nat m = show_nat n \<longleftrightarrow> m = n"
  by (metis read_show_nat)

lemma show_nat_no_char: "c \<in> set (show_nat n) \<Longrightarrow> is_digit c"
  using show_nat_digits [of n] by (simp add: list_all_iff)

lemma parse_show_nat: "n < 2 ^ w \<Longrightarrow> parse_unsigned w (show_nat n) = Some n"
proof -
  assume n: "n < 2 ^ w"
  have "(case show_nat n of CHR ''+'' # t \<Rightarrow> t | _ \<Rightarrow> show_nat n) = show_nat n"
  proof (cases "show_nat n")
    case (Cons c cs)
    then have "is_digit c" using show_nat_no_char [of c n] by simp
    then have "c \<noteq> CHR ''+''" by (auto simp: is_digit_def)
    then show ?thesis using Cons by (auto split: char.splits bool.splits)
  qed simp
  then show ?thesis using n show_nat_digits [of n] by (simp add: parse_unsigned_def)
qed

lemma parse_show_u64: "parse_u64 (show_u64 w) = Some w"
proof -
  have "unat w < 2 ^ LENGTH(64)" by (rule unsigned_less)
  then have "unat w < 2 ^ 64" by simp
  then show ?thesis using parse_show_nat [of "unat w" 64] by (simp add: parse_u64_def)
qed

subsection \<open>Hexadecimal text\<close>

definition is_ascii_hexdigit :: "char \<Rightarrow> bool" where
  "is_ascii_hexdigit c \<longleftrightarrow>
     (let n = (of_char c :: nat) in 48 \<le> n \<and> n \<le> 57 \<or> 65 \<le> n \<and> n \<le> 70 \<or> 97 \<le> n \<and> n \<le> 102)"

definition hexdigit_char :: "nat \<Rightarrow> char" where
  "hexdigit_char d = char_of (if d < 10 then 48 + d else 87 + d)"

fun show_hex :: "nat \<Rightarrow> string" where
  "show_hex n = (if n < 16 then [hexdigit_char n] else show_hex (n div 16) @ [hexdigit_char (n mod 16)])"

declare show_hex.simps [simp del]

text \<open>The format \<^verbatim>\<open>{:0width$x}\<close>: zero-padded on the left to at least the width.\<close>

definition pad_hex :: "nat \<Rightarrow> nat \<Rightarrow> string" where
  "pad_hex width n = (let s = show_hex n in replicate (width - length s) (CHR ''0'') @ s)"

definition hexdigit_val :: "char \<Rightarrow> nat" where
  "hexdigit_val c = (let n = of_char c in if n \<le> 57 then n - 48 else n - 87)"

definition read_hex :: "string \<Rightarrow> nat" where
  "read_hex s = fold (\<lambda>c acc. 16 * acc + hexdigit_val c) s 0"

lemma hexdigit_val_char [simp]: "d < 16 \<Longrightarrow> hexdigit_val (hexdigit_char d) = d"
  by (auto simp: hexdigit_val_def hexdigit_char_def Let_def)

lemma read_hex_snoc: "read_hex (s @ [c]) = 16 * read_hex s + hexdigit_val c"
  by (simp add: read_hex_def)

lemma read_show_hex [simp]: "read_hex (show_hex n) = n"
proof (induction n rule: show_hex.induct)
  case (1 n)
  then show ?case
    by (cases "n < 16") (simp_all add: show_hex.simps [of n] read_hex_snoc, simp add: read_hex_def)
qed

lemma read_hex_zeros [simp]: "read_hex (replicate k (CHR ''0'') @ s) = read_hex s"
  by (induction k) (simp_all add: read_hex_def hexdigit_val_def)

lemma read_pad_hex [simp]: "read_hex (pad_hex w n) = n"
  by (simp add: pad_hex_def Let_def)

lemma pad_hex_inject: "pad_hex w m = pad_hex w n \<Longrightarrow> m = n"
  by (metis read_pad_hex)

lemma length_show_hex:
  assumes "n < 16 ^ Suc k"
  shows "length (show_hex n) \<le> Suc k"
  using assms
proof (induction k arbitrary: n)
  case 0
  then show ?case by (simp add: show_hex.simps)
next
  case (Suc k)
  show ?case
  proof (cases "n < 16")
    case False
    have "n div 16 < 16 ^ Suc k" using Suc.prems by (simp add: less_mult_imp_div_less mult.commute)
    then show ?thesis using Suc.IH False by (simp add: show_hex.simps [of n])
  qed (simp add: show_hex.simps)
qed

lemma length_pad_hex: "n < 16 ^ Suc k \<Longrightarrow> length (pad_hex (Suc k) n) = Suc k"
  using length_show_hex [of n k] by (simp add: pad_hex_def Let_def)

lemma hexdigit_char_hex: "d < 16 \<Longrightarrow> is_ascii_hexdigit (hexdigit_char d)"
  by (auto simp: is_ascii_hexdigit_def hexdigit_char_def Let_def)

lemma show_hex_hexdigits: "list_all is_ascii_hexdigit (show_hex n)"
proof (induction n rule: show_hex.induct)
  case (1 n)
  then show ?case by (cases "n < 16") (simp_all add: show_hex.simps [of n] hexdigit_char_hex)
qed

lemma pad_hex_hexdigits: "list_all is_ascii_hexdigit (pad_hex w n)"
proof -
  have "is_ascii_hexdigit (CHR ''0'')" by (simp add: is_ascii_hexdigit_def)
  then have "list_all is_ascii_hexdigit (replicate k (CHR ''0''))" for k by (simp add: list_all_iff)
  then show ?thesis using show_hex_hexdigits by (simp add: pad_hex_def Let_def list_all_append)
qed

subsection \<open>Strings\<close>

text \<open>\<^verbatim>\<open>str::strip_prefix\<close>, \<^verbatim>\<open>str::starts_with\<close>, \<^verbatim>\<open>str::rfind\<close> of one
  character, and \<^verbatim>\<open>splitn(2, c)\<close>.\<close>

fun strip_prefix :: "'a list \<Rightarrow> 'a list \<Rightarrow> 'a list option" where
  "strip_prefix [] s = Some s"
| "strip_prefix (p # ps) [] = None"
| "strip_prefix (p # ps) (c # cs) = (if p = c then strip_prefix ps cs else None)"

definition starts_with :: "'a list \<Rightarrow> 'a list \<Rightarrow> bool" where
  "starts_with s p \<longleftrightarrow> strip_prefix p s \<noteq> None"

definition split_first :: "'a \<Rightarrow> 'a list \<Rightarrow> 'a list \<times> 'a list option" where
  "split_first c s =
     (takeWhile (\<lambda>x. x \<noteq> c) s, (case dropWhile (\<lambda>x. x \<noteq> c) s of [] \<Rightarrow> None | _ # r \<Rightarrow> Some r))"

definition split_last :: "'a \<Rightarrow> 'a list \<Rightarrow> ('a list \<times> 'a list) option" where
  "split_last c s =
     (case split_first c (rev s) of (r, None) \<Rightarrow> None | (r, Some l) \<Rightarrow> Some (rev l, rev r))"

lemma strip_prefix_append [simp]: "strip_prefix p (p @ s) = Some s"
  by (induction p) auto

lemma strip_prefix_Some: "strip_prefix p s = Some t \<longleftrightarrow> s = p @ t"
  by (induction p s rule: strip_prefix.induct) auto

lemma starts_with_iff: "starts_with s p \<longleftrightarrow> (\<exists>t. s = p @ t)"
  using strip_prefix_Some [of p s] by (auto simp: starts_with_def)

lemma split_first_absent: "c \<notin> set s \<Longrightarrow> split_first c s = (s, None)"
proof -
  assume "c \<notin> set s"
  then have "takeWhile (\<lambda>x. x \<noteq> c) s = s" "dropWhile (\<lambda>x. x \<noteq> c) s = []"
    by (auto simp: takeWhile_eq_all_conv dropWhile_eq_Nil_conv)
  then show ?thesis by (simp only: split_first_def list.case)
qed

lemma split_first_append: "c \<notin> set a \<Longrightarrow> split_first c (a @ c # b) = (a, Some b)"
proof -
  assume "c \<notin> set a"
  then have "\<forall>x\<in>set a. x \<noteq> c" by auto
  then show ?thesis by (simp add: split_first_def takeWhile_append2 dropWhile_append2)
qed

lemma split_first_SomeD: "split_first c s = (a, Some b) \<Longrightarrow> s = a @ c # b \<and> c \<notin> set a"
proof -
  assume *: "split_first c s = (a, Some b)"
  then obtain x where x: "dropWhile (\<lambda>x. x \<noteq> c) s = x # b" and a: "a = takeWhile (\<lambda>x. x \<noteq> c) s"
    by (auto simp: split_first_def split: list.splits)
  have "x = c" using hd_dropWhile [of "\<lambda>x. x \<noteq> c" s] x by simp
  moreover have "c \<notin> set a" unfolding a using set_takeWhileD by fastforce
  ultimately show ?thesis using takeWhile_dropWhile_id [of "\<lambda>x. x \<noteq> c" s] x a by simp
qed

lemma split_first_NoneD: "split_first c s = (a, None) \<Longrightarrow> s = a \<and> c \<notin> set s"
  using split_first_append [of c] split_list_first [of c s] split_first_absent [of c s]
  by (cases "c \<in> set s") fastforce+

lemma split_last_append: "c \<notin> set b \<Longrightarrow> split_last c (a @ c # b) = Some (a, b)"
  using split_first_append [of c "rev b" "rev a"] by (simp add: split_last_def)

subsection \<open>Lists\<close>

lemma find_append: "find P (xs @ ys) = (case find P xs of None \<Rightarrow> find P ys | Some x \<Rightarrow> Some x)"
  by (induction xs) auto

lemma find_SomeD: "find P xs = Some x \<Longrightarrow> x \<in> set xs \<and> P x"
  by (induction xs) (auto split: if_splits)

lemma find_NoneD: "find P xs = None \<longleftrightarrow> (\<forall>x\<in>set xs. \<not> P x)"
  by (induction xs) auto

lemma find_enumerate:
  assumes "find (\<lambda>(_, x). P x) (enumerate n xs) = Some (i, x)"
  shows "n \<le> i \<and> i < n + length xs \<and> x = xs ! (i - n) \<and> P x \<and> (\<forall>j<i - n. \<not> P (xs ! j))"
  using assms
  by (auto simp: find_Some_iff nth_enumerate_eq)

subsection \<open>Runs of a machine\<close>

fun run_events :: "('ev \<Rightarrow> 'c \<Rightarrow> 'c option) \<Rightarrow> 'ev list \<Rightarrow> 'c \<Rightarrow> 'c option" where
  "run_events f [] c = Some c"
| "run_events f (e # es) c = Option.bind (f e c) (run_events f es)"

locale event_machine =
  fixes step :: "'ev \<Rightarrow> 'c \<Rightarrow> 'c option"
    and good :: "'c \<Rightarrow> bool"
    and admissible :: "'ev \<Rightarrow> 'c \<Rightarrow> bool"
  assumes step_good: "good c \<Longrightarrow> admissible e c \<Longrightarrow> \<exists>c'. step e c = Some c' \<and> good c'"
    and step_admissible: "step e c = Some c' \<Longrightarrow> admissible e' c' = admissible e' c"
begin

lemma run_good:
  "good c \<Longrightarrow> \<forall>e\<in>set es. admissible e c \<Longrightarrow> \<exists>c'. run_events step es c = Some c' \<and> good c'"
proof (induction es arbitrary: c)
  case (Cons e es)
  then obtain c' where c': "step e c = Some c'" "good c'" using step_good [of c e] by auto
  then have "\<forall>e\<in>set es. admissible e c'" using Cons.prems(2) step_admissible [OF c'(1)] by simp
  then show ?case using Cons.IH [OF c'(2)] c'(1) by simp
qed simp

end

subsection \<open>Bounded buffers\<close>

definition keep_last :: "nat \<Rightarrow> 'a list \<Rightarrow> 'a list" where
  "keep_last n xs = drop (length xs - n) xs"

lemma length_keep_last [simp]: "length (keep_last n xs) = min (length xs) n"
  by (auto simp: keep_last_def)

lemma keep_last_short: "length xs \<le> n \<Longrightarrow> keep_last n xs = xs"
  by (simp add: keep_last_def)

lemma keep_last_append: "keep_last n (keep_last n xs @ ys) = keep_last n (xs @ ys)"
  by (cases "length xs \<le> n") (auto simp: keep_last_def add.commute)

lemma keep_last_snoc: "0 < n \<Longrightarrow> last (keep_last n (xs @ [x])) = x \<and> keep_last n (xs @ [x]) \<noteq> []"
  by (cases n) (auto simp: keep_last_def Suc_diff_le)

lemma set_keep_last: "set (keep_last n xs) \<subseteq> set xs"
  by (auto simp: keep_last_def dest: in_set_dropD)

text \<open>A buffer that drops its oldest elements when it is full.\<close>

locale fifo_buffer =
  fixes push :: "'a \<Rightarrow> 's \<Rightarrow> 's"
    and contents :: "'s \<Rightarrow> 'b list"
    and item :: "'a \<Rightarrow> 'b"
    and cap :: nat
    and ok :: "'s \<Rightarrow> bool"
  assumes push_contents: "ok s \<Longrightarrow> length (contents s) \<le> cap \<Longrightarrow>
      contents (push x s) = keep_last cap (contents s @ [item x])"
    and push_ok: "ok s \<Longrightarrow> ok (push x s)"
begin

lemma fold_contents:
  "ok s \<Longrightarrow> length (contents s) \<le> cap \<Longrightarrow>
     contents (fold push xs s) = keep_last cap (contents s @ map item xs) \<and> ok (fold push xs s)"
proof (induction xs arbitrary: s)
  case (Cons x xs)
  then have "contents (push x s) = keep_last cap (contents s @ [item x])" by (simp add: push_contents)
  then show ?case
    using Cons.IH [of "push x s"] Cons.prems push_ok keep_last_append [of cap "contents s @ [item x]"] by simp
qed (simp add: keep_last_short)

lemma fold_bounded: "ok s \<Longrightarrow> length (contents s) \<le> cap \<Longrightarrow> length (contents (fold push xs s)) \<le> cap"
  by (simp add: fold_contents)

end

end
