(* ===== verification/F64.thy ===== *)
theory F64
  imports Prelude "HOL-Library.Log_Nat"
begin

text \<open>
  The f64 of the source: IEEE-754 binary64 with round-to-nearest, ties-to-even, as an
  executable type. A finite value is the rational it denotes; every operation rounds the exact
  rational result to a binary64 value. The sign of zero is not represented: the server never
  observes it.
\<close>

datatype f64 = NaN | PInf | NInf | Fin rat

subsection \<open>Rounding a rational to binary64\<close>

definition round_half_even :: "rat \<Rightarrow> int" where
  "round_half_even x =
     (let n = \<lfloor>x\<rfloor>; d = x - of_int n
      in if d < 1 / 2 then n else if 1 / 2 < d then n + 1 else if even n then n else n + 1)"

definition flog2 :: "rat \<Rightarrow> int" where
  "flog2 x =
     (let (p, q) = quotient_of x; e = bitlen p - bitlen q
      in if 2 powi e \<le> x then e else e - 1)"

definition ulp_exp :: "rat \<Rightarrow> int" where
  "ulp_exp x = max (flog2 x - 52) (- 1074)"

definition round_pos :: "rat \<Rightarrow> rat" where
  "round_pos x = (let k = ulp_exp x in of_int (round_half_even (x / 2 powi k)) * 2 powi k)"

definition rnd :: "rat \<Rightarrow> rat" where
  "rnd x = (if x = 0 then 0 else if 0 < x then round_pos x else - round_pos (- x))"

definition f64_of_rat :: "rat \<Rightarrow> f64" where
  "f64_of_rat x =
     (let r = rnd x
      in if 2 ^ 1024 \<le> r then PInf else if r \<le> - (2 ^ 1024) then NInf else Fin r)"

lemma round_half_even_of_int [simp]: "round_half_even (of_int z) = z"
  by (simp add: round_half_even_def)

lemma round_half_even_bounds: "\<lfloor>x\<rfloor> \<le> round_half_even x" "round_half_even x \<le> \<lfloor>x\<rfloor> + 1"
  by (auto simp: round_half_even_def Let_def)

lemma round_half_even_mono:
  assumes "x \<le> y"
  shows "round_half_even x \<le> round_half_even y"
proof (cases "\<lfloor>x\<rfloor> = \<lfloor>y\<rfloor>")
  case True
  then show ?thesis using assms by (auto simp: round_half_even_def Let_def)
next
  case False
  then have "\<lfloor>x\<rfloor> + 1 \<le> \<lfloor>y\<rfloor>" using floor_mono [OF assms] by linarith
  then show ?thesis using round_half_even_bounds [of x] round_half_even_bounds [of y] by linarith
qed

lemma round_half_even_le_int: "x \<le> of_int z \<Longrightarrow> round_half_even x \<le> z"
  using round_half_even_mono [of x "of_int z"] by simp

lemma round_half_even_ge_int: "of_int z \<le> x \<Longrightarrow> z \<le> round_half_even x"
  using round_half_even_mono [of "of_int z" x] by simp

lemma bitlen_power:
  assumes "0 < (p::int)"
  shows "2 powi (bitlen p - 1) \<le> (of_int p :: rat)" "(of_int p :: rat) < 2 powi (bitlen p)"
proof -
  have b: "0 < bitlen p" using assms bitlen_nonneg [of p] bitlen_eq_zero_iff [of p] by linarith
  have 1: "2 ^ nat (bitlen p - 1) \<le> p" "p < 2 ^ nat (bitlen p)"
    using bitlen_bounds [OF assms] by auto
  have "(2::rat) powi (bitlen p - 1) = of_int (2 ^ nat (bitlen p - 1))"
    using b by (simp add: power_int_def)
  then show "2 powi (bitlen p - 1) \<le> (of_int p :: rat)" using 1 by (simp only: of_int_le_iff)
  have "(2::rat) powi (bitlen p) = of_int (2 ^ nat (bitlen p))"
    using b by (simp add: power_int_def)
  then show "(of_int p :: rat) < 2 powi (bitlen p)" using 1 by (simp only: of_int_less_iff)
qed

lemma flog2_bounds:
  assumes "0 < x"
  shows "2 powi (flog2 x) \<le> x" "x < 2 powi (flog2 x + 1)"
proof -
  obtain p q where pq: "quotient_of x = (p, q)" by fastforce
  then have q: "0 < q" and x: "x = of_int p / of_int q"
    by (auto simp: quotient_of_denom_pos quotient_of_div)
  then have p: "0 < p" using assms by (simp add: zero_less_divide_iff)
  note bp = bitlen_power [OF p] and bq = bitlen_power [OF q]
  have q': "(0::rat) < of_int q" using q by simp
  have "x < 2 powi (bitlen p) / 2 powi (bitlen q - 1)"
    unfolding x by (rule frac_less) (use bp bq p in auto)
  then have up: "x < 2 powi (bitlen p - bitlen q + 1)"
    by (simp add: power_int_diff power_int_add)
  have "2 powi (bitlen p - 1) / 2 powi (bitlen q) < x"
    unfolding x by (rule frac_less2) (use bp bq p q' in auto)
  then have lo: "2 powi (bitlen p - bitlen q - 1) < x"
    by (simp add: power_int_diff power_int_add mult.commute)
  show "2 powi (flog2 x) \<le> x" "x < 2 powi (flog2 x + 1)"
    using up lo by (auto simp: flog2_def pq Let_def)
qed

lemma powi2_mono: "a \<le> b \<Longrightarrow> (2::rat) powi a \<le> 2 powi b"
  by (simp add: power_int_increasing)

lemma flog2_mono:
  assumes "0 < x" "x \<le> y"
  shows "flog2 x \<le> flog2 y"
proof (rule ccontr)
  assume "\<not> flog2 x \<le> flog2 y"
  then have "(2::rat) powi (flog2 y + 1) \<le> 2 powi (flog2 x)" by (intro powi2_mono) simp
  then show False using flog2_bounds [of x] flog2_bounds [of y] assms by linarith
qed

lemma flog2_unique:
  assumes "2 powi e \<le> x" "x < 2 powi (e + 1)"
  shows "flog2 x = e"
proof -
  have x: "0 < x" using assms(1) by (rule less_le_trans [rotated]) simp
  have "\<not> flog2 x + 1 \<le> e"
    using powi2_mono [of "flog2 x + 1" e] flog2_bounds [OF x] assms by linarith
  moreover have "\<not> e + 1 \<le> flog2 x"
    using powi2_mono [of "e + 1" "flog2 x"] flog2_bounds [OF x] assms by linarith
  ultimately show ?thesis by linarith
qed

lemma ulp_exp_mono: "0 < x \<Longrightarrow> x \<le> y \<Longrightarrow> ulp_exp x \<le> ulp_exp y"
  using flog2_mono [of x y] by (auto simp: ulp_exp_def)

lemma powi2_quotient_int:
  assumes "b \<le> a"
  shows "(2::rat) powi a / 2 powi b = of_int (2 ^ nat (a - b))"
proof -
  have "(2::rat) powi a / 2 powi b = 2 powi (a - b)" by (simp add: power_int_diff)
  then show ?thesis using assms by (simp add: power_int_def)
qed

lemma grid_scale:
  assumes "k \<le> a"
  shows "of_int (m * 2 ^ nat (a - k)) * (2::rat) powi k = of_int m * 2 powi a"
proof -
  have "of_int (m * 2 ^ nat (a - k)) = of_int m * ((2::rat) powi a / 2 powi k)"
    by (simp only: powi2_quotient_int [OF assms] of_int_mult)
  then show ?thesis by simp
qed

lemma round_pos_le_grid:
  assumes "x \<le> of_int m * 2 powi a" "ulp_exp x \<le> a"
  shows "round_pos x \<le> of_int m * 2 powi a"
proof -
  let ?k = "ulp_exp x" and ?N = "m * 2 ^ nat (a - ulp_exp x)"
  have eq: "of_int ?N * (2::rat) powi ?k = of_int m * 2 powi a" by (rule grid_scale [OF assms(2)])
  then have "x / 2 powi ?k \<le> of_int ?N" using assms(1) by (simp only: pos_divide_le_eq zero_less_power_int zero_less_numeral)
  then have "round_half_even (x / 2 powi ?k) \<le> ?N" by (rule round_half_even_le_int)
  then have "of_int (round_half_even (x / 2 powi ?k)) * 2 powi ?k \<le> of_int ?N * (2::rat) powi ?k"
    by (intro mult_right_mono) (simp_all only: of_int_le_iff, simp)
  then show ?thesis unfolding eq by (simp add: round_pos_def Let_def)
qed

lemma round_pos_ge_grid:
  assumes "of_int m * 2 powi a \<le> x" "ulp_exp x \<le> a"
  shows "of_int m * 2 powi a \<le> round_pos x"
proof -
  let ?k = "ulp_exp x" and ?N = "m * 2 ^ nat (a - ulp_exp x)"
  have eq: "of_int ?N * (2::rat) powi ?k = of_int m * 2 powi a" by (rule grid_scale [OF assms(2)])
  then have "of_int ?N \<le> x / 2 powi ?k" using assms(1) by (simp only: pos_le_divide_eq zero_less_power_int zero_less_numeral)
  then have "?N \<le> round_half_even (x / 2 powi ?k)" by (rule round_half_even_ge_int)
  then have "of_int ?N * (2::rat) powi ?k \<le> of_int (round_half_even (x / 2 powi ?k)) * 2 powi ?k"
    by (intro mult_right_mono) (simp_all only: of_int_le_iff, simp)
  then show ?thesis unfolding eq by (simp add: round_pos_def Let_def)
qed

lemma round_pos_mono:
  assumes "0 < x" "x \<le> y"
  shows "round_pos x \<le> round_pos y"
proof (cases "ulp_exp x = ulp_exp y")
  case True
  have "round_half_even (x / 2 powi ulp_exp y) \<le> round_half_even (y / 2 powi ulp_exp y)"
    using assms by (intro round_half_even_mono divide_right_mono) simp_all
  then show ?thesis
    unfolding round_pos_def Let_def True
    by (intro mult_right_mono) (simp_all only: of_int_le_iff, simp)
next
  case False
  then have lt: "ulp_exp x < ulp_exp y" using ulp_exp_mono [OF assms] by simp
  then have uy: "ulp_exp y = flog2 y - 52" and fl: "flog2 x + 1 \<le> flog2 y"
    by (auto simp: ulp_exp_def)
  have "x \<le> 2 powi (flog2 y)"
    using flog2_bounds(2) [OF assms(1)] powi2_mono [OF fl] by linarith
  then have "round_pos x \<le> of_int 1 * 2 powi (flog2 y)"
    using lt uy by (intro round_pos_le_grid) simp_all
  also have "\<dots> \<le> round_pos y"
    using flog2_bounds(1) [of y] assms uy by (intro round_pos_ge_grid) simp_all
  finally show ?thesis .
qed

lemma round_pos_nonneg: "0 < x \<Longrightarrow> 0 \<le> round_pos x"
  using round_pos_ge_grid [of 0 "ulp_exp x" x] by simp

lemma rnd_mono:
  assumes "x \<le> y"
  shows "rnd x \<le> rnd y"
proof -
  consider "0 < x" | "y < 0" | "x \<le> 0" "0 \<le> y" using assms by linarith
  then show ?thesis
  proof cases
    case 1 then show ?thesis using assms round_pos_mono by (simp add: rnd_def)
  next
    case 2 then show ?thesis using assms round_pos_mono [of "- y" "- x"] by (simp add: rnd_def)
  next
    case 3
    then have "rnd x \<le> 0" "0 \<le> rnd y"
      using round_pos_nonneg [of "- x"] round_pos_nonneg [of y] by (auto simp: rnd_def)
    then show ?thesis by simp
  qed
qed

subsection \<open>Representable rationals\<close>

definition f64_rep :: "rat \<Rightarrow> bool" where
  "f64_rep r \<longleftrightarrow> rnd r = r \<and> \<bar>r\<bar> < 2 ^ 1024"

lemma rnd_0 [simp]: "rnd 0 = 0"
  by (simp add: rnd_def)

lemma rnd_uminus: "rnd (- x) = - rnd x"
  by (simp add: rnd_def)

lemma round_pos_grid:
  assumes "0 < m" "m < 2 ^ 53" "- 1074 \<le> k"
  shows "round_pos (of_int m * 2 powi k) = of_int m * 2 powi k"
proof -
  let ?x = "of_int m * (2::rat) powi k"
  have x: "0 < ?x" using assms by simp
  have "of_int m < (of_int (2 ^ 53) :: rat)" using assms(2) by (simp only: of_int_less_iff)
  then have "of_int m < (2::rat) powi 53" by simp
  then have "?x < 2 powi 53 * 2 powi k" by simp
  also have "\<dots> = 2 powi (k + 53)" by (simp add: power_int_add)
  finally have "\<not> (2::rat) powi (k + 53) \<le> 2 powi (flog2 ?x)"
    using flog2_bounds(1) [OF x] by linarith
  then have "flog2 ?x < k + 53" using powi2_mono [of "k + 53" "flog2 ?x"] by linarith
  then have u: "ulp_exp ?x \<le> k" using assms(3) by (simp add: ulp_exp_def)
  show ?thesis
    using round_pos_le_grid [OF order.refl u] round_pos_ge_grid [OF order.refl u] by simp
qed

lemma rnd_grid:
  assumes "\<bar>m\<bar> < 2 ^ 53" "- 1074 \<le> k"
  shows "rnd (of_int m * 2 powi k) = of_int m * 2 powi k"
proof -
  consider "m = 0" | "0 < m" | "m < 0" by linarith
  then show ?thesis
  proof cases
    case 1 then show ?thesis by simp
  next
    case 2 then show ?thesis using assms round_pos_grid [of m k] by (simp add: rnd_def)
  next
    case 3
    then have "of_int m * (2::rat) powi k < 0" by (simp add: mult_less_0_iff)
    then show ?thesis using 3 assms round_pos_grid [of "- m" k] by (simp add: rnd_def)
  qed
qed

lemma rnd_of_int:
  assumes "\<bar>n\<bar> \<le> 2 ^ 53"
  shows "rnd (of_int n) = of_int n"
proof (cases "\<bar>n\<bar> = 2 ^ 53")
  case True
  then have "n = 2 ^ 53 \<or> n = - (2 ^ 53)" by linarith
  then show ?thesis
    using rnd_grid [of "2 ^ 52" 1] rnd_grid [of "- (2 ^ 52)" 1] by auto
next
  case False
  then show ?thesis using assms rnd_grid [of n 0] by simp
qed

lemma round_pos_is_grid:
  assumes "0 < x"
  obtains m k where "round_pos x = of_int m * 2 powi k" "0 \<le> m" "m < 2 ^ 53" "- 1074 \<le> k"
proof -
  let ?k = "ulp_exp x" and ?m = "round_half_even (x / 2 powi ulp_exp x)"
  have k: "- 1074 \<le> ?k" by (simp add: ulp_exp_def)
  have "flog2 x + 1 \<le> ?k + 53" by (simp add: ulp_exp_def)
  then have "x \<le> 2 powi (?k + 53)"
    using flog2_bounds(2) [OF assms] powi2_mono [of "flog2 x + 1" "?k + 53"] by linarith
  then have "x / 2 powi ?k \<le> of_int (2 ^ 53)"
    by (simp add: pos_divide_le_eq power_int_add mult.commute)
  then have m: "?m \<le> 2 ^ 53" by (rule round_half_even_le_int)
  have m0: "0 \<le> ?m" using assms by (intro round_half_even_ge_int) simp
  have eq: "round_pos x = of_int ?m * 2 powi ?k" by (simp add: round_pos_def Let_def)
  show thesis
  proof (cases "?m = 2 ^ 53")
    case True
    then have "round_pos x = of_int (2 ^ 52) * 2 powi (?k + 1)" using eq by (simp add: power_int_add)
    then show thesis using k by (intro that [of "2 ^ 52" "?k + 1"]) simp_all
  next
    case False
    then have "?m < 2 ^ 53" using m by linarith
    then show thesis using eq m0 k by (intro that) simp_all
  qed
qed

lemma rnd_idem: "rnd (rnd x) = rnd x"
proof -
  have pos: "rnd (round_pos y) = round_pos y" if "0 < y" for y
    using round_pos_is_grid [OF that] rnd_grid by (metis abs_of_nonneg)
  consider "x = 0" | "0 < x" | "x < 0" by linarith
  then show ?thesis
    by cases (use pos [of x] pos [of "- x"] rnd_uminus [of "round_pos (- x)"] in \<open>simp_all add: rnd_def [of x]\<close>)
qed

lemma f64_of_rat_rep: "f64_of_rat x = Fin r \<Longrightarrow> f64_rep r"
  by (auto simp: f64_of_rat_def f64_rep_def Let_def rnd_idem split: if_splits)

lemma f64_of_rat_id: "f64_rep r \<Longrightarrow> f64_of_rat r = Fin r"
  by (auto simp: f64_of_rat_def f64_rep_def Let_def)

lemma f64_rep_0 [simp]: "f64_rep 0"
  by (simp add: f64_rep_def)

lemma f64_rep_of_int:
  assumes "\<bar>n\<bar> \<le> 2 ^ 53"
  shows "f64_rep (of_int n)"
proof -
  have "(of_int \<bar>n\<bar> :: rat) \<le> of_int (2 ^ 53)" using assms by (simp only: of_int_le_iff)
  also have "\<dots> < 2 ^ 1024" by simp
  finally show ?thesis using rnd_of_int [OF assms] by (simp add: f64_rep_def)
qed

lemma f64_rep_1 [simp]: "f64_rep 1"
  using f64_rep_of_int [of 1] by simp

subsection \<open>Operations\<close>

fun f_neg :: "f64 \<Rightarrow> f64" where
  "f_neg NaN = NaN"
| "f_neg PInf = NInf"
| "f_neg NInf = PInf"
| "f_neg (Fin a) = Fin (- a)"

fun f_add :: "f64 \<Rightarrow> f64 \<Rightarrow> f64" where
  "f_add (Fin a) (Fin b) = f64_of_rat (a + b)"
| "f_add NaN y = NaN"
| "f_add x NaN = NaN"
| "f_add PInf NInf = NaN"
| "f_add NInf PInf = NaN"
| "f_add PInf y = PInf"
| "f_add NInf y = NInf"
| "f_add x PInf = PInf"
| "f_add x NInf = NInf"

definition f_sub :: "f64 \<Rightarrow> f64 \<Rightarrow> f64" where
  "f_sub x y = f_add x (f_neg y)"

definition f_inf_signed :: "bool \<Rightarrow> f64" where
  "f_inf_signed neg = (if neg then NInf else PInf)"

fun f_mul :: "f64 \<Rightarrow> f64 \<Rightarrow> f64" where
  "f_mul (Fin a) (Fin b) = f64_of_rat (a * b)"
| "f_mul NaN y = NaN"
| "f_mul x NaN = NaN"
| "f_mul PInf (Fin b) = (if b = 0 then NaN else f_inf_signed (b < 0))"
| "f_mul (Fin a) PInf = (if a = 0 then NaN else f_inf_signed (a < 0))"
| "f_mul NInf (Fin b) = (if b = 0 then NaN else f_inf_signed (0 < b))"
| "f_mul (Fin a) NInf = (if a = 0 then NaN else f_inf_signed (0 < a))"
| "f_mul PInf PInf = PInf"
| "f_mul NInf NInf = PInf"
| "f_mul PInf NInf = NInf"
| "f_mul NInf PInf = NInf"

fun f_div :: "f64 \<Rightarrow> f64 \<Rightarrow> f64" where
  "f_div (Fin a) (Fin b) =
     (if b = 0 then (if a = 0 then NaN else f_inf_signed (a < 0)) else f64_of_rat (a / b))"
| "f_div NaN y = NaN"
| "f_div x NaN = NaN"
| "f_div (Fin a) PInf = Fin 0"
| "f_div (Fin a) NInf = Fin 0"
| "f_div PInf (Fin b) = f_inf_signed (b < 0)"
| "f_div NInf (Fin b) = f_inf_signed (0 \<le> b)"
| "f_div PInf PInf = NaN"
| "f_div PInf NInf = NaN"
| "f_div NInf PInf = NaN"
| "f_div NInf NInf = NaN"

fun f_le :: "f64 \<Rightarrow> f64 \<Rightarrow> bool" where
  "f_le NaN y = False"
| "f_le x NaN = False"
| "f_le NInf y = True"
| "f_le x PInf = True"
| "f_le (Fin a) (Fin b) = (a \<le> b)"
| "f_le (Fin a) NInf = False"
| "f_le PInf (Fin b) = False"
| "f_le PInf NInf = False"

definition f_lt :: "f64 \<Rightarrow> f64 \<Rightarrow> bool" where
  "f_lt x y = (f_le x y \<and> \<not> f_le y x)"

fun f_abs :: "f64 \<Rightarrow> f64" where
  "f_abs NaN = NaN"
| "f_abs PInf = PInf"
| "f_abs NInf = PInf"
| "f_abs (Fin a) = Fin \<bar>a\<bar>"

text \<open>\<^verbatim>\<open>f64::min\<close> and \<^verbatim>\<open>f64::max\<close> ignore a NaN argument.\<close>

definition f_min :: "f64 \<Rightarrow> f64 \<Rightarrow> f64" where
  "f_min x y = (if x = NaN then y else if y = NaN then x else if f_le x y then x else y)"

definition f_max :: "f64 \<Rightarrow> f64 \<Rightarrow> f64" where
  "f_max x y = (if x = NaN then y else if y = NaN then x else if f_le x y then y else x)"

text \<open>\<^verbatim>\<open>f64::clamp\<close> panics (\<open>None\<close>) unless the lower bound is at most the upper one.\<close>

definition f_clamp :: "f64 \<Rightarrow> f64 \<Rightarrow> f64 \<Rightarrow> f64 option" where
  "f_clamp x lo hi =
     (if f_le lo hi
      then Some (let y = (if f_lt x lo then lo else x) in if f_lt hi y then hi else y)
      else None)"

fun f_floor :: "f64 \<Rightarrow> f64" where
  "f_floor (Fin a) = Fin (of_int \<lfloor>a\<rfloor>)"
| "f_floor x = x"

text \<open>\<^verbatim>\<open>as i64\<close> and \<^verbatim>\<open>as u64\<close> truncate towards zero and saturate; NaN becomes 0.\<close>

definition trunc_rat :: "rat \<Rightarrow> int" where
  "trunc_rat a = (if 0 \<le> a then \<lfloor>a\<rfloor> else \<lceil>a\<rceil>)"

fun f_to_i64 :: "f64 \<Rightarrow> int" where
  "f_to_i64 NaN = 0"
| "f_to_i64 PInf = 2 ^ 63 - 1"
| "f_to_i64 NInf = - (2 ^ 63)"
| "f_to_i64 (Fin a) = max (- (2 ^ 63)) (min (2 ^ 63 - 1) (trunc_rat a))"

fun f_to_u64 :: "f64 \<Rightarrow> u64" where
  "f_to_u64 NaN = 0"
| "f_to_u64 PInf = - 1"
| "f_to_u64 NInf = 0"
| "f_to_u64 (Fin a) = word_of_int (max 0 (min (2 ^ 64 - 1) (trunc_rat a)))"

text \<open>\<^verbatim>\<open>x as f64\<close> for an integer, and a decimal literal.\<close>

definition f_of_int :: "int \<Rightarrow> f64" where
  "f_of_int n = f64_of_rat (of_int n)"

definition f_sum :: "f64 list \<Rightarrow> f64" where
  "f_sum xs = fold (\<lambda>x acc. f_add acc x) xs (Fin 0)"

definition f_epsilon :: f64 where
  "f_epsilon = Fin (1 / 2 ^ 52)"

subsection \<open>Order\<close>

lemma f_le_refl [simp]: "f_le x x \<longleftrightarrow> x \<noteq> NaN"
  by (cases x) auto

lemma f_le_trans: "f_le x y \<Longrightarrow> f_le y z \<Longrightarrow> f_le x z"
  by (cases x; cases y; cases z) auto

lemma f_le_total: "x \<noteq> NaN \<Longrightarrow> y \<noteq> NaN \<Longrightarrow> f_le x y \<or> f_le y x"
  by (cases x; cases y) auto

lemma f_le_antisym: "f_le x y \<Longrightarrow> f_le y x \<Longrightarrow> x = y"
  by (cases x; cases y) auto

lemma f_le_not_NaN: "f_le x y \<Longrightarrow> x \<noteq> NaN \<and> y \<noteq> NaN"
  by (cases x; cases y) auto

lemma f_lt_le: "f_lt x y \<Longrightarrow> f_le x y"
  by (simp add: f_lt_def)

lemma f_lt_irrefl [simp]: "\<not> f_lt x x"
  by (simp add: f_lt_def)

lemma f_lt_Fin [simp]: "f_lt (Fin a) (Fin b) \<longleftrightarrow> a < b"
  by (auto simp: f_lt_def)

lemma not_f_lt: "x \<noteq> NaN \<Longrightarrow> y \<noteq> NaN \<Longrightarrow> \<not> f_lt x y \<longleftrightarrow> f_le y x"
  using f_le_total by (auto simp: f_lt_def)

lemma f_clamp_None: "f_clamp x lo hi = None \<longleftrightarrow> \<not> f_le lo hi"
  by (simp add: f_clamp_def)

lemma f_clamp_bounds:
  assumes "f_clamp x lo hi = Some y" "x \<noteq> NaN"
  shows "f_le lo y" "f_le y hi"
  using assms f_le_not_NaN [of lo hi] f_lt_le [of x lo] not_f_lt [of x lo] not_f_lt [of hi x]
  by (auto simp: f_clamp_def Let_def not_f_lt split: if_splits)

lemma f_clamp_inside: "f_le lo x \<Longrightarrow> f_le x hi \<Longrightarrow> f_clamp x lo hi = Some x"
  using f_le_trans [of lo x hi] by (auto simp: f_clamp_def f_lt_def)

lemma f64_of_rat_not_NaN [simp]: "f64_of_rat x \<noteq> NaN" "NaN \<noteq> f64_of_rat x"
  by (simp_all add: f64_of_rat_def Let_def)

lemma f64_of_rat_mono:
  assumes "x \<le> y"
  shows "f_le (f64_of_rat x) (f64_of_rat y)"
  using rnd_mono [OF assms] by (auto simp: f64_of_rat_def Let_def)

lemma f64_of_rat_le: "f64_rep r \<Longrightarrow> x \<le> r \<Longrightarrow> f_le (f64_of_rat x) (Fin r)"
  using f64_of_rat_mono [of x r] by (simp add: f64_of_rat_id)

lemma f64_of_rat_ge: "f64_rep r \<Longrightarrow> r \<le> x \<Longrightarrow> f_le (Fin r) (f64_of_rat x)"
  using f64_of_rat_mono [of r x] by (simp add: f64_of_rat_id)

lemma f64_of_rat_numeral [simp]:
  "(numeral k :: int) \<le> 2 ^ 53 \<Longrightarrow> f64_of_rat (numeral k) = Fin (numeral k)"
  "f64_of_rat 0 = Fin 0" "f64_of_rat 1 = Fin 1"
  using f64_of_rat_id [OF f64_rep_of_int [of "numeral k"]] by (simp_all add: f64_of_rat_id)

lemma f64_rep_numeral [simp]: "(numeral k :: int) \<le> 2 ^ 53 \<Longrightarrow> f64_rep (numeral k)"
  using f64_rep_of_int [of "numeral k"] by simp

subsection \<open>Rounding error\<close>

lemma round_half_even_error: "\<bar>of_int (round_half_even x) - x\<bar> \<le> 1 / 2"
proof -
  have "of_int \<lfloor>x\<rfloor> \<le> x" "x < of_int \<lfloor>x\<rfloor> + 1" by linarith+
  then show ?thesis by (auto simp: round_half_even_def Let_def abs_le_iff)
qed

lemma round_pos_error_ulp: "\<bar>round_pos x - x\<bar> \<le> 2 powi ulp_exp x / 2"
proof -
  let ?p = "(2::rat) powi ulp_exp x"
  have p: "0 < ?p" by simp
  have "round_pos x - x = (of_int (round_half_even (x / ?p)) - x / ?p) * ?p"
    by (simp add: round_pos_def Let_def left_diff_distrib)
  then have "\<bar>round_pos x - x\<bar> = \<bar>of_int (round_half_even (x / ?p)) - x / ?p\<bar> * ?p"
    by (simp add: abs_mult)
  also have "\<dots> \<le> 1 / 2 * ?p" using round_half_even_error p by (intro mult_right_mono) simp_all
  finally show ?thesis by simp
qed

abbreviation u_round :: rat where "u_round \<equiv> 1 / 2 ^ 53"

definition eta_round :: rat where "eta_round = 2 powi (- 1075)"

lemma eta_round_pos: "0 < eta_round"
  by (simp add: eta_round_def)

lemma round_pos_error_normal:
  assumes "0 < x" "- 1074 < ulp_exp x"
  shows "\<bar>round_pos x - x\<bar> \<le> u_round * x" "\<bar>round_pos x - x\<bar> \<le> u_round * round_pos x"
proof -
  have k: "ulp_exp x = flog2 x - 52" using assms(2) by (simp add: ulp_exp_def split: if_splits)
  have e: "\<bar>round_pos x - x\<bar> \<le> u_round * 2 powi flog2 x"
    using round_pos_error_ulp [of x] by (simp add: k power_int_diff)
  have "of_int 1 * 2 powi flog2 x \<le> round_pos x"
    using flog2_bounds(1) [OF assms(1)] by (intro round_pos_ge_grid) (simp_all add: k)
  then show "\<bar>round_pos x - x\<bar> \<le> u_round * x" "\<bar>round_pos x - x\<bar> \<le> u_round * round_pos x"
    using e flog2_bounds(1) [OF assms(1)] by simp_all
qed

lemma rnd_error:
  assumes "0 \<le> x"
  shows "\<bar>rnd x - x\<bar> \<le> u_round * x + eta_round"
proof (cases "x = 0")
  case False
  then have x: "0 < x" using assms by simp
  show ?thesis
  proof (cases "- 1074 < ulp_exp x")
    case True
    have "\<bar>round_pos x - x\<bar> \<le> u_round * x" by (rule round_pos_error_normal(1) [OF x True])
    then show ?thesis using x eta_round_pos by (simp add: rnd_def)
  next
    case F: False
    then have k: "ulp_exp x = - 1074" by (simp add: ulp_exp_def)
    have "(2::rat) powi (- 1074) / 2 = eta_round" by (simp add: eta_round_def power_int_minus)
    then have "\<bar>round_pos x - x\<bar> \<le> eta_round" using round_pos_error_ulp [of x] by (simp only: k)
    moreover have "0 \<le> u_round * x" using x by simp
    ultimately show ?thesis using x by (simp only: rnd_def if_True if_False False)
  qed
qed (use eta_round_pos in simp)

text \<open>Numbers of moderate size, and the rounding of a concrete one.\<close>

lemma rnd_error_bound: "0 \<le> x \<Longrightarrow> x \<le> 2 ^ 51 \<Longrightarrow> \<bar>rnd x - x\<bar> \<le> u_round * x + 1 / 2 ^ 60"
proof -
  assume x: "0 \<le> x"
  have "eta_round \<le> (2::rat) powi (- 60)" unfolding eta_round_def by (rule powi2_mono) simp
  also have "(2::rat) powi (- 60) = 1 / 2 ^ 60" by (simp add: power_int_minus divide_simps)
  finally show ?thesis using rnd_error [OF x] by linarith
qed

lemma f64_of_rat_small: "\<bar>rnd x\<bar> < 2 ^ 1024 \<Longrightarrow> f64_of_rat x = Fin (rnd x)"
  by (auto simp: f64_of_rat_def Let_def)

lemma below_max: "(x::rat) \<le> 2 ^ 60 \<Longrightarrow> x < 2 ^ 1024"
proof -
  have "(2::rat) ^ 60 < 2 ^ 1024" by (rule power_strict_increasing) simp_all
  then show "x \<le> 2 ^ 60 \<Longrightarrow> x < 2 ^ 1024" by (rule order_le_less_trans [rotated])
qed

lemma rnd_eq:
  assumes "0 < x" "2 powi e \<le> x" "x < 2 powi (e + 1)" "- 1022 \<le> e"
    "\<bar>x / 2 powi (e - 52) - of_int m\<bar> < 1 / 2"
  shows "rnd x = of_int m * 2 powi (e - 52)"
proof -
  have u: "ulp_exp x = e - 52" using flog2_unique [OF assms(2,3)] assms(4) by (simp add: ulp_exp_def)
  have "round_half_even y = m" if "\<bar>y - of_int m\<bar> < 1 / 2" for y :: rat
  proof -
    have "\<lfloor>y\<rfloor> = m \<or> \<lfloor>y\<rfloor> = m - 1" using that by linarith
    then show ?thesis using that by (auto simp: round_half_even_def Let_def abs_less_iff)
  qed
  from this [OF assms(5)] show ?thesis using assms(1) by (simp add: rnd_def round_pos_def u Let_def)
qed

text \<open>Sums of representable numbers are exact in the subnormal range, so their error is relative,
  also to the rounded result.\<close>

lemma rep_multiple:
  assumes "f64_rep r" "0 \<le> r"
  obtains m where "r = of_int m * 2 powi (- 1074)"
proof (cases "r = 0")
  case True then show thesis using that [of 0] by simp
next
  case False
  then have "0 < r" using assms(2) by simp
  moreover from this have "round_pos r = r" using assms(1) by (simp add: f64_rep_def rnd_def)
  ultimately obtain m k where "r = of_int m * 2 powi k" "- 1074 \<le> k"
    using round_pos_is_grid [of r] by metis
  then have "r = of_int (m * 2 ^ nat (k - (- 1074))) * 2 powi (- 1074)"
    using grid_scale [of "- 1074" k m] by (simp only:)
  then show thesis by (rule that)
qed

lemma rnd_add_error:
  assumes "f64_rep a" "0 \<le> a" "f64_rep b" "0 \<le> b"
  shows "\<bar>rnd (a + b) - (a + b)\<bar> \<le> u_round * rnd (a + b)"
proof (cases "a + b = 0")
  case False
  let ?x = "a + b"
  have x: "0 < ?x" using assms False by linarith
  then have r: "rnd ?x = round_pos ?x" by (simp add: rnd_def)
  show ?thesis
  proof (cases "- 1074 < ulp_exp ?x")
    case True then show ?thesis using round_pos_error_normal(2) [OF x] by (simp only: r)
  next
    case F: False
    then have k: "ulp_exp ?x \<le> - 1074" by (simp add: ulp_exp_def)
    obtain m n where "a = of_int m * 2 powi (- 1074)" "b = of_int n * 2 powi (- 1074)"
      using rep_multiple assms by metis
    then have m: "?x = of_int (m + n) * 2 powi (- 1074)" by (simp only: of_int_add distrib_right)
    have "round_pos ?x = ?x"
      using round_pos_le_grid [of ?x "m + n" "- 1074"] round_pos_ge_grid [of "m + n" "- 1074" ?x] k m
      by (metis order.antisym order.refl)
    then show ?thesis using x by (simp only: r) simp
  qed
qed simp

subsection \<open>Sums of non-negative numbers\<close>

fun f_val :: "f64 \<Rightarrow> rat" where
  "f_val (Fin r) = r"
| "f_val x = 0"

fun f_nonneg :: "f64 \<Rightarrow> bool" where
  "f_nonneg (Fin r) = (f64_rep r \<and> 0 \<le> r)"
| "f_nonneg x = False"

lemma f_nonneg_Fin: "f_nonneg x \<Longrightarrow> x = Fin (f_val x)"
  by (cases x) auto

lemma f_nonneg_val: "f_nonneg x \<Longrightarrow> 0 \<le> f_val x"
  by (cases x) auto

lemma rnd_rep_ge: "f64_rep r \<Longrightarrow> r \<le> x \<Longrightarrow> r \<le> rnd x"
  using rnd_mono [of r x] by (simp add: f64_rep_def)

lemma rnd_rep_le: "f64_rep r \<Longrightarrow> x \<le> r \<Longrightarrow> rnd x \<le> r"
  using rnd_mono [of x r] by (simp add: f64_rep_def)

lemma f_add_nonneg:
  assumes "f_nonneg a" "f_nonneg b" "f_add a b \<noteq> PInf"
  shows "f_nonneg (f_add a b)" "f_val a \<le> f_val (f_add a b)" "f_val b \<le> f_val (f_add a b)"
    "\<bar>f_val (f_add a b) - (f_val a + f_val b)\<bar> \<le> u_round * f_val (f_add a b)"
proof -
  obtain x y where a: "a = Fin x" "f64_rep x" "0 \<le> x" and b: "b = Fin y" "f64_rep y" "0 \<le> y"
    using assms(1,2) by (cases a; cases b) auto
  have ge: "x \<le> rnd (x + y)" "y \<le> rnd (x + y)"
    using a b by (auto intro: rnd_rep_ge)
  have "\<not> rnd (x + y) \<le> - (2 ^ 1024)" using ge a(3) by (simp add: order.trans)
  then have f: "f_add a b = Fin (rnd (x + y))"
    using assms(3) by (auto simp: a b f64_of_rat_def Let_def)
  moreover have "f64_rep (rnd (x + y))" using f a b f64_of_rat_rep by simp
  ultimately show "f_nonneg (f_add a b)" "f_val a \<le> f_val (f_add a b)" "f_val b \<le> f_val (f_add a b)"
    "\<bar>f_val (f_add a b) - (f_val a + f_val b)\<bar> \<le> u_round * f_val (f_add a b)"
    using ge a b rnd_add_error [of x y] by auto
qed

lemma fold_add_PInf: "\<forall>x\<in>set xs. f_nonneg x \<Longrightarrow> fold (\<lambda>x acc. f_add acc x) xs PInf = PInf"
proof (induction xs)
  case (Cons x xs)
  then show ?case by (cases x) auto
qed simp

lemma fold_add_error:
  assumes "f_nonneg acc" "\<forall>x\<in>set xs. f_nonneg x" "fold (\<lambda>x acc. f_add acc x) xs acc = Fin W"
  shows "f64_rep W \<and> f_val acc \<le> W \<and> (\<forall>x\<in>set xs. f_val x \<le> W) \<and>
    \<bar>W - (f_val acc + sum_list (map f_val xs))\<bar> \<le> of_nat (length xs) * (u_round * W)"
  using assms
proof (induction xs arbitrary: acc)
  case Nil then show ?case by (cases acc) auto
next
  case (Cons x xs)
  let ?a = "f_add acc x"
  have ni: "?a \<noteq> PInf" using Cons.prems fold_add_PInf [of xs] by auto
  have x: "f_nonneg x" using Cons.prems by simp
  note a = f_add_nonneg [OF Cons.prems(1) x ni]
  have IH: "f64_rep W \<and> f_val ?a \<le> W \<and> (\<forall>x\<in>set xs. f_val x \<le> W) \<and>
    \<bar>W - (f_val ?a + sum_list (map f_val xs))\<bar> \<le> of_nat (length xs) * (u_round * W)"
    using Cons.prems a(1) by (intro Cons.IH) simp_all
  have "u_round * f_val ?a \<le> u_round * W" using IH by simp
  then have "\<bar>W - (f_val acc + (f_val x + sum_list (map f_val xs)))\<bar> \<le>
      u_round * W + of_nat (length xs) * (u_round * W)"
    using IH a(4) by linarith
  then show ?case using IH a by (auto simp: distrib_right)
qed

lemma f_sum_error:
  assumes "\<forall>x\<in>set xs. f_nonneg x" "f_sum xs = Fin W"
  shows "f64_rep W" "0 \<le> W" "\<And>x. x \<in> set xs \<Longrightarrow> f_val x \<le> W"
    "\<bar>W - sum_list (map f_val xs)\<bar> \<le> of_nat (length xs) * (u_round * W)"
  using fold_add_error [of "Fin 0" xs W] assms by (auto simp: f_sum_def)

end
