(* ===== verification/Database.thy ===== *)
theory Database
  imports F64
begin

text \<open>
  The SQLite database of src/src/accounting/schema.rs: one record per table row, one list per
  table (rows in rowid order, the newest last), one sequence per table for
  \<^verbatim>\<open>AUTOINCREMENT\<close>. A SQL statement of the repositories is a function on this
  record. Columns that no query of the server reads (\<^verbatim>\<open>updated_at\<close>, the
  \<^verbatim>\<open>created_at\<close> of tables other than shares and share_outcomes) are left out.
  Constraint violations (UNIQUE, FOREIGN KEY, and NOT NULL for a NaN, which SQLite stores as NULL) and the refusal of rusqlite to store a
  \<^verbatim>\<open>u64\<close> that does not fit a signed column are errors of the model; failures of the
  storage device are not modelled.
\<close>

datatype db_error =
    UniqueViolation string
  | ForeignKeyViolation
  | ToSqlConversionFailure
  | NotNullViolation string
  | QueryReturnedNoRows
  | Bail string

subsection \<open>Rows\<close>

record Worker =
  wk_id :: int
  wk_payout_address :: string
  wk_worker_suffix :: "string option"

record AuthorizationEvent =
  ae_id :: int
  ae_session_id :: string
  ae_worker_name :: string
  ae_payout_address :: string
  ae_worker_suffix :: "string option"
  ae_authorized :: bool
  ae_reason :: "string option"

record Share =
  sh_id :: int
  sh_worker_id :: int
  sh_session_id :: string
  sh_job_id :: string
  sh_template_id :: u64
  sh_template_epoch :: u64
  sh_extranonce1 :: string
  sh_extranonce2 :: string
  sh_ntime_hex_6b :: string
  sh_nonce_hex_8b :: string
  sh_difficulty :: f64
  sh_dedupe_key :: string

record ShareOutcome =
  so_id :: int
  so_share_id :: int
  so_session_id :: string
  so_worker_id :: int
  so_job_id :: string
  so_round_id :: "int option"
  so_dedupe_key :: string
  so_status :: string
  so_reject_reason :: "string option"
  so_node_result :: "string option"
  so_low_diff_ok :: "bool option"
  so_network_target_ok :: "bool option"
  so_block_hash :: "string option"

record Round =
  rd_id :: int
  rd_start_template_id :: u64
  rd_end_template_id :: "u64 option"
  rd_status :: string
  rd_found_block_hash :: "string option"

record AccountingEvent =
  ev_id :: int
  ev_event_type :: string
  ev_status :: string
  ev_session_id :: "string option"
  ev_worker_id :: "int option"
  ev_worker_name :: "string option"
  ev_payout_address :: "string option"
  ev_round_id :: "int option"
  ev_template_id :: "u64 option"
  ev_template_epoch :: "u64 option"
  ev_job_id :: "string option"
  ev_block_hash :: "string option"
  ev_height :: "int option"
  ev_payload_json :: "string option"

record FoundBlock =
  fb_id :: int
  fb_round_id :: int
  fb_block_hash :: string
  fb_height :: int
  fb_status :: string
  fb_worker_id :: "int option"
  fb_template_id :: "u64 option"
  fb_persist_source :: "string option"
  fb_orphan_reason :: "string option"
  fb_matured_at :: "string option"
  fb_coinbase_value :: u64
  fb_coinbase_txid :: "string option"
  fb_network_target_hex :: string

record PayoutBatch =
  pb_id :: int
  pb_round_id :: int
  pb_status :: string
  pb_total_amount :: int
  pb_pool_fee_amount :: int
  pb_pool_fee_address :: "string option"
  pb_miner_count :: int
  pb_retry_key :: "string option"
  pb_last_error :: "string option"
  pb_next_retry_at :: "string option"
  pb_attempt_count :: int
  pb_signed_payload_ref :: "string option"
  pb_submitted_txid :: "string option"

record Payout =
  py_id :: int
  py_batch_id :: int
  py_worker_id :: int
  py_payout_address :: string
  py_amount :: int
  py_dust_carried_forward :: int

record PayoutShareSnapshot =
  sn_id :: int
  sn_batch_id :: int
  sn_share_id :: int
  sn_share_outcome_id :: int
  sn_payout_address :: string
  sn_work_units :: f64
  sn_share_created_at :: string

subsection \<open>Tables\<close>

text \<open>\<open>db_shares\<close> and \<open>db_outcomes\<close> pair a row with its \<^verbatim>\<open>created_at\<close>; \<open>db_now\<close> is
  what \<^verbatim>\<open>CURRENT_TIMESTAMP\<close> returns.\<close>

record db =
  db_now :: string
  db_workers :: "Worker list"
  db_workers_seq :: int
  db_auth_events :: "AuthorizationEvent list"
  db_auth_events_seq :: int
  db_shares :: "(Share \<times> string) list"
  db_shares_seq :: int
  db_outcomes :: "(ShareOutcome \<times> string) list"
  db_outcomes_seq :: int
  db_rounds :: "Round list"
  db_rounds_seq :: int
  db_events :: "AccountingEvent list"
  db_events_seq :: int
  db_found_blocks :: "FoundBlock list"
  db_found_blocks_seq :: int
  db_batches :: "PayoutBatch list"
  db_batches_seq :: int
  db_payouts :: "Payout list"
  db_payouts_seq :: int
  db_snapshots :: "PayoutShareSnapshot list"
  db_snapshots_seq :: int
  db_dust :: "(string \<times> int) list"

definition init_schema :: "string \<Rightarrow> db" where
  "init_schema now =
     \<lparr>db_now = now, db_workers = [], db_workers_seq = 0, db_auth_events = [], db_auth_events_seq = 0,
      db_shares = [], db_shares_seq = 0, db_outcomes = [], db_outcomes_seq = 0,
      db_rounds = [], db_rounds_seq = 0, db_events = [], db_events_seq = 0,
      db_found_blocks = [], db_found_blocks_seq = 0, db_batches = [], db_batches_seq = 0,
      db_payouts = [], db_payouts_seq = 0, db_snapshots = [], db_snapshots_seq = 0, db_dust = []\<rparr>"

text \<open>rusqlite stores a \<^verbatim>\<open>u64\<close> in a signed column and fails when it does not fit.\<close>

definition u64_to_sql :: "u64 \<Rightarrow> bool" where
  "u64_to_sql w \<longleftrightarrow> unat w < 2 ^ 63"

type_synonym 'a dbop = "(db_error, db, 'a) op"

subsection \<open>Tables with an AUTOINCREMENT key\<close>

text \<open>Row ids are pairwise distinct and none exceeds the sequence, so the next id is fresh.\<close>

definition table_wf :: "('r \<Rightarrow> int) \<Rightarrow> 'r list \<Rightarrow> int \<Rightarrow> bool" where
  "table_wf rid rows n \<longleftrightarrow> distinct (map rid rows) \<and> (\<forall>r\<in>set rows. rid r \<le> n)"

definition update_where :: "('r \<Rightarrow> bool) \<Rightarrow> ('r \<Rightarrow> 'r) \<Rightarrow> 'r list \<Rightarrow> 'r list" where
  "update_where P f rows = map (\<lambda>r. if P r then f r else r) rows"

lemma table_wf_Nil [simp]: "table_wf rid [] n"
  by (simp add: table_wf_def)

lemma table_wf_fresh: "table_wf rid rows n \<Longrightarrow> r \<in> set rows \<Longrightarrow> rid r \<noteq> n + 1"
  by (auto simp: table_wf_def)

lemma table_wf_snoc: "table_wf rid rows n \<Longrightarrow> rid r = n + 1 \<Longrightarrow> table_wf rid (rows @ [r]) (n + 1)"
  using table_wf_fresh [of rid rows n] by (force simp: table_wf_def)

lemma table_wf_skip: "table_wf rid rows n \<Longrightarrow> table_wf rid rows (n + 1)"
  by (auto simp: table_wf_def)

lemma table_wf_lookup_snoc:
  assumes "table_wf rid rows n" "rid r = n + 1"
  shows "find (\<lambda>x. rid x = i) (rows @ [r]) = (if i = n + 1 then Some r else find (\<lambda>x. rid x = i) rows)"
proof -
  have "find (\<lambda>x. rid x = n + 1) rows = None"
    using table_wf_fresh [OF assms(1)] by (auto simp: find_NoneD)
  then show ?thesis using assms(2) by (auto simp: find_append split: option.splits)
qed

lemma table_wf_update_where:
  assumes "table_wf rid rows n" "\<And>r. rid (f r) = rid r"
  shows "table_wf rid (update_where P f rows) n"
proof -
  have "map rid (update_where P f rows) = map rid rows"
    using assms(2) by (simp add: update_where_def)
  moreover have "rid r \<le> n" if "r \<in> set (update_where P f rows)" for r
    using that assms by (auto simp: update_where_def table_wf_def)
  ultimately show ?thesis using assms(1) by (simp add: table_wf_def)
qed

lemma find_update_where:
  assumes "\<And>r. Q (f r) = Q r"
  shows "find Q (update_where P f rows) = map_option (\<lambda>r. if P r then f r else r) (find Q rows)"
  using assms by (induction rows) (auto simp: update_where_def)

lemma length_update_where [simp]: "length (update_where P f rows) = length rows"
  by (simp add: update_where_def)

lemma map_update_where: "(\<And>r. g (f r) = g r) \<Longrightarrow> map g (update_where P f rows) = map g rows"
  by (simp add: update_where_def)

lemma table_wf_filter: "table_wf rid rows n \<Longrightarrow> table_wf rid (filter P rows) n"
  by (auto simp: table_wf_def distinct_map_filter)

subsection \<open>Parts of the database\<close>

abbreviation workers_of :: "db \<Rightarrow> Worker list \<times> int" where "workers_of s \<equiv> (db_workers s, db_workers_seq s)"
abbreviation shares_of :: "db \<Rightarrow> (Share \<times> string) list \<times> (ShareOutcome \<times> string) list" where
  "shares_of s \<equiv> (db_shares s, db_outcomes s)"
abbreviation rounds_of :: "db \<Rightarrow> Round list \<times> int" where "rounds_of s \<equiv> (db_rounds s, db_rounds_seq s)"
abbreviation blocks_of :: "db \<Rightarrow> FoundBlock list \<times> int" where
  "blocks_of s \<equiv> (db_found_blocks s, db_found_blocks_seq s)"
abbreviation batches_of :: "db \<Rightarrow> PayoutBatch list \<times> int" where "batches_of s \<equiv> (db_batches s, db_batches_seq s)"

text \<open>A loop that updates one row at a time, found by its key, updates the selected rows.\<close>

lemma forR_updates:
  assumes "\<And>b s. b \<in> set bs \<Longrightarrow> db_now s = now \<Longrightarrow>
      fst (m b s) = Inr () \<and> db_now (snd (m b s)) = now \<and> g (snd (m b s)) = update_where (\<lambda>x. key x = key b) (f b) (g s)"
    and key: "\<And>b x. key (f b x) = key x" and "distinct (map key bs)" "db_now s = now"
  shows "fst (forR bs m s) = Inr () \<and>
    g (snd (forR bs m s)) = map (\<lambda>x. case find (\<lambda>b. key b = key x) bs of None \<Rightarrow> x | Some b \<Rightarrow> f b x) (g s)"
  using assms(1,3,4)
proof (induction bs arbitrary: s)
  case (Cons b bs)
  obtain u t where m: "m b s = (Inr u, t)" "db_now t = now" "g t = update_where (\<lambda>x. key x = key b) (f b) (g s)"
    using Cons.prems by (metis list.set_intros(1) prod.collapse)
  have nd: "find (\<lambda>c. key c = key b) bs = None" using Cons.prems(2) by (auto simp: find_None_iff) (metis imageI)
  have "find (\<lambda>c. key c = key x) bs = None" if "key x = key b" for x using nd that by simp
  then have "map (\<lambda>x. case find (\<lambda>b. key b = key x) bs of None \<Rightarrow> x | Some b \<Rightarrow> f b x) (g t) =
      map (\<lambda>x. case find (\<lambda>b. key b = key x) (b # bs) of None \<Rightarrow> x | Some b \<Rightarrow> f b x) (g s)"
    by (simp add: m(3) update_where_def key)
  moreover have "fst (forR bs m t) = Inr () \<and>
      g (snd (forR bs m t)) = map (\<lambda>x. case find (\<lambda>b. key b = key x) bs of None \<Rightarrow> x | Some b \<Rightarrow> f b x) (g t)"
    using Cons.prems m(2) by (intro Cons.IH) auto
  ultimately show ?case using m(1) by (simp add: bindR_def)
qed (simp add: okR_def)

lemma find_selected:
  assumes "distinct (map key rows)" "x \<in> set rows" "set bs = {x \<in> set rows. Q x}"
  shows "find (\<lambda>b. key b = key x) bs = (if Q x then Some x else None)"
proof (cases "find (\<lambda>b. key b = key x) bs")
  case (Some b)
  then have b: "b \<in> set bs" "key b = key x" by (auto simp: find_Some_iff)
  then have "b = x" using assms by (auto simp: distinct_map inj_on_def)
  then show ?thesis using Some b assms(3) by simp
qed (use assms in \<open>auto simp: find_None_iff\<close>)

end
