(* ===== verification/Event_Repository.thy ===== *)
theory Event_Repository
  imports Database
begin

text \<open>
  AccountingEventRepository of src/src/accounting/accounting_event_repository.rs: the
  append-only audit log, and the authorization event log of ShareRepository.
\<close>

definition opt_u64_to_sql :: "u64 option \<Rightarrow> bool" where
  "opt_u64_to_sql w = (case w of None \<Rightarrow> True | Some v \<Rightarrow> u64_to_sql v)"

definition record_event :: "AccountingEvent \<Rightarrow> int dbop" where
  "record_event e s =
     (if \<not> (opt_u64_to_sql (ev_template_id e) \<and> opt_u64_to_sql (ev_template_epoch e))
      then (Inl ToSqlConversionFailure, s)
      else let i = db_events_seq s + 1
           in (Inr i, s\<lparr>db_events := db_events s @ [e\<lparr>ev_id := i\<rparr>], db_events_seq := i\<rparr>))"

text \<open>\<^verbatim>\<open>LIMIT\<close> and \<^verbatim>\<open>OFFSET\<close> of SQLite: a negative limit is no limit, a negative
  offset is no offset. Reading a row back asserts that the height is not negative.\<close>

definition sql_limit_offset :: "int \<Rightarrow> int \<Rightarrow> 'a list \<Rightarrow> 'a list" where
  "sql_limit_offset limit offset xs =
     (let ys = drop (nat offset) xs in if limit < 0 then ys else take (nat limit) ys)"

definition list_by_type :: "string \<Rightarrow> int \<Rightarrow> int \<Rightarrow> db \<Rightarrow> AccountingEvent list option" where
  "list_by_type ty limit offset s =
     (let rows = sql_limit_offset limit offset
                   (rev (sort_key ev_id (filter (\<lambda>e. ev_event_type e = ty) (db_events s))))
      in if list_all (\<lambda>e. case ev_height e of None \<Rightarrow> True | Some h \<Rightarrow> 0 \<le> h) rows
         then Some rows else None)"

definition count_by_type :: "string \<Rightarrow> db \<Rightarrow> int" where
  "count_by_type ty s = int (length (filter (\<lambda>e. ev_event_type e = ty) (db_events s)))"

definition insert_authorization_event :: "AuthorizationEvent \<Rightarrow> int dbop" where
  "insert_authorization_event e s =
     (let i = db_auth_events_seq s + 1
      in (Inr i, s\<lparr>db_auth_events := db_auth_events s @ [e\<lparr>ae_id := i\<rparr>], db_auth_events_seq := i\<rparr>))"

text \<open>The logs are append-only.\<close>

definition log_extends :: "db \<Rightarrow> db \<Rightarrow> bool" where
  "log_extends s t \<longleftrightarrow>
     (\<exists>es. db_events t = db_events s @ es) \<and> (\<exists>es. db_auth_events t = db_auth_events s @ es)"

lemma log_extends_refl [simp]: "log_extends s s"
  by (simp add: log_extends_def)

lemma log_extends_trans: "log_extends s t \<Longrightarrow> log_extends t u \<Longrightarrow> log_extends s u"
  by (auto simp: log_extends_def)

lemma record_event_log: "log_extends s (snd (record_event e s))"
  by (auto simp: record_event_def Let_def log_extends_def)

lemma record_event_only_events:
  "snd (record_event e s) = s\<lparr>db_events := db_events (snd (record_event e s)),
     db_events_seq := db_events_seq (snd (record_event e s))\<rparr>"
  by (simp add: record_event_def Let_def)

text \<open>An invariant that does not read the audit log is kept by writing to it.\<close>

definition blind_to_events :: "(db \<Rightarrow> bool) \<Rightarrow> bool" where
  "blind_to_events P \<longleftrightarrow> (\<forall>s es n. P (s\<lparr>db_events := es, db_events_seq := n\<rparr>) = P s)"

lemma record_event_keeps [keeps_intros]: "blind_to_events P \<Longrightarrow> keeps P (record_event e)"
  by (auto simp: keeps_def record_event_def blind_to_events_def Let_def)

end
