(* ===== verification/Worker_Repository.thy ===== *)
theory Worker_Repository
  imports Database
begin

text \<open>
  WorkerRepository of src/src/accounting/worker_repository.rs. The upsert relies on
  \<^verbatim>\<open>UNIQUE(payout_address, worker_suffix)\<close>; SQLite holds NULLs of a UNIQUE index
  to be distinct, so a worker without a suffix never conflicts. An upsert that finds its row still
  uses up an \<^verbatim>\<open>AUTOINCREMENT\<close> id.
\<close>

definition suffix_value :: "string option \<Rightarrow> string option" where
  "suffix_value suffix = (case suffix of Some s \<Rightarrow> if s = [] then None else Some s | None \<Rightarrow> None)"

definition worker_conflict :: "string \<Rightarrow> string option \<Rightarrow> Worker \<Rightarrow> bool" where
  "worker_conflict addr suffix w \<longleftrightarrow>
     wk_payout_address w = addr \<and> suffix \<noteq> None \<and> wk_worker_suffix w = suffix"

definition upsert :: "string \<Rightarrow> string option \<Rightarrow> Worker dbop" where
  "upsert addr suffix s =
     (let sv = suffix_value suffix
      in case find (worker_conflict addr sv) (db_workers s) of
           Some w \<Rightarrow> (Inr w, s\<lparr>db_workers_seq := db_workers_seq s + 1\<rparr>)
         | None \<Rightarrow>
             (let i = db_workers_seq s + 1;
                  w = \<lparr>wk_id = i, wk_payout_address = addr, wk_worker_suffix = sv\<rparr>
              in (Inr w, s\<lparr>db_workers := db_workers s @ [w], db_workers_seq := i\<rparr>)))"

definition worker_get_by_id :: "int \<Rightarrow> db \<Rightarrow> Worker option" where
  "worker_get_by_id i s = find (\<lambda>w. wk_id w = i) (db_workers s)"

text \<open>Rows are kept in ascending id order.\<close>

definition worker_list_all :: "db \<Rightarrow> Worker list" where
  "worker_list_all s = sort_key wk_id (db_workers s)"

definition worker_count :: "db \<Rightarrow> int" where
  "worker_count s = int (length (db_workers s))"

definition workers_inv :: "db \<Rightarrow> bool" where
  "workers_inv s \<longleftrightarrow>
     table_wf wk_id (db_workers s) (db_workers_seq s) \<and>
     (\<forall>a x. x \<noteq> None \<longrightarrow> length (filter (worker_conflict a x) (db_workers s)) \<le> 1)"

lemma workers_inv_init: "workers_inv (init_schema now)"
  by (simp add: workers_inv_def init_schema_def)

lemma upsert_keeps_inv: "keeps workers_inv (upsert a x)"
proof -
  have "length (filter (worker_conflict a x) ws) = 0" if "find (worker_conflict a x) ws = None" for a x ws
    using that by (auto simp: find_NoneD filter_empty_conv)
  then show ?thesis
    unfolding keeps_def upsert_def workers_inv_def Let_def
    by (auto simp: worker_conflict_def table_wf_snoc table_wf_skip split: option.splits)
qed

lemma upsert_returns:
  assumes "upsert a x s = (r, t)"
  obtains w where "r = Inr w" "wk_payout_address w = a" "wk_worker_suffix w = suffix_value x"
    "w \<in> set (db_workers t)"
  using assms unfolding upsert_def Let_def
  by (auto simp: worker_conflict_def split: option.splits dest: find_SomeD)

text \<open>Upserting the same address with the same non-empty suffix twice returns the same worker
  and writes no row the second time.\<close>

theorem upsert_idempotent:
  assumes "x = Some y" "y \<noteq> []" "upsert a x s = (r, t)"
  shows "upsert a x t = (r, t\<lparr>db_workers_seq := db_workers_seq t + 1\<rparr>)"
  using assms
  by (auto simp: upsert_def Let_def suffix_value_def worker_conflict_def find_append split: option.splits)

theorem upsert_idempotent_witness:
  "fst (upsert ''a'' (Some ''w'') (snd (upsert ''a'' (Some ''w'') (init_schema ''0'')))) =
     fst (upsert ''a'' (Some ''w'') (init_schema ''0''))"
  using upsert_idempotent [OF refl, of "''w''" "''a''" "init_schema ''0''"]
  by (cases "upsert ''a'' (Some ''w'') (init_schema ''0'')") simp

lemma upsert_null_suffix_fresh:
  assumes "workers_inv s" "suffix_value x = None" "upsert a x s = (Inr w, t)"
  shows "wk_id w \<notin> wk_id ` set (db_workers s) \<and> db_workers t = db_workers s @ [w]"
proof -
  have no: "find (worker_conflict a None) (db_workers s) = None"
    by (simp add: worker_conflict_def find_NoneD)
  have "db_workers_seq s + 1 \<notin> wk_id ` set (db_workers s)"
    using assms(1) table_wf_fresh [of wk_id "db_workers s" "db_workers_seq s"]
    by (fastforce simp: workers_inv_def)
  then show ?thesis using assms(2,3) no by (auto simp: upsert_def Let_def)
qed

end
