(* ===== verification/Share_Repository.thy ===== *)
theory Share_Repository
  imports Event_Repository Worker_Repository
begin

text \<open>
  ShareRepository of src/src/accounting/share_repository.rs: the raw share submissions and
  their validation outcomes. Both tables are UNIQUE on the dedupe key and are written with
  \<^verbatim>\<open>INSERT OR IGNORE\<close>, so a resubmitted share is recorded once.
\<close>

definition build_dedupe_key :: "int \<Rightarrow> u64 \<Rightarrow> u64 \<Rightarrow> string \<Rightarrow> string \<Rightarrow> string \<Rightarrow> string" where
  "build_dedupe_key worker_id template_id template_epoch extranonce2 ntime nonce =
     show_int worker_id @ '':'' @ show_u64 template_id @ '':'' @ show_u64 template_epoch @ '':'' @
     extranonce2 @ '':'' @ ntime @ '':'' @ nonce"

subsection \<open>Inserts\<close>

text \<open>One \<^verbatim>\<open>INSERT OR IGNORE\<close>, then the id of the new or of the existing row; the flag
  says whether a row was written. A NaN difficulty is a NULL in a NOT NULL column: the insert is
  ignored and the lookup that follows finds no row. An ignored insert still uses up an
  \<^verbatim>\<open>AUTOINCREMENT\<close> id.\<close>

definition put_share :: "Share \<Rightarrow> (int \<times> bool) dbop" where
  "put_share sh s =
     (if \<not> (u64_to_sql (sh_template_id sh) \<and> u64_to_sql (sh_template_epoch sh))
      then (Inl ToSqlConversionFailure, s)
      else case find (\<lambda>r. sh_dedupe_key (fst r) = sh_dedupe_key sh) (db_shares s) of
             Some r \<Rightarrow> (Inr (sh_id (fst r), False), s\<lparr>db_shares_seq := db_shares_seq s + 1\<rparr>)
           | None \<Rightarrow>
               if sh_difficulty sh = NaN then (Inl QueryReturnedNoRows, s\<lparr>db_shares_seq := db_shares_seq s + 1\<rparr>)
               else if worker_get_by_id (sh_worker_id sh) s = None then (Inl ForeignKeyViolation, s)
               else let i = db_shares_seq s + 1
                    in (Inr (i, True),
                        s\<lparr>db_shares := db_shares s @ [(sh\<lparr>sh_id := i\<rparr>, db_now s)], db_shares_seq := i\<rparr>))"

definition put_outcome :: "ShareOutcome \<Rightarrow> (int \<times> bool) dbop" where
  "put_outcome oc s =
     (case find (\<lambda>r. so_dedupe_key (fst r) = so_dedupe_key oc) (db_outcomes s) of
        Some r \<Rightarrow> (Inr (so_id (fst r), False), s\<lparr>db_outcomes_seq := db_outcomes_seq s + 1\<rparr>)
      | None \<Rightarrow>
          if find (\<lambda>r. sh_id (fst r) = so_share_id oc) (db_shares s) = None \<or>
             worker_get_by_id (so_worker_id oc) s = None
          then (Inl ForeignKeyViolation, s)
          else let i = db_outcomes_seq s + 1
               in (Inr (i, True),
                   s\<lparr>db_outcomes := db_outcomes s @ [(oc\<lparr>so_id := i\<rparr>, db_now s)], db_outcomes_seq := i\<rparr>))"

definition insert_share :: "Share \<Rightarrow> int option dbop" where
  "insert_share sh = bindR (put_share sh) (\<lambda>(i, _). okR (Some i))"

definition insert_share_outcome :: "ShareOutcome \<Rightarrow> int option dbop" where
  "insert_share_outcome oc = bindR (put_outcome oc) (\<lambda>(i, _). okR (Some i))"

definition insert_share_and_outcome_atomic ::
  "Share \<Rightarrow> ShareOutcome \<Rightarrow> (int option \<times> int option \<times> bool) dbop" where
  "insert_share_and_outcome_atomic sh oc =
     transaction
       (bindR (put_share sh) (\<lambda>(share_id, share_is_new).
        bindR (put_outcome (oc\<lparr>so_share_id := share_id\<rparr>)) (\<lambda>(outcome_id, outcome_is_new).
        okR (Some share_id, Some outcome_id, share_is_new \<or> outcome_is_new))))"

definition update_outcome_node_result :: "string \<Rightarrow> string \<Rightarrow> nat dbop" where
  "update_outcome_node_result key res s =
     (Inr (length (filter (\<lambda>r. so_dedupe_key (fst r) = key) (db_outcomes s))),
      s\<lparr>db_outcomes :=
          update_where (\<lambda>r. so_dedupe_key (fst r) = key)
            (\<lambda>r. ((fst r)\<lparr>so_node_result := Some res\<rparr>, snd r)) (db_outcomes s)\<rparr>)"

subsection \<open>Counts and sums\<close>

definition count_outcomes_by_status :: "string \<Rightarrow> db \<Rightarrow> int" where
  "count_outcomes_by_status st s = int (length (filter (\<lambda>r. so_status (fst r) = st) (db_outcomes s)))"

definition total_outcome_count :: "db \<Rightarrow> int" where
  "total_outcome_count s = int (length (db_outcomes s))"

definition count_by_worker :: "int \<Rightarrow> db \<Rightarrow> int" where
  "count_by_worker w s = int (length (filter (\<lambda>r. sh_worker_id (fst r) = w) (db_shares s)))"

definition total_count :: "db \<Rightarrow> int" where
  "total_count s = int (length (db_shares s))"

text \<open>\<^verbatim>\<open>SUM\<close> over REAL is SQLite's own compensated summation: the parameter
  \<open>sql_sum\<close>.\<close>

definition sum_difficulty_since :: "(f64 list \<Rightarrow> f64) \<Rightarrow> string \<Rightarrow> db \<Rightarrow> f64" where
  "sum_difficulty_since sql_sum since s =
     (let ds = [sh_difficulty (fst r). r \<leftarrow> db_shares s, o_row \<leftarrow> db_outcomes s,
                  so_share_id (fst o_row) = sh_id (fst r) \<and> so_status (fst o_row) = ''accepted'' \<and>
                  since \<le> snd o_row]
      in if ds = [] then Fin 0 else sql_sum ds)"

definition reject_key :: "ShareOutcome \<Rightarrow> string" where
  "reject_key oc = (case so_reject_reason oc of None \<Rightarrow> ''unknown'' | Some r \<Rightarrow> r)"

definition count_rejected_by_reason :: "db \<Rightarrow> string \<Rightarrow> int option" where
  "count_rejected_by_reason s reason =
     (let n = length (filter (\<lambda>r. so_status (fst r) = ''rejected'' \<and> reject_key (fst r) = reason) (db_outcomes s))
      in if n = 0 then None else Some (int n))"

definition count_outcomes_by_round_with_workers ::
  "int \<Rightarrow> db \<Rightarrow> (int \<times> string \<times> string option \<times> int \<times> int \<times> int) list" where
  "count_outcomes_by_round_with_workers rid s =
     (let rows = filter (\<lambda>r. so_round_id (fst r) = Some rid) (db_outcomes s);
          group = (\<lambda>w. filter (\<lambda>r. so_worker_id (fst r) = wk_id w) rows)
      in [(wk_id w, wk_payout_address w, wk_worker_suffix w, int (length (group w)),
           int (length (filter (\<lambda>r. so_status (fst r) = ''accepted'') (group w))),
           int (length (filter (\<lambda>r. so_status (fst r) = ''rejected'') (group w)))).
          w \<leftarrow> sort_key wk_id (db_workers s), group w \<noteq> []])"

subsection \<open>Filtered lists\<close>

definition opt_match :: "('a \<Rightarrow> bool) \<Rightarrow> ('b \<Rightarrow> 'a \<Rightarrow> bool) \<Rightarrow> 'b option \<Rightarrow> 'a \<Rightarrow> bool" where
  "opt_match dflt p v x = (case v of None \<Rightarrow> dflt x | Some b \<Rightarrow> p b x)"

abbreviation opt_cond :: "('b \<Rightarrow> 'a \<Rightarrow> bool) \<Rightarrow> 'b option \<Rightarrow> 'a \<Rightarrow> bool" where
  "opt_cond \<equiv> opt_match (\<lambda>_. True)"

text \<open>Casting to \<^verbatim>\<open>usize\<close> makes a negative offset or limit huge.\<close>

definition mem_page :: "int option \<Rightarrow> int option \<Rightarrow> 'a list \<Rightarrow> 'a list" where
  "mem_page limit offset xs =
     (let ys = (case offset of None \<Rightarrow> xs
                | Some off \<Rightarrow> if 0 \<le> off \<and> off \<le> int (length xs) then drop (nat off) xs else [])
      in case limit of None \<Rightarrow> ys | Some lm \<Rightarrow> if lm < 0 then ys else take (nat lm) ys)"

text \<open>The rows of \<^verbatim>\<open>shares s LEFT JOIN share_outcomes so ON so.dedupe_key = s.dedupe_key\<close>
  that satisfy the status condition; without a status filter there is no join.\<close>

definition share_rows ::
  "int option \<Rightarrow> string option \<Rightarrow> string option \<Rightarrow> string option \<Rightarrow> db \<Rightarrow> (Share \<times> string) list" where
  "share_rows worker_id status from_t to_t s =
     (let base = filter (\<lambda>r. opt_cond (\<lambda>w r. sh_worker_id (fst r) = w) worker_id r \<and>
                             opt_cond (\<lambda>f r. f \<le> snd r) from_t r \<and>
                             opt_cond (\<lambda>t r. snd r \<le> t) to_t r) (db_shares s)
      in case status of
           None \<Rightarrow> base
         | Some st \<Rightarrow> [r. r \<leftarrow> base, o_row \<leftarrow> db_outcomes s,
                         so_dedupe_key (fst o_row) = sh_dedupe_key (fst r) \<and> so_status (fst o_row) = st])"

definition list_shares ::
  "int option \<Rightarrow> string option \<Rightarrow> string option \<Rightarrow> string option \<Rightarrow> int option \<Rightarrow> int option \<Rightarrow> db \<Rightarrow> Share list" where
  "list_shares worker_id status from_t to_t limit offset s =
     mem_page limit offset (rev (sort_key sh_id (map fst (share_rows worker_id status from_t to_t s))))"

definition count_shares ::
  "int option \<Rightarrow> string option \<Rightarrow> string option \<Rightarrow> string option \<Rightarrow> db \<Rightarrow> int" where
  "count_shares worker_id status from_t to_t s = int (length (share_rows worker_id status from_t to_t s))"

definition outcome_rows ::
  "int option \<Rightarrow> string option \<Rightarrow> string option \<Rightarrow> string option \<Rightarrow> db \<Rightarrow> (ShareOutcome \<times> string) list" where
  "outcome_rows worker_id status from_t to_t s =
     filter (\<lambda>r. opt_cond (\<lambda>w r. so_worker_id (fst r) = w) worker_id r \<and>
                 opt_cond (\<lambda>st r. so_status (fst r) = st) status r \<and>
                 opt_cond (\<lambda>f r. f \<le> snd r) from_t r \<and>
                 opt_cond (\<lambda>t r. snd r \<le> t) to_t r) (db_outcomes s)"

definition list_outcomes ::
  "int option \<Rightarrow> string option \<Rightarrow> string option \<Rightarrow> string option \<Rightarrow> int option \<Rightarrow> int option \<Rightarrow> db \<Rightarrow> ShareOutcome list" where
  "list_outcomes worker_id status from_t to_t limit offset s =
     mem_page limit offset (rev (sort_key so_id (map fst (outcome_rows worker_id status from_t to_t s))))"

definition count_outcomes ::
  "int option \<Rightarrow> string option \<Rightarrow> string option \<Rightarrow> string option \<Rightarrow> db \<Rightarrow> int" where
  "count_outcomes worker_id status from_t to_t s = int (length (outcome_rows worker_id status from_t to_t s))"

subsection \<open>The dedupe key\<close>

lemma show_int_no_colon: "CHR '':'' \<notin> set (show_int i)"
  using show_nat_no_char [of "CHR '':''"] by (auto simp: show_int_def is_digit_def)

lemma show_nat_no_colon: "CHR '':'' \<notin> set (show_nat n)"
  using show_nat_no_char [of "CHR '':''" n] by (auto simp: is_digit_def)

lemma show_int_inject: "show_int i = show_int j \<Longrightarrow> i = j"
proof -
  have nd: "CHR ''-'' \<notin> set (show_nat n)" for n
    using show_nat_no_char [of "CHR ''-''" n] by (auto simp: is_digit_def)
  have ne: "show_nat n \<noteq> CHR ''-'' # cs" "CHR ''-'' # cs \<noteq> show_nat n" for n cs
    using nd [of n] by (metis list.set_intros(1))+
  assume "show_int i = show_int j"
  then show "i = j" by (auto simp: show_int_def ne split: if_splits)
qed

lemma colon_split:
  assumes "a @ CHR '':'' # b = a' @ CHR '':'' # b'" "CHR '':'' \<notin> set a" "CHR '':'' \<notin> set a'"
  shows "a = a' \<and> b = b'"
  using assms split_first_append [of "CHR '':''"] by (metis option.inject prod.inject)

subsection \<open>A store with INSERT OR IGNORE on a unique key\<close>

locale dedupe_store =
  fixes put :: "'r \<Rightarrow> ('e, 's, int \<times> bool) op"
    and key :: "'r \<Rightarrow> 'k"
    and rows :: "'s \<Rightarrow> 'x"
    and lookup :: "'s \<Rightarrow> 'k \<Rightarrow> int option"
  assumes lookup_rows: "rows t = rows s \<Longrightarrow> lookup t = lookup s"
    and put_new: "lookup s (key r) = None \<Longrightarrow> put r s = (Inr (i, b), t) \<Longrightarrow>
      b \<and> lookup t = (lookup s)(key r \<mapsto> i)"
    and put_dup: "lookup s (key r) = Some i \<Longrightarrow> put r s = (Inr (j, b), t) \<Longrightarrow> rows t = rows s \<and> j = i \<and> \<not> b"
    and put_err: "put r s = (Inl e, t) \<Longrightarrow> rows t = rows s"
begin

lemma lookup_dup: "lookup s (key r) = Some i \<Longrightarrow> put r s = (Inr (j, b), t) \<Longrightarrow> lookup t = lookup s"
  using put_dup lookup_rows by blast

lemma lookup_err: "put r s = (Inl e, t) \<Longrightarrow> lookup t = lookup s"
  using put_err lookup_rows by blast

lemma lookup_put: "put r s = (Inr (i, b), t) \<Longrightarrow> lookup t (key r) = Some i"
  using put_new [of s r i b t] put_dup [of s r _ i b t] lookup_dup [of s r _ i b t]
  by (cases "lookup s (key r)") auto

lemma put_again:
  "put r s = (Inr (i, b), t) \<Longrightarrow> key r' = key r \<Longrightarrow> put r' t = (Inr (j, c), u) \<Longrightarrow> j = i \<and> \<not> c \<and> rows u = rows t"
  using lookup_put [of r s i b t] put_dup [of t r' i j c u] by simp

lemma lookup_other: "put r s = (x, t) \<Longrightarrow> k \<noteq> key r \<Longrightarrow> lookup t k = lookup s k"
proof (cases x)
  case (Inr y)
  moreover assume "put r s = (x, t)" "k \<noteq> key r"
  ultimately show ?thesis
    using put_new [of s r "fst y" "snd y" t] lookup_dup [of s r _ "fst y" "snd y" t]
    by (cases "lookup s (key r)") auto
qed (use lookup_err in auto)

lemma lookup_mono: "lookup s k = Some i \<Longrightarrow> put r s = (x, t) \<Longrightarrow> lookup t k = Some i"
proof (cases x)
  case (Inr y)
  moreover assume "lookup s k = Some i" "put r s = (x, t)"
  ultimately show ?thesis
    using lookup_dup [of s r i "fst y" "snd y" t] lookup_other [of r s x t k] by (cases "k = key r") auto
qed (use lookup_err in auto)

end

definition share_id_of :: "db \<Rightarrow> string \<Rightarrow> int option" where
  "share_id_of s k = map_option (\<lambda>r. sh_id (fst r)) (find (\<lambda>r. sh_dedupe_key (fst r) = k) (db_shares s))"

definition outcome_id_of :: "db \<Rightarrow> string \<Rightarrow> int option" where
  "outcome_id_of s k = map_option (\<lambda>r. so_id (fst r)) (find (\<lambda>r. so_dedupe_key (fst r) = k) (db_outcomes s))"

interpretation share_store: dedupe_store put_share sh_dedupe_key db_shares share_id_of
proof
  fix s r i b t
  assume "share_id_of s (sh_dedupe_key r) = None" "put_share r s = (Inr (i, b), t)"
  then show "b \<and> share_id_of t = (share_id_of s)(sh_dedupe_key r \<mapsto> i)"
    by (auto simp: put_share_def share_id_of_def Let_def find_append fun_eq_iff split: if_splits option.splits)
qed (auto simp: put_share_def share_id_of_def fun_eq_iff Let_def split: if_splits option.splits)

interpretation outcome_store: dedupe_store put_outcome so_dedupe_key db_outcomes outcome_id_of
proof
  fix s r i b t
  assume "outcome_id_of s (so_dedupe_key r) = None" "put_outcome r s = (Inr (i, b), t)"
  then show "b \<and> outcome_id_of t = (outcome_id_of s)(so_dedupe_key r \<mapsto> i)"
    by (auto simp: put_outcome_def outcome_id_of_def Let_def find_append fun_eq_iff split: if_splits option.splits)
qed (auto simp: put_outcome_def outcome_id_of_def fun_eq_iff Let_def split: if_splits option.splits)

subsection \<open>Shares and outcomes stay paired\<close>

text \<open>Every row of one table has a partner in the other with the same dedupe key, and the outcome
  points at the id of its share.\<close>

definition paired :: "db \<Rightarrow> bool" where
  "paired s \<longleftrightarrow>
     (\<forall>k. (share_id_of s k = None) = (outcome_id_of s k = None)) \<and>
     (\<forall>r\<in>set (db_outcomes s). share_id_of s (so_dedupe_key (fst r)) = Some (so_share_id (fst r)))"

lemma put_share_outcomes: "put_share sh s = (x, t) \<Longrightarrow> db_outcomes t = db_outcomes s"
  by (auto simp: put_share_def Let_def split: if_splits option.splits)

lemma put_outcome_shares: "put_outcome oc s = (x, t) \<Longrightarrow> db_shares t = db_shares s"
  by (auto simp: put_outcome_def Let_def split: if_splits option.splits)

lemma put_outcome_rows:
  "put_outcome oc s = (x, t) \<Longrightarrow> r \<in> set (db_outcomes t) \<Longrightarrow>
     r \<in> set (db_outcomes s) \<or> so_dedupe_key (fst r) = so_dedupe_key oc \<and> so_share_id (fst r) = so_share_id oc"
  by (auto simp: put_outcome_def Let_def split: if_splits option.splits)

lemma share_id_of_cong: "db_shares t = db_shares s \<Longrightarrow> share_id_of t = share_id_of s"
  by (simp add: share_id_of_def fun_eq_iff)

lemma outcome_id_of_cong: "db_outcomes t = db_outcomes s \<Longrightarrow> outcome_id_of t = outcome_id_of s"
  by (simp add: outcome_id_of_def fun_eq_iff)

lemma insert_atomic_cases:
  assumes "insert_share_and_outcome_atomic sh oc s = (Inr r, t)"
  obtains i b u j c where "put_share sh s = (Inr (i, b), u)"
    "put_outcome (oc\<lparr>so_share_id := i\<rparr>) u = (Inr (j, c), t)" "r = (Some i, Some j, b \<or> c)"
  using assms
  by (auto simp: insert_share_and_outcome_atomic_def transaction_commit bindR_Inr okR_def split: prod.splits)

lemma insert_atomic_paired:
  assumes "paired s" "so_dedupe_key oc = sh_dedupe_key sh"
    and ins: "insert_share_and_outcome_atomic sh oc s = (Inr r, t)"
  shows "paired t"
proof -
  let ?k = "sh_dedupe_key sh"
  obtain i b u j c where sh: "put_share sh s = (Inr (i, b), u)"
    and oc: "put_outcome (oc\<lparr>so_share_id := i\<rparr>) u = (Inr (j, c), t)"
    using insert_atomic_cases [OF ins] by metis
  have su: "share_id_of t = share_id_of u" by (rule share_id_of_cong [OF put_outcome_shares [OF oc]])
  have ou: "outcome_id_of u = outcome_id_of s" by (rule outcome_id_of_cong [OF put_share_outcomes [OF sh]])
  have k: "share_id_of t ?k = Some i" "outcome_id_of t ?k = Some j"
    using share_store.lookup_put [OF sh] outcome_store.lookup_put [OF oc] assms(2) su by auto
  have other: "share_id_of t k = share_id_of s k" "outcome_id_of t k = outcome_id_of s k" if "k \<noteq> ?k" for k
    using that share_store.lookup_other [OF sh] outcome_store.lookup_other [OF oc] assms(2) su ou by auto
  have "(share_id_of t k = None) = (outcome_id_of t k = None)" for k
    using k other [of k] assms(1) by (cases "k = ?k") (auto simp: paired_def)
  moreover have "share_id_of t (so_dedupe_key (fst x)) = Some (so_share_id (fst x))"
    if "x \<in> set (db_outcomes t)" for x
    using put_outcome_rows [OF oc that]
  proof
    assume "x \<in> set (db_outcomes u)"
    then have "share_id_of s (so_dedupe_key (fst x)) = Some (so_share_id (fst x))"
      using assms(1) put_share_outcomes [OF sh] by (auto simp: paired_def)
    then show ?thesis unfolding su using sh by (rule share_store.lookup_mono)
  qed (use k assms(2) in simp)
  ultimately show ?thesis by (simp add: paired_def)
qed

text \<open>An insert whose key is in both tables writes no row and returns the ids of the rows.\<close>

lemma insert_atomic_again:
  assumes ins: "insert_share_and_outcome_atomic sh oc s = (Inr (x, y, n), t)"
    and keys: "so_dedupe_key oc = k" "sh_dedupe_key sh = k" "so_dedupe_key oc' = k" "sh_dedupe_key sh' = k"
    and same: "shares_of u = shares_of t"
    and again: "insert_share_and_outcome_atomic sh' oc' u = (Inr (x', y', n'), v)"
  shows "x' = x \<and> y' = y \<and> \<not> n' \<and> shares_of v = shares_of u"
proof -
  obtain i a p j b where 1: "put_share sh s = (Inr (i, a), p)"
      "put_outcome (oc\<lparr>so_share_id := i\<rparr>) p = (Inr (j, b), t)" "x = Some i" "y = Some j"
    by (rule insert_atomic_cases [OF ins]) simp
  obtain i' a' p' j' b' where 2: "put_share sh' u = (Inr (i', a'), p')"
      "put_outcome (oc'\<lparr>so_share_id := i'\<rparr>) p' = (Inr (j', b'), v)"
      "x' = Some i'" "y' = Some j'" "n' = (a' \<or> b')"
    by (rule insert_atomic_cases [OF again]) simp
  have "share_id_of u k = Some i"
    using share_store.lookup_put [OF 1(1)] share_id_of_cong [OF put_outcome_shares [OF 1(2)]]
      share_id_of_cong [of u t] same keys(2) by simp
  then have 3: "db_shares p' = db_shares u" "i' = i" "\<not> a'" using share_store.put_dup [OF _ 2(1)] keys(4) by simp_all
  have "outcome_id_of p' k = Some j"
    using outcome_store.lookup_put [OF 1(2)] outcome_id_of_cong [of p' t] put_share_outcomes [OF 2(1)] same keys(1) by simp
  then have "db_outcomes v = db_outcomes p'" "j' = j" "\<not> b'"
    using outcome_store.put_dup [OF _ 2(2)] keys(3) by simp_all
  then show ?thesis
    using 1(3,4) 2(3-5) 3 put_share_outcomes [OF 2(1)] put_outcome_shares [OF 2(2)] by simp
qed

end
