(* ===== verification/Round_Repository.thy ===== *)
theory Round_Repository
  imports Database
begin

text \<open>
  RoundRepository of src/src/accounting/round_repository.rs: the payout rounds. A query that
  SQL leaves ambiguous (several rounds with the same start) returns the first row in rowid order.
\<close>

definition get_or_create_current_round :: "u64 \<Rightarrow> (Round \<times> bool) dbop" where
  "get_or_create_current_round start s =
     (case find (\<lambda>r. rd_status r = ''open'') (db_rounds s) of
        Some r \<Rightarrow> (Inr (r, False), s)
      | None \<Rightarrow>
          if \<not> u64_to_sql start then (Inl ToSqlConversionFailure, s)
          else let i = db_rounds_seq s + 1;
                   r = \<lparr>rd_id = i, rd_start_template_id = start, rd_end_template_id = None,
                        rd_status = ''open'', rd_found_block_hash = None\<rparr>
               in (Inr (r, True), s\<lparr>db_rounds := db_rounds s @ [r], db_rounds_seq := i\<rparr>))"

definition set_round_status :: "int \<Rightarrow> u64 \<Rightarrow> string \<Rightarrow> db \<Rightarrow> db" where
  "set_round_status i end_template_id status s =
     s\<lparr>db_rounds := update_where (\<lambda>r. rd_id r = i)
         (\<lambda>r. r\<lparr>rd_end_template_id := Some end_template_id, rd_status := status\<rparr>) (db_rounds s)\<rparr>"

definition close_round_row :: "int \<Rightarrow> u64 \<Rightarrow> string \<Rightarrow> unit dbop" where
  "close_round_row i end_template_id status s =
     (if \<not> u64_to_sql end_template_id then (Inl ToSqlConversionFailure, s)
      else (Inr (), set_round_status i end_template_id status s))"

text \<open>The \<^verbatim>\<open>WHERE\<close> clause of the lookup.\<close>

definition round_covers :: "u64 \<Rightarrow> Round \<Rightarrow> bool" where
  "round_covers t r \<longleftrightarrow>
     rd_status r = ''open'' \<and> rd_start_template_id r \<le> t \<or>
     rd_status r \<noteq> ''open'' \<and> rd_start_template_id r \<le> t \<and>
       (case rd_end_template_id r of None \<Rightarrow> True | Some e \<Rightarrow> t \<le> e)"

text \<open>\<^verbatim>\<open>ORDER BY start_template_id DESC LIMIT 1\<close>.\<close>

fun latest_start :: "Round list \<Rightarrow> Round option" where
  "latest_start [] = None"
| "latest_start (r # rs) =
     (case latest_start rs of
        None \<Rightarrow> Some r
      | Some b \<Rightarrow> Some (if rd_start_template_id r < rd_start_template_id b then b else r))"

definition resolve_round_row :: "u64 \<Rightarrow> (Round \<times> bool) dbop" where
  "resolve_round_row t s =
     (if \<not> u64_to_sql t then (Inl ToSqlConversionFailure, s)
      else case latest_start (filter (round_covers t) (db_rounds s)) of
             Some r \<Rightarrow> (Inr (r, False), s)
           | None \<Rightarrow> get_or_create_current_round t s)"

definition round_get_by_id :: "int \<Rightarrow> db \<Rightarrow> Round option" where
  "round_get_by_id i s = find (\<lambda>r. rd_id r = i) (db_rounds s)"

definition round_list :: "string option \<Rightarrow> db \<Rightarrow> Round list" where
  "round_list status s =
     rev (sort_key rd_id
       (case status of None \<Rightarrow> db_rounds s | Some st \<Rightarrow> filter (\<lambda>r. rd_status r = st) (db_rounds s)))"

subsection \<open>At most one open round\<close>

definition open_rounds :: "db \<Rightarrow> Round list" where
  "open_rounds s = filter (\<lambda>r. rd_status r = ''open'') (db_rounds s)"

definition rounds_inv :: "db \<Rightarrow> bool" where
  "rounds_inv s \<longleftrightarrow> table_wf rd_id (db_rounds s) (db_rounds_seq s) \<and> length (open_rounds s) \<le> 1"

lemma rounds_inv_init: "rounds_inv (init_schema now)"
  by (simp add: rounds_inv_def open_rounds_def init_schema_def)

lemma get_or_create_keeps [keeps_intros]: "keeps rounds_inv (get_or_create_current_round t)"
  unfolding keeps_def get_or_create_current_round_def rounds_inv_def open_rounds_def Let_def
  by (auto simp: table_wf_snoc find_NoneD filter_empty_conv split: option.splits)

lemma resolve_round_row_keeps [keeps_intros]: "keeps rounds_inv (resolve_round_row t)"
  using get_or_create_keeps [of t]
  by (auto simp: keeps_def resolve_round_row_def split: option.splits)

lemma open_rounds_set_status:
  assumes "status \<noteq> ''open''"
  shows "length (filter (\<lambda>r. rd_status r = ''open'')
           (update_where P (\<lambda>r. r\<lparr>rd_end_template_id := e, rd_status := status\<rparr>) rs))
         \<le> length (filter (\<lambda>r. rd_status r = ''open'') rs)"
  using assms by (induction rs) (auto simp: update_where_def)

lemma set_round_status_inv: "status \<noteq> ''open'' \<Longrightarrow> rounds_inv s \<Longrightarrow> rounds_inv (set_round_status i e status s)"
  using open_rounds_set_status [of status "\<lambda>r. rd_id r = i" "Some e" "db_rounds s"]
  by (auto simp: rounds_inv_def open_rounds_def set_round_status_def intro: table_wf_update_where)

lemma close_round_row_keeps [keeps_intros]:
  "status \<noteq> ''open'' \<Longrightarrow> keeps rounds_inv (close_round_row i e status)"
  by (simp add: keeps_def close_round_row_def set_round_status_inv)

lemma latest_start_None [simp]: "latest_start rs = None \<longleftrightarrow> rs = []"
  by (cases rs) (auto split: option.splits)

lemma latest_start_SomeD:
  "latest_start rs = Some r \<Longrightarrow> r \<in> set rs \<and> (\<forall>x\<in>set rs. rd_start_template_id x \<le> rd_start_template_id r)"
proof (induction rs arbitrary: r)
  case (Cons a rs)
  show ?case
  proof (cases "latest_start rs")
    case None
    then show ?thesis using Cons.prems by auto
  next
    case (Some b)
    have "b \<in> set rs" "\<forall>x\<in>set rs. rd_start_template_id x \<le> rd_start_template_id b"
      using Cons.IH [OF Some] by auto
    moreover have "r = (if rd_start_template_id a < rd_start_template_id b then b else a)"
      using Cons.prems Some by simp
    ultimately show ?thesis by (auto intro: order.trans)
  qed
qed simp

lemma resolve_round_row_cases:
  assumes "resolve_round_row t s = (Inr (r, new), u)"
  obtains (covered) "\<not> new" "u = s" "r \<in> set (db_rounds s)" "round_covers t r"
  | (current) "\<not> new" "u = s" "r \<in> set (db_rounds s)" "rd_status r = ''open''"
      "\<forall>x\<in>set (db_rounds s). \<not> round_covers t x"
  | (created) "new" "rd_status r = ''open''" "rd_start_template_id r = t" "rd_id r = db_rounds_seq s + 1"
      "u = s\<lparr>db_rounds := db_rounds s @ [r], db_rounds_seq := db_rounds_seq s + 1\<rparr>"
      "open_rounds s = []"
proof (cases "latest_start (filter (round_covers t) (db_rounds s))")
  case (Some x)
  then show ?thesis
    using assms latest_start_SomeD [OF Some] covered by (auto simp: resolve_round_row_def split: if_splits)
next
  case None
  then have nc: "\<forall>x\<in>set (db_rounds s). \<not> round_covers t x" by (simp add: filter_empty_conv)
  have g: "get_or_create_current_round t s = (Inr (r, new), u)"
    using assms None by (simp add: resolve_round_row_def split: if_splits)
  show ?thesis
  proof (cases "find (\<lambda>r. rd_status r = ''open'') (db_rounds s)")
    case (Some y)
    then show ?thesis using g nc current find_SomeD [OF Some] by (auto simp: get_or_create_current_round_def)
  next
    case None
    then have "open_rounds s = []" by (simp add: open_rounds_def find_NoneD filter_empty_conv)
    then show ?thesis
      using g None created by (auto simp: get_or_create_current_round_def Let_def split: if_splits)
  qed
qed

end
