(* ===== verification/Block_Repository.thy ===== *)
theory Block_Repository
  imports Database
begin

text \<open>
  FoundBlockRepository of src/src/accounting/found_block_repository.rs: blocks found by the pool
  and their lifecycle immature, matured, paid, orphaned. The reads assert that the signed
  columns are not negative, which holds by the type of the model.
\<close>

definition record_found_block_row ::
  "int \<Rightarrow> string \<Rightarrow> int \<Rightarrow> int option \<Rightarrow> u64 option \<Rightarrow> string option \<Rightarrow> u64 \<Rightarrow> string \<Rightarrow> FoundBlock dbop" where
  "record_found_block_row round_id block_hash height worker_id template_id persist_source coinbase_value
       network_target_hex s =
     (if \<not> (u64_to_sql coinbase_value \<and> (case template_id of None \<Rightarrow> True | Some t \<Rightarrow> u64_to_sql t))
      then (Inl ToSqlConversionFailure, s)
      else if find (\<lambda>b. fb_block_hash b = block_hash) (db_found_blocks s) \<noteq> None
      then (Inl (UniqueViolation ''found_blocks.block_hash''), s)
      else if find (\<lambda>r. rd_id r = round_id) (db_rounds s) = None \<or>
              (case worker_id of None \<Rightarrow> False | Some w \<Rightarrow> find (\<lambda>x. wk_id x = w) (db_workers s) = None)
      then (Inl ForeignKeyViolation, s)
      else let i = db_found_blocks_seq s + 1;
               b = \<lparr>fb_id = i, fb_round_id = round_id, fb_block_hash = block_hash, fb_height = height,
                    fb_status = ''immature'', fb_worker_id = worker_id, fb_template_id = template_id,
                    fb_persist_source = persist_source, fb_orphan_reason = None, fb_matured_at = None,
                    fb_coinbase_value = coinbase_value, fb_coinbase_txid = None,
                    fb_network_target_hex = network_target_hex\<rparr>
           in (Inr b, s\<lparr>db_found_blocks := db_found_blocks s @ [b], db_found_blocks_seq := i\<rparr>))"

definition update_blocks :: "(FoundBlock \<Rightarrow> bool) \<Rightarrow> (FoundBlock \<Rightarrow> FoundBlock) \<Rightarrow> db \<Rightarrow> db" where
  "update_blocks P f s = s\<lparr>db_found_blocks := update_where P f (db_found_blocks s)\<rparr>"

definition mark_orphaned :: "string \<Rightarrow> string \<Rightarrow> unit dbop" where
  "mark_orphaned block_hash reason =
     modifyR (update_blocks (\<lambda>b. fb_block_hash b = block_hash)
       (\<lambda>b. b\<lparr>fb_status := ''orphaned'', fb_orphan_reason := Some reason\<rparr>))"

definition un_orphan :: "string \<Rightarrow> unit dbop" where
  "un_orphan block_hash =
     modifyR (update_blocks (\<lambda>b. fb_block_hash b = block_hash \<and> fb_status b = ''orphaned'')
       (\<lambda>b. b\<lparr>fb_status := ''immature'', fb_orphan_reason := None\<rparr>))"

definition block_get_by_hash :: "string \<Rightarrow> db \<Rightarrow> FoundBlock option" where
  "block_get_by_hash h s = find (\<lambda>b. fb_block_hash b = h) (db_found_blocks s)"

text \<open>\<^verbatim>\<open>ORDER BY id DESC LIMIT 1\<close>.\<close>

definition block_get_by_round_id :: "int \<Rightarrow> db \<Rightarrow> FoundBlock option" where
  "block_get_by_round_id rid s =
     (case rev (sort_key fb_id (filter (\<lambda>b. fb_round_id b = rid) (db_found_blocks s))) of
        [] \<Rightarrow> None | b # _ \<Rightarrow> Some b)"

definition block_update_status :: "int \<Rightarrow> string \<Rightarrow> unit dbop" where
  "block_update_status i status =
     modifyR (update_blocks (\<lambda>b. fb_id b = i) (\<lambda>b. b\<lparr>fb_status := status\<rparr>))"

definition update_coinbase_txid :: "int \<Rightarrow> string \<Rightarrow> unit dbop" where
  "update_coinbase_txid i txid =
     modifyR (update_blocks (\<lambda>b. fb_id b = i) (\<lambda>b. b\<lparr>fb_coinbase_txid := Some txid\<rparr>))"

definition mark_matured :: "int \<Rightarrow> unit dbop" where
  "mark_matured i s =
     modifyR (update_blocks (\<lambda>b. fb_id b = i)
       (\<lambda>b. b\<lparr>fb_status := ''matured'', fb_matured_at := Some (db_now s)\<rparr>)) s"

definition block_list :: "string option \<Rightarrow> db \<Rightarrow> FoundBlock list" where
  "block_list status s =
     rev (sort_key fb_id
       (case status of None \<Rightarrow> db_found_blocks s
        | Some st \<Rightarrow> filter (\<lambda>b. fb_status b = st) (db_found_blocks s)))"

definition blocks_inv :: "db \<Rightarrow> bool" where
  "blocks_inv s \<longleftrightarrow>
     table_wf fb_id (db_found_blocks s) (db_found_blocks_seq s) \<and>
     distinct (map fb_block_hash (db_found_blocks s))"

lemma blocks_inv_init: "blocks_inv (init_schema now)"
  by (simp add: blocks_inv_def init_schema_def)

lemma record_found_block_row_keeps [keeps_intros]:
  "keeps blocks_inv (record_found_block_row r h ht w t p c n)"
  unfolding keeps_def record_found_block_row_def blocks_inv_def Let_def
  by (auto simp: table_wf_snoc find_NoneD)

lemma update_blocks_inv:
  assumes "blocks_inv s" "\<And>b. fb_id (f b) = fb_id b" "\<And>b. fb_block_hash (f b) = fb_block_hash b"
  shows "blocks_inv (update_blocks P f s)"
  using assms by (simp add: blocks_inv_def update_blocks_def table_wf_update_where map_update_where)

lemma block_updates_keep [keeps_intros]:
  "keeps blocks_inv (mark_orphaned h r)" "keeps blocks_inv (un_orphan h)"
  "keeps blocks_inv (block_update_status i st)" "keeps blocks_inv (update_coinbase_txid i x)"
  "keeps blocks_inv (mark_matured i)"
  by (auto simp: keeps_def mark_orphaned_def un_orphan_def block_update_status_def
      update_coinbase_txid_def mark_matured_def modifyR_def intro: update_blocks_inv)

lemma block_get_by_hash_update:
  assumes "\<And>b. fb_block_hash (f b) = fb_block_hash b"
  shows "block_get_by_hash h (update_blocks P f s) =
     map_option (\<lambda>b. if P b then f b else b) (block_get_by_hash h s)"
  using assms by (simp add: block_get_by_hash_def update_blocks_def find_update_where)

lemma block_list_set: "set (block_list (Some st) s) = {b \<in> set (db_found_blocks s). fb_status b = st}"
  by (auto simp: block_list_def)

lemma block_list_distinct: "blocks_inv s \<Longrightarrow> distinct (map fb_id (filter P (block_list st s)))"
proof -
  assume "blocks_inv s"
  then have "distinct (map fb_id (db_found_blocks s))" by (simp add: blocks_inv_def table_wf_def)
  then show ?thesis
    by (auto simp: block_list_def distinct_map rev_map [symmetric] inj_on_def split: option.split)
qed

end
