(* ===== verification/Payout_Repository.thy ===== *)
theory Payout_Repository
  imports Block_Repository
begin

text \<open>
  PayoutRepository of src/src/accounting/payout_repository.rs: payout batches, the payouts and
  share snapshots of a batch, and the dust balance of each address.
\<close>

definition create_payout_batch ::
  "int \<Rightarrow> int \<Rightarrow> int \<Rightarrow> string option \<Rightarrow> int \<Rightarrow> string \<Rightarrow> PayoutBatch dbop" where
  "create_payout_batch round_id total_amount pool_fee_amount pool_fee_address miner_count retry_key s =
     (if find (\<lambda>b. pb_retry_key b = Some retry_key) (db_batches s) \<noteq> None
      then (Inl (UniqueViolation ''payout_batches.retry_key''), s)
      else if find (\<lambda>r. rd_id r = round_id) (db_rounds s) = None then (Inl ForeignKeyViolation, s)
      else let i = db_batches_seq s + 1;
               b = \<lparr>pb_id = i, pb_round_id = round_id, pb_status = ''pending'',
                    pb_total_amount = total_amount, pb_pool_fee_amount = pool_fee_amount,
                    pb_pool_fee_address = pool_fee_address, pb_miner_count = miner_count,
                    pb_retry_key = Some retry_key, pb_last_error = None, pb_next_retry_at = None,
                    pb_attempt_count = 0, pb_signed_payload_ref = None, pb_submitted_txid = None\<rparr>
           in (Inr b, s\<lparr>db_batches := db_batches s @ [b], db_batches_seq := i\<rparr>))"

definition get_batch_by_id :: "int \<Rightarrow> db \<Rightarrow> PayoutBatch option" where
  "get_batch_by_id i s = find (\<lambda>b. pb_id b = i) (db_batches s)"

definition list_batches :: "string option \<Rightarrow> db \<Rightarrow> PayoutBatch list" where
  "list_batches status s =
     rev (sort_key pb_id
       (case status of None \<Rightarrow> db_batches s | Some st \<Rightarrow> filter (\<lambda>b. pb_status b = st) (db_batches s)))"

text \<open>\<^verbatim>\<open>payout_batches JOIN found_blocks ON round_id\<close>.\<close>

definition get_batches_by_block_hash :: "string \<Rightarrow> db \<Rightarrow> PayoutBatch list" where
  "get_batches_by_block_hash h s =
     [b. b \<leftarrow> db_batches s, f \<leftarrow> db_found_blocks s, fb_round_id f = pb_round_id b \<and> fb_block_hash f = h]"

definition update_batch_status :: "int \<Rightarrow> string \<Rightarrow> unit dbop" where
  "update_batch_status i status =
     modifyR (\<lambda>s. s\<lparr>db_batches := update_where (\<lambda>b. pb_id b = i) (\<lambda>b. b\<lparr>pb_status := status\<rparr>) (db_batches s)\<rparr>)"

definition mark_batch_submitted :: "int \<Rightarrow> string \<Rightarrow> unit dbop" where
  "mark_batch_submitted i txid =
     modifyR (\<lambda>s. s\<lparr>db_batches := update_where (\<lambda>b. pb_id b = i)
       (\<lambda>b. b\<lparr>pb_status := ''submitted'', pb_submitted_txid := Some txid\<rparr>) (db_batches s)\<rparr>)"

definition record_payout :: "int \<Rightarrow> int \<Rightarrow> string \<Rightarrow> int \<Rightarrow> int \<Rightarrow> Payout dbop" where
  "record_payout batch_id worker_id payout_address amount dust s =
     (if find (\<lambda>b. pb_id b = batch_id) (db_batches s) = None \<or>
         find (\<lambda>w. wk_id w = worker_id) (db_workers s) = None
      then (Inl ForeignKeyViolation, s)
      else let i = db_payouts_seq s + 1;
               p = \<lparr>py_id = i, py_batch_id = batch_id, py_worker_id = worker_id,
                    py_payout_address = payout_address, py_amount = amount, py_dust_carried_forward = dust\<rparr>
           in (Inr p, s\<lparr>db_payouts := db_payouts s @ [p], db_payouts_seq := i\<rparr>))"

definition get_payouts_by_batch :: "int \<Rightarrow> db \<Rightarrow> Payout list" where
  "get_payouts_by_batch i s = sort_key py_id (filter (\<lambda>p. py_batch_id p = i) (db_payouts s))"

definition dust_balance :: "db \<Rightarrow> string \<Rightarrow> int option" where
  "dust_balance s a = map_of (db_dust s) a"

definition get_or_create_dust_balance :: "string \<Rightarrow> (int \<times> bool) dbop" where
  "get_or_create_dust_balance a s =
     (case dust_balance s a of
        Some b \<Rightarrow> (Inr (b, False), s)
      | None \<Rightarrow> (Inr (0, True), s\<lparr>db_dust := db_dust s @ [(a, 0)]\<rparr>))"

text \<open>\<^verbatim>\<open>INSERT ... ON CONFLICT(payout_address) DO UPDATE\<close> with a function of the old
  balance.\<close>

fun upsert_dust :: "string \<Rightarrow> int \<Rightarrow> (int \<Rightarrow> int) \<Rightarrow> (string \<times> int) list \<Rightarrow> (string \<times> int) list" where
  "upsert_dust a new f [] = [(a, new)]"
| "upsert_dust a new f ((k, v) # ds) = (if k = a then (k, f v) # ds else (k, v) # upsert_dust a new f ds)"

definition update_dust_balance :: "string \<Rightarrow> int \<Rightarrow> unit dbop" where
  "update_dust_balance a b = modifyR (\<lambda>s. s\<lparr>db_dust := upsert_dust a b (\<lambda>_. b) (db_dust s)\<rparr>)"

text \<open>The additive upsert of the accounting service (\<^verbatim>\<open>balance = balance + ?2\<close>).\<close>

definition add_dust_balance :: "string \<Rightarrow> int \<Rightarrow> unit dbop" where
  "add_dust_balance a d = modifyR (\<lambda>s. s\<lparr>db_dust := upsert_dust a d (\<lambda>b. b + d) (db_dust s)\<rparr>)"

definition insert_snapshot :: "PayoutShareSnapshot \<Rightarrow> unit dbop" where
  "insert_snapshot sn s =
     (if sn_work_units sn = NaN then (Inl (NotNullViolation ''payout_share_snapshots.work_units''), s)
      else if find (\<lambda>b. pb_id b = sn_batch_id sn) (db_batches s) = None \<or>
         find (\<lambda>r. sh_id (fst r) = sn_share_id sn) (db_shares s) = None \<or>
         find (\<lambda>r. so_id (fst r) = sn_share_outcome_id sn) (db_outcomes s) = None
      then (Inl ForeignKeyViolation, s)
      else let i = db_snapshots_seq s + 1
           in (Inr (), s\<lparr>db_snapshots := db_snapshots s @ [sn\<lparr>sn_id := i\<rparr>], db_snapshots_seq := i\<rparr>))"

definition snapshot_shares :: "PayoutShareSnapshot list \<Rightarrow> nat dbop" where
  "snapshot_shares snaps = bindR (forR snaps insert_snapshot) (\<lambda>_. okR (length snaps))"

definition delete_payouts_by_batch :: "int \<Rightarrow> unit dbop" where
  "delete_payouts_by_batch i = modifyR (\<lambda>s. s\<lparr>db_payouts := filter (\<lambda>p. py_batch_id p \<noteq> i) (db_payouts s)\<rparr>)"

definition delete_snapshots_by_batch :: "int \<Rightarrow> unit dbop" where
  "delete_snapshots_by_batch i =
     modifyR (\<lambda>s. s\<lparr>db_snapshots := filter (\<lambda>n. sn_batch_id n \<noteq> i) (db_snapshots s)\<rparr>)"

definition get_snapshots_by_batch :: "int \<Rightarrow> db \<Rightarrow> PayoutShareSnapshot list" where
  "get_snapshots_by_batch i s = sort_key sn_id (filter (\<lambda>n. sn_batch_id n = i) (db_snapshots s))"

lemma map_of_upsert_dust:
  "map_of (upsert_dust a new f ds) =
     (map_of ds)(a \<mapsto> (case map_of ds a of None \<Rightarrow> new | Some v \<Rightarrow> f v))"
  by (induction ds) (auto simp: fun_eq_iff)

lemma dust_balance_add:
  "dust_balance (snd (add_dust_balance a d s)) =
     (dust_balance s)(a \<mapsto> (case dust_balance s a of None \<Rightarrow> d | Some v \<Rightarrow> v + d))"
  by (simp add: add_dust_balance_def modifyR_def dust_balance_def map_of_upsert_dust fun_eq_iff)

end
