(* ===== verification/Pplns.thy ===== *)
theory Pplns
  imports Payout_Repository "HOL-Library.Multiset" "HOL-Library.Sublist"
begin

text \<open>
  The PPLNS window of src/src/payout/pplns.rs: the accepted shares up to the time a block was
  found, newest first, cut after the share at which the accumulated difficulty reaches
  \<^verbatim>\<open>n_multiplier * network_difficulty\<close>. SQL leaves the order of rows with equal
  \<^verbatim>\<open>created_at\<close> open: the order of the query is the parameter \<open>order_desc\<close>, and
  \<open>created_desc\<close> is what \<^verbatim>\<open>ORDER BY so.created_at DESC\<close> promises of it.
\<close>

record PplnsShareEntry =
  pe_share_id :: int
  pe_share_outcome_id :: int
  pe_worker_id :: int
  pe_payout_address :: string
  pe_difficulty :: f64
  pe_created_at :: string

type_synonym row_order = "PplnsShareEntry list \<Rightarrow> PplnsShareEntry list"

definition created_desc :: "row_order \<Rightarrow> bool" where
  "created_desc order_desc \<longleftrightarrow>
     (\<forall>xs. mset (order_desc xs) = mset xs \<and>
           sorted_wrt (\<lambda>a b. pe_created_at b \<le> pe_created_at a) (order_desc xs))"

text \<open>The joined rows of the query before ordering.\<close>

definition pplns_rows :: "string \<Rightarrow> db \<Rightarrow> PplnsShareEntry list" where
  "pplns_rows found_at s =
     [\<lparr>pe_share_id = so_share_id (fst o_row), pe_share_outcome_id = so_id (fst o_row),
       pe_worker_id = so_worker_id (fst o_row), pe_payout_address = wk_payout_address w,
       pe_difficulty = sh_difficulty (fst sh), pe_created_at = snd o_row\<rparr>.
      o_row \<leftarrow> db_outcomes s, sh \<leftarrow> db_shares s, w \<leftarrow> db_workers s, r \<leftarrow> db_rounds s,
      sh_id (fst sh) = so_share_id (fst o_row) \<and> wk_id w = so_worker_id (fst o_row) \<and>
      Some (rd_id r) = so_round_id (fst o_row) \<and>
      so_status (fst o_row) = ''accepted'' \<and> snd o_row \<le> found_at]"

text \<open>\<^verbatim>\<open>position\<close> with its accumulating closure.\<close>

fun cutoff_index :: "f64 \<Rightarrow> f64 \<Rightarrow> PplnsShareEntry list \<Rightarrow> nat option" where
  "cutoff_index threshold cumulative [] = None"
| "cutoff_index threshold cumulative (e # es) =
     (let c = f_add cumulative (pe_difficulty e)
      in if f_le threshold c then Some 0 else map_option Suc (cutoff_index threshold c es))"

definition calculate_pplns_window ::
  "row_order \<Rightarrow> string \<Rightarrow> f64 \<Rightarrow> f64 \<Rightarrow> db \<Rightarrow> PplnsShareEntry list" where
  "calculate_pplns_window order_desc found_at n_multiplier network_difficulty s =
     (let all_shares = order_desc (pplns_rows found_at s);
          threshold = f_mul n_multiplier network_difficulty
      in case cutoff_index threshold (Fin 0) all_shares of
           Some idx \<Rightarrow> take (Suc idx) all_shares
         | None \<Rightarrow> all_shares)"

definition calculate_pplns_window_arc ::
  "row_order \<Rightarrow> string \<Rightarrow> f64 \<Rightarrow> f64 \<Rightarrow> db \<Rightarrow> PplnsShareEntry list" where
  "calculate_pplns_window_arc = calculate_pplns_window"

text \<open>An order that SQLite may use: by time, equal times by descending insertion.\<close>

definition stable_desc :: row_order where
  "stable_desc xs = rev (sort_key pe_created_at xs)"

lemma stable_desc_created: "created_desc stable_desc"
proof -
  have "sorted_wrt (\<lambda>a b. pe_created_at a \<le> pe_created_at b) (sort_key pe_created_at xs)" for xs
    using sorted_sort_key [of pe_created_at xs] by (simp add: sorted_map)
  then show ?thesis by (auto simp: created_desc_def stable_desc_def sorted_wrt_rev)
qed

subsection \<open>The work of a prefix\<close>

abbreviation work_of :: "f64 \<Rightarrow> PplnsShareEntry list \<Rightarrow> f64" where
  "work_of c es \<equiv> fold (\<lambda>e acc. f_add acc (pe_difficulty e)) es c"

lemma cutoff_index_Some:
  "cutoff_index th c es = Some i \<Longrightarrow>
     i < length es \<and> f_le th (work_of c (take (Suc i) es)) \<and>
     (\<forall>j. 0 < j \<longrightarrow> j \<le> i \<longrightarrow> \<not> f_le th (work_of c (take j es)))"
proof (induction es arbitrary: c i)
  case (Cons e es)
  show ?case
  proof (cases "f_le th (f_add c (pe_difficulty e))")
    case True then show ?thesis using Cons.prems by simp
  next
    case False
    then obtain k where k: "cutoff_index th (f_add c (pe_difficulty e)) es = Some k" "i = Suc k"
      using Cons.prems by (auto simp: Let_def)
    have "\<not> f_le th (work_of c (take j (e # es)))" if "0 < j" "j \<le> i" for j
      using that Cons.IH [OF k(1)] False k(2) by (cases j; cases "j - 1") auto
    then show ?thesis using Cons.IH [OF k(1)] k(2) by simp
  qed
qed simp

lemma cutoff_index_None:
  "cutoff_index th c es = None \<Longrightarrow> 0 < j \<Longrightarrow> j \<le> length es \<Longrightarrow> \<not> f_le th (work_of c (take j es))"
proof (induction es arbitrary: c j)
  case (Cons e es)
  then have *: "\<not> f_le th (f_add c (pe_difficulty e))" "cutoff_index th (f_add c (pe_difficulty e)) es = None"
    by (auto simp: Let_def split: if_splits)
  show ?case
    using Cons.prems * Cons.IH [OF *(2), of "j - 1"] by (cases j; cases "j - 1") auto
qed simp

lemma window_prefix:
  "prefix (calculate_pplns_window od f n d s) (od (pplns_rows f s))"
  by (auto simp: calculate_pplns_window_def Let_def take_is_prefix split: option.splits)

lemma window_rows:
  assumes "created_desc od" "e \<in> set (calculate_pplns_window od f n d s)"
  shows "e \<in> set (pplns_rows f s)"
proof -
  have "e \<in> set (od (pplns_rows f s))" using window_prefix assms(2) set_mono_prefix by blast
  then show ?thesis using assms(1) unfolding created_desc_def by (metis set_mset_mset)
qed

lemma pplns_rows_sound:
  assumes "e \<in> set (pplns_rows found_at s)"
  obtains r where "r \<in> set (db_outcomes s)" "so_id (fst r) = pe_share_outcome_id e"
    "so_status (fst r) = ''accepted''" "pe_created_at e = snd r" "snd r \<le> found_at"
proof -
  have "\<exists>r\<in>set (db_outcomes s). so_id (fst r) = pe_share_outcome_id e \<and>
     so_status (fst r) = ''accepted'' \<and> pe_created_at e = snd r \<and> snd r \<le> found_at"
    using assms unfolding pplns_rows_def by (force split: if_splits)
  then show thesis using that by blast
qed

text \<open>C8: the PPLNS window is the shortest newest-first run of accepted shares whose accumulated
  difficulty reaches \<open>n_multiplier * network_difficulty\<close>, or all accepted shares when they
  do not reach it: the window is a prefix of the ordered rows, no shorter non-empty prefix
  reaches the threshold, and the window itself does unless it is everything. Every entry is
  dated no later than the block.\<close>

theorem pplns_window_shortest:
  assumes "created_desc od"
    and "w = calculate_pplns_window od found_at n_mult net_diff s"
  shows "prefix w (od (pplns_rows found_at s)) \<and>
    sorted_wrt (\<lambda>a b. pe_created_at b \<le> pe_created_at a) w \<and>
    list_all (\<lambda>e. pe_created_at e \<le> found_at) w \<and>
    (w = od (pplns_rows found_at s) \<or> f_le (f_mul n_mult net_diff) (work_of (Fin 0) w)) \<and>
    (\<forall>v. v \<noteq> [] \<and> strict_prefix v w \<longrightarrow> \<not> f_le (f_mul n_mult net_diff) (work_of (Fin 0) v))"
proof -
  let ?all = "od (pplns_rows found_at s)" and ?th = "f_mul n_mult net_diff"
  have pre: "prefix w ?all" unfolding assms(2) by (rule window_prefix)
  have "sorted_wrt (\<lambda>a b. pe_created_at b \<le> pe_created_at a) ?all" using assms(1) by (simp add: created_desc_def)
  then have "sorted_wrt (\<lambda>a b. pe_created_at b \<le> pe_created_at a) w"
    using pre by (auto simp: prefix_def sorted_wrt_append)
  moreover have "list_all (\<lambda>e. pe_created_at e \<le> found_at) w"
    unfolding assms(2) list_all_iff by (metis window_rows [OF assms(1)] pplns_rows_sound)
  moreover have "w = ?all \<or> f_le ?th (work_of (Fin 0) w)"
    using cutoff_index_Some [of ?th "Fin 0" ?all]
    by (auto simp: assms(2) calculate_pplns_window_def Let_def split: option.splits)
  moreover have "\<not> f_le ?th (work_of (Fin 0) v)" if v: "v \<noteq> []" "strict_prefix v w" for v
  proof -
    have len: "0 < length v" "length v < length w" using v by (auto simp: prefix_length_less)
    have "v = take (length v) ?all" using v pre by (metis append_eq_conv_conj prefix_def prefix_order.less_imp_le prefix_order.order_trans)
    then show ?thesis
      using len cutoff_index_Some [of ?th "Fin 0" ?all] cutoff_index_None [of ?th "Fin 0" ?all "length v"]
      by (auto simp: assms(2) calculate_pplns_window_def Let_def split: option.splits)
  qed
  ultimately show ?thesis using pre by blast
qed

subsection \<open>No share counts twice\<close>

lemma distinct_concat_keys:
  "distinct (map k xs) \<Longrightarrow> (\<And>x. x \<in> set xs \<Longrightarrow> length (g x) \<le> 1 \<and> (\<forall>y\<in>set (g x). key y = k x)) \<Longrightarrow>
     distinct (map key (concat (map g xs)))"
proof (induction xs)
  case (Cons x xs)
  have one: "distinct (map key ys)" if "length ys \<le> 1" for ys using that by (cases ys) auto
  have "key ` set (g x) \<inter> (\<Union>y\<in>set xs. key ` set (g y)) = {}"
    using Cons.prems by (fastforce simp: image_iff)
  then show ?case using Cons one [of "g x"] by (simp add: image_UN)
qed simp

lemma length_pick:
  "distinct (map rid rows) \<Longrightarrow> (\<And>r. r \<in> set rows \<Longrightarrow> length (g r) \<le> 1 \<and> (g r \<noteq> [] \<longrightarrow> rid r = i)) \<Longrightarrow>
     length (concat (map g rows)) \<le> 1"
proof (induction rows)
  case (Cons r rows)
  show ?case
  proof (cases "g r = []")
    case True then show ?thesis using Cons by simp
  next
    case False
    then have "rid r = i" using Cons.prems(2) [of r] by simp
    have "g y = []" if "y \<in> set rows" for y
    proof (rule ccontr)
      assume "g y \<noteq> []"
      then have "rid y = rid r" using Cons.prems(2) [of y] that \<open>rid r = i\<close> by simp
      then show False using Cons.prems(1) that by (metis distinct.simps(2) imageI list.set_map list.simps(9))
    qed
    then have "concat (map g rows) = []" by (simp add: concat_eq_Nil_conv)
    then show ?thesis using Cons.prems(2) [of r] by (simp del: concat_eq_Nil_conv)
  qed
qed simp

definition pplns_tables :: "db \<Rightarrow> bool" where
  "pplns_tables s \<longleftrightarrow>
     distinct (map (\<lambda>r. so_id (fst r)) (db_outcomes s)) \<and> distinct (map (\<lambda>r. sh_id (fst r)) (db_shares s)) \<and>
     distinct (map wk_id (db_workers s)) \<and> distinct (map rd_id (db_rounds s))"

lemma pplns_rows_distinct:
  assumes "pplns_tables s"
  shows "distinct (map pe_share_outcome_id (pplns_rows found_at s))"
proof -
  have d: "distinct (map (\<lambda>r. so_id (fst r)) (db_outcomes s))" "distinct (map (\<lambda>r. sh_id (fst r)) (db_shares s))"
    "distinct (map wk_id (db_workers s))" "distinct (map rd_id (db_rounds s))"
    using assms by (simp_all add: pplns_tables_def)
  show ?thesis
    unfolding pplns_rows_def
    apply (rule distinct_concat_keys [OF d(1)])
    subgoal for o_row
      by (intro conjI length_pick [OF d(2), where i = "so_share_id (fst o_row)"]
           length_pick [OF d(3), where i = "so_worker_id (fst o_row)"]
           length_pick [OF d(4), where i = "the (so_round_id (fst o_row))"])
        (auto split: if_splits simp: eq_commute [of "Some _"])
    done
qed

text \<open>No share counts twice in a PPLNS window: with the primary keys of the tables unique, the
  outcome ids of the window are pairwise distinct, so the join never duplicates work.\<close>

lemma pplns_window_distinct:
  assumes "created_desc od" "pplns_tables s"
  shows "distinct (map pe_share_outcome_id (calculate_pplns_window od found_at n_mult net_diff s))"
proof -
  have "mset (map pe_share_outcome_id (od (pplns_rows found_at s))) =
      mset (map pe_share_outcome_id (pplns_rows found_at s))"
    using assms(1) by (simp add: created_desc_def mset_map)
  then have "distinct (map pe_share_outcome_id (od (pplns_rows found_at s)))"
    using pplns_rows_distinct [OF assms(2)] by (metis mset_eq_imp_distinct_iff)
  then show ?thesis using window_prefix [of od found_at n_mult net_diff s] by (auto simp: prefix_def)
qed

subsection \<open>A sample database\<close>

definition sample_worker :: "int \<Rightarrow> string \<Rightarrow> Worker" where
  "sample_worker i a = \<lparr>wk_id = i, wk_payout_address = a, wk_worker_suffix = Some ''rig''\<rparr>"

definition sample_round :: "int \<Rightarrow> string \<Rightarrow> Round" where
  "sample_round i st =
     \<lparr>rd_id = i, rd_start_template_id = 1, rd_end_template_id = None, rd_status = st, rd_found_block_hash = None\<rparr>"

definition sample_row :: "int \<Rightarrow> int \<Rightarrow> Share" where
  "sample_row i w =
     \<lparr>sh_id = i, sh_worker_id = w, sh_session_id = ''s'', sh_job_id = ''j'', sh_template_id = 1,
      sh_template_epoch = 0, sh_extranonce1 = ''00'', sh_extranonce2 = ''01'', sh_ntime_hex_6b = ''02'',
      sh_nonce_hex_8b = ''03'', sh_difficulty = Fin 2, sh_dedupe_key = show_int i\<rparr>"

definition sample_outcome :: "int \<Rightarrow> int \<Rightarrow> string option \<Rightarrow> ShareOutcome" where
  "sample_outcome i w h =
     \<lparr>so_id = i, so_share_id = i, so_session_id = ''s'', so_worker_id = w, so_job_id = ''j'',
      so_round_id = Some 1, so_dedupe_key = show_int i, so_status = ''accepted'', so_reject_reason = None,
      so_node_result = None, so_low_diff_ok = Some True, so_network_target_ok = Some (h \<noteq> None),
      so_block_hash = h\<rparr>"

definition sample_db :: db where
  "sample_db = (init_schema ''9'')
     \<lparr>db_workers := [sample_worker 1 ''a'', sample_worker 2 ''b''], db_workers_seq := 2,
      db_rounds := [sample_round 1 ''open''], db_rounds_seq := 1,
      db_shares := [(sample_row 1 1, ''1''), (sample_row 2 2, ''2''), (sample_row 3 1, ''3'')], db_shares_seq := 3,
      db_outcomes := [(sample_outcome 1 1 None, ''1''), (sample_outcome 2 2 None, ''2''),
                      (sample_outcome 3 1 (Some ''ff''), ''3'')],
      db_outcomes_seq := 3\<rparr>"

lemmas sample_defs = sample_db_def init_schema_def sample_worker_def sample_round_def sample_row_def sample_outcome_def

lemma sample_window:
  "map pe_share_id (calculate_pplns_window stable_desc ''3'' (Fin 2) (Fin 2) sample_db) = [3, 2]"
  by (simp add: calculate_pplns_window_def stable_desc_def pplns_rows_def sample_defs Let_def)

theorem pplns_window_shortest_witness:
  "list_all (\<lambda>e. pe_created_at e \<le> ''3'')
     (calculate_pplns_window stable_desc ''3'' (Fin 2) (Fin 2) sample_db) \<and>
   map pe_share_id (calculate_pplns_window stable_desc ''3'' (Fin 2) (Fin 2) sample_db) = [3, 2]"
  using pplns_window_shortest [OF stable_desc_created refl, of "''3''" "Fin 2" "Fin 2" sample_db] sample_window
  by blast

end
