(* ===== verification/Payout_Plan.thy ===== *)
theory Payout_Plan
  imports Pplns
begin

text \<open>
  The payout plan of src/src/payout/plan.rs and the miner's part of the coinbase of
  src/src/payout/mod.rs: work per address, pool fee, proportional allocation in floating point,
  the distribution of the remainder by largest fractional part, and the clipping of small
  amounts to dust. The error analysis at the end shows when the plan pays out exactly the net
  reward although the proportions are computed in \<^verbatim>\<open>f64\<close>.
\<close>

subsection \<open>The miner's reward\<close>

definition reward_from_coinbase :: "u64 \<Rightarrow> int" where
  "reward_from_coinbase coinbase_value =
     (let minerfund = coinbase_value div 2 in sint (coinbase_value - minerfund))"

subsection \<open>Data\<close>

record PayoutOutput =
  po_payout_address :: string
  po_worker_id :: int
  po_amount :: int
  po_dust_carried_forward :: int

record PayoutPlan =
  pl_round_id :: int
  pl_block_height :: int
  pl_block_hash :: string
  pl_network_difficulty :: f64
  pl_total_work_units :: f64
  pl_gross_reward :: int
  pl_pool_fee_amount :: int
  pl_pool_fee_address :: "string option"
  pl_outputs :: "PayoutOutput list"
  pl_dust_carried_forward_total :: int
  pl_retry_key :: string

record Alloc =
  al_address :: string
  al_worker_id :: int
  al_whole :: int
  al_fractional :: f64

subsection \<open>Work per address\<close>

text \<open>The \<^verbatim>\<open>BTreeMap<String, (i64, f64)>\<close> as an association list with ascending keys.\<close>

type_synonym work_map = "(string \<times> int \<times> f64) list"

fun work_add :: "string \<Rightarrow> int \<Rightarrow> f64 \<Rightarrow> work_map \<Rightarrow> work_map" where
  "work_add a wid d [] = [(a, wid, f_add (Fin 0) d)]"
| "work_add a wid d ((k, v, x) # m) =
     (if a = k then (k, v, f_add x d) # m
      else if a < k then (a, wid, f_add (Fin 0) d) # (k, v, x) # m
      else (k, v, x) # work_add a wid d m)"

definition work_by_addr :: "PplnsShareEntry list \<Rightarrow> work_map" where
  "work_by_addr shares =
     fold (\<lambda>e. work_add (pe_payout_address e) (pe_worker_id e) (pe_difficulty e)) shares []"

text \<open>The bonus weight of a dust balance; a later entry of the balances overrides an earlier one.\<close>

definition dust_weight :: "int \<Rightarrow> (string \<times> int) list \<Rightarrow> string \<Rightarrow> f64 \<Rightarrow> f64" where
  "dust_weight gross_reward dust_balances addr work_units =
     (case map_of (rev dust_balances) addr of
        Some dust \<Rightarrow>
          if 0 < gross_reward \<and> 0 < dust
          then f_add work_units (f_div (f_of_int dust) (f_of_int gross_reward)) else work_units
      | None \<Rightarrow> work_units)"

definition weighted_work :: "int \<Rightarrow> (string \<times> int) list \<Rightarrow> PplnsShareEntry list \<Rightarrow> work_map" where
  "weighted_work gross_reward dust_balances shares =
     map (\<lambda>(a, wid, x). (a, wid, dust_weight gross_reward dust_balances a x)) (work_by_addr shares)"

subsection \<open>Fee and allocation\<close>

definition pool_fee :: "int \<Rightarrow> u32 \<Rightarrow> int" where
  "pool_fee gross_reward fee_bps =
     (if 0 < gross_reward then sint ((word_of_int gross_reward :: u64) * ucast fee_bps div 10000) else 0)"

definition alloc_of :: "f64 \<Rightarrow> int \<Rightarrow> string \<times> int \<times> f64 \<Rightarrow> Alloc" where
  "alloc_of tw net_reward = (\<lambda>(addr, wid, work).
     let fractional_reward = f_mul (f_div work tw) (f_of_int net_reward);
         whole = f_to_i64 (f_floor fractional_reward)
     in \<lparr>al_address = addr, al_worker_id = wid, al_whole = whole,
         al_fractional = f_sub fractional_reward (f_of_int whole)\<rparr>)"

text \<open>The stable sort by descending fractional part. Its comparison calls a NaN equal to
  everything; such fractions only arise when an allocation is not finite.\<close>

fun insert_frac :: "Alloc \<Rightarrow> Alloc list \<Rightarrow> Alloc list" where
  "insert_frac a [] = [a]"
| "insert_frac a (b # bs) =
     (if f_lt (al_fractional a) (al_fractional b) then b # insert_frac a bs else a # b # bs)"

definition sort_frac :: "Alloc list \<Rightarrow> Alloc list" where
  "sort_frac as = foldr insert_frac as []"

fun give_remainder :: "int \<Rightarrow> Alloc list \<Rightarrow> Alloc list" where
  "give_remainder rm [] = []"
| "give_remainder rm (a # as) =
     (if rm \<le> 0 then a # as
      else a\<lparr>al_whole := i64_wrap (al_whole a + 1)\<rparr> # give_remainder (rm - 1) as)"

definition distribute :: "f64 \<Rightarrow> int \<Rightarrow> work_map \<Rightarrow> Alloc list" where
  "distribute tw net_reward m =
     (let allocs = map (alloc_of tw net_reward) m;
          allocated_sum = i64_wrap (sum_list (map al_whole allocs));
          remainder = i64_wrap (net_reward - allocated_sum)
      in sort_key al_address (give_remainder remainder (sort_frac allocs)))"

definition clip_output :: "int \<Rightarrow> Alloc \<Rightarrow> PayoutOutput" where
  "clip_output min_payout_sat a =
     (if al_whole a < min_payout_sat
      then \<lparr>po_payout_address = al_address a, po_worker_id = al_worker_id a,
            po_amount = 0, po_dust_carried_forward = al_whole a\<rparr>
      else \<lparr>po_payout_address = al_address a, po_worker_id = al_worker_id a,
            po_amount = al_whole a, po_dust_carried_forward = 0\<rparr>)"

definition build_payout_plan ::
  "int \<Rightarrow> int \<Rightarrow> string \<Rightarrow> f64 \<Rightarrow> int \<Rightarrow> u32 \<Rightarrow> string option \<Rightarrow> int \<Rightarrow>
   (string \<times> int) list \<Rightarrow> PplnsShareEntry list \<Rightarrow> PayoutPlan" where
  "build_payout_plan round_id block_height block_hash network_difficulty gross_reward fee_bps
       fee_address min_payout_sat dust_balances shares =
     (let m = weighted_work gross_reward dust_balances shares;
          total_work_units = f_sum (map (\<lambda>(_, _, w). w) m);
          pool_fee_amount = pool_fee gross_reward fee_bps;
          net_reward = i64_wrap (gross_reward - pool_fee_amount);
          allocs = (if f_lt (Fin 0) total_work_units \<and> 0 < net_reward
                    then distribute total_work_units net_reward m else []);
          outputs = map (clip_output min_payout_sat) allocs
      in \<lparr>pl_round_id = round_id, pl_block_height = block_height, pl_block_hash = block_hash,
          pl_network_difficulty = network_difficulty, pl_total_work_units = total_work_units,
          pl_gross_reward = gross_reward, pl_pool_fee_amount = pool_fee_amount,
          pl_pool_fee_address = fee_address, pl_outputs = outputs,
          pl_dust_carried_forward_total =
            i64_wrap (sum_list (map al_whole (filter (\<lambda>a. al_whole a < min_payout_sat) allocs))),
          pl_retry_key = block_hash @ '':'' @ show_nat (length outputs)\<rparr>)"

subsection \<open>The work map\<close>

lemma work_add_keys: "fst ` set (work_add a wid d m) = insert a (fst ` set m)"
  by (induction a wid d m rule: work_add.induct) auto

lemma work_add_sorted: "sorted_wrt (<) (map fst m) \<Longrightarrow> sorted_wrt (<) (map fst (work_add a wid d m))"
proof (induction a wid d m rule: work_add.induct)
  case (2 a wid d k v x m)
  have "k < b" if "b \<in> fst ` set (work_add a wid d m)" "\<not> a < k" "a \<noteq> k" for b
    using that 2(2) by (auto simp: work_add_keys)
  then show ?case using 2 by (auto simp: work_add_keys)
qed simp

lemma work_by_addr_snoc:
  "work_by_addr (shares @ [e]) =
     work_add (pe_payout_address e) (pe_worker_id e) (pe_difficulty e) (work_by_addr shares)"
  by (simp add: work_by_addr_def)

lemma work_by_addr_keys: "fst ` set (work_by_addr shares) = pe_payout_address ` set shares"
  by (induction shares rule: rev_induct) (simp_all add: work_by_addr_snoc work_add_keys, simp add: work_by_addr_def)

lemma work_by_addr_sorted: "sorted_wrt (<) (map fst (work_by_addr shares))"
  by (induction shares rule: rev_induct) (simp_all add: work_by_addr_snoc work_add_sorted, simp add: work_by_addr_def)

lemma weighted_work_fst: "map fst (weighted_work g ds shares) = map fst (work_by_addr shares)"
  by (simp add: weighted_work_def case_prod_unfold)

lemma weighted_work_distinct: "distinct (map fst (weighted_work g ds shares))"
  using work_by_addr_sorted [of shares] by (simp only: weighted_work_fst strict_sorted_iff)

lemma weighted_work_addresses: "fst ` set (weighted_work g ds shares) = pe_payout_address ` set shares"
proof -
  have "fst ` set (weighted_work g ds shares) = set (map fst (weighted_work g ds shares))" by simp
  then show ?thesis by (simp only: weighted_work_fst set_map work_by_addr_keys)
qed

subsection \<open>Sorting and the remainder\<close>

lemma insert_frac_mset [simp]: "mset (insert_frac a as) = add_mset a (mset as)"
  by (induction a as rule: insert_frac.induct) auto

lemma sort_frac_mset [simp]: "mset (sort_frac as) = mset as"
  by (induction as) (simp_all add: sort_frac_def)

lemma sort_frac_length [simp]: "length (sort_frac as) = length as"
  by (metis size_mset sort_frac_mset)

lemma sort_frac_sum: "sum_list (map f (sort_frac as)) = (sum_list (map f as) :: int)"
  by (metis mset_map sort_frac_mset sum_mset_sum_list)

lemma sort_key_sum: "sum_list (map f (sort_key g as)) = (sum_list (map f as) :: int)"
  by (metis mset_map mset_sort sum_mset_sum_list)

lemma give_remainder_addresses: "map al_address (give_remainder rm as) = map al_address as"
  by (induction rm as rule: give_remainder.induct) auto

text \<open>While no amount leaves the i64 range, the remainder is handed out in full when there are
  enough allocations to take one satoshi each.\<close>

lemma give_remainder_sum:
  assumes "0 \<le> rm" "rm \<le> int (length as)" "\<forall>a\<in>set as. 0 \<le> al_whole a \<and> al_whole a < 2 ^ 63 - 1"
  shows "sum_list (map al_whole (give_remainder rm as)) = sum_list (map al_whole as) + rm"
  using assms by (induction rm as rule: give_remainder.induct) (auto simp: i64_wrap_id)

lemma give_remainder_whole:
  assumes "b \<in> set (give_remainder rm as)" "\<forall>a\<in>set as. 0 \<le> al_whole a \<and> al_whole a < 2 ^ 63 - 1"
  obtains a where "a \<in> set as" "al_address b = al_address a" "al_worker_id b = al_worker_id a"
    "al_whole a \<le> al_whole b" "al_whole b \<le> al_whole a + 1"
proof -
  have "\<exists>a\<in>set as. al_address b = al_address a \<and> al_worker_id b = al_worker_id a \<and>
     al_whole a \<le> al_whole b \<and> al_whole b \<le> al_whole a + 1"
    using assms by (induction rm as rule: give_remainder.induct) (force simp: i64_wrap_id split: if_splits)+
  then show thesis using that by blast
qed

subsection \<open>Floating-point error of the allocation\<close>

definition fl_amount :: "rat \<Rightarrow> int \<Rightarrow> rat \<Rightarrow> rat" where
  "fl_amount W net x = rnd (rnd (x / W) * of_int net)"

lemma ratio_bounds:
  assumes "0 < W" "0 \<le> x" "x \<le> W"
  shows "0 \<le> rnd (x / W)" "rnd (x / W) \<le> 1"
  using assms rnd_rep_ge [of 0 "x / W"] rnd_rep_le [of 1 "x / W"] by (simp_all add: f64_rep_1)

lemma fl_amount_bounds:
  assumes "0 < W" "0 \<le> x" "x \<le> W" "0 < net" "net \<le> 2 ^ 53"
  shows "0 \<le> fl_amount W net x" "fl_amount W net x \<le> of_int net"
proof -
  note q = ratio_bounds [OF assms(1-3)]
  have "0 \<le> rnd (x / W) * of_int net" "rnd (x / W) * of_int net \<le> of_int net"
    using q assms by (simp_all add: mult_left_le_one_le)
  then show "0 \<le> fl_amount W net x" "fl_amount W net x \<le> of_int net"
    unfolding fl_amount_def using rnd_rep_ge [of 0] rnd_rep_le [OF f64_rep_of_int [of net]] assms by auto
qed

lemma f64_of_rat_Fin: "f64_rep r \<Longrightarrow> 0 \<le> x \<Longrightarrow> x \<le> r \<Longrightarrow> f64_of_rat x = Fin (rnd x)"
  using rnd_rep_ge [of 0 x] rnd_rep_le [of r x]
  by (auto simp: f64_of_rat_def Let_def f64_rep_def abs_less_iff)

lemma alloc_of_whole:
  assumes "0 < W" "0 \<le> x" "x \<le> W" "0 < net" "net \<le> 2 ^ 53"
  shows "al_whole (alloc_of (Fin W) net (a, wid, Fin x)) = \<lfloor>fl_amount W net x\<rfloor>"
    "0 \<le> \<lfloor>fl_amount W net x\<rfloor>" "\<lfloor>fl_amount W net x\<rfloor> \<le> net"
proof -
  note q = ratio_bounds [OF assms(1-3)] and fl = fl_amount_bounds [OF assms]
  have rep: "f64_rep (of_int net)" by (rule f64_rep_of_int) (use assms in simp)
  show b: "0 \<le> \<lfloor>fl_amount W net x\<rfloor>" "\<lfloor>fl_amount W net x\<rfloor> \<le> net"
    using fl by (simp_all add: floor_le_iff)
  have "f_div (Fin x) (Fin W) = Fin (rnd (x / W))"
    using assms by (simp add: f64_of_rat_Fin [OF f64_rep_1])
  moreover have "f_of_int net = Fin (of_int net)"
    by (simp add: f_of_int_def f64_of_rat_id [OF rep])
  moreover have "f64_of_rat (rnd (x / W) * of_int net) = Fin (fl_amount W net x)"
    unfolding fl_amount_def using q assms by (intro f64_of_rat_Fin [OF rep]) (simp_all add: mult_left_le_one_le)
  ultimately show "al_whole (alloc_of (Fin W) net (a, wid, Fin x)) = \<lfloor>fl_amount W net x\<rfloor>"
    using b assms by (simp add: alloc_of_def Let_def trunc_rat_def)
qed

lemma fl_amount_error:
  assumes "0 < W" "0 \<le> x" "x \<le> W" "0 < net"
  shows "\<bar>fl_amount W net x - of_int net * (x / W)\<bar> \<le>
    3 * u_round * of_int net * (x / W) + (3 * of_int net + 1) * eta_round"
proof -
  let ?r = "x / W" and ?q = "rnd (x / W)" and ?n = "of_int net :: rat"
  have r: "0 \<le> ?r" "?r \<le> 1" using assms by simp_all
  note q = ratio_bounds [OF assms(1-3)]
  have n: "1 \<le> ?n" using assms(4) by simp
  define A R E where "A = ?q * ?n" and "R = ?r * ?n" and "E = eta_round * ?n"
  have E: "0 \<le> E" using n eta_round_pos by (simp add: E_def)
  have e1: "\<bar>?q - ?r\<bar> \<le> u_round * ?r + eta_round" using r by (intro rnd_error)
  have e2: "\<bar>fl_amount W net x - A\<bar> \<le> u_round * A + eta_round"
    unfolding fl_amount_def A_def using q n by (intro rnd_error) simp
  have "\<bar>A - R\<bar> = \<bar>(?q - ?r) * ?n\<bar>" by (simp only: left_diff_distrib A_def R_def)
  also have "\<dots> = \<bar>?q - ?r\<bar> * ?n" using n by (subst abs_mult) simp
  also have "\<dots> \<le> (u_round * ?r + eta_round) * ?n" using e1 n by (intro mult_right_mono) simp_all
  also have "\<dots> = u_round * R + E" by (simp only: distrib_right R_def E_def mult.assoc)
  finally have e3: "\<bar>A - R\<bar> \<le> u_round * R + E" .
  have R: "0 \<le> R" unfolding R_def using r n by (intro mult_nonneg_nonneg) simp_all
  have "\<bar>fl_amount W net x - R\<bar> \<le> 3 * u_round * R + 2 * E + eta_round"
    using e2 e3 E R by (simp add: abs_le_iff)
  moreover have "of_int net * (x / W) = R" by (simp only: R_def mult.commute)
  ultimately show ?thesis using E by (simp add: E_def algebra_simps)
qed

lemma eta_round_small: "eta_round \<le> 1 / 2 ^ 64"
  using powi2_mono [of "- 1075" "- 64"] by (simp add: eta_round_def power_int_minus)

lemma fl_amounts_error:
  assumes "0 < W" "\<forall>x\<in>set xs. 0 \<le> x \<and> x \<le> W" "0 < net"
  shows "\<bar>sum_list (map (fl_amount W net) xs) - of_int net * (sum_list xs / W)\<bar> \<le>
    3 * u_round * (of_int net * (sum_list xs / W)) + of_nat (length xs) * ((3 * of_int net + 1) * eta_round)"
  using assms(2)
proof (induction xs)
  case (Cons x xs)
  define c R r where "c = (3 * of_int net + 1) * eta_round" and "R = of_int net * (sum_list xs / W)"
    and "r = of_int net * (x / W)"
  have "\<bar>fl_amount W net x - r\<bar> \<le> 3 * u_round * r + c"
    using fl_amount_error [of W x net] Cons.prems assms by (simp add: c_def r_def mult.assoc)
  moreover have "\<bar>sum_list (map (fl_amount W net) xs) - R\<bar> \<le> 3 * u_round * R + of_nat (length xs) * c"
    using Cons by (simp add: c_def R_def)
  ultimately have "\<bar>fl_amount W net x + sum_list (map (fl_amount W net) xs) - (r + R)\<bar> \<le>
      3 * u_round * (r + R) + (c + of_nat (length xs) * c)" by (simp only: distrib_left)
  moreover have "of_int net * (sum_list (x # xs) / W) = r + R"
    by (simp add: R_def r_def add_divide_distrib distrib_left)
  moreover have "of_nat (length (x # xs)) * c = c + of_nat (length xs) * c" by (simp add: distrib_right)
  ultimately show ?case unfolding c_def [symmetric] by (simp only: list.map sum_list.Cons)
qed simp

lemma near_arith:
  fixes F P Q T n k :: rat
  assumes "\<bar>F - P\<bar> \<le> 3 * u_round * P + T" "\<bar>n - P\<bar> \<le> Q * u_round" "P \<le> n * 2"
    "T \<le> (3 * Q + k) * (1 / 2 ^ 64)" "Q + 8 * n \<le> 2 ^ 52" "k \<le> 2 ^ 52" "1 \<le> n" "0 \<le> k"
  shows "\<bar>F - n\<bar> < 1"
proof -
  have "F - P \<le> 3 * u_round * P + T" "P - F \<le> 3 * u_round * P + T"
    "n - P \<le> Q * u_round" "P - n \<le> Q * u_round" using assms(1,2) by linarith+
  then have "F - n < 1" "n - F < 1" using assms(3-8) by simp_all
  then show ?thesis by linarith
qed

lemma fl_amounts_near:
  assumes W: "0 < W" and xs: "\<forall>x\<in>set xs. 0 \<le> x \<and> x \<le> W" and net: "0 < net"
    and err: "\<bar>W - sum_list xs\<bar> \<le> of_nat (length xs) * (u_round * W)"
    and small: "net * (int (length xs) + 8) \<le> 2 ^ 52"
  shows "\<bar>sum_list (map (fl_amount W net) xs) - of_int net\<bar> < 1"
proof -
  define n k :: rat where "n = of_int net" and "k = of_nat (length xs)"
  define S where "S = sum_list xs / W"
  have n: "1 \<le> n" and k: "0 \<le> k" using net by (simp_all add: n_def k_def)
  have "(of_int (net * (int (length xs) + 8)) :: rat) \<le> of_int (2 ^ 52)" using small by (simp only: of_int_le_iff)
  then have nk: "n * k + 8 * n \<le> 2 ^ 52" by (simp add: n_def k_def algebra_simps)
  have "k \<le> n * k" using n k by (simp add: mult_le_cancel_right1)
  then have k2: "k \<le> 2 ^ 52" using nk n by linarith
  have "\<bar>1 - S\<bar> = \<bar>W - sum_list xs\<bar> / W" using W by (simp add: S_def field_simps)
  also have "\<dots> \<le> k * u_round" using W err by (simp add: k_def field_simps)
  finally have S: "\<bar>1 - S\<bar> \<le> k * u_round" .
  then have "S - 1 \<le> k * u_round" by linarith
  then have S2: "S \<le> 2" using k2 by simp
  have "\<bar>n - n * S\<bar> = \<bar>n * (1 - S)\<bar>" by (simp add: right_diff_distrib)
  also have "\<dots> = n * \<bar>1 - S\<bar>" using n by (subst abs_mult) simp
  also have "\<dots> \<le> n * (k * u_round)" using S n by (intro mult_left_mono) simp_all
  finally have e1: "\<bar>n - n * S\<bar> \<le> n * k * u_round" by (simp add: mult.assoc)
  have e2: "n * S \<le> n * 2" using S2 n by (intro mult_left_mono) simp_all
  have "k * (3 * n + 1) * eta_round \<le> (k * (3 * n + 1)) * (1 / 2 ^ 64)"
    using n k eta_round_small by (intro mult_left_mono) simp_all
  also have "\<dots> = (3 * (n * k) + k) * (1 / 2 ^ 64)" by (simp add: algebra_simps)
  finally have e3: "k * (3 * n + 1) * eta_round \<le> (3 * (n * k) + k) * (1 / 2 ^ 64)" .
  have "\<bar>sum_list (map (fl_amount W net) xs) - n * S\<bar> \<le> 3 * u_round * (n * S) + k * (3 * n + 1) * eta_round"
    using fl_amounts_error [OF W xs net] by (simp add: n_def k_def S_def mult.assoc)
  then show ?thesis unfolding n_def [symmetric] by (rule near_arith [OF _ e1 e2 e3 nk k2 n k])
qed

lemma floor_sum_bounds:
  "of_int (sum_list (map (\<lambda>x. \<lfloor>f x\<rfloor>) xs)) \<le> sum_list (map f xs)"
  "sum_list (map f xs) \<le> of_int (sum_list (map (\<lambda>x. \<lfloor>f x\<rfloor>) xs)) + (of_nat (length xs) :: rat)"
  by (induction xs) (simp_all, linarith+)

lemma fl_floor_remainder:
  assumes "0 < W" "\<forall>x\<in>set xs. 0 \<le> x \<and> x \<le> W" "0 < net"
    "\<bar>W - sum_list xs\<bar> \<le> of_nat (length xs) * (u_round * W)"
    "net * (int (length xs) + 8) \<le> 2 ^ 52"
  shows "sum_list (map (\<lambda>x. \<lfloor>fl_amount W net x\<rfloor>) xs) \<le> net"
    "net - int (length xs) \<le> sum_list (map (\<lambda>x. \<lfloor>fl_amount W net x\<rfloor>) xs)"
proof -
  let ?s = "sum_list (map (\<lambda>x. \<lfloor>fl_amount W net x\<rfloor>) xs)"
  note b = floor_sum_bounds [of "fl_amount W net" xs] and e = fl_amounts_near [OF assms]
  have "(of_int ?s :: rat) < of_int (net + 1)" using b(1) e by (simp add: abs_less_iff)
  then show "?s \<le> net" by (simp only: of_int_less_iff)
  have "(of_int (net - int (length xs) - 1) :: rat) < of_int ?s" using b(2) e by (simp add: abs_less_iff)
  then show "net - int (length xs) \<le> ?s" by (simp only: of_int_less_iff)
qed

subsection \<open>The allocation of the net reward\<close>

abbreviation works :: "work_map \<Rightarrow> f64 list" where
  "works m \<equiv> map (\<lambda>(_, _, w). w) m"

text \<open>What the analysis needs of the weights: non-negative, with a finite positive sum, and few
  enough addresses for the rounding errors to stay below one satoshi.\<close>

definition allocatable :: "rat \<Rightarrow> int \<Rightarrow> work_map \<Rightarrow> bool" where
  "allocatable W net m \<longleftrightarrow>
     (\<forall>w\<in>set (works m). f_nonneg w) \<and> f_sum (works m) = Fin W \<and> 0 < W \<and> 0 < net \<and>
     net * (int (length m) + 8) \<le> 2 ^ 52"

lemma allocatable_net: "allocatable W net m \<Longrightarrow> net \<le> 2 ^ 49"
proof -
  assume "allocatable W net m"
  then have "net * 8 \<le> net * (int (length m) + 8)" "net * (int (length m) + 8) \<le> 2 ^ 52"
    by (auto simp: allocatable_def intro: mult_left_mono)
  then show ?thesis by simp
qed

lemma allocatable_entry:
  assumes "allocatable W net m" "(a, wid, w) \<in> set m"
  shows "w = Fin (f_val w)" "0 \<le> f_val w" "f_val w \<le> W"
proof -
  have w: "w \<in> set (works m)" using assms(2) by force
  then have "f_nonneg w" using assms(1) by (auto simp: allocatable_def)
  then show "w = Fin (f_val w)" "0 \<le> f_val w" by (simp_all add: f_nonneg_Fin f_nonneg_val)
  show "f_val w \<le> W" using w assms(1) f_sum_error(3) [of "works m" W] by (auto simp: allocatable_def)
qed

lemma alloc_entry:
  assumes "allocatable W net m" "(a, wid, w) \<in> set m"
  shows "al_whole (alloc_of (Fin W) net (a, wid, w)) = \<lfloor>fl_amount W net (f_val w)\<rfloor>"
    "0 \<le> al_whole (alloc_of (Fin W) net (a, wid, w))" "al_whole (alloc_of (Fin W) net (a, wid, w)) \<le> net"
proof -
  note e = allocatable_entry [OF assms]
  have n: "0 < W" "0 < net" "net \<le> 2 ^ 53"
    using assms allocatable_net [of W net m] by (auto simp: allocatable_def)
  note b = alloc_of_whole [OF n(1) e(2,3) n(2,3)]
  show "al_whole (alloc_of (Fin W) net (a, wid, w)) = \<lfloor>fl_amount W net (f_val w)\<rfloor>"
    "0 \<le> al_whole (alloc_of (Fin W) net (a, wid, w))" "al_whole (alloc_of (Fin W) net (a, wid, w)) \<le> net"
    using b e(1) by metis+
qed

lemma alloc_entries:
  assumes "allocatable W net m" "a \<in> set (map (alloc_of (Fin W) net) m)"
  shows "0 \<le> al_whole a" "al_whole a \<le> net"
  using assms alloc_entry [of W net m] by auto

lemma alloc_remainder:
  assumes "allocatable W net m"
  shows "sum_list (map al_whole (map (alloc_of (Fin W) net) m)) \<le> net"
    "net - int (length m) \<le> sum_list (map al_whole (map (alloc_of (Fin W) net) m))"
proof -
  let ?xs = "map f_val (works m)"
  have x: "\<forall>x\<in>set ?xs. 0 \<le> x \<and> x \<le> W" using allocatable_entry [OF assms] by auto
  have eq: "map al_whole (map (alloc_of (Fin W) net) m) = map (\<lambda>x. \<lfloor>fl_amount W net x\<rfloor>) ?xs"
    using alloc_entry(1) [OF assms] by (auto simp: case_prod_unfold)
  have h: "\<forall>w\<in>set (works m). f_nonneg w" "f_sum (works m) = Fin W" "0 < W" "0 < net"
      "net * (int (length ?xs) + 8) \<le> 2 ^ 52"
    using assms by (simp_all add: allocatable_def)
  have e: "\<bar>W - sum_list ?xs\<bar> \<le> of_nat (length ?xs) * (u_round * W)"
    using f_sum_error(4) [OF h(1,2)] by simp
  show "sum_list (map al_whole (map (alloc_of (Fin W) net) m)) \<le> net"
    "net - int (length m) \<le> sum_list (map al_whole (map (alloc_of (Fin W) net) m))"
    unfolding eq using fl_floor_remainder [OF h(3) x h(4) e h(5)] by simp_all
qed

lemma distribute_eq:
  assumes "allocatable W net m"
  shows "distribute (Fin W) net m =
    sort_key al_address (give_remainder (net - sum_list (map al_whole (map (alloc_of (Fin W) net) m)))
      (sort_frac (map (alloc_of (Fin W) net) m)))"
proof -
  have "1 * (int (length m) + 8) \<le> net * (int (length m) + 8)"
    using assms by (intro mult_right_mono) (auto simp: allocatable_def)
  moreover have "net * (int (length m) + 8) \<le> 2 ^ 52" using assms by (simp add: allocatable_def)
  ultimately have "1 * (int (length m) + 8) \<le> 2 ^ 52" by (rule order.trans)
  then have "int (length m) \<le> 2 ^ 52" by simp
  moreover define A where "A = sum_list (map al_whole (map (alloc_of (Fin W) net) m))"
  moreover have "0 < net" using assms by (simp add: allocatable_def)
  ultimately have "i64_wrap A = A" "i64_wrap (net - A) = net - A"
    using alloc_remainder [OF assms] allocatable_net [OF assms] by (auto intro!: i64_wrap_id)
  then show ?thesis by (simp only: distribute_def Let_def A_def)
qed

lemma distribute_sum:
  assumes "allocatable W net m"
  shows "sum_list (map al_whole (distribute (Fin W) net m)) = net"
proof -
  let ?as = "map (alloc_of (Fin W) net) m"
  have "\<forall>a\<in>set (sort_frac ?as). 0 \<le> al_whole a \<and> al_whole a < 2 ^ 63 - 1"
  proof
    fix a assume "a \<in> set (sort_frac ?as)"
    then have "a \<in> set ?as" using sort_frac_mset by (metis set_mset_mset)
    then show "0 \<le> al_whole a \<and> al_whole a < 2 ^ 63 - 1"
      using alloc_entries [OF assms] allocatable_net [OF assms] by force
  qed
  then show ?thesis
    using alloc_remainder [OF assms]
    by (simp only: distribute_eq [OF assms] sort_key_sum)
      (subst give_remainder_sum, simp_all add: sort_frac_sum)
qed

lemma clip_sum:
  "sum_list (map (\<lambda>p. po_amount p + po_dust_carried_forward p) (map (clip_output mn) as)) =
     sum_list (map al_whole as)"
  by (induction as) (auto simp: clip_output_def)

subsection \<open>The weights\<close>

definition f_pos :: "f64 \<Rightarrow> bool" where
  "f_pos x \<longleftrightarrow> f_nonneg x \<or> x = PInf"

lemma f_pos_of_rat: "0 \<le> x \<Longrightarrow> f_pos (f64_of_rat x)"
  using rnd_rep_ge [of 0 x] f64_of_rat_rep [of x "rnd x"]
  by (auto simp: f_pos_def f64_of_rat_def Let_def not_le)

lemma f_pos_add: "f_pos a \<Longrightarrow> f_pos b \<Longrightarrow> f_pos (f_add a b)"
  using f_add_nonneg(1) [of a b] by (cases a; cases b) (auto simp: f_pos_def)

lemma f_of_int_exact: "\<bar>n\<bar> \<le> 2 ^ 53 \<Longrightarrow> f_of_int n = Fin (of_int n)"
  by (simp add: f_of_int_def f64_of_rat_id f64_rep_of_int)

lemma f_pos_dust:
  assumes "0 < g" "g \<le> 2 ^ 53" "f_pos x"
  shows "f_pos (dust_weight g ds a x)"
proof (cases "map_of (rev ds) a")
  case (Some d)
  have "f_pos (f_div (f_of_int d) (f_of_int g))" if "0 < d"
  proof -
    have "f_pos (f_of_int d)" using that by (simp add: f_of_int_def f_pos_of_rat)
    moreover have "f_of_int g = Fin (of_int g)" using assms by (intro f_of_int_exact) simp
    ultimately show ?thesis using assms(1) f_nonneg_val
      by (cases "f_of_int d") (auto simp: f_pos_def f_inf_signed_def intro!: f_pos_of_rat [unfolded f_pos_def])
  qed
  then show ?thesis using Some assms f_pos_add by (simp add: dust_weight_def)
qed (use assms in \<open>simp add: dust_weight_def\<close>)

lemma work_add_pos:
  "\<forall>w\<in>set (works m). f_pos w \<Longrightarrow> f_pos d \<Longrightarrow> \<forall>w\<in>set (works (work_add a wid d m)). f_pos w"
  by (induction a wid d m rule: work_add.induct) (auto intro!: f_pos_add simp: f_pos_def [of "Fin 0"])

lemma work_by_addr_pos:
  "\<forall>e\<in>set shares. f_pos (pe_difficulty e) \<Longrightarrow> \<forall>w\<in>set (works (work_by_addr shares)). f_pos w"
proof (induction shares rule: rev_induct)
  case (snoc e es)
  then show ?case unfolding work_by_addr_snoc by (intro work_add_pos) simp_all
qed (simp add: work_by_addr_def)

lemma weighted_work_pos:
  assumes "\<forall>e\<in>set shares. f_pos (pe_difficulty e)" "0 < g" "g \<le> 2 ^ 53"
  shows "\<forall>w\<in>set (works (weighted_work g ds shares)). f_pos w"
  using work_by_addr_pos [OF assms(1)] f_pos_dust [OF assms(2,3)] by (auto simp: weighted_work_def)

lemma fold_add_pos_PInf: "\<forall>x\<in>set xs. f_pos x \<Longrightarrow> fold (\<lambda>x acc. f_add acc x) xs PInf = PInf"
proof (induction xs)
  case (Cons x xs)
  then show ?case by (cases x) (auto simp: f_pos_def)
qed simp

lemma finite_sum_nonneg:
  "\<forall>x\<in>set xs. f_pos x \<Longrightarrow> f_pos acc \<Longrightarrow> fold (\<lambda>x acc. f_add acc x) xs acc = Fin W \<Longrightarrow>
     \<forall>x\<in>set xs. f_nonneg x"
proof (induction xs arbitrary: acc)
  case (Cons x xs)
  have "x \<noteq> PInf"
  proof
    assume "x = PInf"
    then have "f_add acc x = PInf" using Cons.prems(2) by (cases acc) (auto simp: f_pos_def)
    then show False using Cons.prems fold_add_pos_PInf [of xs] by simp
  qed
  moreover have "\<forall>x\<in>set xs. f_nonneg x"
    using Cons.prems f_pos_add [of acc x] by (intro Cons.IH [of "f_add acc x"]) simp_all
  ultimately show ?case using Cons.prems(1) by (simp add: f_pos_def)
qed simp

lemma weights_nonneg:
  assumes "\<forall>e\<in>set shares. f_pos (pe_difficulty e)" "0 < g" "g \<le> 2 ^ 53"
    "f_sum (works (weighted_work g ds shares)) = Fin W"
  shows "\<forall>w\<in>set (works (weighted_work g ds shares)). f_nonneg w"
  using finite_sum_nonneg [OF weighted_work_pos [OF assms(1-3)], of "Fin 0"] assms(4)
  by (simp add: f_sum_def f_pos_def)

subsection \<open>The pool fee\<close>

lemma pool_fee_eq:
  assumes "0 < g" "g \<le> 2 ^ 49" "unat fee_bps \<le> 10000"
  shows "pool_fee g fee_bps = g * int (unat fee_bps) div 10000"
proof -
  define b where "b = uint fee_bps"
  have "int (unat fee_bps) \<le> int 10000" using assms(3) by (simp only: of_nat_le_iff)
  then have b: "0 \<le> b" "b \<le> 10000" by (simp_all add: b_def)
  have "g * b \<le> 2 ^ 49 * 10000" using assms(1,2) b by (intro mult_mono) simp_all
  then have r: "0 \<le> g * b" "g * b < 2 ^ 63" using assms(1) b(1) by simp_all
  have 1: "uint (word_of_int g :: u64) = g"
    using assms(1,2) by (simp add: unsigned_of_int take_bit_int_eq_self)
  have 2: "uint (ucast fee_bps :: u64) = b"
    using b unfolding b_def by (simp add: unsigned_ucast_eq take_bit_int_eq_self)
  have u: "uint ((word_of_int g :: u64) * ucast fee_bps) = g * b"
    using uint_mult_lem [of "word_of_int g :: u64" "ucast fee_bps"] r(2) 1 2 by simp
  have q: "uint ((word_of_int g :: u64) * ucast fee_bps div 10000) = g * b div 10000"
    by (simp add: uint_div u)
  have "g * b div 10000 \<le> g * b" "0 \<le> g * b div 10000"
    using r(1) zdiv_mono2 [of "g * b" 1 10000] by (simp_all add: pos_imp_zdiv_nonneg_iff)
  then have "sint ((word_of_int g :: u64) * ucast fee_bps div 10000) = g * b div 10000"
    using q r by (simp add: sint_uint signed_take_bit_int_eq_self)
  then show ?thesis using assms(1) by (simp add: pool_fee_def b_def)
qed

subsection \<open>The plan\<close>

abbreviation net_of :: "PayoutPlan \<Rightarrow> int" where
  "net_of p \<equiv> pl_gross_reward p - pl_pool_fee_amount p"

text \<open>The inputs for which the analysis applies: work that is a non-negative binary64 number, a
  positive reward, a fee below 100 percent, and a reward times number of addresses below
  \<open>2 ^ 52\<close> (for a reward of 260 XPI that is seventeen million addresses).\<close>

definition payable :: "int \<Rightarrow> u32 \<Rightarrow> PplnsShareEntry list \<Rightarrow> bool" where
  "payable gross fee_bps shares \<longleftrightarrow>
     (\<forall>e\<in>set shares. f_nonneg (pe_difficulty e)) \<and> 0 < gross \<and> unat fee_bps < 10000 \<and>
     gross * (int (card (pe_payout_address ` set shares)) + 8) \<le> 2 ^ 52"

lemma payable_gross: "payable g b shares \<Longrightarrow> g \<le> 2 ^ 49"
proof -
  assume p: "payable g b shares"
  then have "g * 8 \<le> g * (int (card (pe_payout_address ` set shares)) + 8)"
    by (intro mult_left_mono) (simp_all add: payable_def)
  moreover have "g * (int (card (pe_payout_address ` set shares)) + 8) \<le> 2 ^ 52"
    using p by (simp add: payable_def)
  ultimately have "g * 8 \<le> 2 ^ 52" by (rule order.trans)
  then show ?thesis by simp
qed

lemma payable_net:
  assumes "payable g b shares"
  shows "0 \<le> pool_fee g b" "pool_fee g b < g"
proof -
  have g: "0 < g" "unat b < 10000" using assms by (simp_all add: payable_def)
  then have f: "pool_fee g b = g * int (unat b) div 10000"
    using payable_gross [OF assms] by (intro pool_fee_eq) simp_all
  show "0 \<le> pool_fee g b" unfolding f using g(1) by (simp add: pos_imp_zdiv_nonneg_iff)
  have "int (unat b) < int 10000" using g(2) by (simp only: of_nat_less_iff)
  then have "g * int (unat b) < g * 10000" using g(1) by (intro mult_strict_left_mono) simp_all
  moreover have "x div 10000 < y" if "x < y * 10000" for x y :: int
  proof -
    have "x div 10000 * 10000 \<le> x" using div_mult_mod_eq [of x 10000] pos_mod_sign [of 10000 x] by linarith
    then show ?thesis using that by linarith
  qed
  ultimately show "pool_fee g b < g" unfolding f by blast
qed

lemma weighted_work_length:
  "length (weighted_work g ds shares) = card (pe_payout_address ` set shares)"
proof -
  have "card (set (map fst (weighted_work g ds shares))) = length (map fst (weighted_work g ds shares))"
    using weighted_work_distinct by (rule distinct_card)
  then show ?thesis by (simp add: weighted_work_addresses)
qed

lemma payable_allocatable:
  assumes "payable g b shares" "f_sum (works (weighted_work g ds shares)) = Fin W" "0 < W"
  shows "allocatable W (g - pool_fee g b) (weighted_work g ds shares)"
proof -
  let ?n = "int (card (pe_payout_address ` set shares)) + 8"
  have p: "0 < g" "\<forall>e\<in>set shares. f_pos (pe_difficulty e)"
    using assms(1) by (auto simp: payable_def f_pos_def)
  have "(g - pool_fee g b) * ?n \<le> g * ?n" using payable_net [OF assms(1)] by (intro mult_right_mono) simp_all
  also have "\<dots> \<le> 2 ^ 52" using assms(1) by (simp add: payable_def)
  finally have small: "(g - pool_fee g b) * (int (length (weighted_work g ds shares)) + 8) \<le> 2 ^ 52"
    by (simp only: weighted_work_length)
  have "g \<le> 2 ^ 53" using payable_gross [OF assms(1)] by simp
  then have "\<forall>w\<in>set (works (weighted_work g ds shares)). f_nonneg w"
    using p assms(2) by (intro weights_nonneg)
  then show ?thesis unfolding allocatable_def using small assms(2,3) payable_net [OF assms(1)] by simp
qed

lemma payable_outputs:
  assumes "payable g b shares"
    "pl_total_work_units (build_payout_plan rid ht hash nd g b fa mn ds shares) = Fin W" "0 < W"
  shows "f_sum (works (weighted_work g ds shares)) = Fin W"
    "pl_outputs (build_payout_plan rid ht hash nd g b fa mn ds shares) =
      map (clip_output mn) (distribute (Fin W) (g - pool_fee g b) (weighted_work g ds shares))"
proof -
  show s: "f_sum (works (weighted_work g ds shares)) = Fin W"
    using assms(2) by (simp add: build_payout_plan_def Let_def)
  have "i64_wrap (g - pool_fee g b) = g - pool_fee g b"
    using payable_net [OF assms(1)] payable_gross [OF assms(1)] by (intro i64_wrap_id) simp_all
  then show "pl_outputs (build_payout_plan rid ht hash nd g b fa mn ds shares) =
      map (clip_output mn) (distribute (Fin W) (g - pool_fee g b) (weighted_work g ds shares))"
    using s assms(3) payable_net [OF assms(1)] by (simp add: build_payout_plan_def Let_def)
qed

lemma plan_conserves:
  assumes "payable gross fee_bps shares"
    and "plan = build_payout_plan rid ht hash nd gross fee_bps fa mn ds shares"
    and "pl_total_work_units plan = Fin W" "0 < W"
  shows "pl_pool_fee_amount plan +
    sum_list (map (\<lambda>p. po_amount p + po_dust_carried_forward p) (pl_outputs plan)) = gross"
proof -
  have fee: "pl_pool_fee_amount plan = pool_fee gross fee_bps"
    by (simp add: assms(2) build_payout_plan_def Let_def)
  note o = payable_outputs [OF assms(1) assms(3) [unfolded assms(2)] assms(4)]
  have "allocatable W (gross - pool_fee gross fee_bps) (weighted_work gross ds shares)"
    using assms(1) o(1) assms(4) by (rule payable_allocatable)
  then have "sum_list (map (\<lambda>p. po_amount p + po_dust_carried_forward p) (pl_outputs plan)) =
      gross - pool_fee gross fee_bps" by (simp only: assms(2) o(2) clip_sum distribute_sum)
  then show ?thesis by (simp add: fee)
qed

text \<open>C3: a payout plan distributes exactly the gross reward. The pool fee, the amounts paid and
  the amounts carried forward as dust add up to the reward to the satoshi, although the
  proportions are computed in floating point and rounded down.\<close>

theorem payout_plan_conserves:
  assumes "payable gross fee_bps shares"
    and "plan = build_payout_plan rid ht hash nd gross fee_bps fa mn ds shares"
    and "pl_total_work_units plan = Fin W" "0 < W"
  shows "pl_pool_fee_amount plan +
    sum_list (map (\<lambda>p. po_amount p + po_dust_carried_forward p) (pl_outputs plan)) = gross"
  using assms by (rule plan_conserves)

abbreviation sample_share :: "string \<Rightarrow> rat \<Rightarrow> PplnsShareEntry" where
  "sample_share a d \<equiv>
     \<lparr>pe_share_id = 1, pe_share_outcome_id = 1, pe_worker_id = 1, pe_payout_address = a,
      pe_difficulty = Fin d, pe_created_at = ''t''\<rparr>"

abbreviation sample_plan :: PayoutPlan where
  "sample_plan \<equiv> build_payout_plan 1 7 ''h'' (Fin 1) 1000 100 None 10 []
     [sample_share ''b'' 1, sample_share ''a'' 2, sample_share ''b'' 3]"

lemma sample_payable: "payable 1000 100 [sample_share ''b'' 1, sample_share ''a'' 2, sample_share ''b'' 3]"
  by (simp add: payable_def card_insert_if)

lemma sample_total: "pl_total_work_units sample_plan = Fin 6"
  by (simp add: build_payout_plan_def Let_def weighted_work_def work_by_addr_def f_sum_def dust_weight_def)

theorem payout_plan_conserves_witness:
  "pl_pool_fee_amount sample_plan +
    sum_list (map (\<lambda>p. po_amount p + po_dust_carried_forward p) (pl_outputs sample_plan)) = 1000"
  using payout_plan_conserves [OF sample_payable refl sample_total] by simp

lemma distribute_addresses:
  "map al_address (distribute W net m) = sort (map fst m)"
proof -
  let ?as = "map (alloc_of W net) m"
  have fst: "map al_address ?as = map fst m" by (auto simp: alloc_of_def Let_def case_prod_unfold)
  have "mset (map al_address (give_remainder r (sort_frac ?as))) = mset (map fst m)" for r
    by (simp only: give_remainder_addresses mset_map sort_frac_mset flip: fst)
  then have "mset (map al_address (distribute W net m)) = mset (map fst m)"
    by (simp add: distribute_def Let_def del: mset_map flip: mset_map) (simp add: mset_map)
  moreover have "sorted (map al_address (distribute W net m))"
    by (simp add: distribute_def Let_def)
  ultimately show ?thesis by (metis properties_for_sort)
qed


text \<open>Every output of a plan either pays at least the minimum payout and carries no dust, or
  pays nothing and carries an amount below the minimum forward.\<close>

lemma payout_plan_minimum:
  "list_all (\<lambda>p. po_dust_carried_forward p = 0 \<and> mn \<le> po_amount p \<or>
                 po_amount p = 0 \<and> po_dust_carried_forward p < mn)
     (pl_outputs (build_payout_plan rid ht hash nd gross fee_bps fa mn ds shares))"
  by (auto simp: build_payout_plan_def Let_def list_all_iff clip_output_def)

lemma fl_amount_near:
  assumes "0 < W" "0 \<le> x" "x \<le> W" "0 < net" "net \<le> 2 ^ 49"
  shows "\<bar>fl_amount W net x - of_int net * x / W\<bar> < 1 / 2"
proof -
  define n R where "n = (of_int net :: rat)" and "R = n * (x / W)"
  have n: "1 \<le> n" "n \<le> 2 ^ 49"
  proof -
    have "(of_int net :: rat) \<le> of_int (2 ^ 49)" using assms(5) by (simp only: of_int_le_iff)
    then show "n \<le> 2 ^ 49" by (simp add: n_def)
  qed (use assms(4) in \<open>simp add: n_def\<close>)
  have "x / W \<le> 1" using assms by simp
  then have R: "R \<le> n * 1" unfolding R_def using n by (intro mult_left_mono) simp_all
  define T where "T = (3 * n + 1) * eta_round"
  have "T \<le> (3 * n + 1) * (1 / 2 ^ 64)"
    unfolding T_def using n eta_round_small by (intro mult_left_mono) simp_all
  moreover have "\<bar>fl_amount W net x - R\<bar> \<le> 3 * u_round * R + T"
    using fl_amount_error [OF assms(1-4)] by (simp only: n_def R_def T_def mult.assoc)
  ultimately have "\<bar>fl_amount W net x - R\<bar> < 1 / 2" using n R by simp
  then show ?thesis by (simp add: R_def n_def)
qed

lemma distribute_entry:
  assumes "allocatable W net m" "distinct (map fst m)" "b \<in> set (distribute (Fin W) net m)"
    "(al_address b, wid, w) \<in> set m"
  shows "\<lfloor>fl_amount W net (f_val w)\<rfloor> \<le> al_whole b \<and> al_whole b \<le> \<lfloor>fl_amount W net (f_val w)\<rfloor> + 1"
proof -
  let ?as = "map (alloc_of (Fin W) net) m"
  have "set (sort_frac ?as) = set ?as" using sort_frac_mset by (metis set_mset_mset)
  then have r: "\<forall>a\<in>set (sort_frac ?as). 0 \<le> al_whole a \<and> al_whole a < 2 ^ 63 - 1"
    using alloc_entries [OF assms(1)] allocatable_net [OF assms(1)] by force
  have "b \<in> set (give_remainder (net - sum_list (map al_whole ?as)) (sort_frac ?as))"
    using assms(3) unfolding distribute_eq [OF assms(1)] by simp
  then obtain a where a: "a \<in> set (sort_frac ?as)" "al_address b = al_address a"
      "al_whole a \<le> al_whole b" "al_whole b \<le> al_whole a + 1"
    using give_remainder_whole [OF _ r] by metis
  then have "a \<in> set ?as" using \<open>set (sort_frac ?as) = set ?as\<close> by simp
  then obtain k v x where kvx: "(k, v, x) \<in> set m" "a = alloc_of (Fin W) net (k, v, x)" by auto
  then have "k = al_address b" using a(2) by (simp add: alloc_of_def Let_def)
  then have "(v, x) = (wid, w)" using kvx(1) assms(2,4) by (metis eq_key_imp_eq_value)
  then show ?thesis using a(3,4) kvx alloc_entry(1) [OF assms(1) kvx(1)] by simp
qed

text \<open>C10: a plan is proportional. What an address is allocated, paid or carried as dust, differs
  by less than two satoshis from its exact share \<open>net * work / total\<close> of the net reward.\<close>

theorem payout_plan_proportional:
  assumes "payable gross fee_bps shares"
    and "plan = build_payout_plan rid ht hash nd gross fee_bps fa mn ds shares"
    and "pl_total_work_units plan = Fin W" "0 < W"
    and "p \<in> set (pl_outputs plan)" "(po_payout_address p, wid, w) \<in> set (weighted_work gross ds shares)"
  shows "\<bar>of_int (po_amount p + po_dust_carried_forward p) -
           of_int (gross - pl_pool_fee_amount plan) * f_val w / W\<bar> < 2"
proof -
  let ?net = "gross - pool_fee gross fee_bps" and ?m = "weighted_work gross ds shares"
  have fee: "pl_pool_fee_amount plan = pool_fee gross fee_bps"
    by (simp add: assms(2) build_payout_plan_def Let_def)
  note o = payable_outputs [OF assms(1) assms(3) [unfolded assms(2)] assms(4)]
  have al: "allocatable W ?net ?m" using assms(1) o(1) assms(4) by (rule payable_allocatable)
  obtain b where b: "b \<in> set (distribute (Fin W) ?net ?m)" "p = clip_output mn b"
    using assms(2,5) o(2) by auto
  have pb: "po_payout_address p = al_address b" "po_amount p + po_dust_carried_forward p = al_whole b"
    by (simp_all add: b(2) clip_output_def)
  have fl: "\<lfloor>fl_amount W ?net (f_val w)\<rfloor> \<le> al_whole b" "al_whole b \<le> \<lfloor>fl_amount W ?net (f_val w)\<rfloor> + 1"
    using distribute_entry [OF al weighted_work_distinct b(1)] assms(6) pb(1) by auto
  note w = allocatable_entry [OF al assms(6)]
  have "\<bar>fl_amount W ?net (f_val w) - of_int ?net * f_val w / W\<bar> < 1 / 2"
    using al allocatable_net [OF al] w(2,3) assms(4) by (intro fl_amount_near) (auto simp: allocatable_def)
  moreover have "(of_int (al_whole b) :: rat) \<le> of_int \<lfloor>fl_amount W ?net (f_val w)\<rfloor> + 1"
    "of_int \<lfloor>fl_amount W ?net (f_val w)\<rfloor> \<le> (of_int (al_whole b) :: rat)" using fl by linarith+
  ultimately show ?thesis unfolding fee pb(2) by linarith
qed

lemma sample_addresses: "map po_payout_address (pl_outputs sample_plan) = [''a'', ''b'']"
proof -
  have "map po_payout_address (map (clip_output mn) as) = map al_address as" for mn as
    by (simp add: clip_output_def)
  then have "map po_payout_address (pl_outputs sample_plan) =
      sort (map fst (weighted_work 1000 [] [sample_share ''b'' 1, sample_share ''a'' 2, sample_share ''b'' 3]))"
    by (simp only: payable_outputs(2) [OF sample_payable sample_total] distribute_addresses zero_less_numeral)
  then show ?thesis by (simp add: weighted_work_def work_by_addr_def dust_weight_def)
qed

theorem payout_plan_proportional_witness:
  "\<bar>of_int (po_amount (hd (pl_outputs sample_plan)) + po_dust_carried_forward (hd (pl_outputs sample_plan))) -
     of_int (1000 - pl_pool_fee_amount sample_plan) * f_val (Fin 2) / (6 :: rat)\<bar> < 2"
proof -
  obtain p ps where "pl_outputs sample_plan = p # ps" "po_payout_address p = ''a''"
    using sample_addresses by (cases "pl_outputs sample_plan") auto
  then have p: "hd (pl_outputs sample_plan) \<in> set (pl_outputs sample_plan)"
      "po_payout_address (hd (pl_outputs sample_plan)) = ''a''" by simp_all
  have w: "(po_payout_address (hd (pl_outputs sample_plan)), 1, Fin 2) \<in> set (weighted_work 1000 []
     [sample_share ''b'' 1, sample_share ''a'' 2, sample_share ''b'' 3])"
    unfolding p(2) by (simp add: weighted_work_def work_by_addr_def dust_weight_def)
  show ?thesis by (rule payout_plan_proportional [OF sample_payable refl sample_total _ p(1) w]) simp
qed

text \<open>The miner's part of a coinbase is half of it, rounded up: the odd satoshi goes to the
  miner, and the miner's part and the fund's part add up to the coinbase.\<close>

theorem reward_from_coinbase_half:
  assumes "unat v < 2 ^ 64 - 1"
  shows "reward_from_coinbase v = (int (unat v) + 1) div 2"
proof -
  have u: "uint (v div 2) = uint v div 2" by (simp add: uint_div)
  have "int (unat v) < int (2 ^ 64 - 1)" using assms by (simp only: of_nat_less_iff)
  then have v: "0 \<le> uint v" "uint v < 2 ^ 64 - 1" by simp_all
  have "uint (v - v div 2) = uint v - uint (v div 2)"
    using v u zdiv_mono2 [of "uint v" 1 2] by (intro uint_sub_lem [THEN iffD1]) simp
  moreover have "x - x div 2 = (x + 1) div 2" for x :: int by presburger
  ultimately have r: "uint (v - v div 2) = (uint v + 1) div 2" using u by simp
  then have "uint (v - v div 2) < 2 ^ 63" using v by simp
  moreover have "- (2 ^ 63) \<le> uint (v - v div 2)" by (rule order.trans [of _ 0]) simp_all
  ultimately have "sint (v - v div 2) = uint (v - v div 2)"
    by (simp add: sint_uint signed_take_bit_int_eq_self)
  then show ?thesis using r by (simp add: reward_from_coinbase_def Let_def)
qed

theorem reward_from_coinbase_half_witness: "reward_from_coinbase 39949002901 = 19974501451"
  using reward_from_coinbase_half [of 39949002901] by simp

end
