(* ===== verification/Externals.thy ===== *)
theory Externals
  imports F64
begin

text \<open>
  The library functions the server calls and whose code is not part of the repository: the
  \<^verbatim>\<open>hex\<close> crate and the mining functions of \<^verbatim>\<open>bitcoinsuite\<close>. They are the fields of
  one record, an argument of every definition that calls them. \<open>None\<close> is their error. What a
  theorem needs of them is a hypothesis over this record.
\<close>

type_synonym u8 = "8 word"

text \<open>The arguments of \<^verbatim>\<open>build_stratum_header\<close>.\<close>

record header_args =
  ha_coinbase1 :: string
  ha_extranonce1 :: string
  ha_extranonce2 :: string
  ha_coinbase2 :: string
  ha_merkle_branches :: "string list"
  ha_prevhash :: string
  ha_version :: string
  ha_nbits :: string
  ha_ntime :: string
  ha_nonce :: string
  ha_height :: "int option"
  ha_epoch_hash :: "string option"
  ha_extended_metadata_hash :: "string option"
  ha_block_size :: "u64 option"

text \<open>\<open>x_header_hash\<close> is \<^verbatim>\<open>LotusHeader::deser\<close> followed by
  \<^verbatim>\<open>calc_hash\<close>, the hash in little-endian order; \<open>x_parse_address\<close> tells whether a string parses
  as a \<^verbatim>\<open>LotusAddress\<close>; \<open>x_header_height\<close> is the height of a header that deserialises.\<close>

record externals =
  x_hex_decode :: "string \<Rightarrow> u8 list option"
  x_hex_encode :: "u8 list \<Rightarrow> string"
  x_target_to_difficulty :: "u8 list \<Rightarrow> f64 option"
  x_build_stratum_header :: "header_args \<Rightarrow> u8 list option"
  x_header_hash :: "u8 list \<Rightarrow> u8 list option"
  x_header_meets_difficulty :: "u8 list \<Rightarrow> f64 \<Rightarrow> bool option"
  x_parse_address :: "string \<Rightarrow> bool"
  x_header_height :: "u8 list \<Rightarrow> int option"

text \<open>A reference implementation of the \<^verbatim>\<open>hex\<close> functions, for concrete runs.\<close>

definition nibble :: "char \<Rightarrow> nat" where
  "nibble c = (let n = of_char c in if n \<le> 57 then n - 48 else if n \<le> 70 then n - 55 else n - 87)"

fun hex_decode_ref :: "string \<Rightarrow> u8 list option" where
  "hex_decode_ref [] = Some []"
| "hex_decode_ref [c] = None"
| "hex_decode_ref (c # d # s) =
     (if is_ascii_hexdigit c \<and> is_ascii_hexdigit d
      then map_option (Cons (of_nat (16 * nibble c + nibble d))) (hex_decode_ref s) else None)"

definition hex_encode_ref :: "u8 list \<Rightarrow> string" where
  "hex_encode_ref bs = concat (map (\<lambda>b. pad_hex 2 (unat b)) bs)"

lemma hex_decode_ref_length: "hex_decode_ref s = Some bs \<Longrightarrow> length s = 2 * length bs"
  by (induction s arbitrary: bs rule: hex_decode_ref.induct) (auto split: if_splits)

lemma hex_encode_ref_length: "length (hex_encode_ref bs) = 2 * length bs"
proof (induction bs)
  case (Cons b bs)
  have "unat b < 2 ^ LENGTH(8)" by (rule unsigned_less)
  then have "length (pad_hex 2 (unat b)) = 2" using length_pad_hex [of "unat b" 1] by (simp add: numeral_2_eq_2)
  then show ?case using Cons by (simp add: hex_encode_ref_def)
qed (simp add: hex_encode_ref_def)

lemma hexdigit_char_digit: "d < 16 \<Longrightarrow> is_ascii_hexdigit (hexdigit_char d) \<and> nibble (hexdigit_char d) = d"
  by (auto simp: is_ascii_hexdigit_def hexdigit_char_def nibble_def Let_def)

lemma pad_hex_byte: "n < 256 \<Longrightarrow> pad_hex 2 n = [hexdigit_char (n div 16), hexdigit_char (n mod 16)]"
proof -
  have "char_of (48 :: nat) = CHR ''0''" by code_simp
  then show "n < 256 \<Longrightarrow> ?thesis"
    by (cases "n < 16") (auto simp: pad_hex_def show_hex.simps [of n] show_hex.simps [of "n div 16"] hexdigit_char_def)
qed

lemma hex_decode_encode_ref: "hex_decode_ref (hex_encode_ref bs) = Some bs"
proof (induction bs)
  case (Cons b bs)
  have "unat b < 2 ^ LENGTH(8)" by (rule unsigned_less)
  then have b: "unat b < 256" by simp
  then have "unat b div 16 < 16" by (simp add: less_mult_imp_div_less)
  then have "hex_decode_ref (hex_encode_ref (b # bs)) = Some (of_nat (16 * (unat b div 16) + unat b mod 16) # bs)"
    using Cons hexdigit_char_digit [of "unat b div 16"] hexdigit_char_digit [of "unat b mod 16"]
    by (simp add: hex_encode_ref_def pad_hex_byte [OF b])
  then show ?case by simp
qed (simp add: hex_encode_ref_def)

subsection \<open>Constants\<close>

text \<open>src/src/constants.rs.\<close>

definition SATS_PER_XPI_F64 :: f64 where
  "SATS_PER_XPI_F64 = Fin 1000000"

end
