(* ===== verification/Stratum_Messages.thy ===== *)
theory Stratum_Messages
  imports Externals
begin

text \<open>
  The messages of the Stratum protocol: JSON values with the accessors of \<^verbatim>\<open>serde_json\<close>
  the server uses, requests and responses of src/src/stratum_protocol/protocol.rs, and mining
  jobs of src/src/stratum_protocol/job.rs. The JSON parser is the parameter \<open>from_str\<close> of
  \<open>decode_request_line\<close>.
\<close>

subsection \<open>JSON values\<close>

datatype json_number = JInt int | JFloat f64

datatype json =
    JNull
  | JBool bool
  | JNum json_number
  | JStr string
  | JArr "json list"
  | JObj "(string \<times> json) list"

fun json_get :: "string \<Rightarrow> json \<Rightarrow> json option" where
  "json_get k (JObj kvs) = map_of kvs k"
| "json_get k v = None"

text \<open>\<^verbatim>\<open>value["key"]\<close>: null when absent.\<close>

definition json_index :: "json \<Rightarrow> string \<Rightarrow> json" where
  "json_index v k = (case json_get k v of None \<Rightarrow> JNull | Some x \<Rightarrow> x)"

fun as_str :: "json \<Rightarrow> string option" where
  "as_str (JStr s) = Some s"
| "as_str v = None"

fun as_array :: "json \<Rightarrow> json list option" where
  "as_array (JArr xs) = Some xs"
| "as_array v = None"

fun as_object :: "json \<Rightarrow> (string \<times> json) list option" where
  "as_object (JObj kvs) = Some kvs"
| "as_object v = None"

fun as_f64 :: "json \<Rightarrow> f64 option" where
  "as_f64 (JNum (JInt i)) = Some (f_of_int i)"
| "as_f64 (JNum (JFloat x)) = Some x"
| "as_f64 v = None"

fun as_i64 :: "json \<Rightarrow> int option" where
  "as_i64 (JNum (JInt i)) = (if - (2 ^ 63) \<le> i \<and> i < 2 ^ 63 then Some i else None)"
| "as_i64 v = None"

text \<open>A float becomes a JSON number when it is finite and null otherwise.\<close>

fun json_f64 :: "f64 \<Rightarrow> json" where
  "json_f64 (Fin x) = JNum (JFloat (Fin x))"
| "json_f64 x = JNull"

subsection \<open>Requests and responses\<close>

datatype Method =
    Subscribe
  | Authorize
  | Notify
  | SetDifficulty
  | Submit
  | Ping
  | ExtranonceSubscribe
  | SetExtranonce
  | SuggestDifficulty
  | Unknown string

definition method_parse :: "string \<Rightarrow> Method" where
  "method_parse s =
     (if s = ''mining.subscribe'' then Subscribe
      else if s = ''mining.authorize'' then Authorize
      else if s = ''mining.notify'' then Notify
      else if s = ''mining.set_difficulty'' then SetDifficulty
      else if s = ''mining.submit'' then Submit
      else if s = ''mining.ping'' then Ping
      else if s = ''mining.extranonce.subscribe'' then ExtranonceSubscribe
      else if s = ''mining.set_extranonce'' then SetExtranonce
      else if s = ''mining.suggest_difficulty'' then SuggestDifficulty
      else Unknown s)"

record StratumRequest =
  rq_id :: json
  rq_method :: Method
  rq_params :: json

record StratumResponse =
  rs_id :: json
  rs_result :: json
  rs_error :: json

definition response_ok :: "json \<Rightarrow> json \<Rightarrow> StratumResponse" where
  "response_ok i r = \<lparr>rs_id = i, rs_result = r, rs_error = JNull\<rparr>"

definition response_err :: "json \<Rightarrow> int \<Rightarrow> string \<Rightarrow> StratumResponse" where
  "response_err i code message =
     \<lparr>rs_id = i, rs_result = JNull, rs_error = JArr [JNum (JInt code), JStr message, JNull]\<rparr>"

definition response_rejected :: "json \<Rightarrow> int \<Rightarrow> string \<Rightarrow> StratumResponse" where
  "response_rejected i code message =
     \<lparr>rs_id = i, rs_result = JBool False, rs_error = JArr [JNum (JInt code), JStr message, JNull]\<rparr>"

datatype StratumError = LineTooLong | InvalidJson string | InvalidRequestShape

definition decode_request_line ::
  "(string \<Rightarrow> string + json) \<Rightarrow> string \<Rightarrow> nat \<Rightarrow> StratumError + StratumRequest" where
  "decode_request_line from_str line max_len =
     (if max_len < length line then Inl LineTooLong
      else case from_str line of
        Inl e \<Rightarrow> Inl (InvalidJson e)
      | Inr value \<Rightarrow>
          (case json_get ''id'' value of
             None \<Rightarrow> Inl InvalidRequestShape
           | Some i \<Rightarrow>
               (case Option.bind (json_get ''method'' value) as_str of
                  None \<Rightarrow> Inl InvalidRequestShape
                | Some m \<Rightarrow>
                    (let params = (case json_get ''params'' value of None \<Rightarrow> JArr [] | Some p \<Rightarrow> p)
                     in if as_array params = None then Inl InvalidRequestShape
                        else Inr \<lparr>rq_id = i, rq_method = method_parse m, rq_params = params\<rparr>))))"

subsection \<open>Mining jobs\<close>

record MiningJob =
  mj_job_id :: string
  mj_template_id :: u64
  mj_prevhash :: string
  mj_coinbase1 :: string
  mj_coinbase2 :: string
  mj_merkle_branches :: "string list"
  mj_version :: string
  mj_nbits :: string
  mj_ntime :: string
  mj_network_target_hex :: string
  mj_clean_jobs :: bool
  mj_template_epoch :: u64
  mj_height :: int
  mj_epoch_hash :: string
  mj_extended_metadata_hash :: string
  mj_block_size :: u64
  mj_block_bytes :: "u8 list"
  mj_coinbase_value :: u64
  mj_reason :: string

definition parse_template_metadata_from_job_id :: "string \<Rightarrow> (u64 \<times> u64) option" where
  "parse_template_metadata_from_job_id job_id =
     Option.bind (strip_prefix ''job-'' job_id) (\<lambda>stripped.
     Option.bind (split_last (CHR ''-'') stripped) (\<lambda>(a, b).
     Option.bind (parse_u64 a) (\<lambda>template_id.
     Option.bind (parse_u64 b) (\<lambda>template_epoch.
     Some (template_id, template_epoch)))))"

definition notify_params :: "MiningJob \<Rightarrow> json" where
  "notify_params j =
     JArr ([JStr (mj_job_id j), JStr (mj_prevhash j), JStr (mj_coinbase1 j), JStr (mj_coinbase2 j),
            JArr (map JStr (mj_merkle_branches j)), JStr (mj_version j), JStr (mj_nbits j),
            JStr (mj_ntime j), JBool (mj_clean_jobs j), JNum (JInt (mj_height j)),
            JStr (mj_epoch_hash j), JStr (mj_extended_metadata_hash j),
            JNum (JInt (int (unat (mj_block_size j))))] @
           (if mj_reason j \<noteq> [] then [JStr (mj_reason j)] else []))"

subsection \<open>Decoding\<close>


text \<open>Job ids round trip. The template id and epoch parsed from
  \<^verbatim>\<open>job-<template>-<epoch>\<close>, the format the job builder writes, are the ones it wrote.\<close>

lemma job_id_round_trip:
  "parse_template_metadata_from_job_id (''job-'' @ show_u64 t @ ''-'' @ show_u64 e) = Some (t, e)"
proof -
  have "CHR ''-'' \<notin> set (show_u64 e)"
    using show_nat_no_char [of "CHR ''-''" "unat e"] by (auto simp: is_digit_def)
  then have "split_last (CHR ''-'') (show_u64 t @ ''-'' @ show_u64 e) = Some (show_u64 t, show_u64 e)"
    using split_last_append [of "CHR ''-''" "show_u64 e" "show_u64 t"] by simp
  moreover have "strip_prefix ''job-'' (''job-'' @ show_u64 t @ ''-'' @ show_u64 e) = Some (show_u64 t @ ''-'' @ show_u64 e)"
    by (rule strip_prefix_append)
  ultimately show ?thesis
    by (simp add: parse_template_metadata_from_job_id_def parse_show_u64 del: append_Cons append_Nil)
qed

end
