(* ===== verification/VarDiff.thy ===== *)
theory VarDiff
  imports Externals
begin

text \<open>
  Network difficulty and the per-session variable difficulty controller of
  src/src/share_processing/difficulty.rs. An \<^verbatim>\<open>Instant\<close> is a number of nanoseconds since
  a fixed origin; a panic of \<^verbatim>\<open>f64::clamp\<close> or \<^verbatim>\<open>Duration::from_secs_f64\<close> is
  \<open>None\<close>.
\<close>

definition network_target_hex_to_difficulty :: "externals \<Rightarrow> string \<Rightarrow> f64 option" where
  "network_target_hex_to_difficulty ex hex =
     (case x_hex_decode ex hex of
        None \<Rightarrow> None
      | Some bytes \<Rightarrow> if length bytes = 32 then x_target_to_difficulty ex bytes else None)"

type_synonym instant = nat

text \<open>\<^verbatim>\<open>Duration::from_secs_f64\<close>, in nanoseconds: rounded to nearest, a panic when
  negative, not finite, or beyond the range of a duration.\<close>

fun duration_from_secs_f64 :: "f64 \<Rightarrow> nat option" where
  "duration_from_secs_f64 (Fin x) =
     (let n = round_half_even (x * 10 ^ 9)
      in if 0 \<le> x \<and> n < 2 ^ 64 * 10 ^ 9 then Some (nat n) else None)"
| "duration_from_secs_f64 x = None"

definition duration_as_secs_f64 :: "nat \<Rightarrow> f64" where
  "duration_as_secs_f64 d =
     f_add (f_of_int (int (d div 10 ^ 9))) (f_div (f_of_int (int (d mod 10 ^ 9))) (f_of_int (10 ^ 9)))"

record VarDiffConfig =
  vc_min_floor :: f64
  vc_initial_pct :: f64
  vc_target_secs :: f64
  vc_retarget_secs :: f64
  vc_variance_percent :: f64

definition VarDiffConfig_default :: VarDiffConfig where
  "VarDiffConfig_default =
     \<lparr>vc_min_floor = f64_of_rat (1 / 1000), vc_initial_pct = f64_of_rat (2 / 100),
      vc_target_secs = f64_of_rat 20, vc_retarget_secs = f64_of_rat 60,
      vc_variance_percent = f64_of_rat (30 / 100)\<rparr>"

record VarDiff =
  vd_config :: VarDiffConfig
  vd_current :: f64
  vd_max :: f64
  vd_last_retarget :: instant
  vd_share_timestamps :: "instant list"

definition vardiff_new :: "VarDiffConfig \<Rightarrow> f64 \<Rightarrow> instant \<Rightarrow> VarDiff option" where
  "vardiff_new config n_diff now =
     map_option (\<lambda>initial. \<lparr>vd_config = config, vd_current = initial, vd_max = n_diff,
                           vd_last_retarget = now, vd_share_timestamps = []\<rparr>)
       (f_clamp (f_mul (vc_initial_pct config) n_diff) (vc_min_floor config) n_diff)"

definition vardiff_record_share :: "instant \<Rightarrow> VarDiff \<Rightarrow> VarDiff" where
  "vardiff_record_share now v = v\<lparr>vd_share_timestamps := vd_share_timestamps v @ [now]\<rparr>"

definition update_max :: "f64 \<Rightarrow> VarDiff \<Rightarrow> f64 option \<times> VarDiff" where
  "update_max new_n_diff v =
     (let old_current = vd_current v;
          v1 = v\<lparr>vd_max := new_n_diff\<rparr>;
          v2 = (if f_lt (vd_max v1) (vd_current v1) then v1\<lparr>vd_current := vd_max v1\<rparr> else v1)
      in (if f_lt f_epsilon (f_abs (f_sub (vd_current v2) old_current)) then Some (vd_current v2) else None, v2))"

text \<open>The new difficulty for an observed ratio of actual to expected shares.\<close>

definition retarget_diff :: "VarDiff \<Rightarrow> f64 \<Rightarrow> f64 option" where
  "retarget_diff v ratio =
     f_clamp (f_mul (vd_current v)
                (if f_lt (Fin 1) ratio then f_min ratio (f64_of_rat (15 / 10)) else f_max ratio (f64_of_rat (67 / 100))))
       (vc_min_floor (vd_config v)) (vd_max v)"

definition share_ratio :: "VarDiff \<Rightarrow> nat \<Rightarrow> nat \<Rightarrow> f64" where
  "share_ratio v window_duration share_count =
     f_div (f_of_int (int share_count))
       (f_div (duration_as_secs_f64 window_duration) (vc_target_secs (vd_config v)))"

definition maybe_retarget :: "instant \<Rightarrow> VarDiff \<Rightarrow> (f64 option \<times> VarDiff) option" where
  "maybe_retarget now v =
     (let window_duration = now - vd_last_retarget v;
          share_count = length (filter (\<lambda>t. vd_last_retarget v \<le> t) (vd_share_timestamps v))
      in case duration_from_secs_f64 (vc_retarget_secs (vd_config v)) of
           None \<Rightarrow> None
         | Some interval \<Rightarrow>
             if window_duration < interval then Some (None, v)
             else if share_count < 1 then Some (None, v)
             else let ratio = share_ratio v window_duration share_count
                  in if f_le (f_abs (f_sub ratio (Fin 1))) (vc_variance_percent (vd_config v)) then Some (None, v)
                     else case retarget_diff v ratio of
                            None \<Rightarrow> None
                          | Some new_diff \<Rightarrow>
                              if f_lt (f_abs (f_sub new_diff (vd_current v))) f_epsilon then Some (None, v)
                              else Some (Some new_diff,
                                     v\<lparr>vd_current := new_diff, vd_last_retarget := now, vd_share_timestamps := []\<rparr>))"

subsection \<open>The difficulty stays between the floor and the network difficulty\<close>

definition vd_inv :: "VarDiff \<Rightarrow> bool" where
  "vd_inv v \<longleftrightarrow>
     f_nonneg (vc_min_floor (vd_config v)) \<and> f_nonneg (vd_current v) \<and> f_nonneg (vd_max v) \<and>
     f_le (vc_min_floor (vd_config v)) (vd_current v) \<and> f_le (vd_current v) (vd_max v)"

lemma f_nonneg_f_le: "f_nonneg x \<Longrightarrow> f_nonneg y \<Longrightarrow> f_le x y \<longleftrightarrow> f_val x \<le> f_val y"
  by (cases x; cases y) auto

lemma f_clamp_nonneg:
  assumes "f_clamp x lo hi = Some y" "f_nonneg lo" "f_nonneg hi" "x = PInf \<or> f_nonneg x"
  shows "f_nonneg y"
  using assms by (cases hi; cases lo) (auto simp: f_clamp_def Let_def f_lt_def split: if_splits)

text \<open>The factor of a retarget.\<close>

definition retarget_factor :: "f64 \<Rightarrow> f64" where
  "retarget_factor ratio =
     (if f_lt (Fin 1) ratio then f_min ratio (f64_of_rat (15 / 10)) else f_max ratio (f64_of_rat (67 / 100)))"

lemma f_15 [simp]: "f64_of_rat (3 / 2) = Fin (3 / 2)"
proof -
  have "f64_rep (3 / 2)" using rnd_grid [of 3 "- 1"] by (simp add: f64_rep_def power_int_minus)
  then show ?thesis by (rule f64_of_rat_id)
qed

lemma rnd_67: "0 \<le> rnd (67 / 100)" "rnd (67 / 100) \<le> 1"
  using rnd_rep_ge [of 0 "67 / 100"] rnd_rep_le [of 1 "67 / 100"] by simp_all

lemma f_67 [simp]: "f64_of_rat (67 / 100) = Fin (rnd (67 / 100))"
  using rnd_67 by (simp add: f64_of_rat_def Let_def)

lemma retarget_factor_fast:
  assumes "f_lt (Fin 1) ratio"
  shows "\<exists>k. retarget_factor ratio = Fin k \<and> 1 \<le> k \<and> k \<le> 3 / 2"
proof -
  have "retarget_factor ratio = Fin (3 / 2) \<or> (\<exists>x. retarget_factor ratio = Fin x \<and> 1 \<le> x \<and> x \<le> 3 / 2)"
    using assms by (cases ratio) (auto simp: retarget_factor_def f_min_def f_lt_def)
  then show ?thesis
  proof
    assume "retarget_factor ratio = Fin (3 / 2)"
    then show ?thesis by (intro exI [of _ "3 / 2"]) simp
  qed
qed

lemma retarget_factor_slow:
  assumes "\<not> f_lt (Fin 1) ratio"
  shows "\<exists>k. retarget_factor ratio = Fin k \<and> rnd (67 / 100) \<le> k \<and> k \<le> 1 \<and> 0 \<le> k"
  using assms rnd_67 by (cases ratio) (auto simp: retarget_factor_def f_max_def f_lt_def)

lemma retarget_diff_eq:
  "retarget_diff v ratio =
     f_clamp (f_mul (vd_current v) (retarget_factor ratio)) (vc_min_floor (vd_config v)) (vd_max v)"
  by (simp add: retarget_diff_def retarget_factor_def)

lemma f_mul_current:
  assumes "f_nonneg (Fin c)" "0 \<le> k"
  shows "f_mul (Fin c) (Fin k) = PInf \<or> f_nonneg (f_mul (Fin c) (Fin k))"
    "1 \<le> k \<Longrightarrow> f_le (Fin c) (f_mul (Fin c) (Fin k))"
    "k \<le> 1 \<Longrightarrow> f_le (f_mul (Fin c) (Fin k)) (Fin c)"
    "k \<le> k' \<Longrightarrow> f_le (f_mul (Fin c) (Fin k)) (f_mul (Fin c) (Fin k'))"
proof -
  have c: "f64_rep c" "0 \<le> c" using assms(1) by simp_all
  show "f_mul (Fin c) (Fin k) = PInf \<or> f_nonneg (f_mul (Fin c) (Fin k))"
    using c assms(2) rnd_rep_ge [of 0 "c * k"] f64_of_rat_rep [of "c * k"]
    by (auto simp: f64_of_rat_def Let_def not_le)
  show "1 \<le> k \<Longrightarrow> f_le (Fin c) (f_mul (Fin c) (Fin k))"
    using c by (simp add: f64_of_rat_ge mult_left_le_one_le mult_le_cancel_left1)
  show "k \<le> 1 \<Longrightarrow> f_le (f_mul (Fin c) (Fin k)) (Fin c)"
    using c assms(2) by (simp add: f64_of_rat_le mult_right_le_one_le)
  show "k \<le> k' \<Longrightarrow> f_le (f_mul (Fin c) (Fin k)) (f_mul (Fin c) (Fin k'))"
    using c by (simp add: f64_of_rat_mono mult_left_mono)
qed

lemma f_clamp_between:
  assumes "f_clamp x lo hi = Some y" "x \<noteq> NaN" "f_le lo c" "f_le c hi"
  shows "f_le c x \<Longrightarrow> f_le c y \<and> f_le y x" "f_le x c \<Longrightarrow> f_le y c \<and> f_le x y"
proof -
  have n: "lo \<noteq> NaN" "hi \<noteq> NaN" "c \<noteq> NaN" using assms(3,4) f_le_not_NaN by blast+
  have lh: "f_le lo hi" using assms(3,4) by (rule f_le_trans)
  show "f_le c y \<and> f_le y x" if cx: "f_le c x"
  proof -
    have "f_le lo x" using assms(3) cx by (rule f_le_trans)
    then have "y = (if f_lt hi x then hi else x)" using assms(1) lh by (auto simp: f_clamp_def f_lt_def)
    then show ?thesis using cx assms(2,4) f_lt_le by auto
  qed
  show "f_le y c \<and> f_le x y" if xc: "f_le x c"
  proof -
    have "f_le x hi" using xc assms(4) by (rule f_le_trans)
    then have "y = (if f_lt x lo then lo else x)" using assms(1) lh by (auto simp: f_clamp_def f_lt_def Let_def)
    then show ?thesis using xc assms(2,3) f_lt_le by auto
  qed
qed

lemma retarget_diff_inv:
  assumes "vd_inv v"
  shows "\<exists>d. retarget_diff v ratio = Some d \<and> f_nonneg d \<and>
    f_le (vc_min_floor (vd_config v)) d \<and> f_le d (vd_max v)"
proof -
  let ?lo = "vc_min_floor (vd_config v)" and ?x = "f_mul (vd_current v) (retarget_factor ratio)"
  have i: "f_nonneg ?lo" "f_nonneg (vd_current v)" "f_nonneg (vd_max v)" "f_le ?lo (vd_max v)"
    using assms f_le_trans by (auto simp: vd_inv_def)
  obtain k where k: "retarget_factor ratio = Fin k" "0 \<le> k"
    using retarget_factor_fast [of ratio] retarget_factor_slow [of ratio] by (cases "f_lt (Fin 1) ratio") force+
  have x: "?x = PInf \<or> f_nonneg ?x"
    using f_mul_current(1) [of "f_val (vd_current v)" k] i(2) k f_nonneg_Fin [OF i(2)] by metis
  then have "?x \<noteq> NaN" by auto
  moreover obtain d where d: "f_clamp ?x ?lo (vd_max v) = Some d" using i(4) by (simp add: f_clamp_def)
  ultimately show ?thesis
    using f_clamp_bounds [OF d] f_clamp_nonneg [OF d i(1,3) x] by (simp add: retarget_diff_eq)
qed

datatype vd_event = RecordShare instant | UpdateMax f64 | Retarget instant

fun vd_step :: "vd_event \<Rightarrow> VarDiff \<Rightarrow> VarDiff option" where
  "vd_step (RecordShare now) v = Some (vardiff_record_share now v)"
| "vd_step (UpdateMax d) v = Some (snd (update_max d v))"
| "vd_step (Retarget now) v = map_option snd (maybe_retarget now v)"

text \<open>Events a session may see: the network difficulty is a number not below the floor, and the
  retarget interval is a duration.\<close>

fun vd_admissible :: "vd_event \<Rightarrow> VarDiff \<Rightarrow> bool" where
  "vd_admissible (RecordShare now) v = True"
| "vd_admissible (UpdateMax d) v = (f_nonneg d \<and> f_le (vc_min_floor (vd_config v)) d)"
| "vd_admissible (Retarget now) v = (duration_from_secs_f64 (vc_retarget_secs (vd_config v)) \<noteq> None)"

lemma update_max_state:
  "snd (update_max d v) =
     v\<lparr>vd_max := d, vd_current := (if f_lt d (vd_current v) then d else vd_current v)\<rparr>"
  by (simp add: update_max_def Let_def)

lemma maybe_retarget_cases:
  assumes "maybe_retarget now v = Some (r, v')"
  obtains (same) "r = None" "v' = v"
  | (changed) d ratio where "r = Some d" "retarget_diff v ratio = Some d"
      "v' = v\<lparr>vd_current := d, vd_last_retarget := now, vd_share_timestamps := []\<rparr>"
proof -
  have "r = None \<and> v' = v \<or> (\<exists>d ratio. r = Some d \<and> retarget_diff v ratio = Some d \<and>
      v' = v\<lparr>vd_current := d, vd_last_retarget := now, vd_share_timestamps := []\<rparr>)"
    using assms
    by (simp only: maybe_retarget_def Let_def split: option.split_asm if_split_asm) (blast elim: option.inject [THEN iffD1, elim_format])+
  then show thesis using same changed by blast
qed

lemma vd_step_config: "vd_step e v = Some v' \<Longrightarrow> vd_config v' = vd_config v"
  by (cases e) (auto simp: vardiff_record_share_def update_max_state elim!: maybe_retarget_cases)

lemma maybe_retarget_total:
  assumes "vd_inv v" "duration_from_secs_f64 (vc_retarget_secs (vd_config v)) \<noteq> None"
  shows "\<exists>r v'. maybe_retarget now v = Some (r, v') \<and> vd_inv v'"
proof -
  obtain i where i: "duration_from_secs_f64 (vc_retarget_secs (vd_config v)) = Some i" using assms(2) by auto
  obtain d where "retarget_diff v (share_ratio v (now - vd_last_retarget v)
      (length (filter (\<lambda>t. vd_last_retarget v \<le> t) (vd_share_timestamps v)))) = Some d"
    using retarget_diff_inv [OF assms(1)] by blast
  then have "maybe_retarget now v \<noteq> None"
    by (simp only: maybe_retarget_def Let_def i option.case option.distinct simp_thms split: if_split)
  then have "\<exists>r v'. maybe_retarget now v = Some (r, v')" by (simp add: not_None_eq split_paired_Ex)
  moreover have "vd_inv v'" if "maybe_retarget now v = Some (r, v')" for r v'
    using that
  proof (cases rule: maybe_retarget_cases)
    case same then show ?thesis using assms(1) by simp
  next
    case (changed d ratio)
    then show ?thesis using retarget_diff_inv [OF assms(1), of ratio] assms(1) by (auto simp: vd_inv_def)
  qed
  ultimately show ?thesis by blast
qed

interpretation vd_machine: event_machine vd_step vd_inv vd_admissible
proof
  fix v e
  assume v: "vd_inv v" "vd_admissible e v"
  show "\<exists>v'. vd_step e v = Some v' \<and> vd_inv v'"
  proof (cases e)
    case (RecordShare now)
    then show ?thesis using v by (simp add: vd_inv_def vardiff_record_share_def)
  next
    case (UpdateMax d)
    then show ?thesis using v not_f_lt [of d "vd_current v"] f_le_not_NaN
      by (auto simp: vd_inv_def update_max_state f_lt_le)
  next
    case (Retarget now)
    then show ?thesis using v maybe_retarget_total [of v now] by auto
  qed
next
  fix e v v' e'
  assume "vd_step e v = Some v'"
  then show "vd_admissible e' v' = vd_admissible e' v" by (cases e') (simp_all add: vd_step_config)
qed

lemma vardiff_new_inv:
  assumes "vardiff_new cfg n now = Some v" "f_nonneg n" "f_nonneg (vc_min_floor cfg)" "f_nonneg (vc_initial_pct cfg)"
  shows "vd_inv v"
proof -
  let ?x = "f_mul (vc_initial_pct cfg) n"
  obtain i where i: "f_clamp ?x (vc_min_floor cfg) n = Some i"
      "v = \<lparr>vd_config = cfg, vd_current = i, vd_max = n, vd_last_retarget = now, vd_share_timestamps = []\<rparr>"
    using assms(1) by (auto simp: vardiff_new_def)
  have x: "?x = PInf \<or> f_nonneg ?x"
    using f_mul_current(1) [of "f_val (vc_initial_pct cfg)" "f_val n"] assms(2,4) f_nonneg_val f_nonneg_Fin by metis
  then have "?x \<noteq> NaN" by auto
  then show ?thesis
    using f_clamp_bounds [OF i(1)] f_clamp_nonneg [OF i(1) assms(3,2) x] i(2) assms(2,3) by (simp add: vd_inv_def)
qed

text \<open>C12: the difficulty of a session stays between the configured floor and the network
  difficulty, and the controller never panics, over every sequence of recorded shares, network
  difficulty updates and retargets, as long as the network difficulty never drops below the
  floor.\<close>

theorem vardiff_bounded:
  assumes "vardiff_new cfg n now = Some v"
    and "f_nonneg n" "f_nonneg (vc_min_floor cfg)" "f_nonneg (vc_initial_pct cfg)"
    and "\<forall>e\<in>set es. vd_admissible e v"
  shows "\<exists>v'. run_events vd_step es v = Some v' \<and>
    f_le (vc_min_floor (vd_config v')) (vd_current v') \<and> f_le (vd_current v') (vd_max v')"
  using vd_machine.run_good [OF vardiff_new_inv [OF assms(1-4)] assms(5)] by (auto simp: vd_inv_def)

abbreviation sample_config :: VarDiffConfig where
  "sample_config \<equiv> \<lparr>vc_min_floor = Fin 1, vc_initial_pct = Fin 1, vc_target_secs = Fin 20,
     vc_retarget_secs = Fin 60, vc_variance_percent = Fin 0\<rparr>"

abbreviation sample_vardiff :: VarDiff where
  "sample_vardiff \<equiv> \<lparr>vd_config = sample_config, vd_current = Fin 4, vd_max = Fin 4,
     vd_last_retarget = 0, vd_share_timestamps = []\<rparr>"

lemma sample_new: "vardiff_new sample_config (Fin 4) 0 = Some sample_vardiff"
  by (simp add: vardiff_new_def f_clamp_def)

lemma sample_duration: "duration_from_secs_f64 (Fin 60) = Some 60000000000"
  by (simp add: Let_def round_half_even_def)

theorem vardiff_bounded_witness:
  "\<exists>v'. run_events vd_step [RecordShare 5, UpdateMax (Fin 2), Retarget 90000000000] sample_vardiff = Some v' \<and>
    f_le (vc_min_floor (vd_config v')) (vd_current v') \<and> f_le (vd_current v') (vd_max v')"
  by (rule vardiff_bounded [OF sample_new]) (simp_all add: sample_duration del: duration_from_secs_f64.simps)



text \<open>Creating a controller panics exactly when the network difficulty is below the configured
  floor (or one of them is not a number).\<close>

theorem vardiff_new_panics:
  "vardiff_new cfg n_diff now = None \<longleftrightarrow> \<not> f_le (vc_min_floor cfg) n_diff"
  by (simp add: vardiff_new_def f_clamp_None)

end
