(* ===== verification/Session.thy ===== *)
theory Session
  imports Stratum_Messages VarDiff
begin

text \<open>
  The state of one miner connection (src/src/stratum_protocol/session.rs, with the constants of
  src/src/stratum_protocol/params.rs): subscription, authorised workers, the jobs sent to the
  miner, and the difficulty controller.
\<close>

subsection \<open>Parameters\<close>

definition EXTRANONCE_1_SIZE :: nat where "EXTRANONCE_1_SIZE = 4"
definition EXTRANONCE_2_SIZE :: nat where "EXTRANONCE_2_SIZE = 4"
definition EXTRANONCE_TOTAL_SIZE :: nat where "EXTRANONCE_TOTAL_SIZE = EXTRANONCE_1_SIZE + EXTRANONCE_2_SIZE"
definition EXTRANONCE_1_HEX_CHARS :: nat where "EXTRANONCE_1_HEX_CHARS = EXTRANONCE_1_SIZE * 2"
definition MAX_ASSIGNED_JOBS_PER_SESSION :: nat where "MAX_ASSIGNED_JOBS_PER_SESSION = 128"

subsection \<open>Worker names\<close>

record WorkerName =
  wn_payout_address :: string
  wn_worker_suffix :: "string option"

definition parse_worker_name :: "externals \<Rightarrow> string \<Rightarrow> string + WorkerName" where
  "parse_worker_name ex input =
     (let (address, suffix) = split_first (CHR ''.'') input
      in if \<not> x_parse_address ex address then Inl ''invalid lotus address''
         else if suffix = Some [] then Inl ''worker suffix must not be empty when '.' is present''
         else Inr \<lparr>wn_payout_address = address, wn_worker_suffix = suffix\<rparr>)"

subsection \<open>Session state\<close>

record AssignedJob =
  aj_job_id :: string
  aj_p_diff :: f64
  aj_ntime :: string

record SessionState =
  ss_session_id :: string
  ss_extranonce1 :: string
  ss_extranonce2_size :: nat
  ss_is_subscribed :: bool
  ss_is_authorized :: bool
  ss_authorized_workers :: "string set"
  ss_assigned_jobs :: "AssignedJob list"
  ss_vardiff :: VarDiff

definition session_new ::
  "string \<Rightarrow> string \<Rightarrow> VarDiffConfig \<Rightarrow> f64 \<Rightarrow> instant \<Rightarrow> SessionState option" where
  "session_new session_id extranonce1 vardiff_config n_diff now =
     map_option (\<lambda>vd. \<lparr>ss_session_id = session_id, ss_extranonce1 = extranonce1,
                      ss_extranonce2_size = EXTRANONCE_2_SIZE, ss_is_subscribed = False,
                      ss_is_authorized = False, ss_authorized_workers = {},
                      ss_assigned_jobs = [], ss_vardiff = vd\<rparr>)
       (vardiff_new vardiff_config n_diff now)"

definition handle_subscribe :: "StratumRequest \<Rightarrow> SessionState \<Rightarrow> StratumResponse \<times> SessionState" where
  "handle_subscribe req ss =
     (response_ok (rq_id req)
        (JArr [JArr [JArr [JStr ''mining.set_difficulty'', JStr (ss_session_id ss)],
                     JArr [JStr ''mining.notify'', JStr (ss_session_id ss)]],
               JStr (ss_extranonce1 ss),
               JNum (JInt (int (ss_extranonce2_size ss)))]),
      ss\<lparr>ss_is_subscribed := True\<rparr>)"

definition request_worker :: "StratumRequest \<Rightarrow> string" where
  "request_worker req =
     (case as_array (rq_params req) of
        Some (v # _) \<Rightarrow> (case as_str v of Some w \<Rightarrow> w | None \<Rightarrow> [])
      | _ \<Rightarrow> [])"

definition handle_authorize ::
  "externals \<Rightarrow> StratumRequest \<Rightarrow> SessionState \<Rightarrow> StratumResponse \<times> SessionState" where
  "handle_authorize ex req ss =
     (if \<not> ss_is_subscribed ss then (response_err (rq_id req) 25 ''not-subscribed'', ss)
      else let worker = request_worker req
           in case parse_worker_name ex worker of
                Inl _ \<Rightarrow> (response_err (rq_id req) 24 ''unauthorized-worker'', ss)
              | Inr _ \<Rightarrow>
                  (response_ok (rq_id req) (JBool True),
                   ss\<lparr>ss_authorized_workers := insert worker (ss_authorized_workers ss), ss_is_authorized := True\<rparr>))"

definition record_assigned_job :: "string \<Rightarrow> f64 \<Rightarrow> string \<Rightarrow> SessionState \<Rightarrow> SessionState" where
  "record_assigned_job job_id p_diff ntime ss =
     (let jobs = (if MAX_ASSIGNED_JOBS_PER_SESSION \<le> length (ss_assigned_jobs ss)
                  then tl (ss_assigned_jobs ss) else ss_assigned_jobs ss)
      in ss\<lparr>ss_assigned_jobs := jobs @ [\<lparr>aj_job_id = job_id, aj_p_diff = p_diff, aj_ntime = ntime\<rparr>]\<rparr>)"

definition get_assigned_job :: "string \<Rightarrow> SessionState \<Rightarrow> AssignedJob option" where
  "get_assigned_job job_id ss = find (\<lambda>j. aj_job_id j = job_id) (ss_assigned_jobs ss)"

definition clear_assigned_jobs :: "SessionState \<Rightarrow> SessionState" where
  "clear_assigned_jobs ss = ss\<lparr>ss_assigned_jobs := []\<rparr>"

definition current_difficulty :: "SessionState \<Rightarrow> f64" where
  "current_difficulty ss = vd_current (ss_vardiff ss)"

subsection \<open>The assigned jobs\<close>

abbreviation assign :: "AssignedJob \<Rightarrow> SessionState \<Rightarrow> SessionState" where
  "assign j \<equiv> record_assigned_job (aj_job_id j) (aj_p_diff j) (aj_ntime j)"

interpretation assigned: fifo_buffer assign ss_assigned_jobs "\<lambda>j. j" MAX_ASSIGNED_JOBS_PER_SESSION "\<lambda>_. True"
proof
  fix ss :: SessionState and j
  assume len: "length (ss_assigned_jobs ss) \<le> MAX_ASSIGNED_JOBS_PER_SESSION"
  then show "ss_assigned_jobs (assign j ss) =
      keep_last MAX_ASSIGNED_JOBS_PER_SESSION (ss_assigned_jobs ss @ [j])"
    by (cases "ss_assigned_jobs ss") (auto simp: record_assigned_job_def keep_last_def Let_def MAX_ASSIGNED_JOBS_PER_SESSION_def)
qed simp

text \<open>C33: a session remembers exactly the 128 most recently assigned jobs. After any number of
  jobs the memory holds the last 128 of them in order, so it never grows beyond that bound and
  evicts only the oldest.\<close>

theorem assigned_jobs_last:
  assumes "length (ss_assigned_jobs ss) \<le> 128"
  shows "ss_assigned_jobs (fold assign js ss) = keep_last 128 (ss_assigned_jobs ss @ js) \<and>
    length (ss_assigned_jobs (fold assign js ss)) \<le> 128"
  using assigned.fold_contents [of ss js] assms by (simp add: MAX_ASSIGNED_JOBS_PER_SESSION_def)

text \<open>Among the remembered jobs a lookup finds the job with the given id when ids are
  distinct; when a job is assigned again under an id that is still remembered, the lookup keeps
  returning the older assignment with its older difficulty.\<close>

theorem reassigned_job_keeps_old:
  assumes "length (ss_assigned_jobs ss) < 128"
  shows "get_assigned_job i (record_assigned_job i d t ss) =
    (case get_assigned_job i ss of
       None \<Rightarrow> Some \<lparr>aj_job_id = i, aj_p_diff = d, aj_ntime = t\<rparr>
     | Some old \<Rightarrow> Some old)"
  using assms by (simp add: get_assigned_job_def record_assigned_job_def MAX_ASSIGNED_JOBS_PER_SESSION_def find_append split: option.splits)

subsection \<open>Worker names\<close>

text \<open>The full name as the accounting service rebuilds it.\<close>

definition full_worker_name :: "string \<Rightarrow> string option \<Rightarrow> string" where
  "full_worker_name address suffix = (case suffix of Some s \<Rightarrow> address @ ''.'' @ s | None \<Rightarrow> address)"

text \<open>Parsing a worker name loses nothing. The parts of an accepted name print back to the
  name, the address is a valid Lotus address without a dot, and a suffix is never empty.\<close>

theorem worker_name_round_trip:
  assumes "parse_worker_name ex input = Inr w"
  shows "full_worker_name (wn_payout_address w) (wn_worker_suffix w) = input \<and>
    x_parse_address ex (wn_payout_address w) \<and> CHR ''.'' \<notin> set (wn_payout_address w) \<and>
    wn_worker_suffix w \<noteq> Some []"
proof -
  obtain a b where s: "split_first (CHR ''.'') input = (a, b)" by fastforce
  then have w: "w = \<lparr>wn_payout_address = a, wn_worker_suffix = b\<rparr>" "x_parse_address ex a" "b \<noteq> Some []"
    using assms by (auto simp: parse_worker_name_def split: if_splits)
  show ?thesis
  proof (cases b)
    case None
    then show ?thesis using split_first_NoneD [of "CHR ''.''" input a] s w by (auto simp: full_worker_name_def)
  next
    case (Some t)
    then show ?thesis using split_first_SomeD [of "CHR ''.''" input a t] s w by (simp add: full_worker_name_def)
  qed
qed

definition sample_externals :: externals where
  "sample_externals =
     \<lparr>x_hex_decode = hex_decode_ref, x_hex_encode = hex_encode_ref,
      x_target_to_difficulty = (\<lambda>_. Some (Fin 4)), x_build_stratum_header = (\<lambda>_. Some []),
      x_header_hash = (\<lambda>_. Some (replicate 32 0)), x_header_meets_difficulty = (\<lambda>_ _. Some True),
      x_parse_address = (\<lambda>a. a \<noteq> []), x_header_height = (\<lambda>bs. Some (int (length bs)))\<rparr>"

theorem worker_name_round_trip_witness:
  "full_worker_name ''addr'' (Some ''rig.1'') = ''addr.rig.1'' \<and> CHR ''.'' \<notin> set ''addr''"
proof -
  have "parse_worker_name sample_externals ''addr.rig.1'' =
      Inr \<lparr>wn_payout_address = ''addr'', wn_worker_suffix = Some ''rig.1''\<rparr>"
    by (simp add: parse_worker_name_def split_first_def sample_externals_def)
  from worker_name_round_trip [OF this] show ?thesis by simp
qed

text \<open>Authorisation requires a subscription and a valid worker name, and nothing else grants
  it: a worker is authorised after a request exactly when it was before, or when it is the
  request's worker, the session is subscribed and the name parses.\<close>

theorem handle_authorize_authorises:
  "w \<in> ss_authorized_workers (snd (handle_authorize ex req ss)) \<longleftrightarrow>
     w \<in> ss_authorized_workers ss \<or>
     ss_is_subscribed ss \<and> w = request_worker req \<and> (\<exists>n. parse_worker_name ex w = Inr n)"
  by (auto simp: handle_authorize_def Let_def split: sum.splits)

definition sample_session :: SessionState where
  "sample_session =
     \<lparr>ss_session_id = ''s'', ss_extranonce1 = ''00000001'', ss_extranonce2_size = 4, ss_is_subscribed = True,
      ss_is_authorized = True, ss_authorized_workers = {''addr.rig''},
      ss_assigned_jobs = [\<lparr>aj_job_id = ''j1'', aj_p_diff = Fin 2, aj_ntime = ''6adc0c6a0000''\<rparr>],
      ss_vardiff = sample_vardiff\<rparr>"

theorem assigned_jobs_last_witness:
  "ss_assigned_jobs (fold assign (replicate 200 \<lparr>aj_job_id = ''j'', aj_p_diff = Fin 2, aj_ntime = ''t''\<rparr>) sample_session) =
     replicate 128 \<lparr>aj_job_id = ''j'', aj_p_diff = Fin 2, aj_ntime = ''t''\<rparr>"
  using assigned_jobs_last [of sample_session "replicate 200 \<lparr>aj_job_id = ''j'', aj_p_diff = Fin 2, aj_ntime = ''t''\<rparr>"]
  by (simp add: sample_session_def keep_last_def)

theorem reassigned_job_keeps_old_witness:
  "map_option aj_p_diff (get_assigned_job ''j1'' (record_assigned_job ''j1'' (Fin 3) ''6adc0c6a0000'' sample_session)) =
     Some (Fin 2)"
  using reassigned_job_keeps_old [of sample_session "''j1''" "Fin 3" "''6adc0c6a0000''"]
  by (simp add: sample_session_def get_assigned_job_def)

end
