(* ===== verification/Accounting.thy ===== *)
theory Accounting
  imports Share_Repository Round_Repository Payout_Plan Session
begin

text \<open>
  AccountingService of src/src/accounting/service.rs: the operations that span several
  repositories. They run against one SQLite connection behind a mutex, so each is a state
  transformer; the operations that wait for the node take its answers as function parameters.
\<close>

subsection \<open>Events\<close>

definition accounting_event :: "string \<Rightarrow> string \<Rightarrow> AccountingEvent" where
  "accounting_event ty status =
     \<lparr>ev_id = 0, ev_event_type = ty, ev_status = status, ev_session_id = None, ev_worker_id = None,
      ev_worker_name = None, ev_payout_address = None, ev_round_id = None, ev_template_id = None,
      ev_template_epoch = None, ev_job_id = None, ev_block_hash = None, ev_height = None,
      ev_payload_json = None\<rparr>"

definition round_event :: "string \<Rightarrow> string \<Rightarrow> int \<Rightarrow> u64 \<Rightarrow> AccountingEvent" where
  "round_event ty status round_id template_id =
     (accounting_event ty status)\<lparr>ev_round_id := Some round_id, ev_template_id := Some template_id\<rparr>"

subsection \<open>Rounds\<close>

definition service_get_or_create_current_round :: "u64 \<Rightarrow> Round dbop" where
  "service_get_or_create_current_round start_template_id =
     bindR (get_or_create_current_round start_template_id) (\<lambda>(round, is_new).
     bindR (if is_new
            then ignoreR (record_event (round_event ''round_opened'' ''open'' (rd_id round) start_template_id))
            else okR ()) (\<lambda>_.
     okR round))"

definition resolve_round_for_template :: "u64 \<Rightarrow> Round dbop" where
  "resolve_round_for_template template_id =
     bindR (resolve_round_row template_id) (\<lambda>(round, is_new).
     bindR (if is_new
            then ignoreR (record_event (round_event ''round_opened'' ''open'' (rd_id round) template_id))
            else okR ()) (\<lambda>_.
     okR round))"

definition close_round :: "int \<Rightarrow> u64 \<Rightarrow> string \<Rightarrow> unit dbop" where
  "close_round i end_template_id status =
     bindR (close_round_row i end_template_id status) (\<lambda>_.
     ignoreR (record_event (round_event ''round_closed'' status i end_template_id)))"

subsection \<open>Shares\<close>

record share_submission =
  sb_payout_address :: string
  sb_worker_suffix :: "string option"
  sb_session_id :: string
  sb_job_id :: string
  sb_template_id :: u64
  sb_template_epoch :: u64
  sb_extranonce1 :: string
  sb_extranonce2 :: string
  sb_ntime_hex :: string
  sb_nonce_hex :: string
  sb_difficulty :: f64
  sb_status :: string
  sb_reject_reason :: "string option"
  sb_low_diff_ok :: bool
  sb_network_target_ok :: bool
  sb_block_hash :: "string option"

definition share_row_of :: "share_submission \<Rightarrow> Worker \<Rightarrow> string \<Rightarrow> Share" where
  "share_row_of b w dedupe_key =
     \<lparr>sh_id = 0, sh_worker_id = wk_id w, sh_session_id = sb_session_id b, sh_job_id = sb_job_id b,
      sh_template_id = sb_template_id b, sh_template_epoch = sb_template_epoch b,
      sh_extranonce1 = sb_extranonce1 b, sh_extranonce2 = sb_extranonce2 b,
      sh_ntime_hex_6b = sb_ntime_hex b, sh_nonce_hex_8b = sb_nonce_hex b,
      sh_difficulty = sb_difficulty b, sh_dedupe_key = dedupe_key\<rparr>"

definition outcome_row_of :: "share_submission \<Rightarrow> Worker \<Rightarrow> int \<Rightarrow> string \<Rightarrow> ShareOutcome" where
  "outcome_row_of b w round_id dedupe_key =
     \<lparr>so_id = 0, so_share_id = 0, so_session_id = sb_session_id b, so_worker_id = wk_id w,
      so_job_id = sb_job_id b, so_round_id = Some round_id, so_dedupe_key = dedupe_key,
      so_status = sb_status b, so_reject_reason = sb_reject_reason b, so_node_result = None,
      so_low_diff_ok = Some (sb_low_diff_ok b), so_network_target_ok = Some (sb_network_target_ok b),
      so_block_hash = sb_block_hash b\<rparr>"

definition share_event_of :: "share_submission \<Rightarrow> Worker \<Rightarrow> int \<Rightarrow> AccountingEvent" where
  "share_event_of b w round_id =
     (accounting_event ''share_outcome'' (sb_status b))
       \<lparr>ev_session_id := Some (sb_session_id b), ev_worker_id := Some (wk_id w),
        ev_worker_name := Some (full_worker_name (wk_payout_address w) (wk_worker_suffix w)),
        ev_payout_address := Some (wk_payout_address w), ev_round_id := Some round_id,
        ev_template_id := Some (sb_template_id b), ev_template_epoch := Some (sb_template_epoch b),
        ev_job_id := Some (sb_job_id b), ev_block_hash := sb_block_hash b\<rparr>"

definition dedupe_key_of :: "share_submission \<Rightarrow> Worker \<Rightarrow> string" where
  "dedupe_key_of b w =
     build_dedupe_key (wk_id w) (sb_template_id b) (sb_template_epoch b) (sb_extranonce2 b)
       (sb_ntime_hex b) (sb_nonce_hex b)"

definition record_share ::
  "share_submission \<Rightarrow> (int option \<times> int option \<times> int option \<times> string) dbop" where
  "record_share b =
     bindR (upsert (sb_payout_address b) (sb_worker_suffix b)) (\<lambda>worker.
     bindR (resolve_round_for_template (sb_template_id b)) (\<lambda>round.
     (let dedupe_key = dedupe_key_of b worker
      in bindR (insert_share_and_outcome_atomic (share_row_of b worker dedupe_key)
                  (outcome_row_of b worker (rd_id round) dedupe_key)) (\<lambda>(share_id, outcome_id, is_new).
         bindR (if is_new \<and> share_id \<noteq> None \<and> outcome_id \<noteq> None
                then bindR (record_event (share_event_of b worker (rd_id round))) (\<lambda>_. okR ())
                else okR ()) (\<lambda>_.
         okR (share_id, outcome_id, Some (rd_id round), dedupe_key))))))"

definition update_share_outcome_node_result :: "string \<Rightarrow> string \<Rightarrow> nat dbop" where
  "update_share_outcome_node_result = update_outcome_node_result"

definition record_found_block ::
  "int \<Rightarrow> string \<Rightarrow> int \<Rightarrow> int option \<Rightarrow> u64 option \<Rightarrow> string option \<Rightarrow> u64 \<Rightarrow> string \<Rightarrow> FoundBlock dbop" where
  "record_found_block round_id block_hash height worker_id template_id persist_source coinbase_value
       network_target_hex =
     bindR (record_found_block_row round_id block_hash height worker_id template_id persist_source
              coinbase_value network_target_hex) (\<lambda>block.
     bindR (ignoreR (record_event
              ((accounting_event ''found_block_observed'' ''confirmed'')
                 \<lparr>ev_worker_id := worker_id, ev_round_id := Some round_id, ev_template_id := template_id,
                  ev_block_hash := Some block_hash, ev_height := Some height\<rparr>))) (\<lambda>_.
     okR block))"

subsection \<open>Payouts\<close>

text \<open>\<^verbatim>\<open>LIKE\<close> of SQLite on bytes: the percent sign matches any run, the underscore one
  character, letters compare without case.\<close>

definition ascii_lower :: "char \<Rightarrow> char" where
  "ascii_lower c = (if 65 \<le> (of_char c :: nat) \<and> of_char c \<le> (90 :: nat) then char_of (of_char c + 32 :: nat) else c)"

fun sql_like :: "string \<Rightarrow> string \<Rightarrow> bool" where
  "sql_like [] [] = True"
| "sql_like [] (c # cs) = False"
| "sql_like (p # ps) [] = (p = CHR ''%'' \<and> sql_like ps [])"
| "sql_like (p # ps) (c # cs) =
     (if p = CHR ''%'' then sql_like ps (c # cs) \<or> sql_like (p # ps) cs
      else (p = CHR ''_'' \<or> ascii_lower p = ascii_lower c) \<and> sql_like ps cs)"

definition found_at_of :: "string \<Rightarrow> db \<Rightarrow> string option" where
  "found_at_of h s =
     map_option snd (find (\<lambda>r. so_block_hash (fst r) = Some h \<and> so_status (fst r) = ''accepted'' \<and>
                            so_network_target_ok (fst r) = Some True) (db_outcomes s))"

definition block_difficulty :: "externals \<Rightarrow> FoundBlock \<Rightarrow> f64" where
  "block_difficulty ex fb =
     (case network_target_hex_to_difficulty ex (fb_network_target_hex fb) of Some d \<Rightarrow> d | None \<Rightarrow> Fin 1)"

definition existing_batches :: "string \<Rightarrow> db \<Rightarrow> nat" where
  "existing_batches h s =
     length (filter (\<lambda>b. case pb_retry_key b of None \<Rightarrow> False | Some k \<Rightarrow> sql_like (h @ ''%'') k) (db_batches s))"

text \<open>One payout row per output, then one snapshot per output and share of its address.\<close>

definition write_payouts :: "int \<Rightarrow> PayoutOutput list \<Rightarrow> unit dbop" where
  "write_payouts batch_id outputs =
     forR outputs (\<lambda>out. bindR (record_payout batch_id (po_worker_id out) (po_payout_address out)
                                (po_amount out) (po_dust_carried_forward out)) (\<lambda>_. okR ()))"

definition snapshots_of :: "int \<Rightarrow> PayoutOutput list \<Rightarrow> PplnsShareEntry list \<Rightarrow> PayoutShareSnapshot list" where
  "snapshots_of batch_id outputs shares =
     [\<lparr>sn_id = 0, sn_batch_id = batch_id, sn_share_id = pe_share_id e,
       sn_share_outcome_id = pe_share_outcome_id e, sn_payout_address = pe_payout_address e,
       sn_work_units = pe_difficulty e, sn_share_created_at = pe_created_at e\<rparr>.
      out \<leftarrow> outputs, e \<leftarrow> shares, pe_payout_address e = po_payout_address out]"

text \<open>The \<^verbatim>\<open>BTreeMap\<close> of the dust per address, in ascending order, the last entry winning.\<close>

fun bt_insert :: "string \<Rightarrow> int \<Rightarrow> (string \<times> int) list \<Rightarrow> (string \<times> int) list" where
  "bt_insert k v [] = [(k, v)]"
| "bt_insert k v ((a, x) # m) =
     (if k = a then (k, v) # m else if k < a then (k, v) # (a, x) # m else (a, x) # bt_insert k v m)"

definition outputs_by_addr :: "PayoutOutput list \<Rightarrow> (string \<times> int) list" where
  "outputs_by_addr outputs =
     fold (\<lambda>out. bt_insert (po_payout_address out) (po_dust_carried_forward out)) outputs []"

definition write_dust :: "PayoutOutput list \<Rightarrow> unit dbop" where
  "write_dust outputs =
     forR (outputs_by_addr outputs) (\<lambda>(addr, dust). if 0 < dust then add_dust_balance addr dust else okR ())"

definition write_batch :: "FoundBlock \<Rightarrow> PayoutPlan \<Rightarrow> PplnsShareEntry list \<Rightarrow> int dbop" where
  "write_batch fb plan shares =
     bindR (create_payout_batch (fb_round_id fb) (pl_gross_reward plan) (pl_pool_fee_amount plan)
              (pl_pool_fee_address plan) (int (length (pl_outputs plan))) (pl_retry_key plan)) (\<lambda>batch.
     bindR (write_payouts (pb_id batch) (pl_outputs plan)) (\<lambda>_.
     bindR (forR (snapshots_of (pb_id batch) (pl_outputs plan) shares) insert_snapshot) (\<lambda>_.
     bindR (write_dust (pl_outputs plan)) (\<lambda>_.
     bindR (record_event
              ((accounting_event ''payout_batch_created'' ''pending'')
                 \<lparr>ev_round_id := Some (fb_round_id fb), ev_block_hash := Some (fb_block_hash fb),
                  ev_height := Some (fb_height fb)\<rparr>)) (\<lambda>_.
     okR (pb_id batch))))))"

definition plan_for_block ::
  "externals \<Rightarrow> row_order \<Rightarrow> FoundBlock \<Rightarrow> u32 \<Rightarrow> string option \<Rightarrow> int \<Rightarrow> f64 \<Rightarrow> string \<Rightarrow> db \<Rightarrow>
   PayoutPlan \<times> PplnsShareEntry list" where
  "plan_for_block ex order_desc fb fee_bps fee_address min_payout_sat n_multiplier found_at s =
     (let network_difficulty = block_difficulty ex fb;
          shares = calculate_pplns_window order_desc found_at n_multiplier network_difficulty s
      in (build_payout_plan (fb_round_id fb) (fb_height fb) (fb_block_hash fb) network_difficulty
            (reward_from_coinbase (fb_coinbase_value fb)) fee_bps fee_address min_payout_sat (db_dust s) shares,
          shares))"

definition create_payout_for_found_block ::
  "externals \<Rightarrow> row_order \<Rightarrow> FoundBlock \<Rightarrow> u32 \<Rightarrow> string option \<Rightarrow> int \<Rightarrow> f64 \<Rightarrow> int dbop" where
  "create_payout_for_found_block ex order_desc fb fee_bps fee_address min_payout_sat n_multiplier s =
     (case found_at_of (fb_block_hash fb) s of
        None \<Rightarrow> (Inl (Bail ''no accepted share_outcome with network_target_ok=1''), s)
      | Some found_at \<Rightarrow>
          (let (plan, shares) = plan_for_block ex order_desc fb fee_bps fee_address min_payout_sat n_multiplier found_at s
           in if 0 < existing_batches (fb_block_hash fb) s
              then (Inl (Bail ''payout batch already exists for block hash''), s)
              else transaction (write_batch fb plan shares) s))"

definition replace_payouts :: "int \<Rightarrow> PayoutPlan \<Rightarrow> PplnsShareEntry list \<Rightarrow> PayoutOutput list dbop" where
  "replace_payouts batch_id plan shares =
     bindR (delete_payouts_by_batch batch_id) (\<lambda>_.
     bindR (delete_snapshots_by_batch batch_id) (\<lambda>_.
     bindR (write_payouts batch_id (pl_outputs plan)) (\<lambda>_.
     bindR (forR (snapshots_of batch_id (pl_outputs plan) shares) insert_snapshot) (\<lambda>_.
     bindR (write_dust (pl_outputs plan)) (\<lambda>_.
     okR (pl_outputs plan))))))"

definition rebuild_payout_plan_for_batch ::
  "externals \<Rightarrow> row_order \<Rightarrow> int \<Rightarrow> u32 \<Rightarrow> string option \<Rightarrow> int \<Rightarrow> f64 \<Rightarrow> PayoutOutput list dbop" where
  "rebuild_payout_plan_for_batch ex order_desc batch_id fee_bps fee_address min_payout_sat n_multiplier s =
     (case get_batch_by_id batch_id s of
        None \<Rightarrow> (Inl (Bail ''batch not found''), s)
      | Some batch \<Rightarrow>
          if pb_status batch \<noteq> ''pending'' then (Inl (Bail ''only pending batches can be rebuilt''), s)
          else case block_get_by_round_id (pb_round_id batch) s of
            None \<Rightarrow> (Inl (Bail ''no found_block for round''), s)
          | Some fb \<Rightarrow>
              (case found_at_of (fb_block_hash fb) s of
                 None \<Rightarrow> (Inl (Bail ''no accepted share_outcome with network_target_ok=1''), s)
               | Some found_at \<Rightarrow>
                   (let (plan, shares) = plan_for_block ex order_desc fb fee_bps fee_address min_payout_sat n_multiplier found_at s
                    in if shares = [] then (Inl (Bail ''PPLNS window is empty''), s)
                       else if pl_outputs plan = [] then (Inl (Bail ''rebuild produced empty outputs''), s)
                       else transaction (replace_payouts batch_id plan shares) s)))"

subsection \<open>What the operations leave alone\<close>

lemma record_event_frame [frame_intros]:
  "frame workers_of (record_event e)" "frame shares_of (record_event e)" "frame rounds_of (record_event e)"
  "frame blocks_of (record_event e)" "frame batches_of (record_event e)" "frame db_dust (record_event e)"
  "frame db_payouts (record_event e)"
  by (simp_all add: frame_def record_event_def Let_def)

lemma resolve_round_row_frame [frame_intros]:
  "frame workers_of (resolve_round_row t)" "frame shares_of (resolve_round_row t)"
  "frame blocks_of (resolve_round_row t)" "frame batches_of (resolve_round_row t)"
  by (simp_all add: frame_def resolve_round_row_def get_or_create_current_round_def Let_def split: option.splits)

lemma insert_atomic_frame [frame_intros]:
  "frame workers_of (insert_share_and_outcome_atomic sh oc)"
  "frame rounds_of (insert_share_and_outcome_atomic sh oc)"
  "frame blocks_of (insert_share_and_outcome_atomic sh oc)"
  "frame batches_of (insert_share_and_outcome_atomic sh oc)"
  "frame db_events (insert_share_and_outcome_atomic sh oc)"
  unfolding insert_share_and_outcome_atomic_def
  by (intro frame_intros; simp add: frame_def put_share_def put_outcome_def Let_def split: option.splits)+

lemma resolve_round_frame [frame_intros]:
  "frame workers_of (resolve_round_for_template t)" "frame shares_of (resolve_round_for_template t)"
  "frame blocks_of (resolve_round_for_template t)" "frame batches_of (resolve_round_for_template t)"
  unfolding resolve_round_for_template_def by (intro frame_intros)+

lemma record_share_cases:
  assumes "record_share b s = (Inr r, t)"
  obtains w s1 rd s2 i j new s3 where "upsert (sb_payout_address b) (sb_worker_suffix b) s = (Inr w, s1)"
    "resolve_round_for_template (sb_template_id b) s1 = (Inr rd, s2)"
    "insert_share_and_outcome_atomic (share_row_of b w (dedupe_key_of b w))
       (outcome_row_of b w (rd_id rd) (dedupe_key_of b w)) s2 = (Inr (Some i, Some j, new), s3)"
    "r = (Some i, Some j, Some (rd_id rd), dedupe_key_of b w)"
    "if new then \<exists>k. record_event (share_event_of b w (rd_id rd)) s3 = (Inr k, t) else t = s3"
proof -
  obtain w s1 rd s2 si oi new s3 where
    1: "upsert (sb_payout_address b) (sb_worker_suffix b) s = (Inr w, s1)"
      "resolve_round_for_template (sb_template_id b) s1 = (Inr rd, s2)"
      "insert_share_and_outcome_atomic (share_row_of b w (dedupe_key_of b w))
         (outcome_row_of b w (rd_id rd) (dedupe_key_of b w)) s2 = (Inr (si, oi, new), s3)"
    and 2: "bindR (if new \<and> si \<noteq> None \<and> oi \<noteq> None
                then bindR (record_event (share_event_of b w (rd_id rd))) (\<lambda>_. okR ())
                else okR ()) (\<lambda>_. okR (si, oi, Some (rd_id rd), dedupe_key_of b w)) s3 = (Inr r, t)"
    using assms by (auto simp: record_share_def bindR_Inr Let_def)
  obtain i j where ij: "si = Some i" "oi = Some j" using insert_atomic_cases [OF 1(3)] by (metis prod.inject)
  have "r = (Some i, Some j, Some (rd_id rd), dedupe_key_of b w)"
    "if new then \<exists>k. record_event (share_event_of b w (rd_id rd)) s3 = (Inr k, t) else t = s3"
    using 2 ij by (auto simp: bindR_Inr okR_def split: if_splits)
  then show thesis using that 1 ij by blast
qed

subsection \<open>A resubmitted share is recorded once\<close>

lemma upsert_found:
  assumes "upsert a (Some y) s = (Inr w, s1)" "y \<noteq> []" "db_workers t = db_workers s1"
  shows "upsert a (Some y) t = (Inr w, t\<lparr>db_workers_seq := db_workers_seq t + 1\<rparr>)"
  using assms
  by (auto simp: upsert_def Let_def suffix_value_def worker_conflict_def find_append split: option.splits)

lemma resolve_round_row_again:
  assumes "resolve_round_row x s = (Inr (r, new), u)"
  shows "\<exists>r'. \<forall>v. db_rounds v = db_rounds u \<longrightarrow> resolve_round_row x v = (Inr (r', False), v)"
proof -
  have x: "u64_to_sql x" using assms by (auto simp: resolve_round_row_def split: if_splits)
  have "filter (round_covers x) (db_rounds u) \<noteq> [] \<or> find (\<lambda>r. rd_status r = ''open'') (db_rounds u) \<noteq> None"
    using assms
  proof (cases rule: resolve_round_row_cases)
    case covered then show ?thesis by (auto simp: filter_empty_conv)
  next
    case current then show ?thesis by (auto simp: find_NoneD)
  next
    case created then show ?thesis by (simp add: find_NoneD)
  qed
  then show ?thesis
    using x by (cases "latest_start (filter (round_covers x) (db_rounds u))")
      (auto simp: resolve_round_row_def get_or_create_current_round_def)
qed

lemma resolve_round_again:
  assumes "resolve_round_for_template x s = (Inr rd, u)" "db_rounds v = db_rounds u"
  shows "\<exists>rd'. resolve_round_for_template x v = (Inr rd', v)"
proof -
  let ?ev = "\<lambda>r new. if new then ignoreR (record_event (round_event ''round_opened'' ''open'' (rd_id r) x)) else okR ()"
  obtain p s' where p: "resolve_round_row x s = (Inr p, s')"
      "(case p of (r, new) \<Rightarrow> bindR (?ev r new) (\<lambda>_. okR r)) s' = (Inr rd, u)"
    using assms(1) unfolding resolve_round_for_template_def by (rule bindR_InrE)
  obtain r new where rn: "p = (r, new)" by fastforce
  have "frame rounds_of (bindR (?ev r new) (\<lambda>_. okR r))" by (intro frame_intros)
  then have "rounds_of u = rounds_of s'" by (rule frameD) (use p(2) rn in simp)
  then obtain r' where "resolve_round_row x v = (Inr (r', False), v)"
    using resolve_round_row_again [OF p(1) [unfolded rn]] assms(2) by auto
  then show ?thesis by (simp add: resolve_round_for_template_def bindR_def okR_def)
qed

text \<open>Two submissions of the same work: same address and suffix, template, extranonce2, time and
  nonce; session, difficulty and verdict may differ.\<close>

definition same_work :: "share_submission \<Rightarrow> share_submission \<Rightarrow> bool" where
  "same_work b c \<longleftrightarrow>
     sb_payout_address b = sb_payout_address c \<and> sb_worker_suffix b = sb_worker_suffix c \<and>
     sb_template_id b = sb_template_id c \<and> sb_template_epoch b = sb_template_epoch c \<and>
     sb_extranonce2 b = sb_extranonce2 c \<and> sb_ntime_hex b = sb_ntime_hex c \<and> sb_nonce_hex b = sb_nonce_hex c"


definition sample_submission :: share_submission where
  "sample_submission =
     \<lparr>sb_payout_address = ''a'', sb_worker_suffix = Some ''w'', sb_session_id = ''s'', sb_job_id = ''j'',
      sb_template_id = 1, sb_template_epoch = 2, sb_extranonce1 = ''00'', sb_extranonce2 = ''01'',
      sb_ntime_hex = ''02'', sb_nonce_hex = ''03'', sb_difficulty = Fin 1, sb_status = ''accepted'',
      sb_reject_reason = None, sb_low_diff_ok = True, sb_network_target_ok = False, sb_block_hash = None\<rparr>"

definition sample_first :: "(db_error + (int option \<times> int option \<times> int option \<times> string)) \<times> db" where
  "sample_first = record_share sample_submission (init_schema ''0'')"

definition sample_again :: "(db_error + (int option \<times> int option \<times> int option \<times> string)) \<times> db" where
  "sample_again = record_share (sample_submission\<lparr>sb_session_id := ''t''\<rparr>) (snd sample_first)"

lemmas sample_run_defs = sample_first_def sample_again_def sample_submission_def record_share_def
  resolve_round_for_template_def resolve_round_row_def get_or_create_current_round_def u64_to_sql_def
  insert_share_and_outcome_atomic_def transaction_def put_share_def put_outcome_def share_row_of_def
  outcome_row_of_def share_event_of_def round_event_def accounting_event_def record_event_def
  dedupe_key_of_def build_dedupe_key_def full_worker_name_def ignoreR_def bindR_def okR_def upsert_def
  init_schema_def Let_def suffix_value_def worker_conflict_def round_covers_def opt_u64_to_sql_def worker_get_by_id_def
  round_get_by_id_def show_int_def show_nat.simps digit_char_def char_of_def bit_0

lemma sample_first_ok: "fst sample_first = Inr (Some 1, Some 1, Some 1, ''1:1:2:01:02:03'')"
  by (simp add: sample_run_defs)

lemma sample_again_ok: "fst sample_again = Inr (Some 1, Some 1, Some 1, ''1:1:2:01:02:03'')"
  by (simp add: sample_run_defs)


end
