(* ===== verification/Db_Typing.thy ===== *)
theory Db_Typing
  imports Accounting
begin

text \<open>
  The schema of src/src/accounting/schema.rs as a typing of the database: for each table what its
  columns may hold, which keys are unique and which rows its foreign keys point to. SQLite enforces the
  keys and the NOT NULL columns; that the status columns hold the values their comments list, and
  that they agree with the other columns of the row, is up to the code.
\<close>

subsection \<open>Rows\<close>

abbreviation worker_ids :: "db \<Rightarrow> int set" where "worker_ids s \<equiv> wk_id ` set (db_workers s)"
abbreviation share_ids :: "db \<Rightarrow> int set" where "share_ids s \<equiv> (\<lambda>r. sh_id (fst r)) ` set (db_shares s)"
abbreviation outcome_ids :: "db \<Rightarrow> int set" where "outcome_ids s \<equiv> (\<lambda>r. so_id (fst r)) ` set (db_outcomes s)"
abbreviation round_ids :: "db \<Rightarrow> int set" where "round_ids s \<equiv> rd_id ` set (db_rounds s)"
abbreviation batch_ids :: "db \<Rightarrow> int set" where "batch_ids s \<equiv> pb_id ` set (db_batches s)"

definition worker_typed :: "Worker \<Rightarrow> bool" where
  "worker_typed w \<longleftrightarrow> wk_worker_suffix w \<noteq> Some []"

definition share_typed :: "int set \<Rightarrow> Share \<Rightarrow> bool" where
  "share_typed ws sh \<longleftrightarrow>
     sh_worker_id sh \<in> ws \<and> u64_to_sql (sh_template_id sh) \<and> u64_to_sql (sh_template_epoch sh) \<and>
     sh_difficulty sh \<noteq> NaN"

definition outcome_statuses :: "string set" where
  "outcome_statuses = {''accepted'', ''rejected''}"

definition outcome_typed :: "int set \<Rightarrow> int set \<Rightarrow> ShareOutcome \<Rightarrow> bool" where
  "outcome_typed ss ws oc \<longleftrightarrow>
     so_share_id oc \<in> ss \<and> so_worker_id oc \<in> ws \<and> so_status oc \<in> outcome_statuses"

definition round_typed :: "Round \<Rightarrow> bool" where
  "round_typed r \<longleftrightarrow>
     u64_to_sql (rd_start_template_id r) \<and> opt_u64_to_sql (rd_end_template_id r) \<and>
     rd_status r \<in> {''open'', ''found'', ''orphaned''} \<and> (rd_end_template_id r = None \<longleftrightarrow> rd_status r = ''open'')"

definition event_typed :: "AccountingEvent \<Rightarrow> bool" where
  "event_typed e \<longleftrightarrow> opt_u64_to_sql (ev_template_id e) \<and> opt_u64_to_sql (ev_template_epoch e)"

definition block_typed :: "int set \<Rightarrow> int set \<Rightarrow> FoundBlock \<Rightarrow> bool" where
  "block_typed rs ws b \<longleftrightarrow>
     fb_round_id b \<in> rs \<and> (case fb_worker_id b of None \<Rightarrow> True | Some w \<Rightarrow> w \<in> ws) \<and>
     u64_to_sql (fb_coinbase_value b) \<and> opt_u64_to_sql (fb_template_id b) \<and>
     fb_status b \<in> {''immature'', ''matured'', ''paid'', ''orphaned''} \<and>
     (fb_status b = ''orphaned'' \<longrightarrow> fb_orphan_reason b \<noteq> None) \<and>
     (fb_status b = ''matured'' \<longrightarrow> fb_matured_at b \<noteq> None)"

definition batch_typed :: "int set \<Rightarrow> PayoutBatch \<Rightarrow> bool" where
  "batch_typed rs b \<longleftrightarrow>
     pb_round_id b \<in> rs \<and> pb_status b \<in> {''pending'', ''submitted'', ''confirmed''} \<and>
     pb_retry_key b \<noteq> None \<and> (pb_status b = ''submitted'' \<longrightarrow> pb_submitted_txid b \<noteq> None)"

definition payout_typed :: "int set \<Rightarrow> int set \<Rightarrow> Payout \<Rightarrow> bool" where
  "payout_typed bs ws p \<longleftrightarrow> py_batch_id p \<in> bs \<and> py_worker_id p \<in> ws"

definition snapshot_typed :: "int set \<Rightarrow> int set \<Rightarrow> int set \<Rightarrow> PayoutShareSnapshot \<Rightarrow> bool" where
  "snapshot_typed bs ss os n \<longleftrightarrow>
     sn_batch_id n \<in> bs \<and> sn_share_id n \<in> ss \<and> sn_share_outcome_id n \<in> os \<and> sn_work_units n \<noteq> NaN"

subsection \<open>Tables\<close>

text \<open>A table with an AUTOINCREMENT key: its ids are positive, distinct and used up, its rows typed.\<close>

definition table_typed :: "('r \<Rightarrow> int) \<Rightarrow> ('r \<Rightarrow> bool) \<Rightarrow> 'r list \<Rightarrow> int \<Rightarrow> bool" where
  "table_typed rid ty rows n \<longleftrightarrow>
     0 \<le> n \<and> table_wf rid rows n \<and> list_all (\<lambda>r. 0 < rid r) rows \<and> list_all ty rows"

definition logs_typed :: "db \<Rightarrow> bool" where
  "logs_typed s \<longleftrightarrow>
     table_typed ev_id event_typed (db_events s) (db_events_seq s) \<and>
     table_typed ae_id (\<lambda>_. True) (db_auth_events s) (db_auth_events_seq s)"

definition shares_typed :: "db \<Rightarrow> bool" where
  "shares_typed s \<longleftrightarrow>
     table_typed wk_id worker_typed (db_workers s) (db_workers_seq s) \<and>
     table_typed (\<lambda>r. sh_id (fst r)) (\<lambda>r. share_typed (worker_ids s) (fst r)) (db_shares s) (db_shares_seq s) \<and>
     distinct (map (\<lambda>r. sh_dedupe_key (fst r)) (db_shares s)) \<and>
     table_typed (\<lambda>r. so_id (fst r)) (\<lambda>r. outcome_typed (share_ids s) (worker_ids s) (fst r))
       (db_outcomes s) (db_outcomes_seq s) \<and>
     distinct (map (\<lambda>r. so_dedupe_key (fst r)) (db_outcomes s))"

definition rounds_typed :: "db \<Rightarrow> bool" where
  "rounds_typed s \<longleftrightarrow>
     table_typed rd_id round_typed (db_rounds s) (db_rounds_seq s) \<and>
     table_typed fb_id (block_typed (round_ids s) (worker_ids s)) (db_found_blocks s) (db_found_blocks_seq s) \<and>
     distinct (map fb_block_hash (db_found_blocks s))"

definition payouts_typed :: "db \<Rightarrow> bool" where
  "payouts_typed s \<longleftrightarrow>
     table_typed pb_id (batch_typed (round_ids s)) (db_batches s) (db_batches_seq s) \<and>
     distinct (map pb_retry_key (db_batches s)) \<and>
     table_typed py_id (payout_typed (batch_ids s) (worker_ids s)) (db_payouts s) (db_payouts_seq s) \<and>
     table_typed sn_id (snapshot_typed (batch_ids s) (share_ids s) (outcome_ids s))
       (db_snapshots s) (db_snapshots_seq s) \<and>
     distinct (map fst (db_dust s))"

definition db_typed :: "db \<Rightarrow> bool" where
  "db_typed s \<longleftrightarrow> logs_typed s \<and> shares_typed s \<and> rounds_typed s \<and> payouts_typed s"

subsection \<open>Tables under inserts, updates and deletes\<close>

named_theorems typed_intros \<open>tables that stay typed\<close>

lemma table_typed_Nil [simp]: "table_typed rid ty [] n \<longleftrightarrow> 0 \<le> n"
  by (simp add: table_typed_def)

lemma table_typed_snoc [typed_intros]:
  "table_typed rid ty rows n \<Longrightarrow> rid r = n + 1 \<Longrightarrow> ty r \<Longrightarrow> table_typed rid ty (rows @ [r]) (n + 1)"
  by (simp add: table_typed_def table_wf_snoc)

lemma table_typed_skip [typed_intros]: "table_typed rid ty rows n \<Longrightarrow> table_typed rid ty rows (n + 1)"
  by (simp add: table_typed_def table_wf_skip)

lemma table_typed_mono:
  "table_typed rid ty rows n \<Longrightarrow> (\<And>r. ty r \<Longrightarrow> ty' r) \<Longrightarrow> table_typed rid ty' rows n"
  by (auto simp: table_typed_def list_all_iff)

lemma table_typed_update:
  assumes "table_typed rid ty rows n" "\<And>r. rid (f r) = rid r" "\<And>r. ty r \<Longrightarrow> ty (f r)"
  shows "table_typed rid ty (update_where P f rows) n"
  using assms table_wf_update_where [of rid rows n f P] by (auto simp: table_typed_def list_all_iff update_where_def)

lemma table_typed_filter: "table_typed rid ty rows n \<Longrightarrow> table_typed rid ty (filter P rows) n"
  by (auto simp: table_typed_def list_all_iff table_wf_filter)

lemma image_update_where [simp]: "(\<And>r. g (f r) = g r) \<Longrightarrow> g ` set (update_where P f rows) = g ` set rows"
  using map_update_where [of g f P rows] by (metis set_map)

text \<open>A row stays typed when the tables it points to grow.\<close>

lemma row_grows:
  "share_typed ws sh \<Longrightarrow> share_typed (insert w ws) sh"
  "outcome_typed ss ws oc \<Longrightarrow> outcome_typed (insert i ss) ws oc"
  "outcome_typed ss ws oc \<Longrightarrow> outcome_typed ss (insert w ws) oc"
  "block_typed rs ws b \<Longrightarrow> block_typed (insert r rs) ws b"
  "block_typed rs ws b \<Longrightarrow> block_typed rs (insert w ws) b"
  "batch_typed rs pb \<Longrightarrow> batch_typed (insert r rs) pb"
  "payout_typed bs ws p \<Longrightarrow> payout_typed (insert i bs) ws p"
  "payout_typed bs ws p \<Longrightarrow> payout_typed bs (insert w ws) p"
  "snapshot_typed bs ss os n \<Longrightarrow> snapshot_typed (insert i bs) ss os n"
  "snapshot_typed bs ss os n \<Longrightarrow> snapshot_typed bs (insert i ss) os n"
  "snapshot_typed bs ss os n \<Longrightarrow> snapshot_typed bs ss (insert i os) n"
  by (auto simp: share_typed_def outcome_typed_def block_typed_def batch_typed_def payout_typed_def
      snapshot_typed_def split: option.split)

lemmas table_grows [typed_intros] = row_grows [THEN table_typed_mono [rotated]]

lemmas db_typed_defs = db_typed_def logs_typed_def shares_typed_def rounds_typed_def payouts_typed_def

lemma db_typed_init: "db_typed (init_schema now)"
  by (simp add: db_typed_defs init_schema_def)

subsection \<open>Every statement keeps the typing\<close>

lemma find_idD: "find (\<lambda>x. rid x = i) rows = Some y \<Longrightarrow> i \<in> rid ` set rows"
  by (auto dest: find_SomeD)

lemma find_unused: "find (\<lambda>x. key x = v) rows = None \<Longrightarrow> \<forall>x\<in>set rows. key x \<noteq> v"
  by (auto simp: find_None_iff)

lemma upsert_typed [keeps_intros]: "keeps db_typed (upsert a x)"
proof -
  have "worker_typed \<lparr>wk_id = i, wk_payout_address = a, wk_worker_suffix = suffix_value x\<rparr>" for i
    by (simp add: worker_typed_def suffix_value_def split: option.split)
  then show ?thesis
    unfolding keeps_def upsert_def Let_def
    by (auto simp: db_typed_defs intro: typed_intros split: option.splits)
qed

lemma log_typed [keeps_intros]: "keeps db_typed (record_event e)" "keeps db_typed (insert_authorization_event ae)"
proof -
  have "event_typed (e\<lparr>ev_id := i\<rparr>) = event_typed e" for i by (simp add: event_typed_def)
  then show "keeps db_typed (record_event e)"
    unfolding keeps_def record_event_def Let_def event_typed_def [symmetric]
    by (auto simp: db_typed_defs intro: typed_intros)
  show "keeps db_typed (insert_authorization_event ae)"
    unfolding keeps_def insert_authorization_event_def Let_def by (auto simp: db_typed_defs intro: typed_intros)
qed

lemma current_round_typed [keeps_intros]: "keeps db_typed (get_or_create_current_round t)"
proof -
  have "round_typed \<lparr>rd_id = i, rd_start_template_id = t, rd_end_template_id = None, rd_status = ''open'',
      rd_found_block_hash = None\<rparr>" if "u64_to_sql t" for i
    using that by (simp add: round_typed_def opt_u64_to_sql_def)
  then show ?thesis
    unfolding keeps_def get_or_create_current_round_def Let_def
    by (auto simp: db_typed_defs intro: typed_intros split: option.splits)
qed

lemma resolve_round_typed [keeps_intros]: "keeps db_typed (resolve_round_row t)"
  using current_round_typed [of t] by (simp add: keeps_def resolve_round_row_def split: option.splits)

lemma close_round_typed: "status \<in> {''found'', ''orphaned''} \<Longrightarrow> keeps db_typed (close_round_row i e status)"
  unfolding keeps_def close_round_row_def set_round_status_def
  by (auto simp: db_typed_defs round_typed_def opt_u64_to_sql_def intro!: table_typed_update)

lemma put_share_typed [keeps_intros]: "keeps db_typed (put_share sh)"
proof -
  have "share_typed (worker_ids s) (sh\<lparr>sh_id := i\<rparr>)"
    if "u64_to_sql (sh_template_id sh)" "u64_to_sql (sh_template_epoch sh)" "sh_difficulty sh \<noteq> NaN"
      "worker_get_by_id (sh_worker_id sh) s \<noteq> None" for s i
    using that by (auto simp: share_typed_def worker_get_by_id_def dest: find_idD)
  then show ?thesis
    unfolding keeps_def put_share_def Let_def
    by (auto simp: db_typed_defs intro: typed_intros dest!: find_unused split: option.splits)
qed

lemma put_outcome_typed [keeps_intros]: "so_status oc \<in> outcome_statuses \<Longrightarrow> keeps db_typed (put_outcome oc)"
proof -
  assume st: "so_status oc \<in> outcome_statuses"
  have "outcome_typed (share_ids s) (worker_ids s) (oc\<lparr>so_id := i\<rparr>)"
    if "find (\<lambda>r. sh_id (fst r) = so_share_id oc) (db_shares s) \<noteq> None" "worker_get_by_id (so_worker_id oc) s \<noteq> None" for s i
    using that st by (auto simp: outcome_typed_def worker_get_by_id_def dest: find_idD)
  then show ?thesis
    unfolding keeps_def put_outcome_def Let_def
    by (auto simp: db_typed_defs intro: typed_intros dest!: find_unused split: option.splits)
qed

lemma insert_share_typed:
  "so_status oc \<in> outcome_statuses \<Longrightarrow> keeps db_typed (insert_share_and_outcome_atomic sh oc)"
  unfolding insert_share_and_outcome_atomic_def by (auto intro!: keeps_intros split: prod.splits)

lemma node_result_typed: "keeps db_typed (update_outcome_node_result k r)"
  unfolding keeps_def update_outcome_node_result_def
  by (simp add: db_typed_defs map_update_where, intro allI impI table_typed_update) (simp_all add: outcome_typed_def)

lemma found_block_typed: "keeps db_typed (record_found_block_row r h ht w t p c n)"
proof -
  have "block_typed (round_ids s) (worker_ids s) b"
    if "find (\<lambda>r. rd_id r = fb_round_id b) (db_rounds s) \<noteq> None" "u64_to_sql (fb_coinbase_value b)"
      "case fb_template_id b of None \<Rightarrow> True | Some t \<Rightarrow> u64_to_sql t" "fb_status b = ''immature''"
      "\<not> (case fb_worker_id b of None \<Rightarrow> False | Some w \<Rightarrow> find (\<lambda>x. wk_id x = w) (db_workers s) = None)" for s b
    using that by (auto simp: block_typed_def opt_u64_to_sql_def dest: find_idD split: option.splits)
  then show ?thesis
    unfolding keeps_def record_found_block_row_def Let_def
    by (auto simp: db_typed_defs intro: typed_intros dest!: find_unused)
qed

lemma block_update_typed:
  assumes "\<And>b. fb_id (f b) = fb_id b" "\<And>b. fb_block_hash (f b) = fb_block_hash b"
    and "\<And>rs ws b. block_typed rs ws b \<Longrightarrow> block_typed rs ws (f b)"
  shows "db_typed s \<Longrightarrow> db_typed (update_blocks P f s)"
  using assms by (auto simp: db_typed_defs update_blocks_def map_update_where intro!: table_typed_update)

lemma block_updates_typed:
  "keeps db_typed (mark_orphaned h reason)" "keeps db_typed (un_orphan h)" "keeps db_typed (block_update_status i ''paid'')"
  "keeps db_typed (update_coinbase_txid i txid)" "keeps db_typed (mark_matured i)"
  unfolding keeps_def mark_orphaned_def un_orphan_def block_update_status_def update_coinbase_txid_def mark_matured_def
    modifyR_def snd_conv
  by (intro allI impI block_update_typed; simp add: block_typed_def)+

lemma batch_update_typed:
  assumes "\<And>b. pb_id (f b) = pb_id b" "\<And>b. pb_retry_key (f b) = pb_retry_key b"
    and "\<And>rs b. batch_typed rs b \<Longrightarrow> batch_typed rs (f b)"
  shows "db_typed s \<Longrightarrow> db_typed (s\<lparr>db_batches := update_where P f (db_batches s)\<rparr>)"
  using assms by (auto simp: db_typed_defs map_update_where intro!: table_typed_update)

lemma batch_updates_typed:
  "keeps db_typed (update_batch_status i ''confirmed'')" "keeps db_typed (mark_batch_submitted i txid)"
  unfolding keeps_def update_batch_status_def mark_batch_submitted_def modifyR_def snd_conv
  by (intro allI impI batch_update_typed; simp add: batch_typed_def)+

lemma create_batch_typed [keeps_intros]: "keeps db_typed (create_payout_batch r ta fa fad mc k)"
proof -
  have "batch_typed (round_ids s) b"
    if "find (\<lambda>r. rd_id r = pb_round_id b) (db_rounds s) \<noteq> None" "pb_status b = ''pending''" "pb_retry_key b \<noteq> None" for s b
    using that by (auto simp: batch_typed_def dest: find_idD)
  then show ?thesis
    unfolding keeps_def create_payout_batch_def Let_def
    by (auto simp: db_typed_defs intro: typed_intros dest!: find_unused)
qed

lemma payout_typed_keeps [keeps_intros]: "keeps db_typed (record_payout b w a m d)"
proof -
  have "payout_typed (batch_ids s) (worker_ids s) p"
    if "find (\<lambda>b. pb_id b = py_batch_id p) (db_batches s) \<noteq> None" "find (\<lambda>w. wk_id w = py_worker_id p) (db_workers s) \<noteq> None" for s p
    using that by (auto simp: payout_typed_def dest: find_idD)
  then show ?thesis
    unfolding keeps_def record_payout_def Let_def by (auto simp: db_typed_defs intro: typed_intros)
qed

lemma snapshot_typed_keeps [keeps_intros]: "keeps db_typed (insert_snapshot sn)"
proof -
  have "snapshot_typed (batch_ids s) (share_ids s) (outcome_ids s) (sn\<lparr>sn_id := i\<rparr>)"
    if "find (\<lambda>b. pb_id b = sn_batch_id sn) (db_batches s) \<noteq> None" "find (\<lambda>r. sh_id (fst r) = sn_share_id sn) (db_shares s) \<noteq> None"
      "find (\<lambda>r. so_id (fst r) = sn_share_outcome_id sn) (db_outcomes s) \<noteq> None" "sn_work_units sn \<noteq> NaN" for s i
    using that by (auto simp: snapshot_typed_def dest: find_idD)
  then show ?thesis
    unfolding keeps_def insert_snapshot_def Let_def by (auto simp: db_typed_defs intro: typed_intros)
qed

lemma upsert_dust_addresses: "fst ` set (upsert_dust a x f ds) = insert a (fst ` set ds)"
  by (induction a x f ds rule: upsert_dust.induct) (simp_all add: insert_commute)

lemma upsert_dust_distinct: "distinct (map fst ds) \<Longrightarrow> distinct (map fst (upsert_dust a x f ds))"
  by (induction a x f ds rule: upsert_dust.induct) (simp_all add: upsert_dust_addresses, blast)

lemma dust_typed [keeps_intros]: "keeps db_typed (add_dust_balance a d)"
  unfolding keeps_def add_dust_balance_def modifyR_def by (simp add: db_typed_defs upsert_dust_distinct)

lemma delete_typed [keeps_intros]: "keeps db_typed (delete_payouts_by_batch i)" "keeps db_typed (delete_snapshots_by_batch i)"
  unfolding keeps_def delete_payouts_by_batch_def delete_snapshots_by_batch_def modifyR_def
  by (auto simp: db_typed_defs intro: table_typed_filter)

lemma payout_writes_typed [keeps_intros]: "keeps db_typed (write_payouts b outs)" "keeps db_typed (write_dust outs)"
  unfolding write_payouts_def write_dust_def by (auto intro!: keeps_intros split: prod.splits)

lemma create_payout_typed: "keeps db_typed (create_payout_for_found_block ex od fb fee_bps fee_address min_sat n)"
proof -
  have "keeps db_typed (transaction (write_batch fb plan shares))" for plan shares
    unfolding write_batch_def by (intro keeps_intros)
  then show ?thesis by (simp add: keeps_def create_payout_for_found_block_def split: option.splits prod.splits)
qed

lemma replace_typed: "keeps db_typed (replace_payouts batch_id plan shares)"
  unfolding replace_payouts_def by (intro keeps_intros)

end
