(* ===== verification/Locked_Steps.thy ===== *)
theory Locked_Steps
  imports Db_Typing
begin

text \<open>
  The tasks of the server share one SQLite connection behind a mutex. \<open>locked_step\<close> has one rule per
  section of code that runs under the lock, with arbitrary arguments but for the status literals the
  code writes: the state of the database in
  any interleaving of any number of tasks is reached by a sequence of these steps. Each operation
  of the service is such a sequence (\<open>via locked_step\<close>), and what holds of every step holds of
  every interleaving.
\<close>

inductive locked_step :: "db \<Rightarrow> db \<Rightarrow> bool" where
  clock: "locked_step s (s\<lparr>db_now := now\<rparr>)"
| upsert: "locked_step s (snd (upsert address sfx s))"
| current_round: "locked_step s (snd (get_or_create_current_round start s))"
| resolve_round: "locked_step s (snd (resolve_round_row template_id s))"
| close_round: "status \<in> {''found'', ''orphaned''} \<Longrightarrow> locked_step s (snd (close_round_row i end_template_id status s))"
| insert_share: "so_dedupe_key oc = sh_dedupe_key sh \<Longrightarrow> so_status oc \<in> outcome_statuses \<Longrightarrow>
    locked_step s (snd (insert_share_and_outcome_atomic sh oc s))"
| node_result: "locked_step s (snd (update_outcome_node_result key result s))"
| event: "locked_step s (snd (record_event e s))"
| auth_event: "locked_step s (snd (insert_authorization_event ae s))"
| found_block: "locked_step s (snd (record_found_block_row round_id hash height w t source value target s))"
| orphan: "locked_step s (snd (mark_orphaned hash reason s))"
| un_orphan: "locked_step s (snd (un_orphan hash s))"
| block_status: "locked_step s (snd (block_update_status i ''paid'' s))"
| coinbase_txid: "locked_step s (snd (update_coinbase_txid i txid s))"
| mature: "locked_step s (snd (mark_matured i s))"
| create_payout: "locked_step s (snd (create_payout_for_found_block ex od fb fee_bps fee_address min_sat n s))"
| replace_payouts: "locked_step s (snd (transaction (replace_payouts batch_id plan shares) s))"
| batch_status: "locked_step s (snd (update_batch_status i ''confirmed'' s))"
| submit_batch: "locked_step s (snd (mark_batch_submitted i txid s))"

lemmas locked_via [via_intros] =
  via_step [of locked_step, OF locked_step.upsert]
  via_step [of locked_step, OF locked_step.current_round]
  via_step [of locked_step, OF locked_step.resolve_round]
  via_step [of locked_step, OF locked_step.close_round]
  via_step [of locked_step, OF locked_step.insert_share]
  via_step [of locked_step, OF locked_step.node_result]
  via_step [of locked_step, OF locked_step.event]
  via_step [of locked_step, OF locked_step.auth_event]
  via_step [of locked_step, OF locked_step.found_block]
  via_step [of locked_step, OF locked_step.orphan]
  via_step [of locked_step, OF locked_step.un_orphan]
  via_step [of locked_step, OF locked_step.block_status]
  via_step [of locked_step, OF locked_step.coinbase_txid]
  via_step [of locked_step, OF locked_step.mature]
  via_step [of locked_step, OF locked_step.create_payout]
  via_step [of locked_step, OF locked_step.replace_payouts]
  via_step [of locked_step, OF locked_step.batch_status]
  via_step [of locked_step, OF locked_step.submit_batch]

lemma resolve_round_via [via_intros]: "via locked_step (resolve_round_for_template t)"
  unfolding resolve_round_for_template_def by (intro via_intros)

lemma current_round_via [via_intros]: "via locked_step (service_get_or_create_current_round t)"
  unfolding service_get_or_create_current_round_def by (intro via_intros)

lemma close_round_via [via_intros]: "status \<in> {''found'', ''orphaned''} \<Longrightarrow> via locked_step (Accounting.close_round i e status)"
  unfolding close_round_def by (intro via_intros)

lemma record_share_via [via_intros]: "sb_status b \<in> outcome_statuses \<Longrightarrow> via locked_step (record_share b)"
  unfolding record_share_def Let_def
  by (intro via_intros) (simp_all add: share_row_of_def outcome_row_of_def)

lemma node_result_via [via_intros]: "via locked_step (update_share_outcome_node_result k r)"
  unfolding update_share_outcome_node_result_def by (intro via_intros)

lemma record_found_block_via [via_intros]: "via locked_step (record_found_block r h ht w t p c n)"
  unfolding record_found_block_def by (intro via_intros)

lemma rebuild_via [via_intros]:
  "via locked_step (rebuild_payout_plan_for_batch ex od batch_id fee_bps fee_address min_sat n)"
  unfolding via_def rebuild_payout_plan_for_batch_def
  by (auto split: option.splits prod.splits intro: r_into_rtranclp locked_step.replace_payouts)

subsection \<open>What each section leaves alone\<close>

text \<open>A part of the database that does not depend on the tables a section writes is left alone.\<close>

lemma upsert_touches [frame_intros]:
  assumes "\<And>s ws n. g (s\<lparr>db_workers := ws, db_workers_seq := n\<rparr>) = g s"
  shows "frame g (upsert a x)"
proof -
  have "g (s\<lparr>db_workers_seq := n\<rparr>) = g s" for s n using assms [of n "db_workers s" s] by (cases s) simp
  then show ?thesis using assms by (simp add: frame_def upsert_def Let_def split: option.splits)
qed

lemma event_touches [frame_intros]:
  "(\<And>s es n. g (s\<lparr>db_events := es, db_events_seq := n\<rparr>) = g s) \<Longrightarrow> frame g (record_event e)"
  by (simp add: frame_def record_event_def Let_def)

lemma auth_event_touches [frame_intros]:
  "(\<And>s es n. g (s\<lparr>db_auth_events := es, db_auth_events_seq := n\<rparr>) = g s) \<Longrightarrow> frame g (insert_authorization_event ae)"
  by (simp add: frame_def insert_authorization_event_def Let_def)

lemma current_round_touches [frame_intros]:
  "(\<And>s rs n. g (s\<lparr>db_rounds := rs, db_rounds_seq := n\<rparr>) = g s) \<Longrightarrow> frame g (get_or_create_current_round t)"
  by (simp add: frame_def get_or_create_current_round_def Let_def split: option.splits)

lemma resolve_round_touches [frame_intros]:
  "(\<And>s rs n. g (s\<lparr>db_rounds := rs, db_rounds_seq := n\<rparr>) = g s) \<Longrightarrow> frame g (resolve_round_row t)"
  using current_round_touches [of g t] by (simp add: frame_def resolve_round_row_def split: option.splits)

lemma close_round_touches [frame_intros]:
  "(\<And>s rs. g (s\<lparr>db_rounds := rs\<rparr>) = g s) \<Longrightarrow> frame g (close_round_row i e st)"
  by (simp add: frame_def close_round_row_def set_round_status_def)

lemma put_share_touches [frame_intros]:
  assumes "\<And>s ss n. g (s\<lparr>db_shares := ss, db_shares_seq := n\<rparr>) = g s"
  shows "frame g (put_share sh)"
proof -
  have "g (s\<lparr>db_shares_seq := n\<rparr>) = g s" for s n using assms [of n "db_shares s" s] by (cases s) simp
  then show ?thesis using assms by (simp add: frame_def put_share_def Let_def split: option.splits)
qed

lemma put_outcome_touches [frame_intros]:
  assumes "\<And>s os n. g (s\<lparr>db_outcomes := os, db_outcomes_seq := n\<rparr>) = g s"
  shows "frame g (put_outcome oc)"
proof -
  have "g (s\<lparr>db_outcomes_seq := n\<rparr>) = g s" for s n using assms [of n "db_outcomes s" s] by (cases s) simp
  then show ?thesis using assms by (simp add: frame_def put_outcome_def Let_def split: option.splits)
qed

lemma insert_share_touches [frame_intros]:
  assumes "\<And>s ss n. g (s\<lparr>db_shares := ss, db_shares_seq := n\<rparr>) = g s"
    and "\<And>s os n. g (s\<lparr>db_outcomes := os, db_outcomes_seq := n\<rparr>) = g s"
  shows "frame g (insert_share_and_outcome_atomic sh oc)"
  unfolding insert_share_and_outcome_atomic_def using assms by (intro frame_intros) simp_all

lemma node_result_touches [frame_intros]:
  "(\<And>s os. g (s\<lparr>db_outcomes := os\<rparr>) = g s) \<Longrightarrow> frame g (update_outcome_node_result k r)"
  by (simp add: frame_def update_outcome_node_result_def)

lemma found_block_touches [frame_intros]:
  "(\<And>s bs n. g (s\<lparr>db_found_blocks := bs, db_found_blocks_seq := n\<rparr>) = g s) \<Longrightarrow>
     frame g (record_found_block_row r h ht w t p c m)"
  by (simp add: frame_def record_found_block_row_def Let_def)

lemma block_update_touches [frame_intros]:
  assumes "\<And>s bs. g (s\<lparr>db_found_blocks := bs\<rparr>) = g s"
  shows "frame g (mark_orphaned h r)" "frame g (un_orphan h)" "frame g (block_update_status i st)"
    "frame g (update_coinbase_txid i txid)" "frame g (mark_matured i)"
  using assms by (simp_all add: frame_def mark_orphaned_def un_orphan_def block_update_status_def
      update_coinbase_txid_def mark_matured_def update_blocks_def modifyR_def)

lemma batch_update_touches [frame_intros]:
  assumes "\<And>s bs. g (s\<lparr>db_batches := bs\<rparr>) = g s"
  shows "frame g (update_batch_status i st)" "frame g (mark_batch_submitted i txid)"
  using assms by (simp_all add: frame_def update_batch_status_def mark_batch_submitted_def modifyR_def)

lemma create_batch_touches [frame_intros]:
  "(\<And>s bs n. g (s\<lparr>db_batches := bs, db_batches_seq := n\<rparr>) = g s) \<Longrightarrow>
     frame g (create_payout_batch r ta fa fad mc k)"
  by (simp add: frame_def create_payout_batch_def Let_def)

lemma payout_touches [frame_intros]:
  assumes "\<And>s ps n. g (s\<lparr>db_payouts := ps, db_payouts_seq := n\<rparr>) = g s"
  shows "frame g (record_payout b w a m d)" "frame g (write_payouts b outs)"
proof -
  show *: "frame g (record_payout b w a m d)" for b w a m d
    using assms by (simp add: frame_def record_payout_def Let_def)
  show "frame g (write_payouts b outs)" unfolding write_payouts_def by (intro frame_intros *)
qed

lemma snapshot_touches [frame_intros]:
  "(\<And>s ss n. g (s\<lparr>db_snapshots := ss, db_snapshots_seq := n\<rparr>) = g s) \<Longrightarrow> frame g (insert_snapshot sn)"
  by (simp add: frame_def insert_snapshot_def Let_def)

lemma dust_touches [frame_intros]:
  "(\<And>s ds. g (s\<lparr>db_dust := ds\<rparr>) = g s) \<Longrightarrow> frame g (write_dust outs)"
  unfolding write_dust_def by (intro frame_intros) (simp add: frame_def add_dust_balance_def modifyR_def)

lemma delete_touches [frame_intros]:
  "(\<And>s ps. g (s\<lparr>db_payouts := ps\<rparr>) = g s) \<Longrightarrow> frame g (delete_payouts_by_batch i)"
  "(\<And>s ss. g (s\<lparr>db_snapshots := ss\<rparr>) = g s) \<Longrightarrow> frame g (delete_snapshots_by_batch i)"
  by (simp_all add: frame_def delete_payouts_by_batch_def delete_snapshots_by_batch_def modifyR_def)

lemma payout_write_touches [frame_intros]:
  assumes "\<And>s bs n. g (s\<lparr>db_batches := bs, db_batches_seq := n\<rparr>) = g s"
    and "\<And>s ps n. g (s\<lparr>db_payouts := ps, db_payouts_seq := n\<rparr>) = g s"
    and "\<And>s ss n. g (s\<lparr>db_snapshots := ss, db_snapshots_seq := n\<rparr>) = g s"
    and "\<And>s ds. g (s\<lparr>db_dust := ds\<rparr>) = g s"
    and "\<And>s es n. g (s\<lparr>db_events := es, db_events_seq := n\<rparr>) = g s"
  shows "frame g (create_payout_for_found_block ex od fb fee_bps fee_address min_sat n)"
proof -
  have "frame g (transaction (write_batch fb plan shares))" for plan shares
    unfolding write_batch_def using assms by (intro frame_intros) simp_all
  then show ?thesis
    by (simp add: frame_def create_payout_for_found_block_def split: option.splits prod.splits)
qed

lemma replace_touches [frame_intros]:
  assumes "\<And>s ps n. g (s\<lparr>db_payouts := ps, db_payouts_seq := n\<rparr>) = g s" "\<And>s ps. g (s\<lparr>db_payouts := ps\<rparr>) = g s"
    and "\<And>s ss n. g (s\<lparr>db_snapshots := ss, db_snapshots_seq := n\<rparr>) = g s" "\<And>s ss. g (s\<lparr>db_snapshots := ss\<rparr>) = g s"
    and "\<And>s ds. g (s\<lparr>db_dust := ds\<rparr>) = g s"
  shows "frame g (replace_payouts batch_id plan shares)"
  unfolding replace_payouts_def using assms by (intro frame_intros) simp_all

subsection \<open>Invariants of the tables\<close>

lemma workers_inv_frame: "frame workers_of m \<Longrightarrow> keeps workers_inv m"
  by (erule frame_keeps [where Q = "\<lambda>p. table_wf wk_id (fst p) (snd p) \<and>
        (\<forall>a x. x \<noteq> None \<longrightarrow> length (filter (worker_conflict a x) (fst p)) \<le> 1)"]) (simp_all add: workers_inv_def)

lemma rounds_inv_frame: "frame rounds_of m \<Longrightarrow> keeps rounds_inv m"
  by (erule frame_keeps [where Q = "\<lambda>p. table_wf rd_id (fst p) (snd p) \<and>
        length (filter (\<lambda>r. rd_status r = ''open'') (fst p)) \<le> 1"])
    (simp_all add: rounds_inv_def open_rounds_def)

lemma blocks_inv_frame: "frame blocks_of m \<Longrightarrow> keeps blocks_inv m"
  by (erule frame_keeps [where Q = "\<lambda>p. table_wf fb_id (fst p) (snd p) \<and> distinct (map fb_block_hash (fst p))"])
    (simp_all add: blocks_inv_def)

lemma locked_step_workers: "locked_step s t \<Longrightarrow> workers_inv s \<Longrightarrow> workers_inv t"
  by (induction rule: locked_step.induct)
    (erule keepsD [where P = workers_inv, rotated] | (rule upsert_keeps_inv | rule workers_inv_frame, intro frame_intros; simp) | simp add: workers_inv_def)+

lemma locked_step_rounds: "locked_step s t \<Longrightarrow> rounds_inv s \<Longrightarrow> rounds_inv t"
proof (induction rule: locked_step.induct)
  case (close_round status s i e)
  then have "status \<noteq> ''open''" by auto
  from keepsD [OF close_round_row_keeps [OF this] close_round.prems] show ?case .
qed (erule keepsD [where P = rounds_inv, rotated] | (rule get_or_create_keeps resolve_round_row_keeps close_round_row_keeps, assumption?
      | rule rounds_inv_frame, intro frame_intros; simp) | simp add: rounds_inv_def open_rounds_def)+

lemma locked_step_blocks: "locked_step s t \<Longrightarrow> blocks_inv s \<Longrightarrow> blocks_inv t"
  by (induction rule: locked_step.induct)
    (erule keepsD [where P = blocks_inv, rotated] | (rule record_found_block_row_keeps block_updates_keep
      | rule blocks_inv_frame, intro frame_intros; simp) | simp add: blocks_inv_def)+

subsection \<open>Shares and outcomes\<close>

lemma paired_frame: "frame shares_of m \<Longrightarrow> keeps paired m"
  by (erule frame_keeps [where Q = "\<lambda>p. paired (undefined\<lparr>db_shares := fst p, db_outcomes := snd p\<rparr>)"])
    (simp add: paired_def share_id_of_def outcome_id_of_def)

lemma outcome_id_of_update:
  "outcome_id_of (s\<lparr>db_outcomes := update_where P (\<lambda>r. ((fst r)\<lparr>so_node_result := x\<rparr>, snd r)) (db_outcomes s)\<rparr>) = outcome_id_of s"
  by (simp add: outcome_id_of_def fun_eq_iff find_update_where option.map_comp comp_def if_distrib cong: if_cong)

lemma node_result_paired: "keeps paired (update_outcome_node_result k r)"
  unfolding keeps_def
proof (intro allI impI)
  fix s assume p: "paired s"
  have row: "\<exists>r'\<in>set (db_outcomes s). so_dedupe_key (fst r') = so_dedupe_key (fst x) \<and> so_share_id (fst r') = so_share_id (fst x)"
    if "x \<in> set (update_where P (\<lambda>r. ((fst r)\<lparr>so_node_result := y\<rparr>, snd r)) (db_outcomes s))" for x P y
    using that by (force simp: update_where_def split: if_splits)
  let ?t = "snd (update_outcome_node_result k r s)"
  have t: "share_id_of ?t = share_id_of s" "outcome_id_of ?t = outcome_id_of s"
    by (simp_all add: update_outcome_node_result_def outcome_id_of_update share_id_of_def fun_eq_iff)
  have "share_id_of s (so_dedupe_key (fst x)) = Some (so_share_id (fst x))" if x: "x \<in> set (db_outcomes ?t)" for x
  proof -
    obtain r' where "r' \<in> set (db_outcomes s)" "so_dedupe_key (fst r') = so_dedupe_key (fst x)"
        "so_share_id (fst r') = so_share_id (fst x)"
      using row [of x "\<lambda>r. so_dedupe_key (fst r) = k" "Some r"] x by (auto simp: update_outcome_node_result_def)
    then show ?thesis using p by (auto simp: paired_def)
  qed
  then show "paired ?t" using p by (simp add: paired_def t)
qed

lemma insert_atomic_keeps_paired:
  assumes "so_dedupe_key oc = sh_dedupe_key sh"
  shows "keeps paired (insert_share_and_outcome_atomic sh oc)"
  unfolding keeps_def
proof (intro allI impI)
  fix s assume p: "paired s"
  obtain r t where rt: "insert_share_and_outcome_atomic sh oc s = (r, t)" by (rule prod.exhaust)
  show "paired (snd (insert_share_and_outcome_atomic sh oc s))"
  proof (cases r)
    case (Inl e)
    have "t = s" by (rule transaction_atomic [OF rt [unfolded Inl insert_share_and_outcome_atomic_def]])
    then show ?thesis using p rt by simp
  next
    case (Inr x)
    then have "insert_share_and_outcome_atomic sh oc s = (Inr x, t)" using rt by simp
    then show ?thesis using insert_atomic_paired [OF p assms] by simp
  qed
qed

lemma locked_step_paired: "locked_step s t \<Longrightarrow> paired s \<Longrightarrow> paired t"
  by (induction rule: locked_step.induct)
    (erule keepsD [where P = paired, rotated] | (rule insert_atomic_keeps_paired node_result_paired, assumption?
      | rule paired_frame, intro frame_intros; simp)
      | simp add: paired_def share_id_of_def outcome_id_of_def)+

subsection \<open>Payout batches\<close>

lemma sql_like_percent: "sql_like ps cs \<Longrightarrow> sql_like (CHR ''%'' # ps) cs"
  by (cases cs) auto

lemma sql_like_any: "sql_like ''%'' cs"
  by (induction cs) auto

lemma sql_like_prefix: "sql_like (h @ ''%'') (h @ k)"
proof (induction h)
  case (Cons c h)
  have "sql_like (CHR ''%'' # h @ ''%'') (h @ k)" using Cons.IH by (rule sql_like_percent)
  then show ?case using Cons.IH by (cases "c = CHR ''%''") simp_all
qed (simp add: sql_like_any)

text \<open>The hash of the block a batch pays: the retry key up to its last colon.\<close>

definition batch_block :: "PayoutBatch \<Rightarrow> string option" where
  "batch_block b = Option.bind (pb_retry_key b) (\<lambda>k. map_option fst (split_last (CHR '':'') k))"

definition batches_inv :: "db \<Rightarrow> bool" where
  "batches_inv s \<longleftrightarrow>
     table_wf pb_id (db_batches s) (db_batches_seq s) \<and>
     (\<forall>b\<in>set (db_batches s). \<exists>h n. pb_retry_key b = Some (h @ '':'' @ show_nat n)) \<and>
     distinct (map batch_block (db_batches s))"

lemma batch_block_key: "pb_retry_key b = Some (h @ '':'' @ show_nat n) \<Longrightarrow> batch_block b = Some h"
  using split_last_append [of "CHR '':''" "show_nat n" h] show_nat_no_colon [of n] by (simp add: batch_block_def)

lemma existing_batches_none:
  assumes "existing_batches h s = 0" "b \<in> set (db_batches s)" "pb_retry_key b = Some (h' @ '':'' @ show_nat n)"
  shows "h' \<noteq> h"
  using assms sql_like_prefix [of h "'':'' @ show_nat n"]
  by (force simp: existing_batches_def filter_empty_conv)

lemma create_payout_fails:
  "create_payout_for_found_block ex od fb fee_bps fee_address min_sat n s = (Inl e, t) \<Longrightarrow> t = s"
  by (auto simp: create_payout_for_found_block_def split: option.splits prod.splits if_splits dest: transaction_atomic)

lemma create_payout_cases:
  assumes "create_payout_for_found_block ex od fb fee_bps fee_address min_sat n s = (Inr i, t)"
  obtains found_at plan shares where "found_at_of (fb_block_hash fb) s = Some found_at"
    "plan_for_block ex od fb fee_bps fee_address min_sat n found_at s = (plan, shares)"
    "existing_batches (fb_block_hash fb) s = 0" "write_batch fb plan shares s = (Inr i, t)"
  using assms
  by (auto simp: create_payout_for_found_block_def transaction_commit split: option.splits prod.splits if_splits)

lemma plan_for_block_key:
  assumes "plan_for_block ex od fb fee_bps fee_address min_sat n found_at s = (plan, shares)"
  shows "pl_retry_key plan = fb_block_hash fb @ '':'' @ show_nat (length (pl_outputs plan))"
  using assms by (auto simp: plan_for_block_def build_payout_plan_def Let_def)

lemma write_batch_cases:
  assumes "write_batch fb plan shares s = (Inr i, t)"
  obtains b s1 where "create_payout_batch (fb_round_id fb) (pl_gross_reward plan) (pl_pool_fee_amount plan)
      (pl_pool_fee_address plan) (int (length (pl_outputs plan))) (pl_retry_key plan) s = (Inr b, s1)"
    "i = pb_id b" "batches_of t = batches_of s1"
proof -
  obtain b s1 where b: "create_payout_batch (fb_round_id fb) (pl_gross_reward plan) (pl_pool_fee_amount plan)
      (pl_pool_fee_address plan) (int (length (pl_outputs plan))) (pl_retry_key plan) s = (Inr b, s1)"
    and rest: "bindR (write_payouts (pb_id b) (pl_outputs plan)) (\<lambda>_.
       bindR (forR (snapshots_of (pb_id b) (pl_outputs plan) shares) insert_snapshot) (\<lambda>_.
       bindR (write_dust (pl_outputs plan)) (\<lambda>_.
       bindR (record_event ((accounting_event ''payout_batch_created'' ''pending'')
                 \<lparr>ev_round_id := Some (fb_round_id fb), ev_block_hash := Some (fb_block_hash fb),
                  ev_height := Some (fb_height fb)\<rparr>)) (\<lambda>_.
       okR (pb_id b))))) s1 = (Inr i, t)"
    using assms unfolding write_batch_def by (rule bindR_InrE)
  have "frame batches_of (bindR (write_payouts (pb_id b) (pl_outputs plan)) (\<lambda>_.
       bindR (forR (snapshots_of (pb_id b) (pl_outputs plan) shares) insert_snapshot) (\<lambda>_.
       bindR (write_dust (pl_outputs plan)) (\<lambda>_.
       bindR (record_event ((accounting_event ''payout_batch_created'' ''pending'')
                 \<lparr>ev_round_id := Some (fb_round_id fb), ev_block_hash := Some (fb_block_hash fb),
                  ev_height := Some (fb_height fb)\<rparr>)) (\<lambda>_.
       okR (pb_id b))))))"
    by (intro frame_intros) simp_all
  then have "batches_of t = batches_of s1" using rest by (rule frameD)
  moreover have "i = pb_id b" using rest by (auto simp: bindR_Inr okR_def)
  ultimately show thesis using that b by simp
qed

lemma create_batch_adds:
  assumes "create_payout_batch r ta fa fad mc k s = (Inr b, t)"
  shows "db_batches t = db_batches s @ [b]" "db_batches_seq t = db_batches_seq s + 1" "pb_id b = db_batches_seq s + 1"
    "pb_retry_key b = Some k" "pb_status b = ''pending''" "pb_total_amount b = ta" "pb_pool_fee_amount b = fa" "pb_round_id b = r"
  using assms by (auto simp: create_payout_batch_def Let_def split: if_splits)

lemma create_payout_adds:
  assumes "create_payout_for_found_block ex od fb fee_bps fee_address min_sat n s = (Inr i, t)"
  obtains b m where "batches_of t = (db_batches s @ [b], db_batches_seq s + 1)" "pb_id b = db_batches_seq s + 1" "i = pb_id b"
    "pb_retry_key b = Some (fb_block_hash fb @ '':'' @ show_nat m)" "existing_batches (fb_block_hash fb) s = 0"
    "pb_status b = ''pending''"
proof -
  obtain found_at plan shares where 1: "plan_for_block ex od fb fee_bps fee_address min_sat n found_at s = (plan, shares)"
      "existing_batches (fb_block_hash fb) s = 0" "write_batch fb plan shares s = (Inr i, t)"
    using assms by (rule create_payout_cases)
  obtain b s1 where 2: "create_payout_batch (fb_round_id fb) (pl_gross_reward plan) (pl_pool_fee_amount plan)
      (pl_pool_fee_address plan) (int (length (pl_outputs plan))) (pl_retry_key plan) s = (Inr b, s1)"
    "i = pb_id b" "batches_of t = batches_of s1"
    using 1(3) by (rule write_batch_cases)
  show thesis
    using that [of b "length (pl_outputs plan)"] create_batch_adds [OF 2(1)] 2(2,3) 1(2) plan_for_block_key [OF 1(1)]
    by simp
qed

lemma batches_inv_frame: "frame batches_of m \<Longrightarrow> keeps batches_inv m"
  by (erule frame_keeps [where Q = "\<lambda>p. table_wf pb_id (fst p) (snd p) \<and>
        (\<forall>b\<in>set (fst p). \<exists>h n. pb_retry_key b = Some (h @ '':'' @ show_nat n)) \<and> distinct (map batch_block (fst p))"])
    (simp add: batches_inv_def)

lemma create_payout_batches: "keeps batches_inv (create_payout_for_found_block ex od fb fee_bps fee_address min_sat n)"
  unfolding keeps_def
proof (intro allI impI)
  fix s assume inv: "batches_inv s"
  obtain r t where rt: "create_payout_for_found_block ex od fb fee_bps fee_address min_sat n s = (r, t)"
    by (rule prod.exhaust)
  have "batches_inv t"
  proof (cases r)
    case (Inl e)
    then show ?thesis using create_payout_fails rt inv by blast
  next
    case (Inr i)
    obtain b m where t: "batches_of t = (db_batches s @ [b], db_batches_seq s + 1)" "pb_id b = db_batches_seq s + 1"
        "pb_retry_key b = Some (fb_block_hash fb @ '':'' @ show_nat m)" "existing_batches (fb_block_hash fb) s = 0"
      using rt unfolding Inr by (rule create_payout_adds)
    have "batch_block b \<notin> batch_block ` set (db_batches s)"
    proof
      assume "batch_block b \<in> batch_block ` set (db_batches s)"
      then obtain c where c: "c \<in> set (db_batches s)" "batch_block c = Some (fb_block_hash fb)"
        using batch_block_key [OF t(3)] by auto
      then obtain h k where "pb_retry_key c = Some (h @ '':'' @ show_nat k)" using inv by (auto simp: batches_inv_def)
      then show False using existing_batches_none [OF t(4) c(1)] batch_block_key c(2) by fastforce
    qed
    then show ?thesis using inv t by (auto simp: batches_inv_def table_wf_snoc)
  qed
  then show "batches_inv (snd (create_payout_for_found_block ex od fb fee_bps fee_address min_sat n s))" using rt by simp
qed

lemma batches_inv_update:
  assumes "batches_inv s" "\<And>b. pb_id (f b) = pb_id b" "\<And>b. pb_retry_key (f b) = pb_retry_key b"
  shows "batches_inv (s\<lparr>db_batches := update_where P f (db_batches s)\<rparr>)"
proof -
  have "map batch_block (update_where P f (db_batches s)) = map batch_block (db_batches s)"
    using assms(3) by (intro map_update_where) (simp add: batch_block_def)
  moreover have "\<exists>h n. pb_retry_key b = Some (h @ '':'' @ show_nat n)" if "b \<in> set (update_where P f (db_batches s))" for b
    using that assms(1,3) by (auto simp: update_where_def batches_inv_def)
  ultimately show ?thesis using assms(1,2) by (simp add: batches_inv_def table_wf_update_where)
qed

lemma batch_updates_keep: "keeps batches_inv (update_batch_status i st)" "keeps batches_inv (mark_batch_submitted i txid)"
  by (simp_all add: keeps_def update_batch_status_def mark_batch_submitted_def modifyR_def batches_inv_update)

lemma locked_step_batches: "locked_step s t \<Longrightarrow> batches_inv s \<Longrightarrow> batches_inv t"
  by (induction rule: locked_step.induct)
    (erule keepsD [where P = batches_inv, rotated] | (rule create_payout_batches batch_updates_keep
      | rule batches_inv_frame, intro frame_intros; simp) | simp add: batches_inv_def)+

subsection \<open>What only grows\<close>

text \<open>The balance of an address that is owed dust never decreases.\<close>

definition dust_grows :: "db \<Rightarrow> db \<Rightarrow> bool" where
  "dust_grows s t \<longleftrightarrow> (\<forall>a b. dust_balance s a = Some b \<longrightarrow> (\<exists>b'\<ge>b. dust_balance t a = Some b'))"

lemma dust_grows_refl [simp]: "dust_grows s s"
  by (auto simp: dust_grows_def)

lemma dust_grows_trans: "dust_grows s t \<Longrightarrow> dust_grows t u \<Longrightarrow> dust_grows s u"
  unfolding dust_grows_def by (meson order.trans)

lemma dust_grows_frame: "frame db_dust m \<Longrightarrow> via dust_grows m"
  by (erule via_frame) (simp add: dust_grows_def dust_balance_def)

lemma write_dust_grows: "via dust_grows (write_dust outs)"
proof -
  have "dust_grows s (snd (add_dust_balance a d s))" if "0 < d" for a d s
    using that by (auto simp: dust_grows_def add_dust_balance_def modifyR_def dust_balance_def map_of_upsert_dust)
  then have "via dust_grows (add_dust_balance a d)" if "0 < d" for a d
    using that by (intro via_step) blast
  then show ?thesis unfolding write_dust_def by (intro via_intros)
qed

lemma payout_writes_grow:
  "via dust_grows (transaction (write_batch fb plan shares))"
  "via dust_grows (transaction (replace_payouts batch_id plan shares))"
  unfolding write_batch_def replace_payouts_def
  by (intro via_intros write_dust_grows; rule dust_grows_frame, intro frame_intros; simp)+

lemma via_dust_grows: "via dust_grows m \<Longrightarrow> dust_grows s (snd (m s))"
  by (rule rtranclp_preorder [of dust_grows]) (auto simp: via_def intro: dust_grows_trans)

lemma create_payout_grows: "via dust_grows (create_payout_for_found_block ex od fb fee_bps fee_address min_sat n)"
  using payout_writes_grow(1) [of fb] unfolding via_def create_payout_for_found_block_def
  by (auto split: option.splits prod.splits)

lemma locked_step_dust: "locked_step s t \<Longrightarrow> dust_grows s t"
  by (induction rule: locked_step.induct)
    (rule via_dust_grows, (rule create_payout_grows payout_writes_grow | rule dust_grows_frame, intro frame_intros; simp)
      | simp add: dust_grows_def dust_balance_def)+

text \<open>What is on record stays: submissions and both logs are append-only, and of an outcome only the
  node's answer changes.\<close>

definition sans_node_result :: "(ShareOutcome \<times> string) list \<Rightarrow> (ShareOutcome \<times> string) list" where
  "sans_node_result = map (\<lambda>r. ((fst r)\<lparr>so_node_result := None\<rparr>, snd r))"

definition history_extends :: "db \<Rightarrow> db \<Rightarrow> bool" where
  "history_extends s t \<longleftrightarrow>
     prefix (db_shares s) (db_shares t) \<and> prefix (sans_node_result (db_outcomes s)) (sans_node_result (db_outcomes t)) \<and>
     prefix (db_events s) (db_events t) \<and> prefix (db_auth_events s) (db_auth_events t)"

lemma history_extends_refl [simp]: "history_extends s s"
  by (simp add: history_extends_def)

lemma history_extends_trans: "history_extends s t \<Longrightarrow> history_extends t u \<Longrightarrow> history_extends s u"
  unfolding history_extends_def by (meson prefix_order.trans)

abbreviation history_of :: "db \<Rightarrow> (Share \<times> string) list \<times> (ShareOutcome \<times> string) list \<times> AccountingEvent list \<times> AuthorizationEvent list" where
  "history_of s \<equiv> (db_shares s, db_outcomes s, db_events s, db_auth_events s)"

lemma history_frame: "frame history_of m \<Longrightarrow> via history_extends m"
  by (erule via_frame) (simp add: history_extends_def)

lemma via_history: "via history_extends m \<Longrightarrow> history_extends s (snd (m s))"
  by (rule rtranclp_preorder [of history_extends]) (auto simp: via_def intro: history_extends_trans)

lemma sans_node_result_update [simp]:
  "sans_node_result (update_where P (\<lambda>r. ((fst r)\<lparr>so_node_result := x\<rparr>, snd r)) rows) = sans_node_result rows"
  by (induction rows) (simp_all add: sans_node_result_def update_where_def)

lemma sans_node_result_append [simp]: "sans_node_result (xs @ ys) = sans_node_result xs @ sans_node_result ys"
  by (simp add: sans_node_result_def)

lemma log_history [via_intros]:
  "via history_extends (record_event e)" "via history_extends (insert_authorization_event ae)"
  by (rule via_step, simp add: history_extends_def record_event_def insert_authorization_event_def Let_def)+

lemma share_history [via_intros]:
  "via history_extends (put_share sh)" "via history_extends (put_outcome oc)"
  "via history_extends (update_outcome_node_result k r)"
proof -
  show "via history_extends (put_share sh)"
    by (rule via_step) (simp add: history_extends_def put_share_def Let_def split: option.split)
  show "via history_extends (put_outcome oc)"
    by (rule via_step) (simp add: history_extends_def put_outcome_def Let_def split: option.split)
  show "via history_extends (update_outcome_node_result k r)"
    by (rule via_step) (simp add: history_extends_def update_outcome_node_result_def)
qed

lemma insert_share_history [via_intros]: "via history_extends (insert_share_and_outcome_atomic sh oc)"
  unfolding insert_share_and_outcome_atomic_def by (intro via_intros)

lemma payout_history [via_intros]:
  "via history_extends (transaction (write_batch fb plan shares))"
  "via history_extends (transaction (replace_payouts batch_id plan shares))"
  unfolding write_batch_def replace_payouts_def
  by (intro via_intros; (rule history_frame, intro frame_intros; simp)?)+

lemma create_payout_history [via_intros]:
  "via history_extends (create_payout_for_found_block ex od fb fee_bps fee_address min_sat n)"
  using payout_history(1) [of fb] unfolding via_def create_payout_for_found_block_def
  by (auto split: option.splits prod.splits)

lemma locked_step_history: "locked_step s t \<Longrightarrow> history_extends s t"
  by (induction rule: locked_step.induct)
    (rule via_history, (rule via_intros | rule history_frame, intro frame_intros; simp)
      | simp add: history_extends_def)+

subsection \<open>Every interleaving\<close>

lemma locked_step_typed: "locked_step s t \<Longrightarrow> db_typed s \<Longrightarrow> db_typed t"
proof (induction rule: locked_step.induct)
  case (close_round status s i e)
  then show ?case by (blast intro: keepsD close_round_typed)
next
  case (insert_share oc sh s)
  then show ?case by (blast intro: keepsD insert_share_typed)
qed (erule keepsD [where P = db_typed, rotated] | rule upsert_typed current_round_typed resolve_round_typed node_result_typed log_typed
      found_block_typed block_updates_typed create_payout_typed keeps_transaction replace_typed batch_updates_typed
  | simp add: db_typed_defs)+

definition db_inv :: "db \<Rightarrow> bool" where
  "db_inv s \<longleftrightarrow> db_typed s \<and> workers_inv s \<and> rounds_inv s \<and> blocks_inv s \<and> paired s \<and> batches_inv s"

lemma db_inv_init: "db_inv (init_schema now)"
  by (simp add: db_inv_def db_typed_init workers_inv_init rounds_inv_init blocks_inv_init)
    (simp add: paired_def share_id_of_def outcome_id_of_def batches_inv_def init_schema_def)

lemma locked_step_inv: "locked_step s t \<Longrightarrow> db_inv s \<Longrightarrow> db_inv t"
  by (simp add: db_inv_def locked_step_typed locked_step_workers locked_step_rounds locked_step_blocks locked_step_paired locked_step_batches)

lemma locked_steps_inv: "locked_step\<^sup>*\<^sup>* s t \<Longrightarrow> db_inv s \<Longrightarrow> db_inv t"
  using rtranclp_invariant [of locked_step s t db_inv] locked_step_inv by blast

text \<open>C1: no block is paid out twice. In every state the database reaches through any interleaving of
  the server's tasks there is at most one payout batch per block hash.\<close>

theorem no_double_payout:
  assumes "locked_step\<^sup>*\<^sup>* (init_schema now) s"
  shows "distinct (map batch_block (db_batches s)) \<and> (\<forall>b\<in>set (db_batches s). batch_block b \<noteq> None)"
proof -
  have "batches_inv s" using locked_steps_inv [OF assms db_inv_init] by (simp add: db_inv_def)
  then show ?thesis unfolding batches_inv_def using batch_block_key by fastforce
qed


text \<open>C16: the database stays typed by its schema in every interleaving of the server's tasks. Row ids are
  positive, distinct and within their sequence; dedupe keys, block hashes, retry keys and dust
  addresses are unique; every foreign key points to a row; every number fits its column; each status
  is one the code knows, an open round has no end and a closed one has, an orphaned block has its
  reason, a matured one its time and a submitted batch its transaction.\<close>

theorem schema_typed:
  assumes "locked_step\<^sup>*\<^sup>* (init_schema now) s"
  shows "db_typed s"
  using locked_steps_inv [OF assms db_inv_init] by (simp add: db_inv_def)

lemma db_typed_pplns: "db_typed s \<Longrightarrow> pplns_tables s"
  by (simp add: db_typed_def shares_typed_def rounds_typed_def table_typed_def table_wf_def pplns_tables_def)

text \<open>C35: no work counts twice. In every state the server's tasks reach, the window of a block lists each
  share outcome at most once, whatever the order SQLite gives to rows of the same time.\<close>

theorem pplns_counts_once:
  assumes "locked_step\<^sup>*\<^sup>* (init_schema now) s" "created_desc od"
  shows "distinct (map pe_share_outcome_id (calculate_pplns_window od found_at n_mult net_diff s))"
proof -
  have "db_typed s" using locked_steps_inv [OF assms(1) db_inv_init] by (simp add: db_inv_def)
  then show ?thesis by (intro pplns_window_distinct assms(2) db_typed_pplns)
qed

text \<open>C25: the record is append-only. No step of any task removes or changes a submitted share, an
  accounting event or an authorisation event, and of a recorded outcome only the node's answer may
  change.\<close>

theorem history_append_only:
  assumes "locked_step\<^sup>*\<^sup>* s t"
  shows "history_extends s t"
  using assms by (rule rtranclp_preorder) (auto intro: history_extends_trans locked_step_history)


subsection \<open>A batch accounts for the reward\<close>

definition payout_row :: "int \<Rightarrow> int \<Rightarrow> PayoutOutput \<Rightarrow> Payout" where
  "payout_row i k out =
     \<lparr>py_id = k, py_batch_id = i, py_worker_id = po_worker_id out, py_payout_address = po_payout_address out,
      py_amount = po_amount out, py_dust_carried_forward = po_dust_carried_forward out\<rparr>"

lemma write_payouts_rows:
  assumes "write_payouts i outs s = (Inr u, t)"
  shows "\<exists>ks. length ks = length outs \<and> db_payouts t = db_payouts s @ map2 (payout_row i) ks outs"
  using assms
proof (induction outs arbitrary: s)
  case (Cons out outs)
  from Cons.prems obtain p s1 where p: "record_payout i (po_worker_id out) (po_payout_address out) (po_amount out)
      (po_dust_carried_forward out) s = (Inr p, s1)" "write_payouts i outs s1 = (Inr u, t)"
    by (auto simp: write_payouts_def bindR_Inr okR_def)
  then have "db_payouts s1 = db_payouts s @ [payout_row i (db_payouts_seq s + 1) out]"
    by (auto simp: record_payout_def payout_row_def Let_def split: if_splits)
  moreover obtain ks where "length ks = length outs" "db_payouts t = db_payouts s1 @ map2 (payout_row i) ks outs"
    using Cons.IH [OF p(2)] by blast
  ultimately show ?case by (intro exI [of _ "(db_payouts_seq s + 1) # ks"]) simp
qed (simp add: write_payouts_def okR_def)

lemma sum_payout_rows:
  "length ks = length outs \<Longrightarrow>
     sum_list (map (\<lambda>p. py_amount p + py_dust_carried_forward p) (map2 (payout_row i) ks outs)) =
     sum_list (map (\<lambda>p. po_amount p + po_dust_carried_forward p) outs)"
  by (induction ks outs rule: list_induct2) (simp_all add: payout_row_def)

lemma write_batch_rows:
  assumes "write_batch fb plan shares s = (Inr i, t)"
  obtains b ks where "db_batches t = db_batches s @ [b]" "pb_id b = i" "pb_total_amount b = pl_gross_reward plan"
    "pb_pool_fee_amount b = pl_pool_fee_amount plan" "length ks = length (pl_outputs plan)"
    "db_payouts t = db_payouts s @ map2 (payout_row i) ks (pl_outputs plan)"
proof -
  obtain b s1 where b: "create_payout_batch (fb_round_id fb) (pl_gross_reward plan) (pl_pool_fee_amount plan)
      (pl_pool_fee_address plan) (int (length (pl_outputs plan))) (pl_retry_key plan) s = (Inr b, s1)"
    "i = pb_id b" "batches_of t = batches_of s1"
    using assms by (rule write_batch_cases)
  obtain u s2 where p: "write_payouts (pb_id b) (pl_outputs plan) s1 = (Inr u, s2)" and
    rest: "bindR (forR (snapshots_of (pb_id b) (pl_outputs plan) shares) insert_snapshot) (\<lambda>_.
       bindR (write_dust (pl_outputs plan)) (\<lambda>_.
       bindR (record_event ((accounting_event ''payout_batch_created'' ''pending'')
                 \<lparr>ev_round_id := Some (fb_round_id fb), ev_block_hash := Some (fb_block_hash fb),
                  ev_height := Some (fb_height fb)\<rparr>)) (\<lambda>_. okR (pb_id b)))) s2 = (Inr i, t)"
    using assms b(1) unfolding write_batch_def by (auto simp: bindR_Inr)
  have "frame db_payouts (bindR (forR (snapshots_of (pb_id b) (pl_outputs plan) shares) insert_snapshot) (\<lambda>_.
       bindR (write_dust (pl_outputs plan)) (\<lambda>_.
       bindR (record_event ((accounting_event ''payout_batch_created'' ''pending'')
                 \<lparr>ev_round_id := Some (fb_round_id fb), ev_block_hash := Some (fb_block_hash fb),
                  ev_height := Some (fb_height fb)\<rparr>)) (\<lambda>_. okR (pb_id b)))))"
    by (intro frame_intros) simp_all
  then have "db_payouts t = db_payouts s2" using rest by (rule frameD)
  moreover have "db_payouts s1 = db_payouts s"
    using b(1) by (auto simp: create_payout_batch_def Let_def split: if_splits)
  ultimately show thesis
    using that create_batch_adds [OF b(1)] b(2,3) write_payouts_rows [OF p] by fastforce
qed

text \<open>C4: a batch accounts for the whole reward of its block. The fee of the batch and the amounts of the payout rows
  written with it, paid or carried forward, add up to the reward; rows of other batches are not
  touched.\<close>

theorem batch_accounts_reward:
  assumes "create_payout_for_found_block ex od fb fee_bps fa mn n s = (Inr i, t)"
    and "found_at_of (fb_block_hash fb) s = Some found_at"
    and "shares = calculate_pplns_window od found_at n (block_difficulty ex fb) s"
    and "payable (reward_from_coinbase (fb_coinbase_value fb)) fee_bps shares"
    and "pl_total_work_units (fst (plan_for_block ex od fb fee_bps fa mn n found_at s)) = Fin W" "0 < W"
  shows "\<exists>b rows. db_batches t = db_batches s @ [b] \<and> pb_id b = i \<and> db_payouts t = db_payouts s @ rows \<and>
    list_all (\<lambda>p. py_batch_id p = i) rows \<and> pb_total_amount b = reward_from_coinbase (fb_coinbase_value fb) \<and>
    pb_pool_fee_amount b + sum_list (map (\<lambda>p. py_amount p + py_dust_carried_forward p) rows) = pb_total_amount b"
proof -
  obtain plan where plan: "plan_for_block ex od fb fee_bps fa mn n found_at s = (plan, shares)"
      "write_batch fb plan shares s = (Inr i, t)"
    using create_payout_cases [OF assms(1)] assms(2,3) by (auto simp: plan_for_block_def Let_def)
  have "pl_pool_fee_amount plan + sum_list (map (\<lambda>p. po_amount p + po_dust_carried_forward p) (pl_outputs plan)) =
      reward_from_coinbase (fb_coinbase_value fb)"
    using plan(1) assms(5,6) by (intro plan_conserves [OF assms(4)]) (auto simp: plan_for_block_def Let_def)
  moreover have "pl_gross_reward plan = reward_from_coinbase (fb_coinbase_value fb)"
    using plan(1) by (auto simp: plan_for_block_def build_payout_plan_def Let_def)
  moreover obtain b ks where b: "db_batches t = db_batches s @ [b]" "pb_id b = i" "pb_total_amount b = pl_gross_reward plan"
    "pb_pool_fee_amount b = pl_pool_fee_amount plan" "length ks = length (pl_outputs plan)"
    "db_payouts t = db_payouts s @ map2 (payout_row i) ks (pl_outputs plan)"
    using plan(2) by (rule write_batch_rows)
  moreover have "list_all (\<lambda>p. py_batch_id p = i) (map2 (payout_row i) ks (pl_outputs plan))"
    by (auto simp: list_all_iff payout_row_def)
  ultimately show ?thesis
    by (intro exI [of _ b] exI [of _ "map2 (payout_row i) ks (pl_outputs plan)"]) (simp only: sum_payout_rows simp_thms)
qed

text \<open>The database of a handler, if it has one, moves by locked steps.\<close>

abbreviation db_steps :: "db option \<Rightarrow> db option \<Rightarrow> bool" where
  "db_steps \<equiv> rel_option locked_step\<^sup>*\<^sup>*"

lemma db_steps_refl [simp]: "db_steps d d"
  by (rule option.rel_refl) simp

lemma db_steps_trans: "db_steps d e \<Longrightarrow> db_steps e f \<Longrightarrow> db_steps d f"
  by (auto simp: option_rel_Some1 option_rel_Some2 elim!: option.rel_cases)

subsection \<open>A concrete run\<close>

definition sample_block :: FoundBlock where
  "sample_block =
     \<lparr>fb_id = 1, fb_round_id = 1, fb_block_hash = ''ff'', fb_height = 7, fb_status = ''immature'',
      fb_worker_id = None, fb_template_id = Some 1, fb_persist_source = None, fb_orphan_reason = None,
      fb_matured_at = None, fb_coinbase_value = 0, fb_coinbase_txid = None, fb_network_target_hex = []\<rparr>"

definition sample_shared :: db where
  "sample_shared = snd (record_share (sample_submission\<lparr>sb_network_target_ok := True, sb_block_hash := Some ''ff''\<rparr>) (init_schema ''0''))"

definition sample_found :: db where
  "sample_found = snd (record_found_block 1 ''ff'' 7 None (Some 1) None 0 [] sample_shared)"

definition pay_sample :: "int dbop" where
  "pay_sample = create_payout_for_found_block sample_externals stable_desc sample_block 0 None 0 (Fin 2)"

lemmas sample_pay_defs = pay_sample_def sample_found_def sample_shared_def sample_block_def sample_run_defs
  record_found_block_def record_found_block_row_def create_payout_for_found_block_def found_at_of_def plan_for_block_def
  block_difficulty_def network_target_hex_to_difficulty_def sample_externals_def calculate_pplns_window_def pplns_rows_def
  stable_desc_def existing_batches_def write_batch_def create_payout_batch_def write_payouts_def snapshots_of_def
  write_dust_def outputs_by_addr_def build_payout_plan_def reward_from_coinbase_def weighted_work_def pool_fee_def
  i64_wrap_def work_by_addr_def dust_weight_def

definition sample_paid :: db where
  "sample_paid = snd (pay_sample sample_found)"

lemma sample_paid_batches: "map batch_block (db_batches sample_paid) = [Some ''ff'']"
proof -
  have "map pb_retry_key (db_batches sample_paid) = [Some ''ff:0'']"
    by (simp add: sample_paid_def sample_pay_defs)
  moreover have "split_last (CHR '':'') ''ff:0'' = Some (''ff'', ''0'')" by code_simp
  ultimately show ?thesis by (auto simp: batch_block_def map_eq_Cons_conv)
qed

lemma sample_reached: "locked_step\<^sup>*\<^sup>* (init_schema ''0'') sample_paid"
proof -
  have "locked_step\<^sup>*\<^sup>* (init_schema ''0'') sample_shared"
    unfolding sample_shared_def by (intro viaD via_intros) (simp add: sample_submission_def outcome_statuses_def)
  also have "locked_step\<^sup>*\<^sup>* sample_shared sample_found"
    unfolding sample_found_def by (intro viaD via_intros)
  also have "locked_step\<^sup>*\<^sup>* sample_found sample_paid"
    unfolding sample_paid_def pay_sample_def by (intro viaD via_intros)
  finally show ?thesis .
qed

theorem no_double_payout_witness:
  "map batch_block (db_batches sample_paid) = [Some ''ff''] \<and> distinct (map batch_block (db_batches sample_paid))"
  using no_double_payout [OF sample_reached] sample_paid_batches by simp

theorem schema_typed_witness: "db_typed sample_paid \<and> db_batches sample_paid \<noteq> []"
  using schema_typed [OF sample_reached] sample_paid_batches by auto

theorem pplns_counts_once_witness:
  "distinct (map pe_share_outcome_id (calculate_pplns_window stable_desc ''0'' (Fin 2) (Fin 1) sample_paid))"
  using pplns_counts_once [OF sample_reached stable_desc_created] by simp


theorem history_append_only_witness: "history_extends (init_schema ''0'') sample_paid"
  by (rule history_append_only [OF sample_reached])


definition sample_reward_block :: FoundBlock where
  "sample_reward_block = sample_block\<lparr>fb_coinbase_value := 2000\<rparr>"

definition sample_reward_found :: db where
  "sample_reward_found = snd (record_found_block 1 ''ff'' 7 None (Some 1) None 2000 [] sample_shared)"

lemma sample_alloc:
  "alloc_of (Fin 1) 990 (''a'', 1, Fin 1) = \<lparr>al_address = ''a'', al_worker_id = 1, al_whole = 990, al_fractional = Fin 0\<rparr>"
  by (simp add: alloc_of_def f_of_int_def f64_of_rat_id f_sub_def trunc_rat_def Let_def)

lemma sample_reward_outputs:
  "build_payout_plan 1 7 ''ff'' nd 1000 100 None 10 [] [(sample_share ''a'' 1)\<lparr>pe_created_at := ''0''\<rparr>] =
     \<lparr>pl_round_id = 1, pl_block_height = 7, pl_block_hash = ''ff'', pl_network_difficulty = nd, pl_total_work_units = Fin 1,
      pl_gross_reward = 1000, pl_pool_fee_amount = 10, pl_pool_fee_address = None,
      pl_outputs = [\<lparr>po_payout_address = ''a'', po_worker_id = 1, po_amount = 990, po_dust_carried_forward = 0\<rparr>],
      pl_dust_carried_forward_total = 0, pl_retry_key = ''ff:1''\<rparr>"
proof -
  have 1: "weighted_work 1000 [] [(sample_share ''a'' 1)\<lparr>pe_created_at := ''0''\<rparr>] = [(''a'', 1, Fin 1)]"
    by (simp add: weighted_work_def work_by_addr_def dust_weight_def)
  have 2: "distribute (Fin 1) 990 [(''a'', 1, Fin 1)] =
      [\<lparr>al_address = ''a'', al_worker_id = 1, al_whole = 990, al_fractional = Fin 0\<rparr>]"
    by (simp add: distribute_def sample_alloc sort_frac_def i64_wrap_def)
  have 3: "pool_fee 1000 100 = 10" "i64_wrap 990 = 990" "i64_wrap 0 = 0" "f_sum [Fin 1] = Fin 1"
    by (simp_all add: pool_fee_def i64_wrap_def f_sum_def)
  have 4: "show_nat (Suc 0) = ''1''" by (simp add: show_nat.simps digit_char_def char_of_def bit_0)
  show ?thesis
    unfolding build_payout_plan_def 1 by (simp add: 2 3 4 clip_output_def Let_def)
qed

lemma sample_reward_shares:
  "found_at_of ''ff'' sample_reward_found = Some ''0''"
  "calculate_pplns_window stable_desc ''0'' (Fin 2) nd sample_reward_found = [(sample_share ''a'' 1)\<lparr>pe_created_at := ''0''\<rparr>]"
  by (simp_all add: sample_reward_found_def sample_pay_defs)


lemma sample_reward_plan:
  "plan_for_block sample_externals stable_desc sample_reward_block 100 None 10 (Fin 2) ''0'' sample_reward_found =
     (build_payout_plan 1 7 ''ff'' (block_difficulty sample_externals sample_reward_block) 1000 100 None 10 []
        [(sample_share ''a'' 1)\<lparr>pe_created_at := ''0''\<rparr>], [(sample_share ''a'' 1)\<lparr>pe_created_at := ''0''\<rparr>])"
proof -
  have "reward_from_coinbase 2000 = 1000" by (simp add: reward_from_coinbase_def)
  moreover have "db_dust sample_reward_found = []" by (simp add: sample_reward_found_def sample_pay_defs)
  ultimately show ?thesis
    unfolding plan_for_block_def sample_reward_shares(2) Let_def by (simp add: sample_reward_block_def sample_block_def)
qed

lemma sample_reward_ok:
  "fst (create_payout_for_found_block sample_externals stable_desc sample_reward_block 100 None 10 (Fin 2) sample_reward_found) = Inr 1"
proof -
  have h: "fb_block_hash sample_reward_block = ''ff''" "fb_round_id sample_reward_block = 1"
    by (simp_all add: sample_reward_block_def sample_block_def)
  have "existing_batches ''ff'' sample_reward_found = 0" by (simp add: sample_reward_found_def sample_pay_defs)
  then show ?thesis
    unfolding create_payout_for_found_block_def h sample_reward_shares(1) option.case sample_reward_plan sample_reward_outputs
    by (simp add: sample_reward_found_def transaction_def write_batch_def create_payout_batch_def write_payouts_def snapshots_of_def
      write_dust_def outputs_by_addr_def record_payout_def insert_snapshot_def sample_pay_defs h)
qed

definition sample_rewarded :: db where
  "sample_rewarded =
     snd (create_payout_for_found_block sample_externals stable_desc sample_reward_block 100 None 10 (Fin 2) sample_reward_found)"

theorem batch_accounts_reward_witness:
  "\<exists>b rows. db_batches sample_rewarded = db_batches sample_reward_found @ [b] \<and> pb_id b = 1 \<and>
    db_payouts sample_rewarded = db_payouts sample_reward_found @ rows \<and> list_all (\<lambda>p. py_batch_id p = 1) rows \<and>
    pb_total_amount b = 1000 \<and>
    pb_pool_fee_amount b + sum_list (map (\<lambda>p. py_amount p + py_dust_carried_forward p) rows) = pb_total_amount b"
proof -
  have c: "create_payout_for_found_block sample_externals stable_desc sample_reward_block 100 None 10 (Fin 2) sample_reward_found =
      (Inr 1, sample_rewarded)"
    by (simp add: sample_rewarded_def sample_reward_ok prod_eq_iff)
  have h: "fb_block_hash sample_reward_block = ''ff''" "reward_from_coinbase (fb_coinbase_value sample_reward_block) = 1000"
    by (simp_all add: sample_reward_block_def sample_block_def reward_from_coinbase_def)
  have p: "payable 1000 100 [(sample_share ''a'' 1)\<lparr>pe_created_at := ''0''\<rparr>]" by (simp add: payable_def)
  show ?thesis
    by (rule batch_accounts_reward [OF c, unfolded h, OF sample_reward_shares(1) refl, where W = 1])
      (simp_all only: sample_reward_shares sample_reward_plan sample_reward_outputs p fst_conv PayoutPlan.select_convs zero_less_one)
qed

end
