(* ===== verification/Payout_Processing.thy ===== *)
theory Payout_Processing
  imports Locked_Steps
begin

text \<open>
  The life of payouts and found blocks after they are recorded: submission of pending batches
  through the signer, reconciliation with the node at startup, maturation (all in
  src/src/accounting/service.rs), and the event loop of src/src/payout/handler.rs. The answers of
  the node and of the signer are function parameters: a pass over the batches sees one state of
  the node.
\<close>

record SignedBatchData =
  sd_plan :: PayoutPlan
  sd_coinbase_txid :: string
  sd_coinbase_vout :: u32
  sd_coinbase_amount :: int
  sd_coinbase_script_pubkey_hex :: string

record payout_rpc =
  rpc_get_block :: "string \<Rightarrow> string + json"
  rpc_get_raw_transaction :: "string \<Rightarrow> string + json"

subsection \<open>The coinbase output\<close>

text \<open>The first transaction of a block, given as an object with a \<^verbatim>\<open>txid\<close> or as a string;
  \<open>None\<close> where the loop moves on to the next batch.\<close>

definition coinbase_txid_of :: "json \<Rightarrow> string option" where
  "coinbase_txid_of block_data =
     (case as_array (json_index block_data ''tx'') of
        None \<Rightarrow> None
      | Some [] \<Rightarrow> None
      | Some (tx_entry # _) \<Rightarrow>
          (let cb_txid = (case Option.bind (as_object tx_entry) (\<lambda>obj. Option.bind (map_of obj ''txid'') as_str) of
                            Some t \<Rightarrow> t
                          | None \<Rightarrow> (case as_str tx_entry of Some t \<Rightarrow> t | None \<Rightarrow> []))
           in if cb_txid = [] then None else Some cb_txid))"

definition vout_value :: "json \<Rightarrow> f64" where
  "vout_value vout = (case as_f64 (json_index vout ''value'') of Some v \<Rightarrow> v | None \<Rightarrow> Fin 0)"

definition is_spendable :: "json \<Rightarrow> bool" where
  "is_spendable vout \<longleftrightarrow>
     as_str (json_index (json_index vout ''scriptPubKey'') ''type'') \<noteq> Some ''nulldata'' \<and>
     f_lt (Fin 0) (vout_value vout)"

definition coinbase_output :: "json \<Rightarrow> (int \<times> u32 \<times> string) option" where
  "coinbase_output raw_tx =
     (case as_array (json_index raw_tx ''vout'') of
        None \<Rightarrow> None
      | Some vouts \<Rightarrow>
          (case find (\<lambda>(_, vout). is_spendable vout) (enumerate 0 vouts) of
             None \<Rightarrow> None
           | Some (vout_idx, vout) \<Rightarrow>
               Some (f_to_i64 (f_mul (vout_value vout) SATS_PER_XPI_F64), of_nat vout_idx,
                     (case as_str (json_index (json_index vout ''scriptPubKey'') ''hex'') of Some h \<Rightarrow> h | None \<Rightarrow> []))))"

subsection \<open>Submitting pending batches\<close>

record payout_config =
  pc_fee_bps :: u32
  pc_fee_address :: "string option"
  pc_min_payout_sat :: int
  pc_n_multiplier :: f64

definition output_of_payout :: "Payout \<Rightarrow> PayoutOutput" where
  "output_of_payout p =
     \<lparr>po_payout_address = py_payout_address p, po_worker_id = py_worker_id p, po_amount = py_amount p,
      po_dust_carried_forward = py_dust_carried_forward p\<rparr>"

text \<open>Resolve the id of the coinbase transaction, storing it when it had to be fetched.\<close>

definition resolve_coinbase_txid :: "payout_rpc \<Rightarrow> FoundBlock \<Rightarrow> string option dbop" where
  "resolve_coinbase_txid rpc fb =
     (case fb_coinbase_txid fb of
        Some txid \<Rightarrow> okR (Some txid)
      | None \<Rightarrow>
          (case rpc_get_block rpc (fb_block_hash fb) of
             Inl _ \<Rightarrow> okR None
           | Inr block_data \<Rightarrow>
               (case coinbase_txid_of block_data of
                  None \<Rightarrow> okR None
                | Some txid \<Rightarrow> bindR (ignoreR (update_coinbase_txid (fb_id fb) txid)) (\<lambda>_. okR (Some txid)))))"

definition batch_outputs ::
  "externals \<Rightarrow> row_order \<Rightarrow> payout_config \<Rightarrow> PayoutBatch \<Rightarrow> PayoutOutput list dbop" where
  "batch_outputs ex od cfg batch =
     bindR (readR (\<lambda>s. Inr (get_payouts_by_batch (pb_id batch) s))) (\<lambda>payouts.
     if payouts = []
     then rebuild_payout_plan_for_batch ex od (pb_id batch) (pc_fee_bps cfg) (pc_fee_address cfg)
            (pc_min_payout_sat cfg) (pc_n_multiplier cfg)
     else okR (map output_of_payout payouts))"

definition signed_batch_data ::
  "PayoutBatch \<Rightarrow> FoundBlock \<Rightarrow> string \<Rightarrow> int \<times> u32 \<times> string \<Rightarrow> PayoutOutput list \<Rightarrow> SignedBatchData" where
  "signed_batch_data batch fb coinbase_txid = (\<lambda>(amount, vout, script) outputs.
     \<lparr>sd_plan =
        \<lparr>pl_round_id = pb_round_id batch, pl_block_height = fb_height fb, pl_block_hash = fb_block_hash fb,
         pl_network_difficulty = Fin 0, pl_total_work_units = Fin 0, pl_gross_reward = pb_total_amount batch,
         pl_pool_fee_amount = pb_pool_fee_amount batch, pl_pool_fee_address = pb_pool_fee_address batch,
         pl_outputs = outputs, pl_dust_carried_forward_total = 0,
         pl_retry_key = (case pb_retry_key batch of Some k \<Rightarrow> k | None \<Rightarrow> [])\<rparr>,
      sd_coinbase_txid = coinbase_txid, sd_coinbase_vout = vout, sd_coinbase_amount = amount,
      sd_coinbase_script_pubkey_hex = script\<rparr>)"

text \<open>The outputs of a batch; an error of the rebuild skips the batch.\<close>

definition submit_batch ::
  "externals \<Rightarrow> row_order \<Rightarrow> payout_rpc \<Rightarrow> (SignedBatchData \<Rightarrow> string + string) \<Rightarrow> payout_config \<Rightarrow>
   PayoutBatch \<Rightarrow> FoundBlock \<Rightarrow> string \<Rightarrow> int \<times> u32 \<times> string \<Rightarrow> unit dbop" where
  "submit_batch ex od rpc signer cfg batch fb coinbase_txid coinbase =
     bindR (tryR (batch_outputs ex od cfg batch)) (\<lambda>r.
     (case r of
        None \<Rightarrow> okR ()
      | Some outputs \<Rightarrow>
          (case signer (signed_batch_data batch fb coinbase_txid coinbase outputs) of
             Inl _ \<Rightarrow> okR ()
           | Inr txid \<Rightarrow> ignoreR (mark_batch_submitted (pb_id batch) txid))))"

definition process_batch ::
  "externals \<Rightarrow> row_order \<Rightarrow> payout_rpc \<Rightarrow> (SignedBatchData \<Rightarrow> string + string) \<Rightarrow> payout_config \<Rightarrow>
   PayoutBatch \<Rightarrow> unit dbop" where
  "process_batch ex od rpc signer cfg batch =
     bindR (readR (\<lambda>s. Inr (block_get_by_round_id (pb_round_id batch) s))) (\<lambda>found.
     (case found of
        None \<Rightarrow> okR ()
      | Some fb \<Rightarrow>
          bindR (resolve_coinbase_txid rpc fb) (\<lambda>txid.
          (case txid of
             None \<Rightarrow> okR ()
           | Some coinbase_txid \<Rightarrow>
               (case rpc_get_raw_transaction rpc coinbase_txid of
                  Inl _ \<Rightarrow> okR ()
                | Inr raw_tx \<Rightarrow>
                    (case coinbase_output raw_tx of
                       None \<Rightarrow> okR ()
                     | Some coinbase \<Rightarrow> submit_batch ex od rpc signer cfg batch fb coinbase_txid coinbase))))))"

definition process_pending_payouts ::
  "externals \<Rightarrow> row_order \<Rightarrow> payout_rpc \<Rightarrow> (SignedBatchData \<Rightarrow> string + string) \<Rightarrow> payout_config \<Rightarrow> unit dbop" where
  "process_pending_payouts ex od rpc signer cfg =
     bindR (readR (\<lambda>s. Inr (list_batches (Some ''pending'') s))) (\<lambda>pending.
     forR pending (process_batch ex od rpc signer cfg))"

subsection \<open>Reconciliation and maturation\<close>

definition orphan_block :: "FoundBlock \<Rightarrow> string \<Rightarrow> unit dbop" where
  "orphan_block b reason =
     bindR (ignoreR (mark_orphaned (fb_block_hash b) reason)) (\<lambda>_.
     ignoreR (close_round (fb_round_id b) 0 ''orphaned''))"

definition reconcile_found_blocks :: "int \<Rightarrow> (int \<Rightarrow> string + string option) \<Rightarrow> unit dbop" where
  "reconcile_found_blocks tip_height get_block_hash =
     bindR (readR (\<lambda>s. Inr (block_list (Some ''immature'') s))) (\<lambda>confirmed.
     forR confirmed (\<lambda>block.
       if tip_height < fb_height block then orphan_block block ''block_not_found''
       else case get_block_hash (fb_height block) of
              Inr (Some canonical_hash) \<Rightarrow>
                if canonical_hash \<noteq> fb_block_hash block then orphan_block block ''reorg_detected'' else okR ()
            | _ \<Rightarrow> okR ()))"

definition confirm_batch :: "PayoutBatch \<Rightarrow> unit dbop" where
  "confirm_batch batch =
     bindR (update_batch_status (pb_id batch) ''confirmed'') (\<lambda>_.
     bindR (readR (\<lambda>s. Inr (block_get_by_round_id (pb_round_id batch) s))) (\<lambda>found.
     (case found of None \<Rightarrow> okR () | Some fb \<Rightarrow> ignoreR (block_update_status (fb_id fb) ''paid''))))"

fun reconcile_loop ::
  "(string \<Rightarrow> string + int option) \<Rightarrow> PayoutBatch list \<Rightarrow> (int \<times> string \<times> string) list dbop" where
  "reconcile_loop check_tx [] = okR []"
| "reconcile_loop check_tx (batch # bs) =
     (case pb_submitted_txid batch of
        None \<Rightarrow> reconcile_loop check_tx bs
      | Some txid \<Rightarrow>
          (case check_tx txid of
             Inr (Some confirmations) \<Rightarrow>
               if 0 < confirmations
               then bindR (confirm_batch batch) (\<lambda>_.
                    bindR (reconcile_loop check_tx bs) (\<lambda>rs.
                    okR ((pb_id batch, txid, ''confirmed'') # rs)))
               else reconcile_loop check_tx bs
           | _ \<Rightarrow> reconcile_loop check_tx bs))"

definition reconcile_submitted_payouts ::
  "(string \<Rightarrow> string + int option) \<Rightarrow> (int \<times> string \<times> string) list dbop" where
  "reconcile_submitted_payouts check_tx =
     bindR (readR (\<lambda>s. Inr (list_batches (Some ''submitted'') s))) (reconcile_loop check_tx)"

definition is_mature :: "int \<Rightarrow> u64 \<Rightarrow> FoundBlock \<Rightarrow> bool" where
  "is_mature tip_height min_confirmations b \<longleftrightarrow>
     i32_wrap (int (unat min_confirmations)) \<le> i32_wrap (tip_height - fb_height b + 1)"

definition check_maturation :: "int \<Rightarrow> u64 \<Rightarrow> FoundBlock list dbop" where
  "check_maturation tip_height min_confirmations =
     bindR (readR (\<lambda>s. Inr (filter (is_mature tip_height min_confirmations) (block_list (Some ''immature'') s)))) (\<lambda>matured.
     bindR (forR matured (\<lambda>b. mark_matured (fb_id b))) (\<lambda>_.
     okR matured))"

subsection \<open>The payout handler\<close>

datatype PayoutEvent = BlockMatured string | BlockConnected "string list"

definition already_paid :: "string \<Rightarrow> db \<Rightarrow> bool" where
  "already_paid h s \<longleftrightarrow>
     list_ex (\<lambda>b. case pb_retry_key b of None \<Rightarrow> False | Some k \<Rightarrow> starts_with k h) (list_batches None s)"

definition handle_block_matured ::
  "externals \<Rightarrow> row_order \<Rightarrow> payout_config \<Rightarrow> FoundBlock \<Rightarrow> unit dbop" where
  "handle_block_matured ex od cfg fb =
     bindR (readR (\<lambda>s. Inr (already_paid (fb_block_hash fb) s))) (\<lambda>already_paid.
     if already_paid then okR ()
     else ignoreR (create_payout_for_found_block ex od fb (pc_fee_bps cfg) (pc_fee_address cfg)
                     (pc_min_payout_sat cfg) (pc_n_multiplier cfg)))"

definition confirm_submitted :: "string list \<Rightarrow> unit dbop" where
  "confirm_submitted txids =
     bindR (readR (\<lambda>s. Inr (list_batches (Some ''submitted'') s))) (\<lambda>submitted.
     forR submitted (\<lambda>batch.
       (case pb_submitted_txid batch of
          None \<Rightarrow> okR ()
        | Some txid \<Rightarrow> if txid \<in> set txids then confirm_batch batch else okR ())))"

text \<open>The submission runs under a mutex, so one run ends before the next one starts.\<close>

definition process_pending_payouts_locked ::
  "externals \<Rightarrow> row_order \<Rightarrow> payout_rpc \<Rightarrow> (SignedBatchData \<Rightarrow> string + string) \<Rightarrow> payout_config \<Rightarrow> unit dbop" where
  "process_pending_payouts_locked ex od rpc signer cfg = ignoreR (process_pending_payouts ex od rpc signer cfg)"

fun handle_payout_event ::
  "externals \<Rightarrow> row_order \<Rightarrow> payout_rpc \<Rightarrow> (SignedBatchData \<Rightarrow> string + string) \<Rightarrow> payout_config \<Rightarrow>
   PayoutEvent \<Rightarrow> unit dbop" where
  "handle_payout_event ex od rpc signer cfg (BlockMatured block_hash) =
     bindR (readR (\<lambda>s. Inr (block_get_by_hash block_hash s))) (\<lambda>found.
     (case found of
        None \<Rightarrow> okR ()
      | Some fb \<Rightarrow>
          bindR (handle_block_matured ex od cfg fb) (\<lambda>_.
          process_pending_payouts_locked ex od rpc signer cfg)))"
| "handle_payout_event ex od rpc signer cfg (BlockConnected txids) =
     bindR (confirm_submitted txids) (\<lambda>_.
     process_pending_payouts_locked ex od rpc signer cfg)"

definition run_payout_handler ::
  "externals \<Rightarrow> row_order \<Rightarrow> payout_rpc \<Rightarrow> (SignedBatchData \<Rightarrow> string + string) \<Rightarrow> payout_config \<Rightarrow>
   PayoutEvent list \<Rightarrow> unit dbop" where
  "run_payout_handler ex od rpc signer cfg evs = forR evs (handle_payout_event ex od rpc signer cfg)"

subsection \<open>The operations as locked steps\<close>

lemma batch_outputs_via [via_intros]: "via locked_step (batch_outputs ex od cfg batch)"
  unfolding batch_outputs_def by (intro via_intros)

lemma process_batch_via [via_intros]: "via locked_step (process_batch ex od rpc signer cfg batch)"
  unfolding process_batch_def resolve_coinbase_txid_def submit_batch_def by (intro via_intros)

lemma process_pending_via [via_intros]: "via locked_step (process_pending_payouts ex od rpc signer cfg)"
  unfolding process_pending_payouts_def by (intro via_intros)

lemma process_pending_locked_via [via_intros]: "via locked_step (process_pending_payouts_locked ex od rpc signer cfg)"
  unfolding process_pending_payouts_locked_def by (intro via_intros)

lemma reconcile_found_blocks_via [via_intros]: "via locked_step (reconcile_found_blocks tip h)"
  unfolding reconcile_found_blocks_def orphan_block_def by (intro via_intros) simp_all

lemma confirm_batch_via [via_intros]: "via locked_step (confirm_batch b)"
  unfolding confirm_batch_def by (intro via_intros)

lemma reconcile_loop_via [via_intros]: "via locked_step (reconcile_loop check_tx bs)"
  by (induction bs) (auto intro!: via_intros split: option.split sum.split)

lemma reconcile_submitted_via [via_intros]: "via locked_step (reconcile_submitted_payouts check_tx)"
  unfolding reconcile_submitted_payouts_def by (intro via_intros)

lemma check_maturation_via [via_intros]: "via locked_step (check_maturation tip n)"
  unfolding check_maturation_def by (intro via_intros)

lemma payout_handler_via [via_intros]:
  "via locked_step (handle_payout_event ex od rpc signer cfg ev)"
  "via locked_step (run_payout_handler ex od rpc signer cfg evs)"
proof -
  show *: "via locked_step (handle_payout_event ex od rpc signer cfg ev)" for ev
    by (cases ev; simp only: handle_payout_event.simps handle_block_matured_def confirm_submitted_def; intro via_intros)
  show "via locked_step (run_payout_handler ex od rpc signer cfg evs)"
    unfolding run_payout_handler_def by (intro via_intros *)
qed

subsection \<open>Maturation and reconciliation\<close>


text \<open>What the reconciliation makes of a block: the reason for orphaning it, if any.\<close>

definition reconcile_verdict :: "int \<Rightarrow> (int \<Rightarrow> string + string option) \<Rightarrow> FoundBlock \<Rightarrow> string option" where
  "reconcile_verdict tip get_block_hash b =
     (if tip < fb_height b then Some ''block_not_found''
      else case get_block_hash (fb_height b) of
             Inr (Some h) \<Rightarrow> if h = fb_block_hash b then None else Some ''reorg_detected''
           | _ \<Rightarrow> None)"

lemma orphan_block_blocks:
  "fst (orphan_block b r s) = Inr () \<and> db_now (snd (orphan_block b r s)) = db_now s \<and>
   db_found_blocks (snd (orphan_block b r s)) =
     update_where (\<lambda>x. fb_block_hash x = fb_block_hash b) (\<lambda>x. x\<lparr>fb_status := ''orphaned'', fb_orphan_reason := Some r\<rparr>) (db_found_blocks s)"
  by (simp add: orphan_block_def mark_orphaned_def close_round_def close_round_row_def set_round_status_def
      record_event_def bindR_def ignoreR_def modifyR_def update_blocks_def okR_def Let_def split: prod.split sum.split)




end
