(* ===== verification/Coinbase.thy ===== *)
theory Coinbase
  imports Payout_Processing
begin

text \<open>
  What a payout batch is signed for (process_pending_payouts in src/src/accounting/service.rs): the
  amount read from the coinbase transaction, a decimal number of XPI that the code multiplies by
  10^6 in binary64 and truncates, and the found block whose coinbase is spent.
\<close>

subsection \<open>The amount\<close>

text \<open>A decimal with six places that went through binary64 comes back as the amount in satoshis or one less.\<close>

lemma sats_of_decimal:
  assumes "0 \<le> k" "k \<le> 2 ^ 50"
  shows "f_to_i64 (f_mul (f64_of_rat (of_int k / 1000000)) SATS_PER_XPI_F64) \<in> {k - 1, k}"
proof -
  define x :: rat where "x = of_int k / 1000000"
  have k: "(of_int k :: rat) = x * 1000000" and x0: "0 \<le> x" using assms(1) by (simp_all add: x_def)
  have "(of_int k :: rat) \<le> of_int (2 ^ 50)" using assms(2) of_int_le_iff by blast
  then have kb: "x * 1000000 \<le> 2 ^ 50" by (simp add: k)
  define v where "v = rnd x"
  have v: "\<bar>v - x\<bar> \<le> u_round * x + 1 / 2 ^ 60" unfolding v_def by (rule rnd_error_bound) (use x0 kb in simp_all)
  have v0: "0 \<le> v" using rnd_mono [OF x0] by (simp add: v_def)
  have vb: "v * 1000000 \<le> 2 ^ 51" using v kb x0 by (simp add: abs_le_iff)
  define p where "p = rnd (v * 1000000)"
  have p: "\<bar>p - v * 1000000\<bar> \<le> u_round * (v * 1000000) + 1 / 2 ^ 60" unfolding p_def by (rule rnd_error_bound) (use v0 vb in simp_all)
  have p0: "0 \<le> p" using rnd_mono [of 0 "v * 1000000"] v0 by (simp add: p_def)
  have near: "of_int k - 1 < p" "p < of_int k + 1" using p v vb kb x0 v0 unfolding k by (simp_all add: abs_le_iff)
  have pb: "p \<le> 2 ^ 60" using near(2) kb k by simp
  have "f64_of_rat x = Fin v" unfolding v_def by (rule f64_of_rat_small) (use v0 vb below_max [of v] in \<open>simp add: v_def\<close>)
  moreover have "f64_of_rat (v * 1000000) = Fin p" unfolding p_def
    by (rule f64_of_rat_small) (use p0 pb below_max [of p] in \<open>simp add: p_def\<close>)
  moreover have "k - 1 \<le> \<lfloor>p\<rfloor>" "\<lfloor>p\<rfloor> \<le> k" using near by linarith+
  ultimately show ?thesis using p0 assms(2) by (auto simp: SATS_PER_XPI_F64_def trunc_rat_def x_def)
qed

text \<open>The lower value does occur: 1.000009 XPI is read as 1000008 satoshis.\<close>

lemma sample_value: "f64_of_rat (of_int 1000009 / 1000000) = Fin (4503640159767142 / 2 ^ 52)"
proof -
  have "rnd (1000009 / 1000000) = of_int 4503640159767142 * 2 powi (0 - 52)"
    by (rule rnd_eq) (simp_all add: power_int_minus)
  then show ?thesis
    using below_max [of "rnd (1000009 / 1000000)"] by (subst f64_of_rat_small) (simp_all add: power_int_minus)
qed

lemma sats_truncated:
  "f_to_i64 (f_mul (f64_of_rat (of_int 1000009 / 1000000)) SATS_PER_XPI_F64) = 1000008"
proof -
  let ?p = "4503640159767142 / 2 ^ 52 * 1000000 :: rat"
  have "rnd ?p = of_int 8590011901411327 * 2 powi (19 - 52)"
    by (rule rnd_eq) (simp_all add: power_int_def power_divide)
  then have "f64_of_rat ?p = Fin (8590011901411327 / 2 ^ 33)"
    using below_max [of "rnd ?p"] by (subst f64_of_rat_small) (simp_all add: power_int_minus)
  moreover have "\<lfloor>8590011901411327 / 2 ^ 33 :: rat\<rfloor> = 1000008" by (simp add: floor_eq_iff)
  ultimately show ?thesis unfolding sample_value by (simp add: SATS_PER_XPI_F64_def trunc_rat_def)
qed

text \<open>C17: the coinbase amount is right up to one satoshi. Where the node reports the outputs of the coinbase
  transaction as decimals of at most 2^50 satoshis, the code picks the first output that is not
  metadata and has a value, and takes its amount or one satoshi less, never more.\<close>

theorem coinbase_amount_close:
  assumes out: "coinbase_output raw_tx = Some (a, vout, script)"
    and vouts: "as_array (json_index raw_tx ''vout'') = Some vouts"
    and dec: "\<forall>v\<in>set vouts. \<exists>k. 0 \<le> k \<and> k \<le> 2 ^ 50 \<and> vout_value v = f64_of_rat (of_int k / 1000000)"
  shows "\<exists>i k. i < length vouts \<and> is_spendable (vouts ! i) \<and> (\<forall>j<i. \<not> is_spendable (vouts ! j)) \<and>
           vout = of_nat i \<and> vout_value (vouts ! i) = f64_of_rat (of_int k / 1000000) \<and> a \<in> {k - 1, k}"
proof -
  obtain i v where f: "find (\<lambda>(_, vout). is_spendable vout) (enumerate 0 vouts) = Some (i, v)"
    and a: "a = f_to_i64 (f_mul (vout_value v) SATS_PER_XPI_F64)" "vout = of_nat i"
    using out vouts by (auto simp: coinbase_output_def split: option.splits)
  have i: "i < length vouts" "v = vouts ! i" "is_spendable v" "\<forall>j<i. \<not> is_spendable (vouts ! j)"
    using find_enumerate [OF f] by auto
  then obtain k where "0 \<le> k" "k \<le> 2 ^ 50" "vout_value v = f64_of_rat (of_int k / 1000000)"
    using dec nth_mem by blast
  then show ?thesis using sats_of_decimal [of k] i a by auto
qed

definition sample_coinbase :: json where
  "sample_coinbase = JObj [(''vout'', JArr
     [JObj [(''value'', JNum (JFloat (Fin 0))), (''scriptPubKey'', JObj [(''type'', JStr ''nulldata'')])],
      JObj [(''value'', JNum (JFloat (f64_of_rat (of_int 1000009 / 1000000)))),
            (''scriptPubKey'', JObj [(''type'', JStr ''pubkeyhash''), (''hex'', JStr ''76a9'')])]])]"

lemma sample_coinbase_output: "coinbase_output sample_coinbase = Some (1000008, 1, ''76a9'')"
proof -
  have "f_lt (Fin 0) (f64_of_rat (of_int 1000009 / 1000000))" unfolding sample_value by simp
  then show ?thesis
    using sats_truncated
    by (simp add: coinbase_output_def sample_coinbase_def is_spendable_def vout_value_def json_index_def)
qed

theorem coinbase_amount_close_witness:
  "\<exists>vouts i k. as_array (json_index sample_coinbase ''vout'') = Some vouts \<and> i < length vouts \<and> (1::u32) = of_nat i \<and>
     vout_value (vouts ! i) = f64_of_rat (of_int k / 1000000) \<and> 1000008 \<in> {k - 1, k}"
proof -
  obtain vouts where v: "as_array (json_index sample_coinbase ''vout'') = Some vouts"
    "map vout_value vouts = [f64_of_rat (of_int 0 / 1000000), f64_of_rat (of_int 1000009 / 1000000)]"
    by (simp add: sample_coinbase_def json_index_def vout_value_def f64_of_rat_id)
  have "0 \<le> (0::int) \<and> (0::int) \<le> 2 ^ 50" "0 \<le> (1000009::int) \<and> (1000009::int) \<le> 2 ^ 50" by simp_all
  moreover have "vout_value x \<in> set [f64_of_rat (of_int 0 / 1000000), f64_of_rat (of_int 1000009 / 1000000)]"
    if "x \<in> set vouts" for x
    using that v(2) by (metis image_eqI list.set_map)
  ultimately have "\<forall>x\<in>set vouts. \<exists>k. 0 \<le> k \<and> k \<le> 2 ^ 50 \<and> vout_value x = f64_of_rat (of_int k / 1000000)"
    by (metis (no_types, lifting) empty_iff empty_set set_ConsD)
  from coinbase_amount_close [OF sample_coinbase_output v(1) this] show ?thesis using v(1) by blast
qed

subsection \<open>The block\<close>

lemma block_by_round_newest:
  assumes "blocks_inv s" "fb \<in> set (db_found_blocks s)" "fb_round_id fb = rid"
    and "\<And>b. b \<in> set (db_found_blocks s) \<Longrightarrow> fb_round_id b = rid \<Longrightarrow> fb_id b \<le> fb_id fb"
  shows "block_get_by_round_id rid s = Some fb"
proof -
  let ?bs = "sort_key fb_id (filter (\<lambda>b. fb_round_id b = rid) (db_found_blocks s))"
  have m: "fb \<in> set ?bs" using assms(2,3) by simp
  then have ne: "?bs \<noteq> []" by (metis empty_iff empty_set)
  have "last ?bs \<in> set ?bs" using ne by (rule last_in_set)
  then have l: "last ?bs \<in> set (db_found_blocks s)" "fb_round_id (last ?bs) = rid" by auto
  obtain i where "i < length ?bs" "fb = ?bs ! i" using m by (metis in_set_conv_nth)
  then have "fb_id fb \<le> fb_id (last ?bs)"
    using sorted_nth_mono [OF sorted_sort_key [of fb_id "filter (\<lambda>b. fb_round_id b = rid) (db_found_blocks s)"], of i "length ?bs - 1"] ne
    by (simp add: last_conv_nth)
  then have "fb_id (last ?bs) = fb_id fb" using assms(4) [OF l] by simp
  then have "last ?bs = fb" using assms(1,2) l(1)
    by (auto simp: blocks_inv_def table_wf_def distinct_map inj_on_def)
  then show ?thesis using ne by (auto simp: block_get_by_round_id_def hd_rev [symmetric] split: list.splits)
qed

lemma submit_batch_signer_cong:
  assumes "\<And>d. pl_block_hash (sd_plan d) = fb_block_hash fb \<Longrightarrow> signer d = signer' d"
  shows "submit_batch ex od rpc signer cfg batch fb txid cb = submit_batch ex od rpc signer' cfg batch fb txid cb"
proof -
  have "signer (signed_batch_data batch fb txid cb os) = signer' (signed_batch_data batch fb txid cb os)" for os
    by (rule assms) (simp add: signed_batch_data_def case_prod_beta)
  then show ?thesis by (simp add: submit_batch_def cong: option.case_cong)
qed

lemma process_batch_signer_cong:
  assumes "block_get_by_round_id (pb_round_id batch) s = Some fb"
    and "\<And>d. pl_block_hash (sd_plan d) = fb_block_hash fb \<Longrightarrow> signer d = signer' d"
  shows "process_batch ex od rpc signer cfg batch s = process_batch ex od rpc signer' cfg batch s"
  using assms(1) submit_batch_signer_cong [of fb signer signer', OF assms(2)]
  by (simp add: process_batch_def bindR_def readR_def cong: option.case_cong sum.case_cong)

text \<open>With two blocks in one round the batch of the older one is signed for the newer one: whatever the
  signer does with a payout of the older block's coinbase is never asked.\<close>

lemma older_block_shadowed:
  assumes "blocks_inv s" "older \<in> set (db_found_blocks s)" "newer \<in> set (db_found_blocks s)"
    and "fb_round_id older = pb_round_id batch" "fb_round_id newer = pb_round_id batch" "fb_id older < fb_id newer"
    and "\<And>b. b \<in> set (db_found_blocks s) \<Longrightarrow> fb_round_id b = pb_round_id batch \<Longrightarrow> fb_id b \<le> fb_id newer"
  shows "process_batch ex od rpc signer cfg batch s =
      process_batch ex od rpc (\<lambda>d. if pl_block_hash (sd_plan d) = fb_block_hash older then Inl [] else signer d) cfg batch s"
proof -
  have "fb_block_hash older \<noteq> fb_block_hash newer"
    using assms(1-3,6) by (auto simp: blocks_inv_def distinct_map inj_on_def)
  then show ?thesis
    using block_by_round_newest [OF assms(1,3,5,7)] by (intro process_batch_signer_cong) auto
qed

end
