(* ===== verification/Validator.thy ===== *)
theory Validator
  imports Session
begin

text \<open>
  Share validation (src/src/share_processing/validator.rs): the format of a submission, and the
  pipeline that decides whether a share is accepted and whether it is a block.
\<close>

record ValidationResult =
  vr_accepted :: bool
  vr_reject_reason :: "string option"
  vr_low_diff_ok :: bool
  vr_network_target_ok :: bool
  vr_block_hash :: "string option"

definition validation_rejected :: "string \<Rightarrow> ValidationResult" where
  "validation_rejected reason =
     \<lparr>vr_accepted = False, vr_reject_reason = Some reason, vr_low_diff_ok = False,
      vr_network_target_ok = False, vr_block_hash = None\<rparr>"

definition validate_share_format :: "string \<Rightarrow> string \<Rightarrow> string \<Rightarrow> string + unit" where
  "validate_share_format extranonce2 ntime nonce =
     (if extranonce2 = [] \<or> length extranonce2 mod 2 \<noteq> 0 \<or> 16 < length extranonce2
      then Inl ''invalid-submit-shape''
      else if \<not> list_all is_ascii_hexdigit extranonce2 then Inl ''invalid-submit-shape''
      else if length ntime \<noteq> 12 then Inl ''invalid-submit-shape''
      else if \<not> list_all is_ascii_hexdigit ntime then Inl ''invalid-submit-shape''
      else if length nonce \<noteq> 16 then Inl ''invalid-submit-shape''
      else if \<not> list_all is_ascii_hexdigit nonce then Inl ''invalid-submit-shape''
      else Inr ())"

definition job_header_args :: "MiningJob \<Rightarrow> string \<Rightarrow> string \<Rightarrow> string \<Rightarrow> string \<Rightarrow> header_args" where
  "job_header_args job extranonce1 extranonce2 ntime nonce =
     \<lparr>ha_coinbase1 = mj_coinbase1 job, ha_extranonce1 = extranonce1, ha_extranonce2 = extranonce2,
      ha_coinbase2 = mj_coinbase2 job, ha_merkle_branches = mj_merkle_branches job,
      ha_prevhash = mj_prevhash job, ha_version = mj_version job, ha_nbits = mj_nbits job,
      ha_ntime = ntime, ha_nonce = nonce, ha_height = Some (mj_height job),
      ha_epoch_hash = Some (mj_epoch_hash job),
      ha_extended_metadata_hash = Some (mj_extended_metadata_hash job),
      ha_block_size = Some (mj_block_size job)\<rparr>"

text \<open>\<^verbatim>\<open>U256::from_big_endian\<close>.\<close>

definition be_val :: "u8 list \<Rightarrow> nat" where
  "be_val bs = fold (\<lambda>b acc. 256 * acc + unat b) bs 0"

text \<open>Steps 5 to 8: from the header to the result, with the difficulty frozen at assignment.\<close>

definition validate_hash :: "externals \<Rightarrow> f64 \<Rightarrow> MiningJob \<Rightarrow> header_args \<Rightarrow> ValidationResult" where
  "validate_hash ex p_diff job args =
     (case Option.bind (x_build_stratum_header ex args) (x_header_hash ex) of
        None \<Rightarrow> validation_rejected ''invalid-submit-shape''
      | Some hash_le \<Rightarrow>
          (let hash_be = rev hash_le
           in if x_header_meets_difficulty ex hash_be p_diff \<noteq> Some True
              then validation_rejected ''low-difficulty-share''
              else case x_hex_decode ex (mj_network_target_hex job) of
                     None \<Rightarrow> validation_rejected ''invalid-submit-shape''
                   | Some target \<Rightarrow>
                       if length target \<noteq> 32 then validation_rejected ''invalid-submit-shape''
                       else (let meets_network = be_val hash_be \<le> be_val target
                             in \<lparr>vr_accepted = True, vr_reject_reason = None, vr_low_diff_ok = True,
                                 vr_network_target_ok = meets_network,
                                 vr_block_hash = (if meets_network then Some (x_hex_encode ex hash_be) else None)\<rparr>)))"

definition validate_share ::
  "externals \<Rightarrow> string \<Rightarrow> string \<Rightarrow> string \<Rightarrow> string \<Rightarrow> string \<Rightarrow> SessionState \<Rightarrow> MiningJob \<Rightarrow> ValidationResult" where
  "validate_share ex worker_name job_id extranonce2 ntime nonce ss job =
     (if worker_name \<notin> ss_authorized_workers ss then validation_rejected ''unauthorized-worker''
      else case validate_share_format extranonce2 ntime nonce of
        Inl reason \<Rightarrow> validation_rejected reason
      | Inr _ \<Rightarrow>
          (case get_assigned_job job_id ss of
             None \<Rightarrow> validation_rejected ''stale-job''
           | Some assigned \<Rightarrow>
               if ntime \<noteq> aj_ntime assigned then validation_rejected ''ntime-mismatch''
               else validate_hash ex (aj_p_diff assigned) job
                      (job_header_args job (ss_extranonce1 ss) extranonce2 ntime nonce)))"

subsection \<open>The format check\<close>

definition hex_of_len :: "nat \<Rightarrow> string \<Rightarrow> bool" where
  "hex_of_len n s \<longleftrightarrow> length s = n \<and> list_all is_ascii_hexdigit s"

text \<open>The format check accepts exactly the submissions whose extranonce2 is one to eight bytes
  of hex, whose time is six and whose nonce is eight bytes of hex.\<close>

theorem validate_share_format_iff:
  "validate_share_format extranonce2 ntime nonce = Inr () \<longleftrightarrow>
     (\<exists>k\<in>{1..8}. hex_of_len (2 * k) extranonce2) \<and> hex_of_len 12 ntime \<and> hex_of_len 16 nonce"
proof -
  have "(\<exists>k\<in>{1..8}. length extranonce2 = 2 * k) \<longleftrightarrow>
      extranonce2 \<noteq> [] \<and> length extranonce2 mod 2 = 0 \<and> length extranonce2 \<le> 16"
  proof -
    have "(\<exists>k\<in>{1..8}. n = 2 * k) \<longleftrightarrow> n \<noteq> 0 \<and> n mod 2 = 0 \<and> n \<le> 16" for n :: nat
      by (simp add: Bex_def) presburger
    then show ?thesis by simp
  qed
  then have "(\<exists>k\<in>{1..8}. hex_of_len (2 * k) extranonce2) \<longleftrightarrow>
      extranonce2 \<noteq> [] \<and> length extranonce2 mod 2 = 0 \<and> length extranonce2 \<le> 16 \<and>
      list_all is_ascii_hexdigit extranonce2"
    by (auto simp: hex_of_len_def)
  then show ?thesis by (auto simp: validate_share_format_def hex_of_len_def not_less)
qed

subsection \<open>The pipeline\<close>

lemma validation_rejected_not [simp]: "\<not> vr_accepted (validation_rejected r)"
  by (simp add: validation_rejected_def)

lemma validate_hash_accepted:
  "vr_accepted (validate_hash ex d job args) \<longleftrightarrow>
     (\<exists>hdr h target. x_build_stratum_header ex args = Some hdr \<and> x_header_hash ex hdr = Some h \<and>
        x_header_meets_difficulty ex (rev h) d = Some True \<and>
        x_hex_decode ex (mj_network_target_hex job) = Some target \<and> length target = 32)"
  by (auto simp: validate_hash_def Let_def split: option.splits bind_splits)


text \<open>The result of validation is consistent: a rejected share has a reason, no passed check and
  no block hash; an accepted share has no reason and met its difficulty; and a block hash is
  reported exactly when the hash met the network target.\<close>

theorem validate_share_consistent:
  "let r = validate_share ex w job_id e2 ntime nonce ss job
   in (if vr_accepted r then vr_reject_reason r = None \<and> vr_low_diff_ok r
       else vr_reject_reason r \<noteq> None \<and> \<not> vr_low_diff_ok r \<and> \<not> vr_network_target_ok r) \<and>
      ((\<exists>h. vr_block_hash r = Some h) \<longleftrightarrow> vr_network_target_ok r)"
  by (auto simp: validate_share_def validate_hash_def validation_rejected_def Let_def
      split: option.splits sum.splits bind_splits)

end
