(* ===== verification/Templates.thy ===== *)
theory Templates
  imports Validator
begin

text \<open>
  Mining templates and blocks: src/src/node_integration/template.rs turns a template of the node
  into a job, src/src/node_integration/block_builder.rs turns a job and a submission into the block
  to submit. Transactions, headers and blocks of \<^verbatim>\<open>bitcoinsuite_core\<close> are abstract types; its
  (de)serialisers are the fields of the record \<open>block_code\<close>.
\<close>

subsection \<open>The library\<close>

record ('h, 'm, 't) LotusBlock =
  lb_header :: 'h
  lb_metadata :: 'm
  lb_txs :: "'t list"

text \<open>\<open>None\<close> is the error of a deserialiser. Hashes are in the little-endian order of
  \<^verbatim>\<open>as_slice\<close>; an output is its value and whether its script is an \<^verbatim>\<open>OP_RETURN\<close>.\<close>

record ('h, 'm, 't) block_code =
  bc_block_deser :: "u8 list \<Rightarrow> ('h, 'm, 't) LotusBlock option"
  bc_block_ser :: "('h, 'm, 't) LotusBlock \<Rightarrow> u8 list"
  bc_update_merkle_root :: "('h, 'm, 't) LotusBlock \<Rightarrow> ('h, 'm, 't) LotusBlock"
  bc_header_deser :: "u8 list \<Rightarrow> 'h option"
  bc_calc_hash :: "'h \<Rightarrow> u8 list"
  bc_epoch_hash :: "'h \<Rightarrow> u8 list"
  bc_extended_metadata_hash :: "'h \<Rightarrow> u8 list"
  bc_tx_deser :: "u8 list \<Rightarrow> 't option"
  bc_tx_ser :: "'t \<Rightarrow> u8 list"
  bc_outputs :: "'t \<Rightarrow> (int \<times> bool) list"

text \<open>The fields of \<^verbatim>\<open>MiningTemplate\<close> the server reads.\<close>

record MiningTemplate =
  mt_header :: "u8 list"
  mt_block :: "u8 list"
  mt_template_id :: u64
  mt_curtime :: u64
  mt_prev_hash_stratum :: string
  mt_coinbase1 :: string
  mt_coinbase2 :: string
  mt_merkle_branches :: "string list"
  mt_version :: u32
  mt_nbits_stratum :: string
  mt_ntime_stratum :: string
  mt_target :: "u8 list"
  mt_height :: int
  mt_coinbase_value :: u64

text \<open>\<^verbatim>\<open>Hashed::to_hex_be\<close>.\<close>

definition to_hex_be :: "externals \<Rightarrow> u8 list \<Rightarrow> string" where
  "to_hex_be ex h = x_hex_encode ex (rev h)"

subsection \<open>From a template to a job\<close>

datatype template_error =
    BlockDeser
  | NoTransactions
  | CoinbaseHex
  | CoinbaseDeser

definition dummy_extranonce :: "externals \<Rightarrow> string" where
  "dummy_extranonce ex = x_hex_encode ex (replicate EXTRANONCE_TOTAL_SIZE 0)"

definition compute_block_size_with_extranonce ::
  "externals \<Rightarrow> ('h, 'm, 't) block_code \<Rightarrow> u8 list \<Rightarrow> string \<Rightarrow> string \<Rightarrow> template_error + u64" where
  "compute_block_size_with_extranonce ex bc template_block coinbase1 coinbase2 =
     (case bc_block_deser bc template_block of
        None \<Rightarrow> Inl BlockDeser
      | Some block \<Rightarrow>
          (case lb_txs block of
             [] \<Rightarrow> Inl NoTransactions
           | tx # _ \<Rightarrow>
               (case x_hex_decode ex (coinbase1 @ dummy_extranonce ex @ coinbase2) of
                  None \<Rightarrow> Inl CoinbaseHex
                | Some sample_bytes \<Rightarrow>
                    (case bc_tx_deser bc sample_bytes of
                       None \<Rightarrow> Inl CoinbaseDeser
                     | Some sample_tx \<Rightarrow>
                         (let delta = int (length (bc_tx_ser bc sample_tx)) - int (length (bc_tx_ser bc tx))
                          in Inr (word_of_int (int (length template_block) + delta)))))))"

definition template_header_fields :: "externals \<Rightarrow> ('h, 'm, 't) block_code \<Rightarrow> u8 list \<Rightarrow> string \<times> string" where
  "template_header_fields ex bc header =
     (if header \<noteq> []
      then case bc_header_deser bc header of
             Some h \<Rightarrow> (to_hex_be ex (bc_epoch_hash bc h), to_hex_be ex (bc_extended_metadata_hash bc h))
           | None \<Rightarrow> ([], [])
      else ([], []))"

definition template_to_job ::
  "externals \<Rightarrow> ('h, 'm, 't) block_code \<Rightarrow> MiningTemplate \<Rightarrow> bool \<Rightarrow> template_error + MiningJob" where
  "template_to_job ex bc template clean_jobs =
     (let (epoch_hash, extended_metadata_hash) = template_header_fields ex bc (mt_header template)
      in case compute_block_size_with_extranonce ex bc (mt_block template) (mt_coinbase1 template) (mt_coinbase2 template) of
           Inl e \<Rightarrow> Inl e
         | Inr block_size \<Rightarrow> Inr
             \<lparr>mj_job_id = ''job-'' @ show_u64 (mt_template_id template) @ ''-'' @ show_u64 (mt_curtime template),
              mj_template_id = mt_template_id template, mj_prevhash = mt_prev_hash_stratum template,
              mj_coinbase1 = mt_coinbase1 template, mj_coinbase2 = mt_coinbase2 template,
              mj_merkle_branches = mt_merkle_branches template,
              mj_version = pad_hex 8 (unat (mt_version template)),
              mj_nbits = mt_nbits_stratum template, mj_ntime = mt_ntime_stratum template,
              mj_network_target_hex = to_hex_be ex (mt_target template), mj_clean_jobs = clean_jobs,
              mj_template_epoch = mt_curtime template, mj_height = mt_height template,
              mj_epoch_hash = epoch_hash, mj_extended_metadata_hash = extended_metadata_hash,
              mj_block_size = block_size, mj_block_bytes = mt_block template,
              mj_coinbase_value = mt_coinbase_value template, mj_reason = []\<rparr>)"

datatype coinbase_error =
    CoinbaseNotHex
  | CoinbaseNotTx
  | ZeroOutputs
  | RewardBurned nat f64

definition verify_coinbase_outputs ::
  "externals \<Rightarrow> ('h, 'm, 't) block_code \<Rightarrow> MiningTemplate \<Rightarrow> coinbase_error + unit" where
  "verify_coinbase_outputs ex bc template =
     (case x_hex_decode ex (mt_coinbase1 template @ dummy_extranonce ex @ mt_coinbase2 template) of
        None \<Rightarrow> Inl CoinbaseNotHex
      | Some coinbase_bytes \<Rightarrow>
          (case bc_tx_deser bc coinbase_bytes of
             None \<Rightarrow> Inl CoinbaseNotTx
           | Some coinbase_tx \<Rightarrow>
               (let outputs = bc_outputs bc coinbase_tx;
                    total_output_value = i64_wrap (sum_list (map fst outputs));
                    spendable_count = length (filter (\<lambda>(value, opreturn). 0 < value \<and> \<not> opreturn) outputs)
                in if outputs = [] then Inl ZeroOutputs
                   else if spendable_count = 0
                   then Inl (RewardBurned (length outputs) (f_div (f_of_int total_output_value) SATS_PER_XPI_F64))
                   else Inr ())))"

subsection \<open>From a submission to a block\<close>

datatype build_error = BuildFailed | SizeAssertion

text \<open>Errors are \<open>BuildFailed\<close>; the assertion on the serialised size, which panics, is
  \<open>SizeAssertion\<close>.\<close>

definition build_submit_block ::
  "externals \<Rightarrow> ('h, 'm, 't) block_code \<Rightarrow> MiningJob \<Rightarrow> string \<Rightarrow> string \<Rightarrow> string \<Rightarrow> string \<Rightarrow> u8 list \<Rightarrow>
   build_error + string \<times> string" where
  "build_submit_block ex bc job extranonce1 extranonce2 ntime_hex_6b nonce_hex_8b template_block =
     (case bc_block_deser bc template_block of
        None \<Rightarrow> Inl BuildFailed
      | Some block \<Rightarrow>
          (case Option.bind (x_build_stratum_header ex (job_header_args job extranonce1 extranonce2 ntime_hex_6b nonce_hex_8b))
                  (bc_header_deser bc) of
             None \<Rightarrow> Inl BuildFailed
           | Some header \<Rightarrow>
               (case Option.bind (x_hex_decode ex (mj_coinbase1 job @ extranonce1 @ extranonce2 @ mj_coinbase2 job))
                       (bc_tx_deser bc) of
                  None \<Rightarrow> Inl BuildFailed
                | Some coinbase_tx \<Rightarrow>
                    if lb_txs block = [] then Inl BuildFailed
                    else (let built = bc_update_merkle_root bc
                                (block\<lparr>lb_header := header, lb_txs := (lb_txs block)[0 := coinbase_tx]\<rparr>);
                              block_hash = x_hex_encode ex (rev (bc_calc_hash bc (lb_header built)));
                              serialized = bc_block_ser bc built
                          in if \<bar>i64_wrap (int (length serialized) - sint (mj_block_size job))\<bar> \<le> 1
                             then Inr (x_hex_encode ex serialized, block_hash)
                             else Inl SizeAssertion))))"

subsection \<open>Jobs carry their template\<close>

lemma template_to_job_ok:
  assumes "template_to_job ex bc template clean_jobs = Inr job"
  obtains size where
    "compute_block_size_with_extranonce ex bc (mt_block template) (mt_coinbase1 template) (mt_coinbase2 template) = Inr size"
    "mj_block_size job = size" "mj_block_bytes job = mt_block template" "mj_coinbase1 job = mt_coinbase1 template"
    "mj_coinbase2 job = mt_coinbase2 template" "mj_template_id job = mt_template_id template"
    "mj_template_epoch job = mt_curtime template"
    "mj_job_id job = ''job-'' @ show_u64 (mt_template_id template) @ ''-'' @ show_u64 (mt_curtime template)"
    "mj_clean_jobs job = clean_jobs" "mj_reason job = []"
  using assms by (auto simp: template_to_job_def split: sum.splits prod.splits)

text \<open>C38: a job built from a template can be recognised by its id alone: the template id and epoch
  parsed from the id are the ones the job carries, so a submission for an evicted job is keyed like
  one for a cached job.\<close>

theorem job_id_names_template:
  assumes "template_to_job ex bc template clean_jobs = Inr job"
  shows "parse_template_metadata_from_job_id (mj_job_id job) = Some (mj_template_id job, mj_template_epoch job)"
  using assms by (rule template_to_job_ok) (simp only: job_id_round_trip)

lemma i64_wrap_sint: "i64_wrap (int n - sint (of_nat n :: u64)) = 0"
proof -
  have "(word_of_int (int n - sint (of_nat n :: u64)) :: u64) = 0" by simp
  moreover have "uint (word_of_int x :: u64) = x mod 2 ^ 64" for x by (simp add: unsigned_of_int take_bit_eq_mod)
  ultimately have "(int n - sint (of_nat n :: u64)) mod 2 ^ 64 = 0" by (metis uint_0_eq)
  then have "(int n - sint (of_nat n :: u64) + 2 ^ 63) mod 2 ^ 64 = 2 ^ 63"
    using mod_add_left_eq [of "int n - sint (of_nat n :: u64)" "2 ^ 64" "2 ^ 63"] by simp
  then show ?thesis by (simp add: i64_wrap_def)
qed

subsection \<open>The size of a submitted block\<close>

text \<open>What the serialiser promises: reading a block and writing it keeps its length, headers have a
  fixed length, and replacing the first transaction changes the length by the difference of the two
  transactions.\<close>

definition block_sizes :: "('h, 'm, 't) block_code \<Rightarrow> bool" where
  "block_sizes bc \<longleftrightarrow>
     (\<forall>bs b. bc_block_deser bc bs = Some b \<longrightarrow> length (bc_block_ser bc b) = length bs) \<and>
     (\<forall>b h. length (bc_block_ser bc (b\<lparr>lb_header := h\<rparr>)) = length (bc_block_ser bc b)) \<and>
     (\<forall>b. length (bc_block_ser bc (bc_update_merkle_root bc b)) = length (bc_block_ser bc b)) \<and>
     (\<forall>b t t' ts. length (bc_block_ser bc (b\<lparr>lb_txs := t # ts\<rparr>)) + length (bc_tx_ser bc t') =
                  length (bc_block_ser bc (b\<lparr>lb_txs := t' # ts\<rparr>)) + length (bc_tx_ser bc t))"

text \<open>The first part of the coinbase fixes the length of the script that holds the extranonce, so
  its bytes do not change the size of the transaction.\<close>

definition coinbase_size_fixed :: "externals \<Rightarrow> ('h, 'm, 't) block_code \<Rightarrow> string \<Rightarrow> string \<Rightarrow> bool" where
  "coinbase_size_fixed ex bc coinbase1 coinbase2 \<longleftrightarrow>
     (\<forall>en t t'. length en = 2 * EXTRANONCE_TOTAL_SIZE \<longrightarrow>
        Option.bind (x_hex_decode ex (coinbase1 @ en @ coinbase2)) (bc_tx_deser bc) = Some t \<longrightarrow>
        Option.bind (x_hex_decode ex (coinbase1 @ dummy_extranonce ex @ coinbase2)) (bc_tx_deser bc) = Some t' \<longrightarrow>
        length (bc_tx_ser bc t) = length (bc_tx_ser bc t'))"

lemma built_block_size:
  assumes "block_sizes bc" "bc_block_deser bc bs = Some b" "lb_txs b = tx # txs"
  shows "int (length (bc_block_ser bc (bc_update_merkle_root bc (b\<lparr>lb_header := h, lb_txs := (lb_txs b)[0 := t]\<rparr>)))) =
    int (length bs) + (int (length (bc_tx_ser bc t)) - int (length (bc_tx_ser bc tx)))"
proof -
  have "b\<lparr>lb_header := h, lb_txs := t # txs\<rparr> = b\<lparr>lb_txs := t # txs\<rparr>\<lparr>lb_header := h\<rparr>" by simp
  then have "length (bc_block_ser bc (bc_update_merkle_root bc (b\<lparr>lb_header := h, lb_txs := (lb_txs b)[0 := t]\<rparr>))) =
      length (bc_block_ser bc (b\<lparr>lb_txs := t # txs\<rparr>))"
    using assms(1,3) unfolding block_sizes_def by (metis list_update_code(2))
  moreover have "length (bc_block_ser bc (b\<lparr>lb_txs := t # txs\<rparr>)) + length (bc_tx_ser bc tx) =
      length (bc_block_ser bc (b\<lparr>lb_txs := tx # txs\<rparr>)) + length (bc_tx_ser bc t)"
    using assms(1) unfolding block_sizes_def by blast
  moreover have "b\<lparr>lb_txs := tx # txs\<rparr> = b" using assms(3) by simp
  moreover have "length (bc_block_ser bc b) = length bs" using assms(1,2) unfolding block_sizes_def by blast
  ultimately show ?thesis by simp
qed


subsection \<open>The block that is submitted is the block that was validated\<close>

text \<open>What the libraries promise: the validator's hash is the hash of the deserialised header, and
  \<^verbatim>\<open>build_stratum_header\<close> writes the merkle root of the block with the reconstructed
  coinbase, so that updating the root changes nothing.\<close>

definition stratum_header_laws :: "externals \<Rightarrow> ('h, 'm, 't) block_code \<Rightarrow> MiningJob \<Rightarrow> bool" where
  "stratum_header_laws ex bc job \<longleftrightarrow>
     (\<forall>bs. x_header_hash ex bs = map_option (bc_calc_hash bc) (bc_header_deser bc bs)) \<and>
     (\<forall>b en1 en2 ntime nonce hs h cs t.
        bc_block_deser bc (mj_block_bytes job) = Some b \<longrightarrow>
        x_build_stratum_header ex (job_header_args job en1 en2 ntime nonce) = Some hs \<longrightarrow>
        bc_header_deser bc hs = Some h \<longrightarrow>
        x_hex_decode ex (mj_coinbase1 job @ en1 @ en2 @ mj_coinbase2 job) = Some cs \<longrightarrow>
        bc_tx_deser bc cs = Some t \<longrightarrow>
        lb_header (bc_update_merkle_root bc (b\<lparr>lb_header := h, lb_txs := (lb_txs b)[0 := t]\<rparr>)) = h)"

lemma validate_hash_block:
  assumes "vr_network_target_ok (validate_hash ex p_diff job args)"
  obtains hs hash_le where "x_build_stratum_header ex args = Some hs" "x_header_hash ex hs = Some hash_le"
    "vr_block_hash (validate_hash ex p_diff job args) = Some (x_hex_encode ex (rev hash_le))"
  using assms
  by (auto simp: validate_hash_def validation_rejected_def Let_def bind_eq_Some_conv split: option.splits if_splits)

lemma validate_share_block:
  assumes "vr_network_target_ok (validate_share ex worker_name job_id extranonce2 ntime nonce ss job)"
  shows "\<exists>p_diff. validate_share ex worker_name job_id extranonce2 ntime nonce ss job =
    validate_hash ex p_diff job (job_header_args job (ss_extranonce1 ss) extranonce2 ntime nonce)"
  using assms by (auto simp: validate_share_def validation_rejected_def split: if_splits sum.splits option.splits)

lemma build_submit_block_hash:
  assumes "build_submit_block ex bc job en1 en2 ntime nonce (mj_block_bytes job) = Inr (block_hex, block_hash)"
    and "stratum_header_laws ex bc job"
    and "x_build_stratum_header ex (job_header_args job en1 en2 ntime nonce) = Some hs"
    and "x_header_hash ex hs = Some hash_le"
  shows "block_hash = x_hex_encode ex (rev hash_le)"
  using assms unfolding stratum_header_laws_def
  by (auto simp: build_submit_block_def Let_def bind_eq_Some_conv split: option.splits if_splits)

lemma built_block_hash:
  assumes "vr_network_target_ok (validate_share ex worker_name job_id extranonce2 ntime nonce ss job)"
    and "build_submit_block ex bc job (ss_extranonce1 ss) extranonce2 ntime nonce (mj_block_bytes job) = Inr (block_hex, block_hash)"
    and "stratum_header_laws ex bc job"
  shows "vr_block_hash (validate_share ex worker_name job_id extranonce2 ntime nonce ss job) = Some block_hash"
proof -
  obtain p_diff where v: "validate_share ex worker_name job_id extranonce2 ntime nonce ss job =
      validate_hash ex p_diff job (job_header_args job (ss_extranonce1 ss) extranonce2 ntime nonce)"
    using validate_share_block [OF assms(1)] by blast
  from assms(1) [unfolded v] obtain hs hash_le where
    "x_build_stratum_header ex (job_header_args job (ss_extranonce1 ss) extranonce2 ntime nonce) = Some hs"
    "x_header_hash ex hs = Some hash_le"
    "vr_block_hash (validate_hash ex p_diff job (job_header_args job (ss_extranonce1 ss) extranonce2 ntime nonce)) =
       Some (x_hex_encode ex (rev hash_le))"
    by (rule validate_hash_block)
  with build_submit_block_hash [OF assms(2,3)] show ?thesis by (simp add: v)
qed

text \<open>The block the server submits is the block the validator saw. When a share passes validation as a
  block and the block is built from the same submission, its hash is the hash recorded with the
  share, so the payout for the block finds the share that found it.\<close>

theorem built_block_is_validated_block:
  assumes "vr_network_target_ok (validate_share ex worker_name job_id extranonce2 ntime nonce ss job)"
    and "build_submit_block ex bc job (ss_extranonce1 ss) extranonce2 ntime nonce (mj_block_bytes job) = Inr (block_hex, block_hash)"
    and "stratum_header_laws ex bc job"
  shows "vr_block_hash (validate_share ex worker_name job_id extranonce2 ntime nonce ss job) = Some block_hash"
  using assms by (rule built_block_hash)

subsection \<open>A coinbase with a spendable output\<close>

text \<open>A template passes the startup check exactly when its coinbase decodes and has an output that
  is worth something and can be spent.\<close>

theorem verify_coinbase_outputs_iff:
  "verify_coinbase_outputs ex bc template = Inr () \<longleftrightarrow>
     (\<exists>bs tx v. x_hex_decode ex (mt_coinbase1 template @ dummy_extranonce ex @ mt_coinbase2 template) = Some bs \<and>
        bc_tx_deser bc bs = Some tx \<and> (v, False) \<in> set (bc_outputs bc tx) \<and> 0 < v)"
  by (force simp: verify_coinbase_outputs_def Let_def filter_empty_conv split: option.splits)

subsection \<open>Sample data\<close>

text \<open>A small block format: a one-byte header followed by a single transaction.\<close>

definition sample_code :: "(u8 list, unit, u8 list) block_code" where
  "sample_code =
     \<lparr>bc_block_deser = (\<lambda>bs. case bs of [] \<Rightarrow> None
                       | h # tx \<Rightarrow> Some \<lparr>lb_header = [h], lb_metadata = (), lb_txs = [tx]\<rparr>),
      bc_block_ser = (\<lambda>b. (case lb_header b of [] \<Rightarrow> 0 | h # _ \<Rightarrow> h) # concat (lb_txs b)),
      bc_update_merkle_root = id, bc_header_deser = Some, bc_calc_hash = (\<lambda>_. replicate 32 0),
      bc_epoch_hash = id, bc_extended_metadata_hash = id, bc_tx_deser = Some, bc_tx_ser = id,
      bc_outputs = (\<lambda>tx. [(int (length tx), False)])\<rparr>"

definition sample_template :: MiningTemplate where
  "sample_template =
     \<lparr>mt_header = [], mt_block = [1, 2, 3], mt_template_id = 1, mt_curtime = 5,
      mt_prev_hash_stratum = [], mt_coinbase1 = ''aa'', mt_coinbase2 = ''bb'', mt_merkle_branches = [],
      mt_version = 1, mt_nbits_stratum = [], mt_ntime_stratum = ''6adc0c6a0000'', mt_target = replicate 32 255,
      mt_height = 7, mt_coinbase_value = 100\<rparr>"

lemma sample_code_sizes: "block_sizes sample_code"
  by (auto simp: block_sizes_def sample_code_def split: list.splits)

lemma sample_coinbase_fixed: "coinbase_size_fixed sample_externals sample_code coinbase1 coinbase2"
  by (auto simp: coinbase_size_fixed_def sample_externals_def sample_code_def bind_eq_Some_conv
      dummy_extranonce_def hex_encode_ref_length dest!: hex_decode_ref_length)

definition template_job :: MiningJob where
  "template_job = (case template_to_job sample_externals sample_code sample_template False of Inr j \<Rightarrow> j)"

lemma sample_dummy: "dummy_extranonce sample_externals = ''0000000000000000''"
  by code_simp

lemma sample_hex: "x_hex_decode sample_externals ''aa0000000000000000bb'' = Some [170, 0, 0, 0, 0, 0, 0, 0, 0, 187]"
  by code_simp

lemma template_job_ok: "template_to_job sample_externals sample_code sample_template False = Inr template_job"
  using sample_dummy sample_hex
  by (simp add: template_job_def template_to_job_def template_header_fields_def compute_block_size_with_extranonce_def
    sample_code_def sample_template_def)

theorem job_id_names_template_witness:
  "parse_template_metadata_from_job_id (mj_job_id template_job) = Some (mj_template_id template_job, mj_template_epoch template_job)"
  by (rule job_id_names_template [OF template_job_ok])

lemma sample_hex_encode: "x_hex_encode sample_externals = hex_encode_ref"
  by (simp add: sample_externals_def)

lemma template_job_fields:
  "mj_block_bytes template_job = [1, 2, 3]" "mj_coinbase1 template_job = ''aa''" "mj_coinbase2 template_job = ''bb''"
  "mj_block_size template_job = 11"
  "mj_network_target_hex template_job = hex_encode_ref (replicate 32 255)"
  "mj_template_id template_job = 1" "mj_template_epoch template_job = 5" "mj_height template_job = 7"
  "mj_coinbase_value template_job = 100"
  using sample_dummy sample_hex
  by (simp_all add: template_job_def template_to_job_def template_header_fields_def compute_block_size_with_extranonce_def
    sample_code_def sample_template_def to_hex_be_def sample_hex_encode)

lemma sample_build:
  "build_submit_block sample_externals sample_code template_job ''00000001'' ''00000002'' ntime nonce [1, 2, 3] =
     Inr (hex_encode_ref [0, 170, 0, 0, 0, 1, 0, 0, 0, 2, 187], hex_encode_ref (replicate 32 0))"
proof -
  have "hex_decode_ref ''aa0000000100000002bb'' = Some [170, 0, 0, 0, 1, 0, 0, 0, 2, 187]" by code_simp
  then show ?thesis
    by (simp add: build_submit_block_def template_job_fields sample_code_def sample_externals_def i64_wrap_def)
qed


lemma sample_laws: "stratum_header_laws sample_externals sample_code template_job"
  by (auto simp: stratum_header_laws_def sample_code_def sample_externals_def)

lemma be_val_zeros [simp]: "be_val (replicate n 0) = 0"
  by (induction n) (simp_all add: be_val_def)

text \<open>A miner that was assigned the job of the sample template.\<close>

definition sample_miner :: SessionState where
  "sample_miner = sample_session\<lparr>ss_assigned_jobs :=
     [\<lparr>aj_job_id = mj_job_id template_job, aj_p_diff = Fin 2, aj_ntime = ''6adc0c6a0000''\<rparr>]\<rparr>"

lemma sample_miner_simps [simp]:
  "ss_is_subscribed sample_miner" "ss_extranonce1 sample_miner = ''00000001''" "ss_session_id sample_miner = ''s''"
  "ss_authorized_workers sample_miner = {''addr.rig''}" "ss_vardiff sample_miner = sample_vardiff"
  "get_assigned_job (mj_job_id template_job) sample_miner =
     Some \<lparr>aj_job_id = mj_job_id template_job, aj_p_diff = Fin 2, aj_ntime = ''6adc0c6a0000''\<rparr>"
  by (simp_all add: sample_miner_def sample_session_def get_assigned_job_def)

lemma sample_verdict:
  "validate_share sample_externals ''addr.rig'' (mj_job_id template_job) ''00000002'' ''6adc0c6a0000'' ''0000000000000003''
      sample_miner template_job =
   \<lparr>vr_accepted = True, vr_reject_reason = None, vr_low_diff_ok = True, vr_network_target_ok = True,
    vr_block_hash = Some (hex_encode_ref (replicate 32 0))\<rparr>"
proof -
  have "validate_share_format ''00000002'' ''6adc0c6a0000'' ''0000000000000003'' = Inr ()" by code_simp
  then show ?thesis
    by (simp add: validate_share_def validate_hash_def template_job_fields sample_externals_def hex_decode_encode_ref)
qed

theorem built_block_is_validated_block_witness:
  "vr_block_hash (validate_share sample_externals ''addr.rig'' (mj_job_id template_job) ''00000002'' ''6adc0c6a0000''
     ''0000000000000003'' sample_miner template_job) = Some (hex_encode_ref (replicate 32 0))"
  by (rule built_block_is_validated_block [OF _ _ sample_laws])
    (simp add: sample_verdict, simp add: template_job_fields sample_build)

end
