(* ===== verification/Node_Rpc.thy ===== *)
theory Node_Rpc
  imports Templates
begin

text \<open>
  The two clients of the node: JSON-RPC over HTTP
  (src/src/node_integration/json_rpc/client.rs) and NNG RPC
  (src/src/node_integration/nng/rpc_client.rs). The HTTP exchange, the printer of JSON values and the
  NNG interface are parameters; errors are the strings of the code.
\<close>

subsection \<open>JSON-RPC\<close>

datatype http_outcome =
    HttpError string
  | BodyError string
  | HttpBody nat json

text \<open>\<open>hc_post\<close> sends a request body; \<open>hc_display\<close> prints a JSON value.\<close>

record http_client =
  hc_post :: "json \<Rightarrow> http_outcome"
  hc_display :: "json \<Rightarrow> string"

definition rpc_request_body :: "string \<Rightarrow> json list \<Rightarrow> json" where
  "rpc_request_body meth params =
     JObj [(''jsonrpc'', JStr ''2.0''), (''id'', JNum (JInt 1)), (''method'', JStr meth), (''params'', JArr params)]"

definition rpc_call :: "http_client \<Rightarrow> string \<Rightarrow> json list \<Rightarrow> string + json" where
  "rpc_call hc meth params =
     (case hc_post hc (rpc_request_body meth params) of
        HttpError e \<Rightarrow> Inl (''JSON-RPC HTTP error: '' @ e)
      | BodyError e \<Rightarrow> Inl (''JSON-RPC response parse error: '' @ e)
      | HttpBody status body \<Rightarrow>
          (case Option.bind (json_get ''error'' body) as_object of
             Some error \<Rightarrow>
               (let code = (case Option.bind (map_of error ''code'') as_i64 of Some c \<Rightarrow> c | None \<Rightarrow> -1);
                    message = (case Option.bind (map_of error ''message'') as_str of
                                 Some m \<Rightarrow> m | None \<Rightarrow> ''unknown error'')
                in Inl (''JSON-RPC error (code='' @ show_int code @ '', http='' @ show_nat status @ ''): '' @ message))
           | None \<Rightarrow>
               (case json_get ''result'' body of
                  Some r \<Rightarrow> Inr r
                | None \<Rightarrow> Inl (''JSON-RPC response missing 'result' field: '' @ hc_display hc body))))"

record SubmitBlockResult =
  sr_accepted :: bool
  sr_block_hash :: "string option"
  sr_error :: "string option"

definition submitblock :: "http_client \<Rightarrow> string \<Rightarrow> string + SubmitBlockResult" where
  "submitblock hc mined_block_hex =
     (case rpc_call hc ''submitblock'' [JStr mined_block_hex] of
        Inl e \<Rightarrow> Inl e
      | Inr JNull \<Rightarrow> Inr \<lparr>sr_accepted = True, sr_block_hash = None, sr_error = None\<rparr>
      | Inr (JStr s) \<Rightarrow> Inr \<lparr>sr_accepted = False, sr_block_hash = None, sr_error = Some s\<rparr>
      | Inr other \<Rightarrow> Inr \<lparr>sr_accepted = False, sr_block_hash = None,
                         sr_error = Some (''unexpected response: '' @ hc_display hc other)\<rparr>)"

definition getblockcount :: "http_client \<Rightarrow> string + int" where
  "getblockcount hc =
     (case rpc_call hc ''getblockcount'' [] of
        Inl e \<Rightarrow> Inl e
      | Inr response \<Rightarrow>
          (case as_i64 response of
             Some count \<Rightarrow> Inr (i32_wrap count)
           | None \<Rightarrow> Inl (''getblockcount: unexpected response type: '' @ hc_display hc response)))"

fun str_contains :: "string \<Rightarrow> string \<Rightarrow> bool" where
  "str_contains [] pat = (pat = [])"
| "str_contains (c # s) pat = (starts_with (c # s) pat \<or> str_contains s pat)"

definition getblockhash :: "http_client \<Rightarrow> int \<Rightarrow> string + string option" where
  "getblockhash hc height =
     (case rpc_call hc ''getblockhash'' [JNum (JInt height)] of
        Inr val \<Rightarrow>
          (case as_str val of
             Some hash \<Rightarrow> Inr (Some hash)
           | None \<Rightarrow> Inl (''getblockhash: unexpected response type: '' @ hc_display hc val))
      | Inl e \<Rightarrow>
          if str_contains e ''-8'' \<or> str_contains e ''Block not found'' then Inr None else Inl e)"

definition get_block :: "http_client \<Rightarrow> string \<Rightarrow> string + json" where
  "get_block hc block_hash = rpc_call hc ''getblock'' [JStr block_hash, JNum (JInt 2)]"

definition get_raw_transaction :: "http_client \<Rightarrow> string \<Rightarrow> string + json" where
  "get_raw_transaction hc txid = rpc_call hc ''getrawtransaction'' [JStr txid, JBool True]"

definition send_raw_transaction :: "http_client \<Rightarrow> string \<Rightarrow> string + string" where
  "send_raw_transaction hc signed_tx_hex =
     (case rpc_call hc ''sendrawtransaction'' [JStr signed_tx_hex] of
        Inl e \<Rightarrow> Inl e
      | Inr (JStr txid) \<Rightarrow> Inr txid
      | Inr JNull \<Rightarrow> Inl ''sendrawtransaction returned null''
      | Inr other \<Rightarrow> Inl (''sendrawtransaction: unexpected response type: '' @ hc_display hc other))"

subsection \<open>NNG RPC\<close>

text \<open>\<open>ni_get_mining_template\<close> takes the coinbase script and identity, the two extranonce sizes and
  whether transactions are included.\<close>

record 'i nng_interface =
  ni_open :: "string \<Rightarrow> string + 'i"
  ni_get_mining_template ::
    "'i \<Rightarrow> u8 list option \<Rightarrow> u8 list option \<Rightarrow> nat \<Rightarrow> nat \<Rightarrow> bool \<Rightarrow> string + MiningTemplate"

record 'i NngRpcClient =
  nr_interface :: "'i option"
  nr_rpc_url :: string
  nr_coinbase_script :: "u8 list option"
  nr_coinbase_identity :: "u8 list option"

definition nng_new :: "string \<Rightarrow> u8 list option \<Rightarrow> u8 list option \<Rightarrow> 'i NngRpcClient" where
  "nng_new rpc_url coinbase_script coinbase_identity =
     \<lparr>nr_interface = None, nr_rpc_url = rpc_url, nr_coinbase_script = coinbase_script,
      nr_coinbase_identity = coinbase_identity\<rparr>"

definition nng_connect :: "'i nng_interface \<Rightarrow> (string, 'i NngRpcClient, unit) op" where
  "nng_connect ni c =
     (case ni_open ni (nr_rpc_url c) of
        Inl e \<Rightarrow> (Inl (''failed to open NNG RPC connection: '' @ e), c)
      | Inr i \<Rightarrow> (Inr (), c\<lparr>nr_interface := Some i\<rparr>))"

definition get_mining_template :: "'i nng_interface \<Rightarrow> 'i NngRpcClient \<Rightarrow> string + MiningTemplate" where
  "get_mining_template ni c =
     (case nr_interface c of
        None \<Rightarrow> Inl ''NNG RPC client not connected. Call connect() first.''
      | Some i \<Rightarrow>
          (case ni_get_mining_template ni i (nr_coinbase_script c) (nr_coinbase_identity c)
                  EXTRANONCE_1_SIZE EXTRANONCE_2_SIZE True of
             Inl e \<Rightarrow> Inl (''failed to fetch mining template: '' @ e)
           | Inr t \<Rightarrow> Inr t))"

definition is_connected :: "'i NngRpcClient \<Rightarrow> bool" where
  "is_connected c \<longleftrightarrow> nr_interface c \<noteq> None"

definition disconnect :: "'i NngRpcClient \<Rightarrow> 'i NngRpcClient" where
  "disconnect c = c\<lparr>nr_interface := None\<rparr>"

subsection \<open>Answers of the node\<close>

text \<open>A block counts as accepted by the node exactly when the node answered the call with the
  result null and no error object. An error of the transport, an error object, a string and any
  other result are not acceptance.\<close>

theorem submitblock_accepted_iff:
  "(\<exists>r. submitblock hc block_hex = Inr r \<and> sr_accepted r) \<longleftrightarrow>
     (\<exists>status body. hc_post hc (rpc_request_body ''submitblock'' [JStr block_hex]) = HttpBody status body \<and>
        Option.bind (json_get ''error'' body) as_object = None \<and> json_get ''result'' body = Some JNull)"
  by (auto simp: submitblock_def rpc_call_def Let_def split: http_outcome.splits option.splits sum.splits json.splits)

end
