(* ===== verification/Job_Cache.thy ===== *)
theory Job_Cache
  imports Stratum_Messages
begin

text \<open>
  The job cache of src/src/node_integration/job_cache.rs: a bounded cache of the
  \<^verbatim>\<open>moka\<close> library and the insertion order of the job ids. The library cache is a
  parameter, the record of its operations; \<open>job_store\<close> states what its documentation promises
  while the number of keys is within the capacity.
\<close>

record 'c cache_ops =
  co_new :: "nat \<Rightarrow> 'c"
  co_get :: "'c \<Rightarrow> string \<Rightarrow> MiningJob option"
  co_insert :: "string \<Rightarrow> MiningJob \<Rightarrow> 'c \<Rightarrow> 'c"
  co_invalidate :: "string \<Rightarrow> 'c \<Rightarrow> 'c"
  co_invalidate_all :: "'c \<Rightarrow> 'c"

record 'c JobCache =
  jc_cache :: 'c
  jc_job_order :: "string list"
  jc_max_size :: u64

definition job_cache_new :: "'c cache_ops \<Rightarrow> u64 \<Rightarrow> 'c JobCache" where
  "job_cache_new ops max_size =
     \<lparr>jc_cache = co_new ops (unat max_size), jc_job_order = [], jc_max_size = max_size\<rparr>"

text \<open>The eviction loop: \<^verbatim>\<open>while order.len() > max_size\<close>.\<close>

fun evict_oldest :: "'c cache_ops \<Rightarrow> nat \<Rightarrow> string list \<Rightarrow> 'c \<Rightarrow> string list \<times> 'c" where
  "evict_oldest ops n [] c = ([], c)"
| "evict_oldest ops n (i # order) c =
     (if n < length (i # order) then evict_oldest ops n order (co_invalidate ops i c) else (i # order, c))"

definition job_cache_insert :: "'c cache_ops \<Rightarrow> MiningJob \<Rightarrow> 'c JobCache \<Rightarrow> 'c JobCache" where
  "job_cache_insert ops job jc =
     (let (order, c) = evict_oldest ops (unat (jc_max_size jc)) (jc_job_order jc @ [mj_job_id job]) (jc_cache jc)
      in jc\<lparr>jc_job_order := order, jc_cache := co_insert ops (mj_job_id job) job c\<rparr>)"

definition job_cache_get :: "'c cache_ops \<Rightarrow> string \<Rightarrow> 'c JobCache \<Rightarrow> MiningJob option" where
  "job_cache_get ops job_id jc = co_get ops (jc_cache jc) job_id"

definition get_latest :: "'c cache_ops \<Rightarrow> 'c JobCache \<Rightarrow> MiningJob option" where
  "get_latest ops jc =
     (if jc_job_order jc = [] then None else co_get ops (jc_cache jc) (last (jc_job_order jc)))"

definition get_latest_target_hex :: "'c cache_ops \<Rightarrow> 'c JobCache \<Rightarrow> string option" where
  "get_latest_target_hex ops jc = map_option mj_network_target_hex (get_latest ops jc)"

definition job_cache_len :: "'c JobCache \<Rightarrow> nat" where
  "job_cache_len jc = length (jc_job_order jc)"

definition job_cache_is_empty :: "'c JobCache \<Rightarrow> bool" where
  "job_cache_is_empty jc = (jc_job_order jc = [])"

definition job_cache_clear :: "'c cache_ops \<Rightarrow> 'c JobCache \<Rightarrow> 'c JobCache" where
  "job_cache_clear ops jc = jc\<lparr>jc_cache := co_invalidate_all ops (jc_cache jc), jc_job_order := []\<rparr>"

subsection \<open>The library cache\<close>

locale job_store =
  fixes ops :: "'c cache_ops" and cap :: nat
  assumes get_new: "co_get ops (co_new ops cap) = Map.empty"
    and get_insert: "finite (dom (co_get ops c)) \<Longrightarrow> card (insert k (dom (co_get ops c))) \<le> cap \<Longrightarrow>
        co_get ops (co_insert ops k j c) = (co_get ops c)(k \<mapsto> j)"
    and get_invalidate: "co_get ops (co_invalidate ops k c) = (co_get ops c)(k := None)"
    and get_invalidate_all: "co_get ops (co_invalidate_all ops c) = Map.empty"
begin

lemma evict_order: "fst (evict_oldest ops n order c) = keep_last n order"
  by (induction order arbitrary: c) (auto simp: keep_last_def Suc_diff_le)

lemma evict_get:
  "distinct order \<Longrightarrow> co_get ops (snd (evict_oldest ops n order c)) =
     (\<lambda>k. if k \<in> set (take (length order - n) order) then None else co_get ops c k)"
proof (induction order arbitrary: c)
  case (Cons i order)
  then show ?case by (auto simp: get_invalidate fun_eq_iff Suc_diff_le)
qed simp

text \<open>What the cache holds: the jobs inserted last, by id.\<close>

definition holds :: "MiningJob list \<Rightarrow> 'c JobCache \<Rightarrow> bool" where
  "holds js jc \<longleftrightarrow>
     unat (jc_max_size jc) = cap \<and> jc_job_order jc = map mj_job_id js \<and> length js \<le> cap \<and>
     co_get ops (jc_cache jc) = map_of (map (\<lambda>j. (mj_job_id j, j)) js)"

lemma holds_new: "unat m = cap \<Longrightarrow> holds [] (job_cache_new ops m)"
  by (auto simp: holds_def job_cache_new_def get_new)

lemma holds_insert:
  assumes h: "holds js jc" and cap: "0 < cap" and d: "distinct (map mj_job_id (js @ [job]))"
  shows "holds (keep_last cap (js @ [job])) (job_cache_insert ops job jc)"
proof -
  let ?e = "\<lambda>xs. map (\<lambda>j. (mj_job_id j, j)) xs"
  define n where "n = length js + 1 - cap"
  define ids where "ids = map mj_job_id js @ [mj_job_id job]"
  have n: "n \<le> length js" using cap by (simp add: n_def)
  then have last: "keep_last cap (js @ [job]) = drop n js @ [job]" by (simp add: keep_last_def n_def)
  have nd: "mj_job_id job \<notin> set (map mj_job_id (drop n js))" using d by (auto dest: in_set_dropD)
  define c where "c = snd (evict_oldest ops cap ids (jc_cache jc))"
  have "take (length ids - cap) ids = map mj_job_id (take n js)" using n by (simp add: ids_def n_def take_map)
  moreover have "distinct ids" using d by (simp add: ids_def)
  moreover have gj: "co_get ops (jc_cache jc) = map_of (?e js)" using h by (simp add: holds_def)
  ultimately have "co_get ops c = (\<lambda>k. if k \<in> set (map mj_job_id (take n js)) then None else map_of (?e js) k)"
    unfolding c_def gj [symmetric] using evict_get [of ids cap "jc_cache jc"] by (simp only:)
  also have "\<dots> = map_of (?e (drop n js))"
  proof
    fix k
    have "map_of (?e js) k = (map_of (?e (drop n js)) ++ map_of (?e (take n js))) k"
      by (metis append_take_drop_id map_append map_of_append)
    moreover have "map_of (?e (drop n js)) k = None" if "k \<in> set (map mj_job_id (take n js))"
      using that d set_take_disj_set_drop_if_distinct [of "map mj_job_id js" n n]
      by (auto simp: map_of_eq_None_iff take_map drop_map image_iff)
    moreover have "map_of (?e (take n js)) k = None" if "k \<notin> set (map mj_job_id (take n js))"
      using that by (auto simp: map_of_eq_None_iff)
    ultimately show "(if k \<in> set (map mj_job_id (take n js)) then None else map_of (?e js) k) = map_of (?e (drop n js)) k"
      by (simp add: map_add_def)
  qed
  finally have g: "co_get ops c = map_of (?e (drop n js))" .
  have dom: "dom (map_of (?e (drop n js))) = mj_job_id ` set (drop n js)"
    by (simp add: dom_map_of_conv_image_fst image_image)
  have "card (insert (mj_job_id job) (mj_job_id ` set (drop n js))) \<le> length (drop n js @ [job])"
    using card_length [of "map mj_job_id (drop n js @ [job])"] by simp
  also have "\<dots> \<le> cap" using cap by (simp add: n_def)
  finally have "card (insert (mj_job_id job) (dom (co_get ops c))) \<le> cap" by (simp only: g dom)
  then have "co_get ops (co_insert ops (mj_job_id job) job c) = (map_of (?e (drop n js)))(mj_job_id job \<mapsto> job)"
    using get_insert [of c "mj_job_id job" job] by (simp add: g finite_dom_map_of)
  also have "\<dots> = map_of (?e (drop n js @ [job]))"
  proof -
    have "map_of (?e (drop n js)) (mj_job_id job) = None" using nd by (auto simp: map_of_eq_None_iff)
    then show ?thesis by (auto simp: fun_eq_iff map_add_def split: option.splits)
  qed
  moreover have "Suc 0 - cap = 0" "Suc (length js - (Suc (length js) - cap)) \<le> cap" using cap by simp_all
  ultimately show ?thesis
    using h last evict_order [of cap ids "jc_cache jc"]
    by (simp add: holds_def job_cache_insert_def case_prod_unfold Let_def c_def [unfolded ids_def, symmetric] ids_def
        keep_last_def n_def drop_map)
qed

lemma holds_fold:
  "holds [] jc \<Longrightarrow> 0 < cap \<Longrightarrow> distinct (map mj_job_id js) \<Longrightarrow>
     holds (keep_last cap js) (fold (job_cache_insert ops) js jc)"
proof (induction js rule: rev_induct)
  case (snoc j js)
  have "distinct (map mj_job_id (keep_last cap js @ [j]))"
    using snoc.prems(3) set_keep_last [of cap js] by (auto simp: keep_last_def drop_map [symmetric] dest!: in_set_dropD)
  moreover have "holds (keep_last cap js) (fold (job_cache_insert ops) js jc)" using snoc by simp
  ultimately have "holds (keep_last cap (keep_last cap js @ [j])) (job_cache_insert ops j (fold (job_cache_insert ops) js jc))"
    using snoc.prems(2) by (intro holds_insert)
  then show ?case by (simp add: keep_last_append)
qed (simp add: keep_last_def)

text \<open>What holds for any ids: the cache never holds more than the ids of the order.\<close>

definition bounded :: "'c JobCache \<Rightarrow> bool" where
  "bounded jc \<longleftrightarrow>
     unat (jc_max_size jc) = cap \<and> length (jc_job_order jc) \<le> cap \<and>
     dom (co_get ops (jc_cache jc)) \<subseteq> set (jc_job_order jc)"

lemma bounded_new: "unat m = cap \<Longrightarrow> bounded (job_cache_new ops m)"
  by (auto simp: bounded_def job_cache_new_def get_new)

lemma evict_dom:
  "dom (co_get ops c) \<subseteq> insert k (set order) \<Longrightarrow>
     dom (co_get ops (snd (evict_oldest ops n order c))) \<subseteq> insert k (set (fst (evict_oldest ops n order c)))"
proof (induction order arbitrary: c)
  case (Cons i order)
  then have "dom (co_get ops (co_invalidate ops i c)) \<subseteq> insert k (set order)"
    by (auto simp: get_invalidate split: if_splits)
  with Cons show ?case by auto
qed simp

lemma insert_bounded:
  assumes "bounded jc" "0 < cap"
  shows "bounded (job_cache_insert ops job jc)" "get_latest ops (job_cache_insert ops job jc) = Some job"
proof -
  let ?ids = "jc_job_order jc @ [mj_job_id job]"
  define c where "c = snd (evict_oldest ops cap ?ids (jc_cache jc))"
  have order: "fst (evict_oldest ops cap ?ids (jc_cache jc)) = keep_last cap ?ids" by (rule evict_order)
  have last: "last (keep_last cap ?ids) = mj_job_id job" "keep_last cap ?ids \<noteq> []"
    using keep_last_snoc [OF assms(2), of "jc_job_order jc" "mj_job_id job"] by simp_all
  then have id: "mj_job_id job \<in> set (keep_last cap ?ids)" by (metis last_in_set)
  have "dom (co_get ops c) \<subseteq> insert (mj_job_id job) (set (keep_last cap ?ids))"
    using assms(1) evict_dom [of "jc_cache jc" "mj_job_id job" ?ids cap]
    unfolding c_def order [symmetric] by (auto simp: bounded_def)
  then have dom: "insert (mj_job_id job) (dom (co_get ops c)) \<subseteq> set (keep_last cap ?ids)" using id by blast
  have "card (insert (mj_job_id job) (dom (co_get ops c))) \<le> card (set (keep_last cap ?ids))"
    using dom by (intro card_mono) auto
  also have "\<dots> \<le> cap" using card_length [of "keep_last cap ?ids"] by simp
  finally have card: "card (insert (mj_job_id job) (dom (co_get ops c))) \<le> cap" .
  have "finite (dom (co_get ops c))" using dom by (auto intro: finite_subset)
  note get = get_insert [OF this card, of job]
  show "bounded (job_cache_insert ops job jc)" "get_latest ops (job_cache_insert ops job jc) = Some job"
    using assms(1) dom get order last
    by (auto simp: bounded_def job_cache_insert_def get_latest_def case_prod_unfold Let_def c_def)
qed

end

subsection \<open>The cache holds the newest jobs\<close>

text \<open>C26: the cache is the map of the newest jobs. After inserting jobs with distinct ids into a new
  cache, a lookup returns exactly the jobs among the last \<open>max_size\<close> ones, the size is bounded
  by \<open>max_size\<close>, and the latest job is always present.\<close>

theorem job_cache_newest:
  assumes "job_store ops (unat m)" "0 < unat m" "distinct (map mj_job_id js)"
    and "jc = fold (job_cache_insert ops) js (job_cache_new ops m)"
  shows "job_cache_get ops i jc = map_of (map (\<lambda>j. (mj_job_id j, j)) (keep_last (unat m) js)) i \<and>
    job_cache_len jc = min (length js) (unat m) \<and>
    get_latest ops jc = (if js = [] then None else Some (last js))"
proof -
  let ?k = "keep_last (unat m) js"
  have h: "job_store.holds ops (unat m) ?k jc"
    unfolding assms(4)
    using job_store.holds_fold [OF assms(1)] job_store.holds_new [OF assms(1) refl] assms(2,3) by blast
  have g: "co_get ops (jc_cache jc) = map_of (map (\<lambda>j. (mj_job_id j, j)) ?k)"
    and o: "jc_job_order jc = map mj_job_id ?k"
    using h by (simp_all add: job_store.holds_def [OF assms(1)])
  have "get_latest ops jc = Some (last js)" if ne: "js \<noteq> []"
  proof -
    obtain as j where js: "js = as @ [j]" using ne by (cases js rule: rev_cases) simp_all
    have kl: "last ?k = j" "?k \<noteq> []" using keep_last_snoc [OF assms(2), of as j] js by auto
    have "distinct (map mj_job_id ?k)" using assms(3) by (simp add: keep_last_def drop_map [symmetric])
    then have "map_of (map (\<lambda>j. (mj_job_id j, j)) ?k) (mj_job_id j) = Some j"
      using kl by (intro map_of_is_SomeI) (auto simp: comp_def intro: last_in_set)
    then show ?thesis using kl js by (simp add: get_latest_def g o last_map)
  qed
  moreover have "js = [] \<Longrightarrow> get_latest ops jc = None" by (simp add: get_latest_def o keep_last_def)
  ultimately show ?thesis by (simp add: job_cache_get_def g job_cache_len_def o)
qed

text \<open>A cache that keeps everything.\<close>

definition map_ops :: "(string \<rightharpoonup> MiningJob) cache_ops" where
  "map_ops = \<lparr>co_new = (\<lambda>_. Map.empty), co_get = (\<lambda>c k. c k), co_insert = (\<lambda>k j c. c(k \<mapsto> j)),
     co_invalidate = (\<lambda>k c. c(k := None)), co_invalidate_all = (\<lambda>_. Map.empty)\<rparr>"

interpretation map_store: job_store map_ops cap
  by unfold_locales (simp_all add: map_ops_def)

definition sample_job :: "string \<Rightarrow> MiningJob" where
  "sample_job i =
     \<lparr>mj_job_id = i, mj_template_id = 1, mj_prevhash = [], mj_coinbase1 = [], mj_coinbase2 = [],
      mj_merkle_branches = [], mj_version = [], mj_nbits = [], mj_ntime = ''6adc0c6a0000'',
      mj_network_target_hex = replicate 64 (CHR ''f''), mj_clean_jobs = False, mj_template_epoch = 1,
      mj_height = 7, mj_epoch_hash = [], mj_extended_metadata_hash = [], mj_block_size = 0,
      mj_block_bytes = [], mj_coinbase_value = 0, mj_reason = []\<rparr>"

theorem job_cache_newest_witness:
  "let jc = fold (job_cache_insert map_ops) (map sample_job [''a'', ''b'', ''c'']) (job_cache_new map_ops 2)
   in job_cache_get map_ops ''a'' jc = None \<and> job_cache_get map_ops ''b'' jc = Some (sample_job ''b'') \<and>
      get_latest map_ops jc = Some (sample_job ''c'')"
proof -
  let ?js = "map sample_job [''a'', ''b'', ''c'']"
  have "distinct (map mj_job_id ?js)" by (simp add: sample_job_def)
  note t = job_cache_newest [OF map_store.job_store_axioms [of "unat (2 :: u64)"] _ this refl]
  show ?thesis
    using t [of "''a''"] t [of "''b''"] by (simp add: keep_last_def sample_job_def Let_def)
qed

text \<open>Inserting a job again under an id that is still in the order loses it early. With room for
  two jobs, after \<open>a\<close>, \<open>a\<close>, \<open>b\<close> the order still lists \<open>a\<close> but the cache no longer has
  it: eviction invalidates by id.\<close>

theorem job_cache_reinsert_lost:
  "let jc = fold (job_cache_insert map_ops) (map sample_job [''a'', ''a'', ''b'']) (job_cache_new map_ops 2)
   in jc_job_order jc = [''a'', ''b''] \<and> job_cache_get map_ops ''a'' jc = None"
  by (simp add: job_cache_insert_def job_cache_new_def job_cache_get_def map_ops_def sample_job_def Let_def)

end
