(* ===== verification/Stratum_Server.thy ===== *)
theory Stratum_Server
  imports Locked_Steps Node_Rpc Job_Cache
begin

unbundle bit_operations_syntax

text \<open>
  The Stratum server of src/src/stratum_protocol/server.rs: what a connection does with the bytes it
  reads, with the jobs that are broadcast and with the shutdown signal, the handling of a submitted
  share from validation to block submission, and the accept loop. A panic ends the task of the
  connection; it is the result \<open>None\<close>.
\<close>

subsection \<open>Text\<close>

text \<open>\<^verbatim>\<open>str::trim\<close> on UTF-8 bytes: the characters with the Unicode property White_Space.\<close>

definition is_white_space :: "string \<Rightarrow> bool" where
  "is_white_space c =
     (case map of_char c :: nat list of
        [b] \<Rightarrow> 9 \<le> b \<and> b \<le> 13 \<or> b = 32
      | [b, d] \<Rightarrow> b = 194 \<and> (d = 133 \<or> d = 160)
      | [b, d, e] \<Rightarrow>
          b = 225 \<and> d = 154 \<and> e = 128 \<or>
          b = 226 \<and> d = 128 \<and> (128 \<le> e \<and> e \<le> 138 \<or> e = 168 \<or> e = 169 \<or> e = 175) \<or>
          b = 226 \<and> d = 129 \<and> e = 159 \<or>
          b = 227 \<and> d = 128 \<and> e = 128
      | _ \<Rightarrow> False)"

lemma is_white_space_Nil [simp]: "\<not> is_white_space []"
  by (simp add: is_white_space_def)

function trim_start :: "string \<Rightarrow> string" where
  "trim_start s =
     (if is_white_space (take 1 s) then trim_start (drop 1 s)
      else if is_white_space (take 2 s) then trim_start (drop 2 s)
      else if is_white_space (take 3 s) then trim_start (drop 3 s)
      else s)"
  by pat_completeness auto
termination
  by (relation "measure length") (auto intro: diff_less)

declare trim_start.simps [simp del]

text \<open>The end of a string is trimmed like the start of its reversal, with each character's bytes
  read backwards.\<close>

function trim_end_rev :: "string \<Rightarrow> string" where
  "trim_end_rev s =
     (if is_white_space (rev (take 1 s)) then trim_end_rev (drop 1 s)
      else if is_white_space (rev (take 2 s)) then trim_end_rev (drop 2 s)
      else if is_white_space (rev (take 3 s)) then trim_end_rev (drop 3 s)
      else s)"
  by pat_completeness auto
termination
  by (relation "measure length") (auto intro: diff_less)

declare trim_end_rev.simps [simp del]

definition str_trim :: "string \<Rightarrow> string" where
  "str_trim s = rev (trim_end_rev (rev (trim_start s)))"

subsection \<open>The environment of a connection\<close>

text \<open>\<open>se_json_rpc\<close> is \<open>None\<close> when no JSON-RPC client is configured; the database of the
  connection is \<open>None\<close> when no accounting service is.\<close>

record ('c, 'h, 'm, 't) server_env =
  se_ext :: externals
  se_code :: "('h, 'm, 't) block_code"
  se_ops :: "'c cache_ops"
  se_from_str :: "string \<Rightarrow> string + json"
  se_json_rpc :: "http_client option"

definition param_str :: "nat \<Rightarrow> StratumRequest \<Rightarrow> string" where
  "param_str k req =
     (case as_array (rq_params req) of
        None \<Rightarrow> []
      | Some arr \<Rightarrow>
          if k < length arr then (case as_str (arr ! k) of Some s \<Rightarrow> s | None \<Rightarrow> []) else [])"

subsection \<open>Submitting a share\<close>

record submit_params =
  sp_worker :: string
  sp_job_id :: string
  sp_extranonce2 :: string
  sp_ntime :: string
  sp_nonce :: string

definition submit_params_of :: "StratumRequest \<Rightarrow> submit_params" where
  "submit_params_of req =
     \<lparr>sp_worker = param_str 0 req, sp_job_id = param_str 1 req, sp_extranonce2 = param_str 2 req,
      sp_ntime = param_str 3 req, sp_nonce = param_str 4 req\<rparr>"

definition assigned_diff :: "string \<Rightarrow> SessionState \<Rightarrow> f64" where
  "assigned_diff job_id ss =
     (case get_assigned_job job_id ss of Some a \<Rightarrow> aj_p_diff a | None \<Rightarrow> current_difficulty ss)"

text \<open>The verdict on a submission, with the template and the difficulty it is recorded under: the
  validator's for a cached job, \<^verbatim>\<open>stale-job\<close> for one that is not cached any more.\<close>

definition submit_verdict ::
  "externals \<Rightarrow> MiningJob option \<Rightarrow> submit_params \<Rightarrow> SessionState \<Rightarrow> ValidationResult \<times> u64 \<times> u64 \<times> f64" where
  "submit_verdict ex cached_job sp ss =
     (case cached_job of
        Some job \<Rightarrow>
          (validate_share ex (sp_worker sp) (sp_job_id sp) (sp_extranonce2 sp) (sp_ntime sp) (sp_nonce sp) ss job,
           mj_template_id job, mj_template_epoch job, assigned_diff (sp_job_id sp) ss)
      | None \<Rightarrow>
          (case get_assigned_job (sp_job_id sp) ss of
             Some assigned \<Rightarrow>
               (let (tid, epoch) = (case parse_template_metadata_from_job_id (sp_job_id sp) of
                                      Some m \<Rightarrow> m | None \<Rightarrow> (0, 0))
                in (validation_rejected ''stale-job'', tid, epoch, aj_p_diff assigned))
           | None \<Rightarrow> (validation_rejected ''stale-job'', 0, 0, current_difficulty ss)))"

definition submission_of ::
  "submit_params \<Rightarrow> SessionState \<Rightarrow> WorkerName \<Rightarrow> ValidationResult \<Rightarrow> u64 \<Rightarrow> u64 \<Rightarrow> f64 \<Rightarrow> share_submission" where
  "submission_of sp ss wn v template_id template_epoch share_diff =
     \<lparr>sb_payout_address = wn_payout_address wn, sb_worker_suffix = wn_worker_suffix wn,
      sb_session_id = ss_session_id ss, sb_job_id = sp_job_id sp, sb_template_id = template_id,
      sb_template_epoch = template_epoch, sb_extranonce1 = ss_extranonce1 ss,
      sb_extranonce2 = sp_extranonce2 sp, sb_ntime_hex = sp_ntime sp, sb_nonce_hex = sp_nonce sp,
      sb_difficulty = share_diff, sb_status = (if vr_accepted v then ''accepted'' else ''rejected''),
      sb_reject_reason = vr_reject_reason v, sb_low_diff_ok = vr_low_diff_ok v,
      sb_network_target_ok = vr_network_target_ok v, sb_block_hash = vr_block_hash v\<rparr>"

text \<open>Persist the share; the result is the dedupe key, empty when nothing was recorded.\<close>

definition persist_share ::
  "externals \<Rightarrow> submit_params \<Rightarrow> SessionState \<Rightarrow> ValidationResult \<Rightarrow> u64 \<Rightarrow> u64 \<Rightarrow> f64 \<Rightarrow> string dbop" where
  "persist_share ex sp ss v template_id template_epoch share_diff =
     (case parse_worker_name ex (sp_worker sp) of
        Inl _ \<Rightarrow> okR []
      | Inr wn \<Rightarrow>
          bindR (tryR (record_share (submission_of sp ss wn v template_id template_epoch share_diff))) (\<lambda>r.
          okR (case r of Some (_, _, _, dedupe_key) \<Rightarrow> dedupe_key | None \<Rightarrow> [])))"

definition record_accepted_block :: "MiningJob \<Rightarrow> u64 \<Rightarrow> string \<Rightarrow> string \<Rightarrow> unit dbop" where
  "record_accepted_block job template_id block_hash dedupe_key =
     bindR (tryR (resolve_round_for_template template_id)) (\<lambda>r.
     bindR (case r of
              None \<Rightarrow> okR ()
            | Some rd \<Rightarrow>
                bindR (ignoreR (record_found_block (rd_id rd) block_hash (mj_height job) None
                         (Some (mj_template_id job)) (Some ''json-rpc'') (mj_coinbase_value job)
                         (mj_network_target_hex job))) (\<lambda>_.
                ignoreR (close_round (rd_id rd) template_id ''found''))) (\<lambda>_.
     ignoreR (update_share_outcome_node_result dedupe_key ''accepted'')))"

text \<open>What the node's answer does to the database.\<close>

definition record_submit_result ::
  "MiningJob \<Rightarrow> u64 \<Rightarrow> string \<Rightarrow> string \<Rightarrow> string + SubmitBlockResult \<Rightarrow> unit dbop" where
  "record_submit_result job template_id block_hash dedupe_key submit_result =
     (case submit_result of
        Inl _ \<Rightarrow> okR ()
      | Inr result \<Rightarrow>
          if sr_accepted result then record_accepted_block job template_id block_hash dedupe_key
          else ignoreR (update_share_outcome_node_result dedupe_key
                 (''rejected: '' @ (case sr_error result of Some e \<Rightarrow> e | None \<Rightarrow> ''unknown''))))"

definition with_db :: "'a dbop \<Rightarrow> 'a \<Rightarrow> db option \<Rightarrow> 'a \<times> db option" where
  "with_db m d dbo =
     (case dbo of
        None \<Rightarrow> (d, None)
      | Some s \<Rightarrow> (case m s of (Inr x, t) \<Rightarrow> (x, Some t) | (Inl _, t) \<Rightarrow> (d, Some t)))"

text \<open>Build and submit the block of a share that meets the network target; \<open>None\<close> when the size
  assertion of the builder panics.\<close>

definition submit_candidate ::
  "('c, 'h, 'm, 't) server_env \<Rightarrow> MiningJob option \<Rightarrow> submit_params \<Rightarrow> SessionState \<Rightarrow> u64 \<Rightarrow> string \<Rightarrow>
   db option \<Rightarrow> unit option \<times> db option" where
  "submit_candidate env cached_job sp ss template_id dedupe_key dbo =
     (case (cached_job, se_json_rpc env) of
        (Some job, Some hc) \<Rightarrow>
          if mj_block_bytes job = [] then (Some (), dbo)
          else (case build_submit_block (se_ext env) (se_code env) job (ss_extranonce1 ss) (sp_extranonce2 sp)
                       (sp_ntime sp) (sp_nonce sp) (mj_block_bytes job) of
                  Inl SizeAssertion \<Rightarrow> (None, dbo)
                | Inl BuildFailed \<Rightarrow> (Some (), dbo)
                | Inr (block_hex, built_block_hash) \<Rightarrow>
                    (Some (), snd (with_db (record_submit_result job template_id built_block_hash dedupe_key
                                              (submitblock hc block_hex)) () dbo)))
      | _ \<Rightarrow> (Some (), dbo))"

definition reject_code :: "string option \<Rightarrow> int \<times> string" where
  "reject_code reason =
     (if reason = Some ''unauthorized-worker'' then (24, ''unauthorized-worker'')
      else if reason = Some ''stale-job'' then (22, ''stale-job'')
      else if reason = Some ''ntime-mismatch'' then (21, ''ntime-mismatch'')
      else if reason = Some ''low-difficulty-share'' then (23, ''low-difficulty-share'')
      else (20, ''invalid-submit-shape''))"

definition submit_response :: "json \<Rightarrow> ValidationResult \<Rightarrow> StratumResponse" where
  "submit_response i v =
     (if vr_accepted v then response_ok i (JBool True)
      else let (code, reason) = reject_code (vr_reject_reason v) in response_rejected i code reason)"

text \<open>The share's time stamp and the retarget; \<open>None\<close> when the clamp of the retarget panics.\<close>

definition submit_vardiff :: "bool \<Rightarrow> instant \<Rightarrow> SessionState \<Rightarrow> (f64 option \<times> SessionState) option" where
  "submit_vardiff accepted now ss =
     (if accepted
      then map_option (\<lambda>(new_diff, vd). (new_diff, ss\<lparr>ss_vardiff := vd\<rparr>))
             (maybe_retarget now (vardiff_record_share now (ss_vardiff ss)))
      else Some (None, ss))"

definition handle_submit ::
  "('c, 'h, 'm, 't) server_env \<Rightarrow> 'c JobCache \<Rightarrow> instant \<Rightarrow> StratumRequest \<Rightarrow> SessionState \<Rightarrow> db option \<Rightarrow>
   (StratumResponse \<times> f64 option) option \<times> SessionState \<times> db option" where
  "handle_submit env job_cache now req ss dbo =
     (if \<not> ss_is_subscribed ss then (Some (response_err (rq_id req) 25 ''not-subscribed'', None), ss, dbo)
      else
        (let sp = submit_params_of req;
             cached_job = job_cache_get (se_ops env) (sp_job_id sp) job_cache;
             (v, template_id, template_epoch, share_diff) = submit_verdict (se_ext env) cached_job sp ss;
             (dedupe_key, dbo1) = with_db (persist_share (se_ext env) sp ss v template_id template_epoch share_diff) [] dbo;
             (submitted, dbo2) =
               (if vr_network_target_ok v then submit_candidate env cached_job sp ss template_id dedupe_key dbo1
                else (Some (), dbo1));
             (result, ss') =
               (case submitted of
                  None \<Rightarrow> (None, ss)
                | Some _ \<Rightarrow>
                    (case submit_vardiff (vr_accepted v) now ss of
                       None \<Rightarrow> (None, ss)
                     | Some (new_diff, ss1) \<Rightarrow> (Some (submit_response (rq_id req) v, new_diff), ss1)))
         in (result, ss', dbo2)))"

subsection \<open>Messages to the miner\<close>

definition response_json :: "StratumResponse \<Rightarrow> json" where
  "response_json r = JObj [(''id'', rs_id r), (''result'', rs_result r), (''error'', rs_error r)]"

definition notification :: "string \<Rightarrow> json \<Rightarrow> json" where
  "notification meth params = JObj [(''id'', JNull), (''method'', JStr meth), (''params'', params)]"

definition set_difficulty_msg :: "f64 \<Rightarrow> json" where
  "set_difficulty_msg d = notification ''mining.set_difficulty'' (JArr [json_f64 d])"

definition set_extranonce_msg :: "SessionState \<Rightarrow> json" where
  "set_extranonce_msg ss =
     notification ''mining.set_extranonce'' (JArr [JStr (ss_extranonce1 ss), JNum (JInt (int (ss_extranonce2_size ss)))])"

definition create_notify :: "MiningJob \<Rightarrow> json" where
  "create_notify job = notification ''mining.notify'' (notify_params job)"

subsection \<open>Requests\<close>

definition record_authorization_event ::
  "StratumRequest \<Rightarrow> SessionState \<Rightarrow> StratumResponse \<Rightarrow> WorkerName \<Rightarrow> db option \<Rightarrow> db option" where
  "record_authorization_event req ss auth_resp worker_parsed dbo =
     (let authorized = (rs_error auth_resp = JNull);
          reason = (if authorized then None
                    else Option.bind (as_array (rs_error auth_resp)) (\<lambda>a. if 1 < length a then as_str (a ! 1) else None))
      in snd (with_db (insert_authorization_event
            \<lparr>ae_id = 0, ae_session_id = ss_session_id ss, ae_worker_name = request_worker req,
             ae_payout_address = wn_payout_address worker_parsed, ae_worker_suffix = wn_worker_suffix worker_parsed,
             ae_authorized = authorized, ae_reason = reason\<rparr>) 0 dbo))"

text \<open>The job a miner gets when it authorises: the latest one, recorded with the current
  difficulty and the job's time.\<close>

definition assign_job :: "MiningJob \<Rightarrow> SessionState \<Rightarrow> SessionState" where
  "assign_job job ss = record_assigned_job (mj_job_id job) (current_difficulty ss) (mj_ntime job) ss"

definition start_mining :: "('c, 'h, 'm, 't) server_env \<Rightarrow> 'c JobCache \<Rightarrow> SessionState \<Rightarrow> json list \<times> SessionState" where
  "start_mining env job_cache ss =
     (case get_latest (se_ops env) job_cache of
        None \<Rightarrow> ([set_difficulty_msg (current_difficulty ss)], ss)
      | Some job \<Rightarrow> ([set_difficulty_msg (current_difficulty ss), create_notify job], assign_job job ss))"

definition handle_authorize_request ::
  "('c, 'h, 'm, 't) server_env \<Rightarrow> 'c JobCache \<Rightarrow> StratumRequest \<Rightarrow> SessionState \<Rightarrow> db option \<Rightarrow>
   json list \<times> SessionState \<times> db option" where
  "handle_authorize_request env job_cache req ss dbo =
     (let (auth_resp, ss1) = handle_authorize (se_ext env) req ss;
          worker_parsed = (case parse_worker_name (se_ext env) (request_worker req) of
                             Inr wn \<Rightarrow> wn
                           | Inl _ \<Rightarrow> \<lparr>wn_payout_address = request_worker req, wn_worker_suffix = None\<rparr>);
          dbo1 = record_authorization_event req ss1 auth_resp worker_parsed dbo;
          (msgs, ss2) = (if ss_is_authorized ss1 then start_mining env job_cache ss1 else ([], ss1))
      in (response_json auth_resp # msgs, ss2, dbo1))"

text \<open>The messages written for a request, in order; \<open>None\<close> when the handler panics.\<close>

definition handle_request ::
  "('c, 'h, 'm, 't) server_env \<Rightarrow> 'c JobCache \<Rightarrow> instant \<Rightarrow> StratumRequest \<Rightarrow> SessionState \<Rightarrow> db option \<Rightarrow>
   json list option \<times> SessionState \<times> db option" where
  "handle_request env job_cache now req ss dbo =
     (case rq_method req of
        Subscribe \<Rightarrow>
          (let (resp, ss1) = handle_subscribe req ss
           in (Some [response_json resp, set_extranonce_msg ss1], ss1, dbo))
      | Authorize \<Rightarrow>
          (let (msgs, ss1, dbo1) = handle_authorize_request env job_cache req ss dbo in (Some msgs, ss1, dbo1))
      | Submit \<Rightarrow>
          (case handle_submit env job_cache now req ss dbo of
             (None, ss1, dbo1) \<Rightarrow> (None, ss1, dbo1)
           | (Some (resp, new_diff), ss1, dbo1) \<Rightarrow>
               (Some ((case new_diff of Some d \<Rightarrow> [set_difficulty_msg d] | None \<Rightarrow> []) @ [response_json resp]), ss1, dbo1))
      | Ping \<Rightarrow> (Some [response_json (response_ok (rq_id req) (JBool True))], ss, dbo)
      | ExtranonceSubscribe \<Rightarrow> (Some [response_json (response_ok (rq_id req) (JBool True))], ss, dbo)
      | _ \<Rightarrow> (Some [response_json (response_err (rq_id req) 3 ''unknown method'')], ss, dbo))"

definition handle_line ::
  "('c, 'h, 'm, 't) server_env \<Rightarrow> 'c JobCache \<Rightarrow> instant \<Rightarrow> string \<Rightarrow> SessionState \<Rightarrow> db option \<Rightarrow>
   json list option \<times> SessionState \<times> db option" where
  "handle_line env job_cache now line ss dbo =
     (let trimmed = str_trim line
      in if trimmed = [] then (Some [], ss, dbo)
         else case decode_request_line (se_from_str env) trimmed 4096 of
                Inl e \<Rightarrow> (Some [response_json (response_err JNull 1 ''invalid request'')], ss, dbo)
              | Inr req \<Rightarrow> handle_request env job_cache now req ss dbo)"

text \<open>A job from the broadcast channel: the difficulty ceiling is updated first, old assignments
  are cleared when the job says so, and the job is assigned with the resulting difficulty.\<close>

definition deliver_job :: "externals \<Rightarrow> MiningJob \<Rightarrow> SessionState \<Rightarrow> json list \<times> SessionState" where
  "deliver_job ex job ss =
     (let (clamped, ss1) = (case network_target_hex_to_difficulty ex (mj_network_target_hex job) of
                              None \<Rightarrow> (None, ss)
                            | Some n_diff \<Rightarrow> (let (c, vd) = update_max n_diff (ss_vardiff ss) in (c, ss\<lparr>ss_vardiff := vd\<rparr>)));
          ss2 = (if mj_clean_jobs job then clear_assigned_jobs ss1 else ss1)
      in ((case clamped of Some d \<Rightarrow> [set_difficulty_msg d] | None \<Rightarrow> []) @ [create_notify job], assign_job job ss2))"

subsection \<open>Connections\<close>

datatype conn_status = Running | Closed | Panicked

record connection =
  cn_session :: SessionState
  cn_line :: string
  cn_sent :: "json list"
  cn_status :: conn_status

text \<open>What ends an iteration of the select loop. \<open>Data\<close> is a chunk of bytes that arrives while the
  read is being polled: the complete lines in it are served, the rest is kept in the read's
  buffer. A job or a lagging job channel cancels the read, whose buffer is lost
  (\<^verbatim>\<open>read_line\<close> is not cancellation safe and the loop clears its line). \<open>ReadFailed\<close> is a
  read error, which includes bytes that are not UTF-8. At the end of the stream an unterminated
  line is served first.\<close>

datatype conn_event =
    Data string
  | Eof
  | ReadFailed
  | ShutdownSignal
  | NewJob MiningJob
  | JobsLagged

fun split_lines :: "string \<Rightarrow> string list \<times> string" where
  "split_lines [] = ([], [])"
| "split_lines (c # s) =
     (let (ls, rest) = split_lines s
      in if c = CHR 0x0A then ([] # ls, rest)
         else case ls of [] \<Rightarrow> ([], c # rest) | l # ls' \<Rightarrow> ((c # l) # ls', rest))"

fun serve_lines ::
  "('c, 'h, 'm, 't) server_env \<Rightarrow> 'c JobCache \<Rightarrow> instant \<Rightarrow> string list \<Rightarrow> connection \<Rightarrow> db option \<Rightarrow>
   connection \<times> db option" where
  "serve_lines env job_cache now [] cn dbo = (cn, dbo)"
| "serve_lines env job_cache now (l # ls) cn dbo =
     (case handle_line env job_cache now l (cn_session cn) dbo of
        (None, ss, dbo1) \<Rightarrow> (cn\<lparr>cn_session := ss, cn_status := Panicked\<rparr>, dbo1)
      | (Some msgs, ss, dbo1) \<Rightarrow>
          serve_lines env job_cache now ls (cn\<lparr>cn_session := ss, cn_sent := cn_sent cn @ msgs\<rparr>) dbo1)"

fun conn_step ::
  "('c, 'h, 'm, 't) server_env \<Rightarrow> 'c JobCache \<Rightarrow> instant \<Rightarrow> conn_event \<Rightarrow> connection \<Rightarrow> db option \<Rightarrow>
   connection \<times> db option" where
  "conn_step env job_cache now (Data chunk) cn dbo =
     (let (ls, rest) = split_lines (cn_line cn @ chunk)
      in serve_lines env job_cache now ls (cn\<lparr>cn_line := rest\<rparr>) dbo)"
| "conn_step env job_cache now Eof cn dbo =
     (let (cn1, dbo1) = (if cn_line cn = [] then (cn, dbo)
                         else serve_lines env job_cache now [cn_line cn] (cn\<lparr>cn_line := []\<rparr>) dbo)
      in (if cn_status cn1 = Running then cn1\<lparr>cn_status := Closed\<rparr> else cn1, dbo1))"
| "conn_step env job_cache now ReadFailed cn dbo = (cn\<lparr>cn_status := Closed\<rparr>, dbo)"
| "conn_step env job_cache now ShutdownSignal cn dbo = (cn\<lparr>cn_status := Closed\<rparr>, dbo)"
| "conn_step env job_cache now (NewJob job) cn dbo =
     (let (msgs, ss) = deliver_job (se_ext env) job (cn_session cn)
      in (cn\<lparr>cn_session := ss, cn_line := [], cn_sent := cn_sent cn @ msgs\<rparr>, dbo))"
| "conn_step env job_cache now JobsLagged cn dbo = (cn\<lparr>cn_line := []\<rparr>, dbo)"

definition handle_connection ::
  "('c, 'h, 'm, 't) server_env \<Rightarrow> 'c JobCache \<Rightarrow> instant \<Rightarrow> conn_event \<Rightarrow> connection \<Rightarrow> db option \<Rightarrow>
   connection \<times> db option" where
  "handle_connection env job_cache now ev cn dbo =
     (if cn_status cn = Running then conn_step env job_cache now ev cn dbo else (cn, dbo))"

subsection \<open>The accept loop\<close>

text \<open>Connections are listed in the order they were accepted. A panic of the accept loop itself, in
  the clamp of \<^verbatim>\<open>VarDiff::new\<close>, ends the server.\<close>

record 'c stratum_server =
  sv_counter :: u64
  sv_connected :: u64
  sv_conns :: "connection list"
  sv_db :: "db option"
  sv_cache :: "'c JobCache"
  sv_status :: conn_status

definition wrap_mask :: u64 where
  "wrap_mask = push_bit (EXTRANONCE_1_SIZE * 8) 1 - 1"

definition session_extranonce1 :: "u64 \<Rightarrow> string" where
  "session_extranonce1 cnt = pad_hex EXTRANONCE_1_HEX_CHARS (unat (cnt AND wrap_mask))"

definition latest_n_diff :: "('c, 'h, 'm, 't) server_env \<Rightarrow> 'c JobCache \<Rightarrow> f64" where
  "latest_n_diff env jc =
     (case Option.bind (get_latest (se_ops env) jc)
             (\<lambda>job. network_target_hex_to_difficulty (se_ext env) (mj_network_target_hex job)) of
        Some d \<Rightarrow> d | None \<Rightarrow> Fin 1)"

definition accept_connection ::
  "('c, 'h, 'm, 't) server_env \<Rightarrow> VarDiffConfig \<Rightarrow> instant \<Rightarrow> 'c stratum_server \<Rightarrow> 'c stratum_server" where
  "accept_connection env cfg now sv =
     (let cnt = sv_counter sv + 1
      in case session_new (''sess-'' @ show_u64 cnt) (session_extranonce1 cnt) cfg
                (latest_n_diff env (sv_cache sv)) now of
           None \<Rightarrow> sv\<lparr>sv_counter := cnt, sv_status := Panicked\<rparr>
         | Some session \<Rightarrow>
             sv\<lparr>sv_counter := cnt, sv_connected := sv_connected sv + 1,
                sv_conns := sv_conns sv @ [\<lparr>cn_session = session, cn_line = [], cn_sent = [], cn_status = Running\<rparr>]\<rparr>)"

datatype server_event =
    Accept
  | AcceptFailed
  | OnConnection nat conn_event
  | StopServer

text \<open>The task of a connection counts itself out when its handler returns, not when it panics.\<close>

definition connection_event ::
  "('c, 'h, 'm, 't) server_env \<Rightarrow> instant \<Rightarrow> nat \<Rightarrow> conn_event \<Rightarrow> 'c stratum_server \<Rightarrow> 'c stratum_server" where
  "connection_event env now i ev sv =
     (if i < length (sv_conns sv)
      then let (cn, dbo) = handle_connection env (sv_cache sv) now ev (sv_conns sv ! i) (sv_db sv)
           in sv\<lparr>sv_conns := (sv_conns sv)[i := cn], sv_db := dbo,
                 sv_connected := (if cn_status (sv_conns sv ! i) = Running \<and> cn_status cn = Closed
                                  then sv_connected sv - 1 else sv_connected sv)\<rparr>
      else sv)"

fun server_step ::
  "('c, 'h, 'm, 't) server_env \<Rightarrow> VarDiffConfig \<Rightarrow> instant \<Rightarrow> server_event \<Rightarrow> 'c stratum_server \<Rightarrow> 'c stratum_server" where
  "server_step env cfg now Accept sv = (if sv_status sv = Running then accept_connection env cfg now sv else sv)"
| "server_step env cfg now AcceptFailed sv = sv"
| "server_step env cfg now (OnConnection i ev) sv = connection_event env now i ev sv"
| "server_step env cfg now StopServer sv = (if sv_status sv = Running then sv\<lparr>sv_status := Closed\<rparr> else sv)"

definition stratum_server_new :: "db option \<Rightarrow> 'c JobCache \<Rightarrow> 'c stratum_server" where
  "stratum_server_new dbo jc =
     \<lparr>sv_counter = 0, sv_connected = 0, sv_conns = [], sv_db = dbo, sv_cache = jc, sv_status = Running\<rparr>"

text \<open>A run of the server: timed events in the order they happen.\<close>

definition run_server ::
  "('c, 'h, 'm, 't) server_env \<Rightarrow> VarDiffConfig \<Rightarrow> (instant \<times> server_event) list \<Rightarrow> 'c stratum_server \<Rightarrow> 'c stratum_server" where
  "run_server env cfg evs sv = fold (\<lambda>(now, ev). server_step env cfg now ev) evs sv"

subsection \<open>The handlers as locked steps\<close>

lemma persist_share_via [via_intros]: "via locked_step (persist_share ex sp ss v t e d)"
  unfolding persist_share_def by (intro via_intros) (simp add: submission_of_def outcome_statuses_def)

lemma record_submit_result_via [via_intros]: "via locked_step (record_submit_result job t h k r)"
  unfolding record_submit_result_def record_accepted_block_def by (intro via_intros) simp

lemma with_db_steps: "via locked_step m \<Longrightarrow> db_steps d (snd (with_db m x d))"
  by (cases d) (auto simp: with_db_def via_def split: prod.splits sum.splits, (metis snd_conv)+)

lemma submit_candidate_steps: "db_steps d (snd (submit_candidate env cj sp ss t k d))"
  by (auto simp: submit_candidate_def split: option.split sum.split build_error.split prod.split
      intro: with_db_steps via_intros)

text \<open>The database after a submission.\<close>

lemma handle_submit_db:
  assumes "ss_is_subscribed ss" "sp = submit_params_of req"
    and "cj = job_cache_get (se_ops env) (sp_job_id sp) jc" "submit_verdict (se_ext env) cj sp ss = (v, t, e, x)"
    and "with_db (persist_share (se_ext env) sp ss v t e x) [] d = (k, d1)"
  shows "snd (snd (handle_submit env jc now req ss d)) =
    (if vr_network_target_ok v then snd (submit_candidate env cj sp ss t k d1) else d1)"
  using assms by (simp add: handle_submit_def case_prod_beta Let_def)

lemma handle_submit_steps: "db_steps d (snd (snd (handle_submit env jc now req ss d)))"
proof (cases "ss_is_subscribed ss")
  case True
  define sp where "sp = submit_params_of req"
  define cj where "cj = job_cache_get (se_ops env) (sp_job_id sp) jc"
  obtain v t e x where v: "submit_verdict (se_ext env) cj sp ss = (v, t, e, x)" by (rule prod_cases4)
  obtain k d1 where p: "with_db (persist_share (se_ext env) sp ss v t e x) [] d = (k, d1)" by (rule prod.exhaust)
  have "db_steps d (snd (with_db (persist_share (se_ext env) sp ss v t e x) [] d))" by (intro with_db_steps via_intros)
  then have "db_steps d d1" by (simp add: p)
  moreover have "db_steps d1 (snd (submit_candidate env cj sp ss t k d1))" by (rule submit_candidate_steps)
  ultimately show ?thesis
    unfolding handle_submit_db [OF True sp_def cj_def v p] by (simp add: db_steps_trans)
qed (simp add: handle_submit_def)

lemma handle_request_steps: "db_steps d (snd (snd (handle_request env jc now req ss d)))"
proof (cases "rq_method req")
  case Submit
  then show ?thesis
    using handle_submit_steps [of d env jc now req ss]
    by (auto simp: handle_request_def split: prod.split option.split)
next
  case Authorize
  have "db_steps d (record_authorization_event req s' r w d)" for s' r w
    by (simp add: record_authorization_event_def with_db_steps locked_via Let_def)
  then show ?thesis using Authorize
    by (simp add: handle_request_def handle_authorize_request_def Let_def case_prod_beta)
qed (simp_all add: handle_request_def case_prod_beta Let_def)

lemma handle_line_steps: "db_steps d (snd (snd (handle_line env jc now l ss d)))"
  using handle_request_steps [of d env jc now _ ss] by (simp add: handle_line_def Let_def split: sum.split)

lemma serve_lines_steps: "db_steps d (snd (serve_lines env jc now ls cn d))"
proof (induction ls arbitrary: cn d)
  case (Cons l ls)
  obtain m ss d1 where l: "handle_line env jc now l (cn_session cn) d = (m, ss, d1)" by (rule prod_cases3)
  have "db_steps d d1" using handle_line_steps [of d env jc now l "cn_session cn"] l by simp
  then show ?case using Cons.IH [of d1] l by (auto split: option.split intro: db_steps_trans)
qed simp

lemma conn_step_steps: "db_steps d (snd (conn_step env jc now ev cn d))"
  by (cases ev) (simp_all add: case_prod_beta Let_def serve_lines_steps del: serve_lines.simps)

text \<open>Whatever arrives on a connection, the database moves by locked steps only.\<close>

lemma handle_connection_steps: "db_steps d (snd (handle_connection env jc now ev cn d))"
  by (simp add: handle_connection_def conn_step_steps del: conn_step.simps)

subsection \<open>Extranonces\<close>

lemma wrap_mask_val: "unat (c AND wrap_mask) = unat c mod 2 ^ 32"
proof -
  have "wrap_mask = mask 32" by (simp add: wrap_mask_def EXTRANONCE_1_SIZE_def mask_eq_decr_exp push_bit_eq_mult)
  then have "c AND wrap_mask = take_bit 32 c" by (simp add: take_bit_eq_mask)
  then have "unat (c AND wrap_mask) = take_bit 32 (unat c)" by (simp only: unsigned_take_bit_eq)
  then show ?thesis by (simp only: take_bit_eq_mod)
qed

lemma session_extranonce1_distinct:
  "m < 2 ^ 32 \<Longrightarrow> n < 2 ^ 32 \<Longrightarrow> session_extranonce1 (of_nat m) = session_extranonce1 (of_nat n) \<Longrightarrow> m = n"
  unfolding session_extranonce1_def
  by (drule pad_hex_inject) (simp add: wrap_mask_val unat_of_nat)

text \<open>Nothing a connection does changes its extranonce.\<close>

abbreviation en1 :: "SessionState \<Rightarrow> string" where "en1 \<equiv> ss_extranonce1"

lemma session_op_en1:
  "en1 (record_assigned_job i d t ss) = en1 ss" "en1 (clear_assigned_jobs ss) = en1 ss"
  "en1 (snd (handle_authorize ex req ss)) = en1 ss" "en1 (snd (handle_subscribe req ss)) = en1 ss"
  by (simp_all add: record_assigned_job_def clear_assigned_jobs_def handle_authorize_def handle_subscribe_def Let_def
      split: sum.split)

lemma handle_submit_en1: "en1 (fst (snd (handle_submit env jc now req ss d))) = en1 ss"
  by (simp add: handle_submit_def Let_def case_prod_beta submit_vardiff_def split: option.split)

lemma handle_line_en1: "en1 (fst (snd (handle_line env jc now l ss d))) = en1 ss"
proof -
  have "en1 (fst (snd (handle_request env jc now req ss d))) = en1 ss" for req
    using handle_submit_en1 [of env jc now req ss d] session_op_en1
    by (cases "rq_method req")
      (auto simp: handle_request_def handle_authorize_request_def start_mining_def assign_job_def Let_def
        case_prod_beta split: option.split prod.split)
  then show ?thesis by (simp add: handle_line_def Let_def split: sum.split)
qed

lemma serve_lines_en1: "en1 (cn_session (fst (serve_lines env jc now ls cn d))) = en1 (cn_session cn)"
proof (induction ls arbitrary: cn d)
  case (Cons l ls)
  obtain m ss d1 where l: "handle_line env jc now l (cn_session cn) d = (m, ss, d1)" by (rule prod_cases3)
  have "en1 ss = en1 (cn_session cn)" using handle_line_en1 [of env jc now l "cn_session cn" d] l by simp
  then show ?case using Cons.IH l by (simp split: option.split)
qed simp

lemma deliver_job_en1: "en1 (snd (deliver_job ex job ss)) = en1 ss"
  by (simp add: deliver_job_def assign_job_def Let_def case_prod_beta session_op_en1 split: option.split)

lemma handle_connection_en1: "en1 (cn_session (fst (handle_connection env jc now ev cn d))) = en1 (cn_session cn)"
  by (cases ev) (simp_all add: handle_connection_def case_prod_beta Let_def serve_lines_en1 deliver_job_en1 del: serve_lines.simps)

subsection \<open>Sessions of a run\<close>

definition sessions_inv :: "'c stratum_server \<Rightarrow> bool" where
  "sessions_inv sv \<longleftrightarrow>
     map (\<lambda>cn. en1 (cn_session cn)) (sv_conns sv) =
       map (\<lambda>i. session_extranonce1 (of_nat (Suc i))) [0..<length (sv_conns sv)] \<and>
     (sv_status sv \<noteq> Panicked \<longrightarrow> sv_counter sv = of_nat (length (sv_conns sv))) \<and>
     sv_connected sv = of_nat (length (filter (\<lambda>cn. cn_status cn \<noteq> Closed) (sv_conns sv)))"

lemma session_new_en1: "session_new i x cfg n now = Some ss \<Longrightarrow> en1 ss = x"
  by (auto simp: session_new_def)

lemma accept_sessions: "sessions_inv sv \<Longrightarrow> sv_status sv = Running \<Longrightarrow> sessions_inv (accept_connection env cfg now sv)"
  by (auto simp: sessions_inv_def accept_connection_def Let_def add.commute dest: session_new_en1 split: option.split)

lemma handle_connection_status:
  assumes "handle_connection env jc now ev cn d = (cn', d')"
  shows "cn_status cn \<noteq> Running \<Longrightarrow> cn' = cn"
  using assms by (simp add: handle_connection_def)

lemma count_update:
  assumes "i < length xs"
  shows "(of_nat (length (filter P (xs[i := y]))) :: u64) =
    of_nat (length (filter P xs)) - (if P (xs ! i) then 1 else 0) + (if P y then 1 else 0)"
proof -
  have "filter P (take i xs @ xs ! i # drop (Suc i) xs) =
      filter P (take i xs) @ (if P (xs ! i) then [xs ! i] else []) @ filter P (drop (Suc i) xs)"
    by simp
  then have "filter P xs = filter P (take i xs) @ (if P (xs ! i) then [xs ! i] else []) @ filter P (drop (Suc i) xs)"
    by (simp only: id_take_nth_drop [OF assms, symmetric])
  moreover have "filter P (xs[i := y]) = filter P (take i xs) @ (if P y then [y] else []) @ filter P (drop (Suc i) xs)"
    using upd_conv_take_nth_drop [OF assms, of y] by simp
  ultimately show ?thesis by simp
qed

lemma connection_sessions:
  assumes "sessions_inv sv"
  shows "sessions_inv (connection_event env now i ev sv)"
proof (cases "i < length (sv_conns sv)")
  case True
  let ?cn = "sv_conns sv ! i"
  obtain cn d where h: "handle_connection env (sv_cache sv) now ev ?cn (sv_db sv) = (cn, d)" by (rule prod.exhaust)
  have en: "en1 (cn_session cn) = en1 (cn_session ?cn)"
    using handle_connection_en1 [of env "sv_cache sv" now ev ?cn "sv_db sv"] h by simp
  have "map (\<lambda>cn. en1 (cn_session cn)) ((sv_conns sv)[i := cn]) = map (\<lambda>cn. en1 (cn_session cn)) (sv_conns sv)"
    using en True by (simp add: map_update list_update_same_conv)
  moreover have "(if cn_status ?cn = Running \<and> cn_status cn = Closed then sv_connected sv - 1 else sv_connected sv) =
      of_nat (length (filter (\<lambda>cn. cn_status cn \<noteq> Closed) ((sv_conns sv)[i := cn])))"
  proof (cases "cn_status ?cn = Running")
    case True
    then show ?thesis
      using assms count_update [OF \<open>i < length (sv_conns sv)\<close>, of "\<lambda>cn. cn_status cn \<noteq> Closed" cn]
      by (simp add: sessions_inv_def)
  next
    case False
    then have "(sv_conns sv)[i := cn] = sv_conns sv" using handle_connection_status [OF h] by simp
    then show ?thesis using assms False by (simp add: sessions_inv_def)
  qed
  ultimately show ?thesis
    using assms \<open>i < length (sv_conns sv)\<close> h unfolding sessions_inv_def connection_event_def by simp
qed (use assms in \<open>simp add: connection_event_def\<close>)

lemma server_step_sessions: "sessions_inv sv \<Longrightarrow> sessions_inv (server_step env cfg now ev sv)"
  by (cases ev) (auto simp: accept_sessions connection_sessions, simp add: sessions_inv_def)

lemma run_server_sessions: "sessions_inv sv \<Longrightarrow> sessions_inv (run_server env cfg evs sv)"
  unfolding run_server_def by (induction evs arbitrary: sv) (auto simp: server_step_sessions)

lemma sessions_inv_new: "sessions_inv (stratum_server_new d jc)"
  by (simp add: sessions_inv_def stratum_server_new_def)

text \<open>C18: no two miners search the same space. As long as fewer than 4294967295 connections have been accepted,
  the extranonce1 of every session, open or closed, is a different string of eight characters.\<close>

theorem extranonces_unique:
  assumes "length (sv_conns (run_server env cfg evs (stratum_server_new d jc))) < 2 ^ 32 - 1"
  shows "distinct (map (\<lambda>cn. en1 (cn_session cn)) (sv_conns (run_server env cfg evs (stratum_server_new d jc)))) \<and>
    list_all (\<lambda>cn. length (en1 (cn_session cn)) = EXTRANONCE_1_HEX_CHARS) (sv_conns (run_server env cfg evs (stratum_server_new d jc)))"
proof -
  define sv where "sv = run_server env cfg evs (stratum_server_new d jc)"
  have en: "map (\<lambda>cn. en1 (cn_session cn)) (sv_conns sv) = map (\<lambda>i. session_extranonce1 (of_nat (Suc i))) [0..<length (sv_conns sv)]"
    using run_server_sessions [OF sessions_inv_new, of env cfg evs d jc] by (simp add: sv_def sessions_inv_def)
  have "inj_on (\<lambda>i. session_extranonce1 (of_nat (Suc i))) {0..<length (sv_conns sv)}"
    using assms session_extranonce1_distinct [of "Suc _" "Suc _"] by (fastforce simp: inj_on_def sv_def)
  then have "distinct (map (\<lambda>cn. en1 (cn_session cn)) (sv_conns sv))" unfolding en by (simp add: distinct_map)
  moreover have "length (session_extranonce1 c) = EXTRANONCE_1_HEX_CHARS" for c
    using length_pad_hex [of "unat c mod 2 ^ 32" 7]
    by (simp add: session_extranonce1_def wrap_mask_val EXTRANONCE_1_HEX_CHARS_def EXTRANONCE_1_SIZE_def)
  then have "list_all (\<lambda>x. length x = EXTRANONCE_1_HEX_CHARS) (map (\<lambda>cn. en1 (cn_session cn)) (sv_conns sv))"
    unfolding en by (simp add: list_all_iff)
  ultimately show ?thesis by (simp add: sv_def list_all_iff)
qed

text \<open>The number of connected miners counts the connections that have not been closed in order. A connection
  whose task panicked is counted for ever.\<close>

theorem connected_miners_count:
  "sv_connected (run_server env cfg evs (stratum_server_new d jc)) =
     of_nat (length (filter (\<lambda>cn. cn_status cn = Running \<or> cn_status cn = Panicked)
       (sv_conns (run_server env cfg evs (stratum_server_new d jc)))))"
proof -
  have *: "(\<lambda>cn. cn_status cn \<noteq> Closed) = (\<lambda>cn. cn_status cn = Running \<or> cn_status cn = Panicked)"
    by (rule ext) (metis conn_status.exhaust conn_status.distinct(1,5))
  show ?thesis
    using run_server_sessions [OF sessions_inv_new, of env cfg evs d jc] unfolding sessions_inv_def * by blast
qed

subsection \<open>Framing\<close>

lemma split_lines_append:
  "split_lines (xs @ ys) =
     (let (ls1, r1) = split_lines xs; (ls2, r2) = split_lines (r1 @ ys) in (ls1 @ ls2, r2))"
proof (induction xs)
  case (Cons c xs)
  then show ?case
    by (auto simp: Let_def split: prod.splits list.splits)
qed (simp add: Let_def case_prod_beta)

lemma serve_lines_append:
  assumes "serve_lines env jc now ls1 cn d = (cn1, d1)" "cn_status cn1 = Running"
  shows "serve_lines env jc now (ls1 @ ls2) cn d = serve_lines env jc now ls2 cn1 d1"
  using assms by (induction ls1 arbitrary: cn d) (auto split: prod.splits option.splits)

lemma serve_lines_line:
  "serve_lines env jc now ls (cn\<lparr>cn_line := r\<rparr>) d =
     (let (cn1, d1) = serve_lines env jc now ls cn d in (cn1\<lparr>cn_line := r\<rparr>, d1))"
proof (induction ls arbitrary: cn d)
  case (Cons l ls)
  have eq: "cn\<lparr>cn_line := r, cn_session := ss, cn_sent := m\<rparr> = cn\<lparr>cn_session := ss, cn_sent := m\<rparr>\<lparr>cn_line := r\<rparr>" for ss m
    by simp
  show ?case
    by (simp add: Let_def case_prod_beta eq Cons.IH del: connection.update_convs split: option.split)
qed simp


lemma split_lines_no_newline: "CHR 0x0A \<notin> set s \<Longrightarrow> split_lines s = ([], s)"
  by (induction s) auto

text \<open>A request that is cut in two by a new job is lost. When a job is broadcast while part of a line has
  been read, the part is dropped without an answer: the connection is as if the part had never
  arrived, and what follows is read as the start of a line.\<close>

theorem interrupted_line_lost:
  assumes "CHR 0x0A \<notin> set (cn_line cn @ part)" "handle_connection env jc now (Data part) cn d = (cn1, d1)"
  shows "handle_connection env jc now (NewJob job) cn1 d1 = handle_connection env jc now (NewJob job) cn d"
  using assms split_lines_no_newline [OF assms(1)]
  by (cases "cn_status cn = Running") (auto simp: handle_connection_def Let_def split: prod.splits)

subsection \<open>Jobs and difficulties\<close>

text \<open>A delivered job is never harder than its block. The difficulty a session is assigned with a new job is at
  most the network difficulty of the job, whatever the difficulty was before.\<close>

lemma delivered_difficulty_capped:
  assumes "network_target_hex_to_difficulty ex (mj_network_target_hex job) = Some (Fin n)"
    and "current_difficulty ss = Fin c"
  shows "\<exists>p. ss_assigned_jobs (snd (deliver_job ex job ss)) \<noteq> [] \<and>
    last (ss_assigned_jobs (snd (deliver_job ex job ss))) =
      \<lparr>aj_job_id = mj_job_id job, aj_p_diff = Fin p, aj_ntime = mj_ntime job\<rparr> \<and> p \<le> n \<and> p \<le> c"
  using assms
  by (auto simp: deliver_job_def assign_job_def clear_assigned_jobs_def record_assigned_job_def current_difficulty_def
      update_max_state Let_def case_prod_beta)

text \<open>C29: a clean job makes every other job stale at once. After it has been delivered no submission for another job
  id is accepted.\<close>

theorem clean_job_stales_others:
  assumes "mj_clean_jobs job" "job_id \<noteq> mj_job_id job"
  shows "\<not> vr_accepted (validate_share ex w job_id en2 ntime nonce (snd (deliver_job ex job ss)) j)"
proof -
  have "get_assigned_job job_id (snd (deliver_job ex job ss)) = None"
    using assms
    by (simp add: deliver_job_def assign_job_def clear_assigned_jobs_def record_assigned_job_def get_assigned_job_def
        Let_def case_prod_beta split: option.split)
  then show ?thesis by (simp add: validate_share_def validation_rejected_def split: sum.split)
qed

subsection \<open>Submissions\<close>

lemma handle_submit_response:
  assumes "ss_is_subscribed ss" "sp = submit_params_of req"
    and "cj = job_cache_get (se_ops env) (sp_job_id sp) jc" "submit_verdict (se_ext env) cj sp ss = (v, t, e, x)"
    and "handle_submit env jc now req ss d = (Some (resp, nd), ss', d')"
  shows "resp = submit_response (rq_id req) v"
  using assms by (auto simp: handle_submit_def case_prod_beta Let_def split: option.splits)


subsection \<open>From a share to a payable block\<close>

lemma found_at_of_node_result: "found_at_of h (snd (update_outcome_node_result k r s)) = found_at_of h s"
proof -
  have "map_option snd (find P (update_where Q (\<lambda>r. ((fst r)\<lparr>so_node_result := x\<rparr>, snd r)) rows)) = map_option snd (find P rows)"
    if "\<And>r. P ((fst r)\<lparr>so_node_result := x\<rparr>, snd r) = P r" for P Q x and rows :: "(ShareOutcome \<times> string) list"
    using that by (induction rows) (auto simp: update_where_def)
  then show ?thesis by (simp add: found_at_of_def update_outcome_node_result_def)
qed

lemma found_at_frames:
  "frame (found_at_of h) (update_share_outcome_node_result k r)"
  "frame (found_at_of h) (resolve_round_for_template t)"
  "frame (found_at_of h) (record_found_block ri bh ht w ti p c n)"
  "frame (found_at_of h) (Accounting.close_round i e st)"
proof -
  show "frame (found_at_of h) (update_share_outcome_node_result k r)"
    by (simp add: frame_def update_share_outcome_node_result_def found_at_of_node_result)
qed (unfold resolve_round_for_template_def record_found_block_def close_round_def;
     intro frame_intros; simp add: found_at_of_def)+

lemma record_accepted_block_found_at: "frame (found_at_of h) (record_accepted_block job t bh k)"
  unfolding record_accepted_block_def by (intro frame_intros found_at_frames)

lemma resolve_round_in:
  assumes "resolve_round_for_template x s = (Inr rd, t)"
  shows "rd \<in> set (db_rounds t)"
proof -
  obtain p s' where p: "resolve_round_row x s = (Inr p, s')"
      "(case p of (r, new) \<Rightarrow> bindR (if new then ignoreR (record_event (round_event ''round_opened'' ''open'' (rd_id r) x)) else okR ()) (\<lambda>_. okR r)) s' = (Inr rd, t)"
    using assms unfolding resolve_round_for_template_def by (rule bindR_InrE)
  obtain r new where rn: "p = (r, new)" by fastforce
  have "frame rounds_of (bindR (if new then ignoreR (record_event (round_event ''round_opened'' ''open'' (rd_id r) x)) else okR ()) (\<lambda>_. okR r))"
    by (intro frame_intros)
  then have "rounds_of t = rounds_of s'" by (rule frameD) (use p(2) rn in simp)
  moreover have "rd = r" using p(2) rn by (auto simp: bindR_Inr okR_def)
  moreover have "r \<in> set (db_rounds s')" using p(1) rn by (cases rule: resolve_round_row_cases [OF p(1) [unfolded rn]]) auto
  ultimately show ?thesis by simp
qed

lemma record_found_block_get:
  assumes "u64_to_sql c" "u64_to_sql t" "r \<in> set (db_rounds s)"
  shows "block_get_by_hash h (snd (record_found_block (rd_id r) h ht None (Some t) p c n s)) \<noteq> None"
proof -
  let ?m = "record_found_block_row (rd_id r) h ht None (Some t) p c n"
  have "find (\<lambda>x. rd_id x = rd_id r) (db_rounds s) \<noteq> None" using assms(3) by (auto simp: find_None_iff)
  then have "block_get_by_hash h (snd (?m s)) \<noteq> None"
    using assms(1,2) by (auto simp: record_found_block_row_def block_get_by_hash_def Let_def find_append split: option.splits)
  moreover have "block_get_by_hash h (snd (record_found_block (rd_id r) h ht None (Some t) p c n s)) = block_get_by_hash h (snd (?m s))"
  proof -
    have "frame (block_get_by_hash h) (bindR (ignoreR (record_event e)) (\<lambda>_. okR b))" for e and b :: FoundBlock
      by (intro frame_intros) (simp add: block_get_by_hash_def)
    then show ?thesis unfolding record_found_block_def bindR_def [of ?m] by (auto simp: frame_def split: prod.split sum.split)
  qed
  ultimately show ?thesis by simp
qed

lemma record_accepted_block_get:
  assumes "resolve_round_for_template t s = (Inr rd, s)" "u64_to_sql (mj_coinbase_value job)" "u64_to_sql (mj_template_id job)"
  shows "block_get_by_hash h (snd (record_accepted_block job t h k s)) \<noteq> None"
proof -
  let ?f = "record_found_block (rd_id rd) h (mj_height job) None (Some (mj_template_id job)) (Some ''json-rpc'') (mj_coinbase_value job) (mj_network_target_hex job)"
  let ?rest = "bindR (ignoreR (Accounting.close_round (rd_id rd) t ''found'')) (\<lambda>_. ignoreR (update_share_outcome_node_result k ''accepted''))"
  have "frame (block_get_by_hash h) ?rest"
    unfolding close_round_def update_share_outcome_node_result_def
    by (intro frame_intros) (simp_all add: block_get_by_hash_def)
  moreover have "block_get_by_hash h (snd (?f s)) \<noteq> None"
    using resolve_round_in [OF assms(1)] assms(2,3) by (intro record_found_block_get)
  moreover have "snd (record_accepted_block job t h k s) = snd (?rest (snd (?f s)))"
    unfolding record_accepted_block_def using assms(1)
    by (simp add: bindR_def tryR_def ignoreR_def okR_def split: prod.split sum.split)
  ultimately show ?thesis by (simp add: frame_def)
qed

lemma record_share_outcome:
  assumes "record_share b s = (Inr (i, j, r, k), t)" "outcome_id_of s k = None"
  shows "\<exists>row\<in>set (db_outcomes t). so_dedupe_key (fst row) = k \<and> so_status (fst row) = sb_status b \<and>
      so_network_target_ok (fst row) = Some (sb_network_target_ok b) \<and> so_block_hash (fst row) = sb_block_hash b"
    "\<exists>rd. resolve_round_for_template (sb_template_id b) t = (Inr rd, t)"
proof -
  obtain w s1 rd s2 a o1 new s3 where f: "upsert (sb_payout_address b) (sb_worker_suffix b) s = (Inr w, s1)"
    "resolve_round_for_template (sb_template_id b) s1 = (Inr rd, s2)"
    "insert_share_and_outcome_atomic (share_row_of b w (dedupe_key_of b w))
       (outcome_row_of b w (rd_id rd) (dedupe_key_of b w)) s2 = (Inr (Some a, Some o1, new), s3)"
    "(i, j, r, k) = (Some a, Some o1, Some (rd_id rd), dedupe_key_of b w)"
    and new: "if new then \<exists>e. record_event (share_event_of b w (rd_id rd)) s3 = (Inr e, t) else t = s3"
    using record_share_cases [OF assms(1)] by metis
  have t: "shares_of t = shares_of s3" "rounds_of t = rounds_of s3"
    using new record_event_frame(2,3) [THEN frameD] by (cases new; force)+
  have s3: "rounds_of s3 = rounds_of s2" using f(3) insert_atomic_frame(2) [THEN frameD] by blast
  then show "\<exists>rd. resolve_round_for_template (sb_template_id b) t = (Inr rd, t)"
    using resolve_round_again [OF f(2), of t] t(2) by simp
  obtain a' b' u c' n' where ins: "put_share (share_row_of b w (dedupe_key_of b w)) s2 = (Inr (a', b'), u)"
      "put_outcome ((outcome_row_of b w (rd_id rd) (dedupe_key_of b w))\<lparr>so_share_id := a'\<rparr>) u = (Inr (c', n'), s3)"
    by (rule insert_atomic_cases [OF f(3)]) simp
  have "frame shares_of (upsert (sb_payout_address b) (sb_worker_suffix b))" by (intro frame_intros) simp
  then have "shares_of s1 = shares_of s" by (rule frameD) (rule f(1))
  moreover have "shares_of s2 = shares_of s1" by (rule frameD [OF resolve_round_frame(2)]) (rule f(2))
  ultimately have "shares_of s2 = shares_of s" by simp
  then have "outcome_id_of u k = None"
    using assms(2) put_share_outcomes [OF ins(1)] by (simp add: outcome_id_of_def)
  then show "\<exists>row\<in>set (db_outcomes t). so_dedupe_key (fst row) = k \<and> so_status (fst row) = sb_status b \<and>
      so_network_target_ok (fst row) = Some (sb_network_target_ok b) \<and> so_block_hash (fst row) = sb_block_hash b"
    using ins(2) f(4) t(1)
    by (auto simp: put_outcome_def outcome_id_of_def outcome_row_of_def Let_def split: option.splits if_splits)
qed

lemma network_share_accepted:
  assumes "vr_network_target_ok (validate_share ex w job_id e2 ntime nonce ss job)"
  shows "vr_accepted (validate_share ex w job_id e2 ntime nonce ss job)"
proof -
  have "vr_network_target_ok (validate_hash ex p job args) \<Longrightarrow> vr_accepted (validate_hash ex p job args)" for p args
    by (auto simp: validate_hash_def validation_rejected_def Let_def split: option.splits if_splits)
  then show ?thesis using validate_share_block [OF assms] assms by auto
qed

lemma handle_submit_candidate:
  assumes "ss_is_subscribed ss" "job_cache_get (se_ops env) (param_str 1 req) jc = Some job"
    and "submit_verdict (se_ext env) (Some job) (submit_params_of req) ss = (v, tid, e, x)" "vr_network_target_ok v"
    and "persist_share (se_ext env) (submit_params_of req) ss v tid e x s = (Inr k, s1)"
    and "handle_submit env jc now req ss (Some s) = (r, ss', d')"
  shows "d' = snd (submit_candidate env (Some job) (submit_params_of req) ss tid k (Some s1))"
  using assms by (auto simp: handle_submit_def with_db_def submit_params_of_def Let_def split: prod.splits)

text \<open>C6: a block the node accepts can be paid out. When a share meets the network target, the block built
  from it is accepted by the node and the share was recorded under a key of its own, then afterwards the
  block is registered as found, and the payout for it finds the share that found it.\<close>

theorem accepted_block_payable:
  assumes "ss_is_subscribed ss" "job_cache_get (se_ops env) (param_str 1 req) jc = Some job" "sp = submit_params_of req"
    and v: "v = validate_share (se_ext env) (sp_worker sp) (sp_job_id sp) (sp_extranonce2 sp) (sp_ntime sp) (sp_nonce sp) ss job"
    and "vr_network_target_ok v" "parse_worker_name (se_ext env) (sp_worker sp) = Inr wn"
    and rec: "record_share (submission_of sp ss wn v (mj_template_id job) (mj_template_epoch job) (assigned_diff (sp_job_id sp) ss)) s =
       (Inr (i, j, r, k), s1)" "outcome_id_of s k = None"
    and rpc: "se_json_rpc env = Some hc" "mj_block_bytes job \<noteq> []" "stratum_header_laws (se_ext env) (se_code env) job"
    and build: "build_submit_block (se_ext env) (se_code env) job (ss_extranonce1 ss) (sp_extranonce2 sp) (sp_ntime sp) (sp_nonce sp)
       (mj_block_bytes job) = Inr (block_hex, block_hash)"
    and "submitblock hc block_hex = Inr result" "sr_accepted result"
    and "u64_to_sql (mj_coinbase_value job)" "u64_to_sql (mj_template_id job)"
    and "handle_submit env jc now req ss (Some s) = (answer, ss', d')"
  shows "\<exists>t. d' = Some t \<and> block_get_by_hash block_hash t \<noteq> None \<and> found_at_of block_hash t \<noteq> None"
proof -
  let ?b = "submission_of sp ss wn v (mj_template_id job) (mj_template_epoch job) (assigned_diff (sp_job_id sp) ss)"
  let ?t = "snd (record_accepted_block job (mj_template_id job) block_hash k s1)"
  have acc: "vr_accepted v"
    using assms(5) unfolding v by (rule network_share_accepted)
  have h: "vr_block_hash v = Some block_hash"
    using built_block_hash [OF assms(5) [unfolded v] build rpc(3)] v by simp
  have "d' = snd (submit_candidate env (Some job) sp ss (mj_template_id job) k (Some s1))"
    unfolding assms(3)
  proof (rule handle_submit_candidate [OF assms(1,2) _ assms(5) _ assms(17)])
    show "submit_verdict (se_ext env) (Some job) (submit_params_of req) ss = (v, mj_template_id job, mj_template_epoch job, assigned_diff (sp_job_id sp) ss)"
      using v assms(3) by (simp add: submit_verdict_def)
    show "persist_share (se_ext env) (submit_params_of req) ss v (mj_template_id job) (mj_template_epoch job) (assigned_diff (sp_job_id sp) ss) s = (Inr k, s1)"
      using assms(3,6) rec(1) by (simp add: persist_share_def bindR_def tryR_def okR_def)
  qed
  moreover have "fst (record_accepted_block job (mj_template_id job) block_hash k s1) = Inr ()" 
    by (simp add: record_accepted_block_def bindR_def tryR_def ignoreR_def okR_def split: prod.split sum.split option.split)
  ultimately have "d' = Some ?t"
    using rpc(1,2) build assms(13,14)
    by (auto simp: submit_candidate_def record_submit_result_def with_db_def split: prod.splits sum.splits)
  moreover have "block_get_by_hash block_hash ?t \<noteq> None"
  proof -
    obtain rd where "resolve_round_for_template (mj_template_id job) s1 = (Inr rd, s1)"
      using record_share_outcome(2) [OF rec] by (auto simp: submission_of_def)
    then show ?thesis using assms(15,16) by (rule record_accepted_block_get)
  qed
  moreover have "found_at_of block_hash s1 \<noteq> None"
    using record_share_outcome(1) [OF rec] acc h assms(5) by (auto simp: found_at_of_def submission_of_def find_None_iff)
  then have "found_at_of block_hash ?t \<noteq> None"
    using record_accepted_block_found_at [of block_hash job "mj_template_id job" block_hash k] by (simp add: frame_def)
  ultimately show ?thesis by simp
qed

subsection \<open>Sample data\<close>

text \<open>A node that answers every request with a null result, a parser that reads one line, and a cache
  that holds the job of the sample template.\<close>

definition sample_node :: http_client where
  "sample_node = \<lparr>hc_post = (\<lambda>_. HttpBody 200 (JObj [(''result'', JNull)])), hc_display = (\<lambda>_. [])\<rparr>"

definition sample_env :: "(string \<rightharpoonup> MiningJob, u8 list, unit, u8 list) server_env" where
  "sample_env =
     \<lparr>se_ext = sample_externals, se_code = sample_code, se_ops = map_ops,
      se_from_str = (\<lambda>s. if s = ''ping'' then Inr (JObj [(''id'', JNull), (''method'', JStr ''mining.ping'')]) else Inl ''syntax''),
      se_json_rpc = Some sample_node\<rparr>"

definition sample_cache :: "(string \<rightharpoonup> MiningJob) JobCache" where
  "sample_cache = job_cache_insert map_ops template_job (job_cache_new map_ops 2)"

definition sample_conn :: connection where
  "sample_conn = \<lparr>cn_session = sample_miner, cn_line = [], cn_sent = [], cn_status = Running\<rparr>"

definition sample_submit :: StratumRequest where
  "sample_submit =
     \<lparr>rq_id = JNull, rq_method = Submit,
      rq_params = JArr (map JStr [''addr.rig'', mj_job_id template_job, ''00000002'', ''6adc0c6a0000'', ''0000000000000003''])\<rparr>"

lemma sample_env_simps [simp]:
  "se_ext sample_env = sample_externals" "se_code sample_env = sample_code" "se_ops sample_env = map_ops"
  "se_json_rpc sample_env = Some sample_node"
  by (simp_all add: sample_env_def)

lemma sample_cache_get: "job_cache_get map_ops (mj_job_id template_job) sample_cache = Some template_job"
  by (simp add: sample_cache_def job_cache_insert_def job_cache_get_def job_cache_new_def map_ops_def Let_def)

lemma sample_submit_params:
  "submit_params_of sample_submit = \<lparr>sp_worker = ''addr.rig'', sp_job_id = mj_job_id template_job, sp_extranonce2 = ''00000002'',
     sp_ntime = ''6adc0c6a0000'', sp_nonce = ''0000000000000003''\<rparr>"
  "param_str 0 sample_submit = ''addr.rig''" "param_str (Suc 0) sample_submit = mj_job_id template_job"
  "param_str 2 sample_submit = ''00000002''" "param_str 3 sample_submit = ''6adc0c6a0000''"
  "param_str 4 sample_submit = ''0000000000000003''" "rq_id sample_submit = JNull"
  by (simp_all add: submit_params_of_def param_str_def sample_submit_def)

lemma sample_accepts: "submitblock sample_node x = Inr \<lparr>sr_accepted = True, sr_block_hash = None, sr_error = None\<rparr>"
  by (simp add: submitblock_def rpc_call_def sample_node_def Let_def)

theorem accepted_block_payable_witness:
  "\<exists>t. snd (snd (handle_submit sample_env sample_cache 0 sample_submit sample_miner (Some (init_schema ''0'')))) = Some t \<and>
     block_get_by_hash (hex_encode_ref (replicate 32 0)) t \<noteq> None \<and> found_at_of (hex_encode_ref (replicate 32 0)) t \<noteq> None"
proof -
  let ?b = "submission_of (submit_params_of sample_submit) sample_miner \<lparr>wn_payout_address = ''addr'', wn_worker_suffix = Some ''rig''\<rparr>
     (validate_share sample_externals ''addr.rig'' (mj_job_id template_job) ''00000002'' ''6adc0c6a0000'' ''0000000000000003''
        sample_miner template_job) 1 5 (assigned_diff (mj_job_id template_job) sample_miner)"
  have wn: "parse_worker_name sample_externals ''addr.rig'' = Inr \<lparr>wn_payout_address = ''addr'', wn_worker_suffix = Some ''rig''\<rparr>"
    by (simp add: parse_worker_name_def split_first_def sample_externals_def)
  have rec: "fst (record_share ?b (init_schema ''0'')) = Inr (Some 1, Some 1, Some 1, ''1:1:5:00000002:6adc0c6a0000:0000000000000003'')"
    by (simp add: sample_run_defs submission_of_def sample_submit_params sample_verdict assigned_diff_def)
  show ?thesis
    by (rule accepted_block_payable [where env = sample_env and hc = sample_node and req = sample_submit and
          result = "\<lparr>sr_accepted = True, sr_block_hash = None, sr_error = None\<rparr>" and jc = sample_cache and
          ss = sample_miner and job = template_job and wn = "\<lparr>wn_payout_address = ''addr'', wn_worker_suffix = Some ''rig''\<rparr>",
          OF _ _ refl refl])
      (use rec wn in \<open>simp_all add: sample_submit_params sample_cache_get sample_verdict template_job_fields sample_build sample_laws
        sample_accepts u64_to_sql_def prod_eq_iff outcome_id_of_def init_schema_def\<close>)
qed

lemma sample_submit_handled:
  "fst (handle_submit sample_env sample_cache 0 sample_submit sample_miner None) =
     Some (response_ok JNull (JBool True), None)"
proof -
  have "map_option fst (maybe_retarget 0 (vardiff_record_share 0 sample_vardiff)) = Some None"
    by (simp add: maybe_retarget_def vardiff_record_share_def sample_duration Let_def del: duration_from_secs_f64.simps)
  then obtain v where v: "submit_vardiff True 0 sample_miner = Some (None, v)" by (auto simp: submit_vardiff_def)
  have "submit_verdict sample_externals (Some template_job) (submit_params_of sample_submit) sample_miner =
      (validate_share sample_externals ''addr.rig'' (mj_job_id template_job) ''00000002'' ''6adc0c6a0000'' ''0000000000000003''
        sample_miner template_job, 1, 5, Fin 2)"
    by (simp add: submit_verdict_def sample_submit_params template_job_fields assigned_diff_def)
  moreover have "submit_candidate sample_env (Some template_job) (submit_params_of sample_submit) sample_miner 1 [] None = (Some (), None)"
    by (simp add: submit_candidate_def sample_submit_params template_job_fields sample_build with_db_def)
  ultimately show ?thesis
    using v by (simp add: handle_submit_def sample_submit_params sample_cache_get sample_verdict with_db_def submit_response_def Let_def)
qed



theorem interrupted_line_lost_witness:
  "let c = fst (handle_connection sample_env sample_cache 0 (Data ''pi'') sample_conn None)
   in cn_line c = ''pi'' \<and>
      handle_connection sample_env sample_cache 0 (NewJob template_job) c None =
        handle_connection sample_env sample_cache 0 (NewJob template_job) sample_conn None"
proof -
  have "handle_connection sample_env sample_cache 0 (Data ''pi'') sample_conn None = (sample_conn\<lparr>cn_line := ''pi''\<rparr>, None)"
    by (simp add: handle_connection_def sample_conn_def)
  from interrupted_line_lost [OF _ this, of template_job] this show ?thesis by (simp add: sample_conn_def)
qed

theorem clean_job_stales_others_witness:
  "\<not> vr_accepted (validate_share sample_externals ''addr.rig'' ''j1'' ''00000002'' ''6adc0c6a0000'' ''0000000000000003''
       (snd (deliver_job sample_externals (template_job\<lparr>mj_job_id := ''j2'', mj_clean_jobs := True\<rparr>) sample_session)) template_job)"
  by (rule clean_job_stales_others) simp_all

theorem extranonces_unique_witness:
  "distinct (map (\<lambda>cn. en1 (cn_session cn)) (sv_conns (run_server sample_env sample_config [(0, Accept), (1, Accept)]
     (stratum_server_new None sample_cache))))"
proof -
  have "length (sv_conns (run_server sample_env sample_config [(0, Accept), (1, Accept)]
     (stratum_server_new None sample_cache))) \<le> 2"
    by (simp add: run_server_def stratum_server_new_def accept_connection_def Let_def split: option.split)
  then show ?thesis
    using extranonces_unique [of sample_env sample_config "[(0, Accept), (1, Accept)]" None sample_cache] by simp
qed

end
