(* ===== verification/Node_Consumer.thy ===== *)
theory Node_Consumer
  imports Payout_Processing Job_Cache Node_Rpc
begin

text \<open>
  The consumer of the node's events (src/src/node_integration/nng/consumer.rs) and the chain tip it
  maintains (src/src/accounting/chain_tip.rs). Its effects are the fields of one record: the
  database, the tip, the job cache, the jobs broadcast to the sessions and the events sent to the
  payout handler. Decoding of a header is the parameter \<open>x_header_height\<close>.
\<close>

subsection \<open>The chain tip\<close>

definition update_block_connected :: "int \<Rightarrow> int \<Rightarrow> int" where
  "update_block_connected height prev = (if prev < height then height else prev)"

definition update_block_disconnected :: "int \<Rightarrow> int \<Rightarrow> int" where
  "update_block_disconnected height prev = (if height = prev \<and> 0 < prev then prev - 1 else prev)"

subsection \<open>Block events\<close>

record node_block =
  nb_hash :: "u8 list"
  nb_raw_header :: "u8 list"
  nb_txids :: "u8 list list"

text \<open>An early return of the handler is an error of the operation.\<close>

definition handle_block_disconnected :: "externals \<Rightarrow> node_block \<Rightarrow> unit dbop" where
  "handle_block_disconnected ex blk =
     (let block_hash = to_hex_be ex (nb_hash blk)
      in bindR (readR (\<lambda>s. Inr (block_get_by_hash block_hash s))) (\<lambda>found.
         (case found of
            None \<Rightarrow> okR ()
          | Some fb \<Rightarrow>
              bindR (mark_orphaned block_hash ''reorg_detected'') (\<lambda>_.
              bindR (close_round (fb_round_id fb) 0 ''orphaned'') (\<lambda>_.
              ignoreR (record_event
                ((accounting_event ''found_block_orphaned'' ''orphaned'')
                   \<lparr>ev_worker_id := fb_worker_id fb, ev_round_id := Some (fb_round_id fb),
                    ev_template_id := fb_template_id fb, ev_block_hash := Some block_hash,
                    ev_height := Some (fb_height fb)\<rparr>)))))))"

text \<open>A connected block that was orphaned comes back unless its payout has been submitted; it is
  matured again when a batch is pending.\<close>

definition reconnect_block :: "string \<Rightarrow> unit dbop" where
  "reconnect_block block_hash =
     bindR (readR (\<lambda>s. Inr (block_get_by_hash block_hash s, get_batches_by_block_hash block_hash s))) (\<lambda>(found, batches).
     (case found of
        None \<Rightarrow> okR ()
      | Some fb \<Rightarrow>
          if fb_status fb \<noteq> ''orphaned'' \<or> list_ex (\<lambda>b. pb_status b = ''submitted'') batches then okR ()
          else bindR (un_orphan block_hash) (\<lambda>_.
               if list_ex (\<lambda>b. pb_status b = ''pending'') batches then ignoreR (mark_matured (fb_id fb)) else okR ())))"

definition handle_block_connected ::
  "externals \<Rightarrow> u64 \<Rightarrow> node_block \<Rightarrow> int \<Rightarrow> db \<Rightarrow> int \<times> PayoutEvent list \<times> db" where
  "handle_block_connected ex min_confirmations blk tip s =
     (case x_header_height ex (nb_raw_header blk) of
        None \<Rightarrow> (tip, [], s)
      | Some height \<Rightarrow>
          (let tip' = update_block_connected height tip;
               s1 = snd (reconnect_block (to_hex_be ex (nb_hash blk)) s);
               (r, s2) = check_maturation tip' min_confirmations s1;
               matured = (case r of Inr bs \<Rightarrow> map (\<lambda>b. BlockMatured (fb_block_hash b)) bs | Inl _ \<Rightarrow> [])
           in (tip', matured @ [BlockConnected (map (to_hex_be ex) (nb_txids blk))], s2)))"

subsection \<open>Work changes\<close>

datatype MiningWorkChangedReason = NewTip | Reorg | MempoolRefresh | ManualInvalidation

fun miningwrkchg_reason_to_string :: "MiningWorkChangedReason \<Rightarrow> string" where
  "miningwrkchg_reason_to_string NewTip = ''new-tip''"
| "miningwrkchg_reason_to_string Reorg = ''reorg''"
| "miningwrkchg_reason_to_string MempoolRefresh = ''mempool''"
| "miningwrkchg_reason_to_string ManualInvalidation = ''manual''"

record MiningWorkChanged =
  mw_reason :: MiningWorkChangedReason
  mw_height :: int
  mw_template_epoch :: u64

text \<open>The job for a work change, when the template can be fetched and converted.\<close>

definition work_changed_job ::
  "externals \<Rightarrow> ('h, 'm, 't) block_code \<Rightarrow> (string + MiningTemplate) \<Rightarrow> MiningWorkChanged \<Rightarrow> MiningJob option" where
  "work_changed_job ex bc fetched event =
     (case fetched of
        Inl _ \<Rightarrow> None
      | Inr template \<Rightarrow>
          (case template_to_job ex bc template True of
             Inl _ \<Rightarrow> None
           | Inr job \<Rightarrow> Some (job\<lparr>mj_reason := miningwrkchg_reason_to_string (mw_reason event)\<rparr>)))"

subsection \<open>The consumer\<close>

record 'c consumer_state =
  cs_db :: "db option"
  cs_tip :: int
  cs_cache :: "'c JobCache"
  cs_broadcast :: "MiningJob list"
  cs_payout_events :: "PayoutEvent list"

definition on_mining_work_changed ::
  "externals \<Rightarrow> ('h, 'm, 't) block_code \<Rightarrow> 'c cache_ops \<Rightarrow> (string + MiningTemplate) \<Rightarrow> MiningWorkChanged \<Rightarrow>
   'c consumer_state \<Rightarrow> 'c consumer_state" where
  "on_mining_work_changed ex bc ops fetched event cs =
     (case work_changed_job ex bc fetched event of
        None \<Rightarrow> cs
      | Some job \<Rightarrow> cs\<lparr>cs_cache := job_cache_insert ops job (cs_cache cs), cs_broadcast := cs_broadcast cs @ [job]\<rparr>)"

text \<open>What ends an iteration of the event loop; a work change comes out of the coalescer with the
  template fetched for it. A raw work change only enters the coalescer.\<close>

datatype consumer_event =
    WorkChanged MiningWorkChanged
  | CoalescedWork MiningWorkChanged "string + MiningTemplate"
  | Disconnected node_block
  | Connected node_block
  | OtherMessage
  | RecvError

fun consumer_step ::
  "externals \<Rightarrow> ('h, 'm, 't) block_code \<Rightarrow> 'c cache_ops \<Rightarrow> u64 \<Rightarrow> consumer_event \<Rightarrow>
   'c consumer_state \<Rightarrow> 'c consumer_state" where
  "consumer_step ex bc ops min_confirmations (WorkChanged event) cs = cs"
| "consumer_step ex bc ops min_confirmations (CoalescedWork event fetched) cs =
     on_mining_work_changed ex bc ops fetched event cs"
| "consumer_step ex bc ops min_confirmations (Disconnected blk) cs =
     cs\<lparr>cs_db := map_option (\<lambda>s. snd (handle_block_disconnected ex blk s)) (cs_db cs)\<rparr>"
| "consumer_step ex bc ops min_confirmations (Connected blk) cs =
     (case cs_db cs of
        None \<Rightarrow> cs
      | Some s \<Rightarrow>
          (let (tip, events, s') = handle_block_connected ex min_confirmations blk (cs_tip cs) s
           in cs\<lparr>cs_tip := tip, cs_payout_events := cs_payout_events cs @ events, cs_db := Some s'\<rparr>))"
| "consumer_step ex bc ops min_confirmations OtherMessage cs = cs"
| "consumer_step ex bc ops min_confirmations RecvError cs = cs"

subsection \<open>Coalescing\<close>

text \<open>The coalescer holds the latest event of a burst. What ends a wait: an event, the closing of the
  input, 100 ms without an event (the timer restarts with each event), or shutdown, which is
  noticed only while an event is held. The flag tells whether the input is closed.\<close>

datatype coalesce_input = RawEvent MiningWorkChanged | InputClosed | Timeout | StopCoalescing

datatype coalescer = Idle | Holding MiningWorkChanged bool | Stopped

fun coalesce_step :: "coalesce_input \<Rightarrow> coalescer \<Rightarrow> coalescer \<times> MiningWorkChanged list" where
  "coalesce_step (RawEvent e) Idle = (Holding e False, [])"
| "coalesce_step InputClosed Idle = (Stopped, [])"
| "coalesce_step (RawEvent e) (Holding l cl) = (if cl then (Holding l True, []) else (Holding e False, []))"
| "coalesce_step InputClosed (Holding l cl) = (Holding l True, [])"
| "coalesce_step Timeout (Holding l cl) = (if cl then Stopped else Idle, [l])"
| "coalesce_step StopCoalescing (Holding l cl) = (Stopped, [])"
| "coalesce_step i c = (c, [])"

fun coalesce_events :: "coalesce_input list \<Rightarrow> coalescer \<Rightarrow> MiningWorkChanged list" where
  "coalesce_events [] c = []"
| "coalesce_events (x # xs) c = (let (c', out) = coalesce_step x c in out @ coalesce_events xs c')"

subsection \<open>The handlers as locked steps\<close>

lemma block_disconnected_via [via_intros]: "via locked_step (handle_block_disconnected ex blk)"
  unfolding handle_block_disconnected_def Let_def by (intro via_intros) simp

lemma reconnect_via [via_intros]: "via locked_step (reconnect_block h)"
  unfolding reconnect_block_def by (intro via_intros)

lemma consumer_step_steps: "db_steps (cs_db cs) (cs_db (consumer_step ex bc ops n ev cs))"
proof (cases ev)
  case (Connected blk)
  have "locked_step\<^sup>*\<^sup>* s (snd (snd (handle_block_connected ex n blk tip s)))" for tip s
  proof (cases "x_header_height ex (nb_raw_header blk)")
    case (Some h)
    let ?s1 = "snd (reconnect_block (to_hex_be ex (nb_hash blk)) s)"
    have "locked_step\<^sup>*\<^sup>* s ?s1" by (intro viaD via_intros)
    also have "locked_step\<^sup>*\<^sup>* ?s1 (snd (check_maturation (update_block_connected h tip) n ?s1))"
      by (intro viaD via_intros)
    finally show ?thesis using Some by (simp add: handle_block_connected_def case_prod_beta Let_def)
  qed (simp add: handle_block_connected_def)
  then show ?thesis using Connected by (simp add: case_prod_beta Let_def split: option.split)
next
  case (Disconnected blk)
  then show ?thesis using viaD [OF block_disconnected_via] by (cases "cs_db cs") simp_all
qed (simp_all add: on_mining_work_changed_def split: option.split)

subsection \<open>Jobs\<close>

definition jobs_inv :: "'c cache_ops \<Rightarrow> nat \<Rightarrow> 'c consumer_state \<Rightarrow> bool" where
  "jobs_inv ops cap cs \<longleftrightarrow>
     job_store.bounded ops cap (cs_cache cs) \<and>
     (cs_broadcast cs \<noteq> [] \<longrightarrow> get_latest ops (cs_cache cs) = Some (last (cs_broadcast cs)))"

lemma consumer_step_jobs:
  assumes "job_store ops cap" "0 < cap" "jobs_inv ops cap cs"
  shows "jobs_inv ops cap (consumer_step ex bc ops n ev cs)"
proof (cases ev)
  case (CoalescedWork e f)
  then show ?thesis
    using assms(3) job_store.insert_bounded [OF assms(1) _ assms(2)]
    by (auto simp: jobs_inv_def on_mining_work_changed_def split: option.split)
qed (use assms(3) in \<open>auto simp: jobs_inv_def Let_def case_prod_beta split: option.split\<close>)

lemma consumer_run_jobs:
  assumes "job_store ops cap" "0 < cap" "jobs_inv ops cap cs"
  shows "jobs_inv ops cap (fold (consumer_step ex bc ops n) evs cs)"
  using assms(3) by (induction evs arbitrary: cs) (auto intro: consumer_step_jobs [OF assms(1,2)])

text \<open>Miners that connect later get the job the others are working on. Whatever the node sends, once a job has
  been broadcast the latest job of the cache is the last one broadcast.\<close>

theorem latest_job_is_broadcast:
  assumes "job_store ops (unat m)" "0 < unat m"
    and "cs = fold (consumer_step ex bc ops n) evs
      \<lparr>cs_db = d, cs_tip = t, cs_cache = job_cache_new ops m, cs_broadcast = [], cs_payout_events = []\<rparr>"
    and "cs_broadcast cs \<noteq> []"
  shows "get_latest ops (cs_cache cs) = Some (last (cs_broadcast cs))"
proof -
  have "jobs_inv ops (unat m) \<lparr>cs_db = d, cs_tip = t, cs_cache = job_cache_new ops m, cs_broadcast = [], cs_payout_events = []\<rparr>"
    using job_store.bounded_new [OF assms(1) refl] by (simp add: jobs_inv_def)
  from consumer_run_jobs [OF assms(1,2) this, of ex bc n evs] show ?thesis
    using assms(4) unfolding assms(3) jobs_inv_def by blast
qed

subsection \<open>Coalescing\<close>

lemma coalesce_burst:
  "coalesce_events (map RawEvent es @ Timeout # xs) (Holding l False) = last (l # es) # coalesce_events xs Idle"
  by (induction es arbitrary: l) auto

text \<open>C37: a burst of work changes yields one template fetch. When each burst is followed by 100 ms of silence, exactly
  the last event of each burst comes out, in order.\<close>

theorem coalesce_bursts:
  assumes "[] \<notin> set bursts"
  shows "coalesce_events (concat (map (\<lambda>es. map RawEvent es @ [Timeout]) bursts)) Idle = map last bursts"
  using assms
proof (induction bursts)
  case (Cons es bursts)
  then obtain e es' where "es = e # es'" by (cases es) auto
  with Cons show ?case by (simp add: coalesce_burst)
qed simp

lemma coalesce_steady: "coalesce_events (map RawEvent es) (Holding l False) = []"
  by (induction es arbitrary: l) auto

text \<open>A steady stream is never forwarded. As long as an event arrives before the timer fires, which restarts with
  each of them, no event comes out.\<close>

theorem coalesce_starves: "coalesce_events (map RawEvent es) Idle = []"
  by (cases es) (simp_all add: coalesce_steady)

theorem latest_job_is_broadcast_witness:
  "let cs = fold (consumer_step sample_externals sample_code map_ops 1)
      [CoalescedWork \<lparr>mw_reason = NewTip, mw_height = 7, mw_template_epoch = 5\<rparr> (Inr sample_template)]
      \<lparr>cs_db = None, cs_tip = 0, cs_cache = job_cache_new map_ops 2, cs_broadcast = [], cs_payout_events = []\<rparr>
   in length (cs_broadcast cs) = 1 \<and> get_latest map_ops (cs_cache cs) = Some (last (cs_broadcast cs))"
proof -
  let ?evs = "[CoalescedWork \<lparr>mw_reason = NewTip, mw_height = 7, mw_template_epoch = 5\<rparr> (Inr sample_template)]"
  let ?cs = "fold (consumer_step sample_externals sample_code map_ops 1) ?evs
      \<lparr>cs_db = None, cs_tip = 0, cs_cache = job_cache_new map_ops 2, cs_broadcast = [], cs_payout_events = []\<rparr>"
  obtain job where "template_to_job sample_externals sample_code sample_template True = Inr job"
    using template_job_ok by (auto simp: template_to_job_def split: sum.splits prod.splits)
  then have "length (cs_broadcast ?cs) = 1" by (simp add: on_mining_work_changed_def work_changed_job_def)
  moreover from this have "cs_broadcast ?cs \<noteq> []" by (auto simp del: fold.simps)
  then have "get_latest map_ops (cs_cache ?cs) = Some (last (cs_broadcast ?cs))"
    by (intro latest_job_is_broadcast [OF map_store.job_store_axioms [of "unat (2 :: u64)"] _ refl]) simp_all
  ultimately show ?thesis unfolding Let_def by blast
qed

theorem coalesce_bursts_witness:
  "let e = \<lparr>mw_reason = NewTip, mw_height = 7, mw_template_epoch = 5\<rparr>; f = e\<lparr>mw_height := 8\<rparr>
   in coalesce_events [RawEvent e, RawEvent f, Timeout, RawEvent e, Timeout] Idle = [f, e]"
  using coalesce_bursts [of "[[\<lparr>mw_reason = NewTip, mw_height = 7, mw_template_epoch = 5\<rparr>, \<lparr>mw_reason = NewTip, mw_height = 8, mw_template_epoch = 5\<rparr>],
     [\<lparr>mw_reason = NewTip, mw_height = 7, mw_template_epoch = 5\<rparr>]]"]
  by (simp add: Let_def)

end
