(* ===== verification/Http_Api.thy ===== *)
theory Http_Api
  imports Payout_Processing
begin

text \<open>
  The HTTP API (src/src/http_api/): pagination, the handlers of every route, the bearer token check
  and the router. Handlers that only read are functions of the database; the admin trigger is an
  operation on it. A repository of the application state is a handle on the one database, so its
  option is whether it is configured. SQLite's \<^verbatim>\<open>SUM\<close> and the formatted start of the
  hashrate window are parameters.
\<close>

subsection \<open>Pagination\<close>

record PaginationParams =
  pp_limit :: "int option"
  pp_offset :: "int option"

definition DEFAULT_LIMIT :: int where
  "DEFAULT_LIMIT = 100"

definition MAX_LIMIT :: int where
  "MAX_LIMIT = 1000"

definition page_limit :: "PaginationParams \<Rightarrow> int" where
  "page_limit params = (case pp_limit params of Some l \<Rightarrow> min (max l 1) MAX_LIMIT | None \<Rightarrow> DEFAULT_LIMIT)"

definition page_offset :: "PaginationParams \<Rightarrow> int" where
  "page_offset params = max (case pp_offset params of Some x \<Rightarrow> x | None \<Rightarrow> 0) 0"

record 'a PaginatedResponse =
  pr_data :: "'a list"
  pr_total :: int
  pr_has_more :: bool

text \<open>Both bounds are non-negative, so their casts to \<^verbatim>\<open>usize\<close> keep the value and the sum
  does not overflow.\<close>

definition paginated :: "'a list \<Rightarrow> int \<Rightarrow> PaginationParams \<Rightarrow> 'a PaginatedResponse" where
  "paginated all_data tot params =
     (let offset = nat (page_offset params);
          limit = nat (page_limit params)
      in \<lparr>pr_data = (if length all_data \<le> offset then [] else take limit (drop offset all_data)),
          pr_total = tot,
          pr_has_more = offset + limit < unat (word_of_int tot :: u64)\<rparr>)"

subsection \<open>State and errors\<close>

record ServerStats =
  st_uptime_secs :: u64
  st_connected_miners :: u64
  st_network_difficulty :: "string option"

record AppState =
  as_stats :: ServerStats
  as_share_repo :: bool
  as_worker_repo :: bool
  as_round_repo :: bool
  as_found_block_repo :: bool
  as_payout_repo :: bool
  as_api_token :: string
  as_accounting_service :: bool
  as_payout_config :: "payout_config option"

datatype AppError = NotFound string | BadRequest string | DbNotConfigured | Internal string

fun error_response :: "AppError \<Rightarrow> nat \<times> string" where
  "error_response (NotFound msg) = (404, msg)"
| "error_response (BadRequest msg) = (400, msg)"
| "error_response DbNotConfigured = (500, ''database not configured'')"
| "error_response (Internal msg) = (500, msg)"

text \<open>\<open>header\<close> is the value of the authorization header, if there is one that is text.\<close>

definition bearer_token :: "string option \<Rightarrow> string" where
  "bearer_token header = (case Option.bind header (\<lambda>v. strip_prefix ''Bearer '' v) of Some t \<Rightarrow> t | None \<Rightarrow> [])"

definition authorized :: "AppState \<Rightarrow> string option \<Rightarrow> bool" where
  "authorized state header \<longleftrightarrow> bearer_token header = as_api_token state"

subsection \<open>Health and statistics\<close>

record HealthResponse =
  hr_status :: string
  hr_uptime_secs :: u64
  hr_connected_miners :: u64

definition health_handler :: "AppState \<Rightarrow> HealthResponse" where
  "health_handler state =
     \<lparr>hr_status = ''ok'', hr_uptime_secs = st_uptime_secs (as_stats state),
      hr_connected_miners = st_connected_miners (as_stats state)\<rparr>"

record StatsResponse =
  sx_total_shares :: int
  sx_accepted_shares :: int
  sx_rejected_shares :: int
  sx_accepted_pct :: f64
  sx_rejection_breakdown :: "string \<Rightarrow> int option"
  sx_network_difficulty :: "string option"
  sx_pool_hashrate :: u64

definition DEFAULT_POOL_HASHRATE_WINDOW_SECS :: int where
  "DEFAULT_POOL_HASHRATE_WINDOW_SECS = 1800"

definition stats_handler :: "(f64 list \<Rightarrow> f64) \<Rightarrow> string \<Rightarrow> AppState \<Rightarrow> db \<Rightarrow> StatsResponse" where
  "stats_handler sql_sum since state s =
     (let (total_shares, accepted, rejected, reasons, hashrate) =
            (if as_share_repo state
             then (total_count s, count_outcomes_by_status ''accepted'' s, count_outcomes_by_status ''rejected'' s,
                   count_rejected_by_reason s,
                   f_to_u64 (f_div (f_mul (sum_difficulty_since sql_sum since s) (Fin 4294967296))
                               (f_of_int DEFAULT_POOL_HASHRATE_WINDOW_SECS)))
             else (0, 0, 0, Map.empty, 0));
          accepted_pct = (if 0 < total_shares
                          then f_mul (f_div (f_of_int accepted) (f_of_int total_shares)) (Fin 100) else Fin 0)
      in \<lparr>sx_total_shares = total_shares, sx_accepted_shares = accepted, sx_rejected_shares = rejected,
          sx_accepted_pct = accepted_pct, sx_rejection_breakdown = reasons,
          sx_network_difficulty = st_network_difficulty (as_stats state), sx_pool_hashrate = hashrate\<rparr>)"

subsection \<open>Workers\<close>

record WorkerSummary =
  ws_id :: int
  ws_payout_address :: string
  ws_worker_suffix :: "string option"
  ws_total_shares :: int

definition worker_summary :: "AppState \<Rightarrow> db \<Rightarrow> Worker \<Rightarrow> WorkerSummary" where
  "worker_summary state s w =
     \<lparr>ws_id = wk_id w, ws_payout_address = wk_payout_address w, ws_worker_suffix = wk_worker_suffix w,
      ws_total_shares = (if as_share_repo state then count_by_worker (wk_id w) s else 0)\<rparr>"

definition list_workers :: "AppState \<Rightarrow> PaginationParams \<Rightarrow> db \<Rightarrow> WorkerSummary PaginatedResponse" where
  "list_workers state params s =
     (if as_worker_repo state
      then paginated (map (worker_summary state s) (worker_list_all s)) (worker_count s) params
      else paginated [] 0 params)"

definition get_worker :: "AppState \<Rightarrow> int \<Rightarrow> db \<Rightarrow> WorkerSummary option" where
  "get_worker state i s =
     (if as_worker_repo state then map_option (worker_summary state s) (worker_get_by_id i s) else None)"

subsection \<open>Shares\<close>

record ShareResponse =
  sq_id :: int
  sq_worker_id :: int
  sq_session_id :: string
  sq_job_id :: string
  sq_template_id :: string
  sq_template_epoch :: string
  sq_extranonce1 :: string
  sq_extranonce2 :: string
  sq_ntime_hex_6b :: string
  sq_nonce_hex_8b :: string
  sq_difficulty :: f64
  sq_dedupe_key :: string

definition share_response :: "Share \<Rightarrow> ShareResponse" where
  "share_response x =
     \<lparr>sq_id = sh_id x, sq_worker_id = sh_worker_id x, sq_session_id = sh_session_id x, sq_job_id = sh_job_id x,
      sq_template_id = show_u64 (sh_template_id x), sq_template_epoch = show_u64 (sh_template_epoch x),
      sq_extranonce1 = sh_extranonce1 x, sq_extranonce2 = sh_extranonce2 x, sq_ntime_hex_6b = sh_ntime_hex_6b x,
      sq_nonce_hex_8b = sh_nonce_hex_8b x, sq_difficulty = sh_difficulty x, sq_dedupe_key = sh_dedupe_key x\<rparr>"

record ListSharesParams =
  ls_worker_id :: "int option"
  ls_status :: "string option"
  ls_from :: "string option"
  ls_to :: "string option"
  ls_limit :: "int option"
  ls_offset :: "int option"

definition pagination_from :: "ListSharesParams \<Rightarrow> PaginationParams" where
  "pagination_from params = \<lparr>pp_limit = ls_limit params, pp_offset = ls_offset params\<rparr>"

text \<open>All rows are read and sliced afterwards. The response for an outcome has the fields of its row.\<close>

definition list_shares_handler ::
  "AppState \<Rightarrow> ListSharesParams \<Rightarrow> db \<Rightarrow> AppError + ShareResponse PaginatedResponse" where
  "list_shares_handler state params s =
     (if \<not> as_share_repo state then Inl DbNotConfigured
      else Inr (paginated
             (map share_response (list_shares (ls_worker_id params) (ls_status params) (ls_from params) (ls_to params) None None s))
             (count_shares (ls_worker_id params) (ls_status params) (ls_from params) (ls_to params) s)
             (pagination_from params)))"

definition list_share_outcomes ::
  "AppState \<Rightarrow> ListSharesParams \<Rightarrow> db \<Rightarrow> AppError + ShareOutcome PaginatedResponse" where
  "list_share_outcomes state params s =
     (if \<not> as_share_repo state then Inl DbNotConfigured
      else Inr (paginated
             (list_outcomes (ls_worker_id params) (ls_status params) (ls_from params) (ls_to params) None None s)
             (count_outcomes (ls_worker_id params) (ls_status params) (ls_from params) (ls_to params) s)
             (pagination_from params)))"

subsection \<open>Blocks\<close>

record BlockSummary =
  bs_id :: int
  bs_round_id :: int
  bs_block_hash :: string
  bs_height :: int
  bs_status :: string
  bs_coinbase_value :: string
  bs_network_target_hex :: string

record BlockDetail =
  bd_id :: int
  bd_round_id :: int
  bd_block_hash :: string
  bd_height :: int
  bd_status :: string
  bd_worker_id :: "int option"
  bd_template_id :: "string option"
  bd_persist_source :: "string option"
  bd_orphan_reason :: "string option"
  bd_coinbase_value :: string
  bd_network_target_hex :: string

text \<open>The query of the block, round and payout lists.\<close>

record ListParams =
  lp_status :: "string option"
  lp_limit :: "int option"
  lp_offset :: "int option"

definition list_pagination :: "ListParams \<Rightarrow> PaginationParams" where
  "list_pagination params = \<lparr>pp_limit = lp_limit params, pp_offset = lp_offset params\<rparr>"

definition paginated_list :: "'a list \<Rightarrow> ListParams \<Rightarrow> 'a PaginatedResponse" where
  "paginated_list all_data params = paginated all_data (int (length all_data)) (list_pagination params)"

definition block_summary :: "FoundBlock \<Rightarrow> BlockSummary" where
  "block_summary b =
     \<lparr>bs_id = fb_id b, bs_round_id = fb_round_id b, bs_block_hash = fb_block_hash b, bs_height = fb_height b,
      bs_status = fb_status b, bs_coinbase_value = show_u64 (fb_coinbase_value b),
      bs_network_target_hex = fb_network_target_hex b\<rparr>"

definition list_blocks :: "AppState \<Rightarrow> ListParams \<Rightarrow> db \<Rightarrow> BlockSummary PaginatedResponse" where
  "list_blocks state params s =
     paginated_list (if as_found_block_repo state then map block_summary (block_list (lp_status params) s) else []) params"

definition block_detail :: "FoundBlock \<Rightarrow> BlockDetail" where
  "block_detail b =
     \<lparr>bd_id = fb_id b, bd_round_id = fb_round_id b, bd_block_hash = fb_block_hash b, bd_height = fb_height b,
      bd_status = fb_status b, bd_worker_id = fb_worker_id b, bd_template_id = map_option show_u64 (fb_template_id b),
      bd_persist_source = fb_persist_source b, bd_orphan_reason = fb_orphan_reason b,
      bd_coinbase_value = show_u64 (fb_coinbase_value b), bd_network_target_hex = fb_network_target_hex b\<rparr>"

definition get_block_handler :: "AppState \<Rightarrow> string \<Rightarrow> db \<Rightarrow> BlockDetail option" where
  "get_block_handler state h s =
     (if as_found_block_repo state then map_option block_detail (block_get_by_hash h s) else None)"

subsection \<open>Rounds\<close>

record RoundSummary =
  ru_id :: int
  ru_start_template_id :: string
  ru_end_template_id :: "string option"
  ru_status :: string
  ru_found_block_hash :: "string option"

definition round_summary :: "Round \<Rightarrow> RoundSummary" where
  "round_summary r =
     \<lparr>ru_id = rd_id r, ru_start_template_id = show_u64 (rd_start_template_id r),
      ru_end_template_id = map_option show_u64 (rd_end_template_id r), ru_status = rd_status r,
      ru_found_block_hash = rd_found_block_hash r\<rparr>"

definition list_rounds :: "AppState \<Rightarrow> ListParams \<Rightarrow> db \<Rightarrow> RoundSummary PaginatedResponse" where
  "list_rounds state params s =
     paginated_list (if as_round_repo state then map round_summary (round_list (lp_status params) s) else []) params"

record WorkerShareBreakdown =
  wb_worker_id :: int
  wb_payout_address :: string
  wb_worker_suffix :: "string option"
  wb_total_shares :: int
  wb_accepted_shares :: int
  wb_rejected_shares :: int

record RoundDetail =
  rx_summary :: RoundSummary
  rx_share_breakdown :: "WorkerShareBreakdown list"
  rx_total_shares :: int

definition share_breakdown :: "int \<Rightarrow> db \<Rightarrow> WorkerShareBreakdown list" where
  "share_breakdown i s =
     map (\<lambda>(w, address, suff, n, acc, rej).
            \<lparr>wb_worker_id = w, wb_payout_address = address, wb_worker_suffix = suff, wb_total_shares = n,
             wb_accepted_shares = acc, wb_rejected_shares = rej\<rparr>)
       (count_outcomes_by_round_with_workers i s)"

definition get_round :: "AppState \<Rightarrow> int \<Rightarrow> db \<Rightarrow> RoundDetail option" where
  "get_round state i s =
     (if \<not> as_round_repo state then None
      else case round_get_by_id i s of
             None \<Rightarrow> None
           | Some r \<Rightarrow>
               (let breakdown = (if as_share_repo state then share_breakdown i s else [])
                in Some \<lparr>rx_summary = round_summary r, rx_share_breakdown = breakdown,
                         rx_total_shares = sum_list (map wb_total_shares breakdown)\<rparr>))"

subsection \<open>Payouts\<close>

record PayoutBatchResponse =
  px_id :: int
  px_round_id :: int
  px_status :: string
  px_total_amount :: int
  px_pool_fee_amount :: int
  px_pool_fee_address :: "string option"
  px_miner_count :: int
  px_retry_key :: "string option"
  px_submitted_txid :: "string option"

definition batch_response :: "PayoutBatch \<Rightarrow> PayoutBatchResponse" where
  "batch_response b =
     \<lparr>px_id = pb_id b, px_round_id = pb_round_id b, px_status = pb_status b, px_total_amount = pb_total_amount b,
      px_pool_fee_amount = pb_pool_fee_amount b, px_pool_fee_address = pb_pool_fee_address b,
      px_miner_count = pb_miner_count b, px_retry_key = pb_retry_key b, px_submitted_txid = pb_submitted_txid b\<rparr>"

definition list_payouts :: "AppState \<Rightarrow> ListParams \<Rightarrow> db \<Rightarrow> AppError + PayoutBatchResponse PaginatedResponse" where
  "list_payouts state params s =
     (if \<not> as_payout_repo state then Inl DbNotConfigured
      else Inr (paginated_list (map batch_response (list_batches (lp_status params) s)) params))"

record PayoutDetailResponse =
  pd_id :: int
  pd_worker_id :: int
  pd_payout_address :: string
  pd_amount :: int
  pd_dust_carried_forward :: int

definition payout_response :: "Payout \<Rightarrow> PayoutDetailResponse" where
  "payout_response p =
     \<lparr>pd_id = py_id p, pd_worker_id = py_worker_id p, pd_payout_address = py_payout_address p,
      pd_amount = py_amount p, pd_dust_carried_forward = py_dust_carried_forward p\<rparr>"

definition get_payout :: "AppState \<Rightarrow> int \<Rightarrow> db \<Rightarrow> AppError + (PayoutBatchResponse \<times> PayoutDetailResponse list)" where
  "get_payout state i s =
     (if \<not> as_payout_repo state then Inl DbNotConfigured
      else case get_batch_by_id i s of
             None \<Rightarrow> Inl (NotFound (''payout batch '' @ show_int i))
           | Some batch \<Rightarrow> Inr (batch_response batch, map payout_response (get_payouts_by_batch i s)))"

text \<open>The result is the id of the new batch; \<open>show_error\<close> prints an error of the database.\<close>

definition trigger_payout ::
  "(db_error \<Rightarrow> string) \<Rightarrow> externals \<Rightarrow> row_order \<Rightarrow> AppState \<Rightarrow> string \<Rightarrow> db \<Rightarrow> (AppError + int) \<times> db" where
  "trigger_payout show_error ex od state block_hash s =
     (if \<not> as_accounting_service state then (Inl DbNotConfigured, s)
      else case as_payout_config state of
             None \<Rightarrow> (Inl (Internal ''payout config not loaded''), s)
           | Some config \<Rightarrow>
               if \<not> as_found_block_repo state then (Inl DbNotConfigured, s)
               else case block_get_by_hash block_hash s of
                      None \<Rightarrow> (Inl (NotFound (''found block '' @ block_hash)), s)
                    | Some fb \<Rightarrow>
                        if fb_status fb = ''orphaned'' then (Inl (BadRequest ''cannot trigger payout for orphaned block''), s)
                        else if fb_status fb = ''paid'' then (Inl (BadRequest ''block already paid''), s)
                        else (case create_payout_for_found_block ex od fb (pc_fee_bps config) (pc_fee_address config)
                                     (pc_min_payout_sat config) (pc_n_multiplier config) s of
                                (Inl e, t) \<Rightarrow> (Inl (Internal (show_error e)), t)
                              | (Inr batch_id, t) \<Rightarrow> (Inr batch_id, t)))"

subsection \<open>The router\<close>

datatype http_method = Get | Post | OtherMethod

datatype endpoint =
    Health
  | Stats
  | Workers
  | WorkerById string
  | Rounds
  | RoundById string
  | Blocks
  | BlockByHash string
  | Payouts
  | PayoutById string
  | TriggerPayout string
  | Shares
  | ShareOutcomes

text \<open>The segments of a path and the method its route accepts.\<close>

fun api_route :: "string list \<Rightarrow> (http_method \<times> endpoint) option" where
  "api_route [r] =
     (if r = ''health'' then Some (Get, Health)
      else if r = ''stats'' then Some (Get, Stats)
      else if r = ''workers'' then Some (Get, Workers)
      else if r = ''rounds'' then Some (Get, Rounds)
      else if r = ''blocks'' then Some (Get, Blocks)
      else if r = ''payouts'' then Some (Get, Payouts)
      else if r = ''shares'' then Some (Get, Shares)
      else if r = ''share-outcomes'' then Some (Get, ShareOutcomes)
      else None)"
| "api_route [r, x] =
     (if r = ''workers'' then Some (Get, WorkerById x)
      else if r = ''rounds'' then Some (Get, RoundById x)
      else if r = ''blocks'' then Some (Get, BlockByHash x)
      else if r = ''payouts'' then Some (Get, PayoutById x)
      else None)"
| "api_route [r, q, t, x] =
     (if r = ''admin'' \<and> q = ''payouts'' \<and> t = ''trigger'' then Some (Post, TriggerPayout x) else None)"
| "api_route _ = None"

definition find_route :: "string list \<Rightarrow> (http_method \<times> endpoint) option" where
  "find_route path =
     (case path of a # v # rest \<Rightarrow> if a = ''api'' \<and> v = ''v1'' then api_route rest else None | _ \<Rightarrow> None)"

text \<open>A request with its query decoded the way each handler asks for it.\<close>

record http_request =
  ht_method :: http_method
  ht_path :: "string list"
  ht_authorization :: "string option"
  ht_page :: PaginationParams
  ht_list :: ListParams
  ht_shares :: ListSharesParams

datatype api_body =
    NoBody
  | TextBody string
  | HealthBody HealthResponse
  | StatsBody StatsResponse
  | WorkersBody "WorkerSummary PaginatedResponse"
  | WorkerBody "WorkerSummary option"
  | RoundsBody "RoundSummary PaginatedResponse"
  | RoundBody "RoundDetail option"
  | BlocksBody "BlockSummary PaginatedResponse"
  | BlockBody "BlockDetail option"
  | PayoutsBody "PayoutBatchResponse PaginatedResponse"
  | PayoutBody "PayoutBatchResponse \<times> PayoutDetailResponse list"
  | TriggerBody int
  | SharesBody "ShareResponse PaginatedResponse"
  | OutcomesBody "ShareOutcome PaginatedResponse"

text \<open>What the handlers get from outside: how an id in a path is read, SQLite's sum, the start of the
  hashrate window, the printer of errors and the libraries of the accounting service.\<close>

record api_env =
  an_path_int :: "string \<Rightarrow> int option"
  an_sql_sum :: "f64 list \<Rightarrow> f64"
  an_since :: string
  an_show_error :: "db_error \<Rightarrow> string"
  an_ext :: externals
  an_order :: row_order

definition with_id :: "api_env \<Rightarrow> string \<Rightarrow> (int \<Rightarrow> nat \<times> api_body) \<Rightarrow> nat \<times> api_body" where
  "with_id env x k = (case an_path_int env x of None \<Rightarrow> (400, NoBody) | Some i \<Rightarrow> k i)"

definition result_body :: "('a \<Rightarrow> api_body) \<Rightarrow> AppError + 'a \<Rightarrow> nat \<times> api_body" where
  "result_body f r =
     (case r of Inl e \<Rightarrow> (fst (error_response e), TextBody (snd (error_response e))) | Inr x \<Rightarrow> (200, f x))"

fun serve_endpoint :: "api_env \<Rightarrow> AppState \<Rightarrow> http_request \<Rightarrow> endpoint \<Rightarrow> db \<Rightarrow> (nat \<times> api_body) \<times> db" where
  "serve_endpoint env state req Health s = ((200, HealthBody (health_handler state)), s)"
| "serve_endpoint env state req Stats s =
     ((200, StatsBody (stats_handler (an_sql_sum env) (an_since env) state s)), s)"
| "serve_endpoint env state req Workers s = ((200, WorkersBody (list_workers state (ht_page req) s)), s)"
| "serve_endpoint env state req (WorkerById x) s =
     (with_id env x (\<lambda>i. (200, WorkerBody (get_worker state i s))), s)"
| "serve_endpoint env state req Rounds s = ((200, RoundsBody (list_rounds state (ht_list req) s)), s)"
| "serve_endpoint env state req (RoundById x) s =
     (with_id env x (\<lambda>i. (200, RoundBody (get_round state i s))), s)"
| "serve_endpoint env state req Blocks s = ((200, BlocksBody (list_blocks state (ht_list req) s)), s)"
| "serve_endpoint env state req (BlockByHash h) s = ((200, BlockBody (get_block_handler state h s)), s)"
| "serve_endpoint env state req Payouts s = (result_body PayoutsBody (list_payouts state (ht_list req) s), s)"
| "serve_endpoint env state req (PayoutById x) s =
     (with_id env x (\<lambda>i. result_body PayoutBody (get_payout state i s)), s)"
| "serve_endpoint env state req (TriggerPayout h) s =
     (let (r, t) = trigger_payout (an_show_error env) (an_ext env) (an_order env) state h s
      in (result_body TriggerBody r, t))"
| "serve_endpoint env state req Shares s = (result_body SharesBody (list_shares_handler state (ht_shares req) s), s)"
| "serve_endpoint env state req ShareOutcomes s =
     (result_body OutcomesBody (list_share_outcomes state (ht_shares req) s), s)"

text \<open>The health route is public; the token is checked before anything else of the other routes.\<close>

definition serve_http :: "api_env \<Rightarrow> AppState \<Rightarrow> http_request \<Rightarrow> db \<Rightarrow> (nat \<times> api_body) \<times> db" where
  "serve_http env state req s =
     (case find_route (ht_path req) of
        None \<Rightarrow> ((404, NoBody), s)
      | Some (meth, ep) \<Rightarrow>
          if ep \<noteq> Health \<and> \<not> authorized state (ht_authorization req) then ((401, NoBody), s)
          else if ht_method req \<noteq> meth then ((405, NoBody), s)
          else serve_endpoint env state req ep s)"

subsection \<open>Pages\<close>

text \<open>C32: following the pages of a list returns the list. With a page size the server accepts, the pages at offsets
  \<open>0\<close>, \<open>l\<close>, \<open>2 l\<close> and so on are disjoint consecutive slices: the first \<open>n\<close> of them are the first
  \<open>n l\<close> rows, and a page says that there are more exactly when rows remain after it.\<close>

theorem pages_cover_list:
  assumes "1 \<le> l" "l \<le> 1000" "length xs < 2 ^ 63"
  shows "concat (map (\<lambda>k. pr_data (paginated xs (int (length xs)) \<lparr>pp_limit = Some (int l), pp_offset = Some (int (k * l))\<rparr>)) [0..<n]) =
      take (n * l) xs \<and>
    (pr_has_more (paginated xs (int (length xs)) \<lparr>pp_limit = Some (int l), pp_offset = Some (int (n * l))\<rparr>) \<longleftrightarrow>
      drop (Suc n * l) xs \<noteq> [])"
proof
  have page: "pr_data (paginated xs (int (length xs)) \<lparr>pp_limit = Some (int l), pp_offset = Some (int (k * l))\<rparr>) =
      take l (drop (k * l) xs)" for k
    using assms by (simp add: paginated_def page_limit_def page_offset_def MAX_LIMIT_def Let_def max_def min_def del: of_nat_mult)
  show "concat (map (\<lambda>k. pr_data (paginated xs (int (length xs)) \<lparr>pp_limit = Some (int l), pp_offset = Some (int (k * l))\<rparr>)) [0..<n]) =
      take (n * l) xs"
  proof (induction n)
    case (Suc n)
    have "take (n * l) xs @ take l (drop (n * l) xs) = take (n * l + l) xs" by (simp add: take_add)
    then show ?case using Suc by (simp add: page add.commute del: of_nat_mult)
  qed simp
  have "unat (word_of_int (int (length xs)) :: u64) = length xs"
    using assms(3) by (simp add: unsigned_of_nat take_bit_nat_eq_self_iff)
  then show "pr_has_more (paginated xs (int (length xs)) \<lparr>pp_limit = Some (int l), pp_offset = Some (int (n * l))\<rparr>) \<longleftrightarrow>
      drop (Suc n * l) xs \<noteq> []"
    using assms by (auto simp: paginated_def page_limit_def page_offset_def MAX_LIMIT_def Let_def max_def min_def simp del: of_nat_mult)
qed


subsection \<open>Access\<close>

text \<open>C13: every route but the health check needs the token. A request that is not for the health route and does not
  present the configured token is refused without looking at the database.\<close>

theorem api_requires_token:
  assumes "find_route (ht_path req) \<noteq> Some (Get, Health)" "bearer_token (ht_authorization req) \<noteq> as_api_token state"
  shows "\<exists>code\<in>{401, 404}. serve_http env state req s = ((code, NoBody), s)"
proof -
  have "find_route p = Some (m, Health) \<Longrightarrow> m = Get" for p m
    by (auto simp: find_route_def split: list.splits if_splits elim!: api_route.elims)
  then show ?thesis using assms by (auto simp: serve_http_def authorized_def split: option.split)
qed

text \<open>An empty configured token lets a request without a header in.\<close>

lemma empty_token_open: "as_api_token state = [] \<Longrightarrow> authorized state None"
  by (simp add: authorized_def bearer_token_def)

lemma serve_endpoint_reads: "(\<And>h. ep \<noteq> TriggerPayout h) \<Longrightarrow> snd (serve_endpoint env state req ep s) = s"
  by (cases ep) auto

text \<open>C31: the API writes only through the admin trigger. A request leaves the database as it is, or it is an
  authorised POST to the trigger for a known block that is neither orphaned nor paid, and its
  effect is the creation of the block's payout batch.\<close>

theorem api_writes_only_by_trigger:
  "snd (serve_http env state req s) = s \<or>
   (\<exists>h fb config i. ht_path req = [''api'', ''v1'', ''admin'', ''payouts'', ''trigger'', h] \<and> ht_method req = Post \<and>
      authorized state (ht_authorization req) \<and> block_get_by_hash h s = Some fb \<and>
      fb_status fb \<notin> {''orphaned'', ''paid''} \<and> as_payout_config state = Some config \<and>
      create_payout_for_found_block (an_ext env) (an_order env) fb (pc_fee_bps config) (pc_fee_address config)
        (pc_min_payout_sat config) (pc_n_multiplier config) s = (Inr i, snd (serve_http env state req s)))"
proof (cases "\<exists>h. find_route (ht_path req) = Some (Post, TriggerPayout h)")
  case True
  then obtain h where h: "find_route (ht_path req) = Some (Post, TriggerPayout h)" by blast
  then have "ht_path req = [''api'', ''v1'', ''admin'', ''payouts'', ''trigger'', h]"
    by (auto simp: find_route_def split: list.splits if_splits elim!: api_route.elims)
  then show ?thesis
    using h create_payout_fails
    by (auto simp: serve_http_def trigger_payout_def Let_def split: if_splits option.splits prod.splits sum.splits)
next
  case False
  have "find_route p = Some (m, TriggerPayout h) \<Longrightarrow> m = Post" for p m h
    by (auto simp: find_route_def split: list.splits if_splits elim!: api_route.elims)
  then have "ep \<noteq> TriggerPayout h" if "find_route (ht_path req) = Some (m, ep)" for m ep h
    using that False by (cases m) auto
  then have "snd (serve_http env state req s) = s"
    by (auto simp: serve_http_def serve_endpoint_reads split: option.split)
  then show ?thesis ..
qed


lemma serve_http_via: "locked_step\<^sup>*\<^sup>* s (snd (serve_http env state req s))"
proof -
  have trigger: "locked_step\<^sup>*\<^sup>* s (snd (trigger_payout f ex od state h s))" for f ex od h
  proof -
    have "locked_step\<^sup>*\<^sup>* s (snd (create_payout_for_found_block ex od fb a b c d s))" for fb a b c d
      by (intro viaD via_intros)
    then show ?thesis
      by (auto simp: trigger_payout_def split: option.split prod.split sum.split) (metis snd_conv)+
  qed
  have "locked_step\<^sup>*\<^sup>* s (snd (serve_endpoint env state req ep s))" for ep
    using trigger by (cases ep) (auto simp: Let_def split: prod.split, metis snd_conv)
  then show ?thesis by (auto simp: serve_http_def split: option.split prod.split)
qed

subsection \<open>Sample requests\<close>

definition sample_app_state :: AppState where
  "sample_app_state =
     \<lparr>as_stats = \<lparr>st_uptime_secs = 1, st_connected_miners = 0, st_network_difficulty = None\<rparr>, as_share_repo = True,
      as_worker_repo = True, as_round_repo = True, as_found_block_repo = True, as_payout_repo = True, as_api_token = ''secret'',
      as_accounting_service = True,
      as_payout_config = Some \<lparr>pc_fee_bps = 100, pc_fee_address = None, pc_min_payout_sat = 10, pc_n_multiplier = Fin 2\<rparr>\<rparr>"

definition sample_api_env :: api_env where
  "sample_api_env = \<lparr>an_path_int = (\<lambda>_. None), an_sql_sum = f_sum, an_since = ''0'', an_show_error = (\<lambda>_. []),
     an_ext = sample_externals, an_order = stable_desc\<rparr>"

definition sample_trigger :: "string option \<Rightarrow> http_request" where
  "sample_trigger header =
     \<lparr>ht_method = Post, ht_path = [''api'', ''v1'', ''admin'', ''payouts'', ''trigger'', ''ff''], ht_authorization = header,
      ht_page = \<lparr>pp_limit = None, pp_offset = None\<rparr>, ht_list = \<lparr>lp_status = None, lp_limit = None, lp_offset = None\<rparr>,
      ht_shares = \<lparr>ls_worker_id = None, ls_status = None, ls_from = None, ls_to = None, ls_limit = None, ls_offset = None\<rparr>\<rparr>"

text \<open>The trigger does not ask whether the block has matured.\<close>

lemma trigger_accepts_immature:
  "fb_status (the (block_get_by_hash ''ff'' sample_reward_found)) = ''immature''"
  "fst (fst (serve_http sample_api_env sample_app_state (sample_trigger (Some ''Bearer secret'')) sample_reward_found)) = 200"
proof -
  have fb: "block_get_by_hash ''ff'' sample_reward_found = Some sample_reward_block"
    by (simp add: sample_reward_found_def sample_pay_defs block_get_by_hash_def sample_reward_block_def)
  then show "fb_status (the (block_get_by_hash ''ff'' sample_reward_found)) = ''immature''"
    by (simp add: sample_reward_block_def sample_block_def)
  have "fb_status sample_reward_block = ''immature''" by (simp add: sample_reward_block_def sample_block_def)
  moreover have "authorized sample_app_state (Some ''Bearer secret'')"
    by (simp add: authorized_def bearer_token_def sample_app_state_def)
  ultimately show "fst (fst (serve_http sample_api_env sample_app_state (sample_trigger (Some ''Bearer secret'')) sample_reward_found)) = 200"
    using fb sample_reward_ok
    by (simp add: serve_http_def sample_trigger_def find_route_def trigger_payout_def sample_app_state_def sample_api_env_def
        result_body_def Let_def case_prod_beta split: prod.split sum.split)
qed

theorem pages_cover_list_witness:
  "concat (map (\<lambda>k. pr_data (paginated ''abcde'' 5 \<lparr>pp_limit = Some 2, pp_offset = Some (int (k * 2))\<rparr>)) [0..<2]) = ''abcd''"
  using pages_cover_list [of 2 "''abcde''" 2] by simp

theorem api_requires_token_witness:
  "\<exists>code\<in>{401, 404}. serve_http sample_api_env sample_app_state (sample_trigger (Some ''Bearer guess'')) (init_schema ''0'') =
     ((code, NoBody), init_schema ''0'')"
  by (rule api_requires_token)
    (simp_all add: sample_trigger_def sample_app_state_def bearer_token_def find_route_def)

end
