(* ===== verification/Signers.thy ===== *)
theory Signers
  imports Payout_Processing Node_Rpc
begin

text \<open>
  The signers of payout transactions (src/src/payout/signer/): the one that builds and signs the
  transaction in process and broadcasts it through the node, and the one that posts the batch to a
  webhook. Keys, addresses and the transaction library are parameters; both signers fulfil the
  contract that the submission of pending batches relies on.
\<close>

definition DUST_LIMIT :: int where
  "DUST_LIMIT = 546"

definition DEFAULT_TX_FEE_PER_KB :: int where
  "DEFAULT_TX_FEE_PER_KB = 1000"

subsection \<open>The payout transaction\<close>

datatype TxBuilderOutput = Fixed int "u8 list" | Leftover "u8 list"

text \<open>The only input: the coinbase output, signed for with the pool's key.\<close>

record ('sk, 'pk) coinbase_input =
  ci_txid :: "u8 list"
  ci_out_idx :: u32
  ci_value :: int
  ci_script :: "u8 list"
  ci_seckey :: 'sk
  ci_pubkey :: 'pk

record ('sk, 'pk) TxBuilder =
  tb_version :: int
  tb_inputs :: "('sk, 'pk) coinbase_input list"
  tb_outputs :: "TxBuilderOutput list"
  tb_lock_time :: int

text \<open>What the signer uses of the libraries; an error is its message.\<close>

record ('sk, 'pk, 'tx) tx_lib =
  tl_from_hex_or_wif :: "string \<Rightarrow> string + u8 list"
  tl_seckey_from_array :: "u8 list \<Rightarrow> string + 'sk"
  tl_derive_pubkey :: "'sk \<Rightarrow> 'pk"
  tl_from_hex_be :: "string \<Rightarrow> string + u8 list"
  tl_hex_decode :: "string \<Rightarrow> string + u8 list"
  tl_hex_encode :: "u8 list \<Rightarrow> string"
  tl_address_script :: "string \<Rightarrow> string + u8 list"
  tl_sign :: "('sk, 'pk) TxBuilder \<Rightarrow> int \<Rightarrow> int \<Rightarrow> string + 'tx"
  tl_ser :: "'tx \<Rightarrow> u8 list"

record ('sk, 'pk) InternalSigner =
  is_seckey :: 'sk
  is_pubkey :: 'pk
  is_rpc_client :: http_client
  is_tx_fee_per_kb :: int

text \<open>The key must have 32 bytes: another length is a panic, the error \<open>None\<close>.\<close>

definition internal_signer_new ::
  "('sk, 'pk, 'tx) tx_lib \<Rightarrow> string \<Rightarrow> http_client \<Rightarrow> int \<Rightarrow> string option + ('sk, 'pk) InternalSigner" where
  "internal_signer_new lib private_key rpc_client tx_fee_per_kb =
     (case tl_from_hex_or_wif lib private_key of
        Inl e \<Rightarrow> Inl (Some (''invalid private key: '' @ e))
      | Inr parsed \<Rightarrow>
          if length parsed \<noteq> 32 then Inl None
          else case tl_seckey_from_array lib parsed of
                 Inl e \<Rightarrow> Inl (Some (''invalid private key: '' @ e))
               | Inr seckey \<Rightarrow>
                   Inr \<lparr>is_seckey = seckey, is_pubkey = tl_derive_pubkey lib seckey,
                        is_rpc_client = rpc_client, is_tx_fee_per_kb = tx_fee_per_kb\<rparr>)"

definition address_to_script :: "('sk, 'pk, 'tx) tx_lib \<Rightarrow> string \<Rightarrow> string + u8 list" where
  "address_to_script lib address =
     (case tl_address_script lib address of
        Inl e \<Rightarrow> Inl (''invalid payout address '' @ address @ '': '' @ e)
      | Inr script \<Rightarrow> Inr script)"

fun miner_outputs :: "('sk, 'pk, 'tx) tx_lib \<Rightarrow> PayoutOutput list \<Rightarrow> string + TxBuilderOutput list" where
  "miner_outputs lib [] = Inr []"
| "miner_outputs lib (out # outs) =
     (case address_to_script lib (po_payout_address out) of
        Inl e \<Rightarrow> Inl e
      | Inr script \<Rightarrow>
          (case miner_outputs lib outs of Inl e \<Rightarrow> Inl e | Inr txs \<Rightarrow> Inr (Fixed (po_amount out) script # txs)))"

definition fee_outputs :: "('sk, 'pk, 'tx) tx_lib \<Rightarrow> PayoutPlan \<Rightarrow> string + TxBuilderOutput list" where
  "fee_outputs lib plan =
     (case pl_pool_fee_address plan of
        None \<Rightarrow> Inr []
      | Some fee_address \<Rightarrow>
          if 0 < pl_pool_fee_amount plan
          then case address_to_script lib fee_address of Inl e \<Rightarrow> Inl e | Inr script \<Rightarrow> Inr [Leftover script]
          else Inr [])"

definition build_payout_tx ::
  "('sk, 'pk, 'tx) tx_lib \<Rightarrow> ('sk, 'pk) InternalSigner \<Rightarrow> SignedBatchData \<Rightarrow> string + ('sk, 'pk) TxBuilder" where
  "build_payout_tx lib sg data =
     (if pl_outputs (sd_plan data) = []
      then Inl (''refusing to build payout tx with zero miner outputs (batch has 0 payees? pool_fee='' @
                show_int (pl_pool_fee_amount (sd_plan data)) @ '')'')
      else case tl_from_hex_be lib (sd_coinbase_txid data) of
             Inl e \<Rightarrow> Inl (''invalid coinbase txid: '' @ e)
           | Inr txid \<Rightarrow>
               (case tl_hex_decode lib (sd_coinbase_script_pubkey_hex data) of
                  Inl e \<Rightarrow> Inl (''invalid coinbase script hex: '' @ e)
                | Inr script \<Rightarrow>
                    (case miner_outputs lib (pl_outputs (sd_plan data)) of
                       Inl e \<Rightarrow> Inl e
                     | Inr outs \<Rightarrow>
                         (case fee_outputs lib (sd_plan data) of
                            Inl e \<Rightarrow> Inl e
                          | Inr fee \<Rightarrow>
                              Inr \<lparr>tb_version = 2,
                                   tb_inputs = [\<lparr>ci_txid = txid, ci_out_idx = sd_coinbase_vout data,
                                                 ci_value = sd_coinbase_amount data, ci_script = script,
                                                 ci_seckey = is_seckey sg, ci_pubkey = is_pubkey sg\<rparr>],
                                   tb_outputs = outs @ fee, tb_lock_time = 0\<rparr>))))"

definition internal_sign_and_submit ::
  "('sk, 'pk, 'tx) tx_lib \<Rightarrow> ('sk, 'pk) InternalSigner \<Rightarrow> SignedBatchData \<Rightarrow> string + string" where
  "internal_sign_and_submit lib sg data =
     (case build_payout_tx lib sg data of
        Inl e \<Rightarrow> Inl e
      | Inr tx_builder \<Rightarrow>
          (case tl_sign lib tx_builder (is_tx_fee_per_kb sg) DUST_LIMIT of
             Inl e \<Rightarrow> Inl (''transaction signing failed: '' @ e)
           | Inr signed_tx \<Rightarrow> send_raw_transaction (is_rpc_client sg) (tl_hex_encode lib (tl_ser lib signed_tx))))"

subsection \<open>The webhook\<close>

datatype webhook_outcome = WebhookFailed string | WebhookResponse nat "string + json"

definition output_payload :: "PayoutOutput \<Rightarrow> json" where
  "output_payload out =
     JObj [(''payout_address'', JStr (po_payout_address out)), (''worker_id'', JNum (JInt (po_worker_id out))),
           (''amount'', JNum (JInt (po_amount out))),
           (''dust_carried_forward'', JNum (JInt (po_dust_carried_forward out)))]"

definition signer_payload :: "SignedBatchData \<Rightarrow> json" where
  "signer_payload data =
     (let plan = sd_plan data
      in JObj [(''retry_key'', JStr (pl_retry_key plan)), (''block_hash'', JStr (pl_block_hash plan)),
               (''block_height'', JNum (JInt (pl_block_height plan))),
               (''gross_reward'', JNum (JInt (pl_gross_reward plan))),
               (''pool_fee_amount'', JNum (JInt (pl_pool_fee_amount plan))),
               (''pool_fee_address'', (case pl_pool_fee_address plan of None \<Rightarrow> JNull | Some a \<Rightarrow> JStr a)),
               (''coinbase_txid'', JStr (sd_coinbase_txid data)),
               (''coinbase_vout'', JNum (JInt (int (unat (sd_coinbase_vout data))))),
               (''coinbase_amount'', JNum (JInt (sd_coinbase_amount data))),
               (''coinbase_script_pubkey_hex'', JStr (sd_coinbase_script_pubkey_hex data)),
               (''outputs'', JArr (map output_payload (pl_outputs plan)))])"

definition external_sign_and_submit :: "(json \<Rightarrow> webhook_outcome) \<Rightarrow> SignedBatchData \<Rightarrow> string + string" where
  "external_sign_and_submit post data =
     (case post (signer_payload data) of
        WebhookFailed e \<Rightarrow> Inl (''external signer HTTP request failed: '' @ e)
      | WebhookResponse status body \<Rightarrow>
          if \<not> (200 \<le> status \<and> status < 300) then Inl (''external signer returned HTTP '' @ show_nat status)
          else case body of
                 Inl e \<Rightarrow> Inl (''external signer returned invalid JSON: '' @ e)
               | Inr v \<Rightarrow>
                   (case Option.bind (json_get ''txid'' v) as_str of
                      None \<Rightarrow> Inl ''external signer response missing 'txid' field''
                    | Some txid \<Rightarrow> Inr txid))"

subsection \<open>What the transaction pays\<close>

lemma miner_outputs_valid:
  "map (\<lambda>out. tl_address_script lib (po_payout_address out)) outs = map Inr scripts \<Longrightarrow>
     miner_outputs lib outs = Inr (map2 (\<lambda>out script. Fixed (po_amount out) script) outs scripts)"
  by (induction outs arbitrary: scripts) (auto simp: address_to_script_def Cons_eq_map_conv)

lemma miner_outputs_Inr:
  "miner_outputs lib outs = Inr txs \<Longrightarrow>
     \<exists>scripts. map (\<lambda>out. tl_address_script lib (po_payout_address out)) outs = map Inr scripts \<and>
        txs = map2 (\<lambda>out script. Fixed (po_amount out) script) outs scripts"
proof (induction outs arbitrary: txs)
  case (Cons out outs)
  then show ?case by (fastforce simp: address_to_script_def Cons_eq_map_conv split: sum.splits)
qed auto



text \<open>A miner below the minimum gets an output of value zero, below the dust limit the signer passes to
  the library.\<close>

lemma dusted_miner_zero_output:
  assumes "build_payout_tx lib sg data = Inr tx" "out \<in> set (pl_outputs (sd_plan data))" "po_amount out = 0"
  shows "\<exists>script. Fixed 0 script \<in> set (tb_outputs tx)"
proof -
  obtain outs fee where outs: "miner_outputs lib (pl_outputs (sd_plan data)) = Inr outs" "tb_outputs tx = outs @ fee"
    using assms(1) by (auto simp: build_payout_tx_def split: if_splits sum.splits)
  obtain scripts where s: "map (\<lambda>out. tl_address_script lib (po_payout_address out)) (pl_outputs (sd_plan data)) = map Inr scripts"
      "outs = map2 (\<lambda>out script. Fixed (po_amount out) script) (pl_outputs (sd_plan data)) scripts"
    using miner_outputs_Inr [OF outs(1)] by blast
  have len: "length (pl_outputs (sd_plan data)) = length scripts" using s(1) by (metis length_map)
  obtain i where i: "i < length (pl_outputs (sd_plan data))" "pl_outputs (sd_plan data) ! i = out"
    using assms(2) by (auto simp: in_set_conv_nth)
  then have "outs ! i = Fixed 0 (scripts ! i)" using s(2) len assms(3) by simp
  moreover have "i < length outs" using s(2) len i(1) by simp
  ultimately show ?thesis using outs(2) nth_mem [of i outs] by auto
qed

subsection \<open>The contract of a signer\<close>

text \<open>Fetching the outputs of a batch and its coinbase leaves the batches alone.\<close>

lemma rebuild_batches:
  "frame db_batches (rebuild_payout_plan_for_batch ex od batch_id fee_bps fee_address min_sat n)"
proof -
  have "frame db_batches (transaction (replace_payouts batch_id plan shares))" for plan shares
    unfolding replace_payouts_def by (intro frame_intros) simp_all
  then show ?thesis
    by (simp add: frame_def rebuild_payout_plan_for_batch_def Let_def split: option.split prod.split)
qed

lemma batch_outputs_batches: "frame db_batches (batch_outputs ex od cfg batch)"
  unfolding batch_outputs_def by (intro frame_intros rebuild_batches)

lemma resolve_coinbase_batches: "frame db_batches (resolve_coinbase_txid rpc fb)"
  unfolding resolve_coinbase_txid_def by (intro frame_intros) simp

text \<open>A signer returns a transaction id only for a transaction that somebody took over.\<close>

locale payout_signer =
  fixes sign_and_submit :: "SignedBatchData \<Rightarrow> string + string"
    and taken :: "SignedBatchData \<Rightarrow> string \<Rightarrow> bool"
  assumes sign_taken: "sign_and_submit data = Inr txid \<Longrightarrow> taken data txid"
begin

text \<open>How a row may change: a pending batch may become submitted with the id of a transaction that
  was taken over for its plan.\<close>

definition moves :: "PayoutBatch \<Rightarrow> PayoutBatch \<Rightarrow> bool" where
  "moves b b' \<longleftrightarrow>
     b' = b \<or>
     pb_status b = ''pending'' \<and>
     (\<exists>data txid. taken data txid \<and> Some (pl_retry_key (sd_plan data)) = pb_retry_key b \<and>
        pl_gross_reward (sd_plan data) = pb_total_amount b \<and>
        b' = b\<lparr>pb_status := ''submitted'', pb_submitted_txid := Some txid\<rparr>)"

lemma moves_id: "moves b b' \<Longrightarrow> pb_id b' = pb_id b"
  by (auto simp: moves_def)

lemma mark_submitted_moves:
  assumes "distinct (map pb_id rows)" "batch \<in> set rows" "pb_status batch = ''pending''"
    and "taken data txid" "Some (pl_retry_key (sd_plan data)) = pb_retry_key batch"
    and "pl_gross_reward (sd_plan data) = pb_total_amount batch"
  shows "keeps (\<lambda>t. list_all2 moves rows (db_batches t)) (mark_batch_submitted (pb_id batch) txid)"
proof -
  have "moves b (if pb_id b' = pb_id batch then b'\<lparr>pb_status := ''submitted'', pb_submitted_txid := Some txid\<rparr> else b')"
    if "b \<in> set rows" "moves b b'" for b b'
  proof (cases "pb_id b' = pb_id batch")
    case True
    then have b: "b = batch" using assms(1,2) that moves_id by (auto simp: distinct_map inj_on_def)
    have "b'\<lparr>pb_status := ''submitted'', pb_submitted_txid := Some txid\<rparr> =
        b\<lparr>pb_status := ''submitted'', pb_submitted_txid := Some txid\<rparr>"
      using that(2) unfolding moves_def by (elim disjE exE conjE) simp_all
    then show ?thesis using True assms(3-6) unfolding moves_def b by (metis (no_types))
  qed (use that in simp)
  then show ?thesis
    unfolding keeps_def mark_batch_submitted_def modifyR_def update_where_def
    by (simp add: list_all2_conv_all_nth)
qed

lemma process_batch_moves:
  assumes "distinct (map pb_id rows)" "batch \<in> set rows" "pb_status batch = ''pending''" "pb_retry_key batch \<noteq> None"
  shows "keeps (\<lambda>t. list_all2 moves rows (db_batches t)) (process_batch ex od rpc sign_and_submit cfg batch)"
proof -
  let ?P = "\<lambda>t. list_all2 moves rows (db_batches t)"
  have fr: "frame db_batches m \<Longrightarrow> keeps ?P m" for m :: "'x dbop" by (erule frame_keeps) simp
  have "keeps ?P (submit_batch ex od rpc sign_and_submit cfg batch fb cb out)" for fb cb out
  proof -
    have "keeps ?P (case sign_and_submit data of Inl _ \<Rightarrow> okR () | Inr txid \<Rightarrow> ignoreR (mark_batch_submitted (pb_id batch) txid))"
      if "data = signed_batch_data batch fb cb out outputs" for data outputs
    proof (cases "sign_and_submit data")
      case (Inr txid)
      have "Some (pl_retry_key (sd_plan data)) = pb_retry_key batch" "pl_gross_reward (sd_plan data) = pb_total_amount batch"
        using assms(4) that by (auto simp: signed_batch_data_def split: prod.split)
      then show ?thesis
        using Inr mark_submitted_moves [OF assms(1-3) sign_taken [OF Inr]] by (auto intro: keeps_ignoreR)
    qed (simp add: keeps_okR)
    then show ?thesis
      unfolding submit_batch_def by (intro keeps_bindR keeps_tryR keeps_case_option keeps_okR fr [OF batch_outputs_batches]) simp
  qed
  then show ?thesis
    unfolding process_batch_def
    by (intro keeps_bindR keeps_readR keeps_case_option keeps_case_sum keeps_okR fr [OF resolve_coinbase_batches])
qed

lemma process_pending_moves:
  assumes "batches_inv s"
  shows "list_all2 moves (db_batches s) (db_batches (snd (process_pending_payouts ex od rpc sign_and_submit cfg s)))"
proof -
  let ?P = "\<lambda>t. list_all2 moves (db_batches s) (db_batches t)"
  have "keeps ?P (process_batch ex od rpc sign_and_submit cfg b)" if "b \<in> set (list_batches (Some ''pending'') s)" for b
    using that assms by (intro process_batch_moves) (auto simp: list_batches_def batches_inv_def table_wf_def)
  then have "keeps ?P (forR (list_batches (Some ''pending'') s) (process_batch ex od rpc sign_and_submit cfg))"
    by (rule keeps_forR_in)
  moreover have "?P s" by (simp add: list_all2_conv_all_nth moves_def)
  ultimately show ?thesis
    by (auto simp: process_pending_payouts_def bindR_def readR_def dest: keepsD)
qed

end


text \<open>The node accepted the signed transaction that pays the plan, under the id returned.\<close>

definition node_took ::
  "('sk, 'pk, 'tx) tx_lib \<Rightarrow> ('sk, 'pk) InternalSigner \<Rightarrow> SignedBatchData \<Rightarrow> string \<Rightarrow> bool" where
  "node_took lib sg data txid \<longleftrightarrow>
     (\<exists>b tx. build_payout_tx lib sg data = Inr b \<and> tl_sign lib b (is_tx_fee_per_kb sg) DUST_LIMIT = Inr tx \<and>
        send_raw_transaction (is_rpc_client sg) (tl_hex_encode lib (tl_ser lib tx)) = Inr txid)"

text \<open>The webhook answered the payload of the batch with success and the id.\<close>

definition webhook_took :: "(json \<Rightarrow> webhook_outcome) \<Rightarrow> SignedBatchData \<Rightarrow> string \<Rightarrow> bool" where
  "webhook_took post data txid \<longleftrightarrow>
     (\<exists>status v. post (signer_payload data) = WebhookResponse status (Inr v) \<and> status \<in> {200..<300} \<and>
        Option.bind (json_get ''txid'' v) as_str = Some txid)"

interpretation internal: payout_signer "internal_sign_and_submit lib sg" "node_took lib sg"
  by unfold_locales (auto simp: internal_sign_and_submit_def node_took_def split: sum.splits)

interpretation external: payout_signer "external_sign_and_submit post" "webhook_took post"
  by unfold_locales
    (auto simp: external_sign_and_submit_def webhook_took_def split: webhook_outcome.splits sum.splits option.splits if_splits)


theorem webhook_batches_answered:
  assumes "batches_inv s"
  shows "list_all2 (\<lambda>b b'. b' = b \<or> pb_status b = ''pending'' \<and>
      (\<exists>data txid. webhook_took post data txid \<and> Some (pl_retry_key (sd_plan data)) = pb_retry_key b \<and>
        pl_gross_reward (sd_plan data) = pb_total_amount b \<and>
        b' = b\<lparr>pb_status := ''submitted'', pb_submitted_txid := Some txid\<rparr>))
    (db_batches s) (db_batches (snd (process_pending_payouts ex od rpc (external_sign_and_submit post) cfg s)))"
  using external.process_pending_moves [OF assms, of post] unfolding external.moves_def .

subsection \<open>A concrete submission\<close>

definition sample_lib :: "(unit, unit, unit) tx_lib" where
  "sample_lib =
     \<lparr>tl_from_hex_or_wif = (\<lambda>_. Inr (replicate 32 1)), tl_seckey_from_array = (\<lambda>_. Inr ()), tl_derive_pubkey = (\<lambda>_. ()),
      tl_from_hex_be = (\<lambda>_. Inr [1]), tl_hex_decode = (\<lambda>_. Inr [2]), tl_hex_encode = (\<lambda>_. ''aa''),
      tl_address_script = (\<lambda>a. if a = [] then Inl ''empty'' else Inr [3]), tl_sign = (\<lambda>_ _ _. Inr ()), tl_ser = (\<lambda>_. [4])\<rparr>"

definition sample_signer :: "(unit, unit) InternalSigner" where
  "sample_signer =
     \<lparr>is_seckey = (), is_pubkey = (),
      is_rpc_client = \<lparr>hc_post = (\<lambda>_. HttpBody 200 (JObj [(''result'', JStr ''t1'')])), hc_display = (\<lambda>_. [])\<rparr>,
      is_tx_fee_per_kb = DEFAULT_TX_FEE_PER_KB\<rparr>"

text \<open>A node that has the block's coinbase with one spendable output.\<close>

definition sample_payout_rpc :: payout_rpc where
  "sample_payout_rpc =
     \<lparr>rpc_get_block = (\<lambda>_. Inr (JObj [(''tx'', JArr [JStr ''c1''])])),
      rpc_get_raw_transaction = (\<lambda>_. Inr (JObj [(''vout'', JArr [JObj [(''value'', JNum (JInt 1)),
         (''scriptPubKey'', JObj [(''type'', JStr ''pubkeyhash''), (''hex'', JStr ''bb'')])]])]))\<rparr>"

definition sample_payout_config :: payout_config where
  "sample_payout_config = \<lparr>pc_fee_bps = 100, pc_fee_address = None, pc_min_payout_sat = 10, pc_n_multiplier = Fin 2\<rparr>"

definition sample_submitted :: db where
  "sample_submitted = snd (process_pending_payouts sample_externals stable_desc sample_payout_rpc
     (internal_sign_and_submit sample_lib sample_signer) sample_payout_config sample_rewarded)"

lemma sample_rewarded_reached: "locked_step\<^sup>*\<^sup>* (init_schema ''0'') sample_rewarded"
proof -
  have "locked_step\<^sup>*\<^sup>* (init_schema ''0'') sample_shared"
    unfolding sample_shared_def by (intro viaD via_intros) (simp add: sample_submission_def outcome_statuses_def)
  also have "locked_step\<^sup>*\<^sup>* sample_shared sample_reward_found"
    unfolding sample_reward_found_def by (intro viaD via_intros)
  also have "locked_step\<^sup>*\<^sup>* sample_reward_found sample_rewarded"
    unfolding sample_rewarded_def by (intro viaD via_intros)
  finally show ?thesis .
qed


end
