(* ===== verification/Config.thy ===== *)
theory Config
  imports Node_Rpc Signers
begin

text \<open>
  Configuration (src/src/config.rs): the settings with their defaults, the overrides from the
  environment, the detection of the network and the mining identity. The TOML parser is a parameter
  that returns the fields present in the file; the environment, the file system and the URL parser
  are parameters as well.
\<close>

subsection \<open>Numbers from the environment\<close>

definition parse_u32 :: "string \<Rightarrow> u32 option" where
  "parse_u32 s = map_option word_of_nat (parse_unsigned 32 s)"

definition parse_i64 :: "string \<Rightarrow> int option" where
  "parse_i64 s =
     (case s of
        CHR ''-'' # ds \<Rightarrow>
          if ds \<noteq> [] \<and> list_all is_digit ds \<and> read_digits ds \<le> 2 ^ 63 then Some (- int (read_digits ds)) else None
      | _ \<Rightarrow> map_option int (parse_unsigned 63 s))"

definition split_sign :: "string \<Rightarrow> bool \<times> string" where
  "split_sign s = (case s of CHR ''-'' # t \<Rightarrow> (True, t) | CHR ''+'' # t \<Rightarrow> (False, t) | _ \<Rightarrow> (False, s))"

definition parse_exponent :: "string \<Rightarrow> int option" where
  "parse_exponent s =
     (case s of
        [] \<Rightarrow> Some 0
      | c # t \<Rightarrow>
          if c = CHR ''e'' \<or> c = CHR ''E''
          then let (neg, ds) = split_sign t
               in if ds \<noteq> [] \<and> list_all is_digit ds then Some (if neg then - int (read_digits ds) else int (read_digits ds))
                  else None
          else None)"

definition parse_decimal :: "string \<Rightarrow> rat option" where
  "parse_decimal s =
     (let whole = takeWhile is_digit s;
          r = dropWhile is_digit s;
          (frac, rest) = (case r of CHR ''.'' # t \<Rightarrow> (takeWhile is_digit t, dropWhile is_digit t) | _ \<Rightarrow> ([], r))
      in if whole = [] \<and> frac = [] then None
         else map_option (\<lambda>e. of_nat (read_digits (whole @ frac)) * 10 powi (e - int (length frac))) (parse_exponent rest))"

text \<open>\<^verbatim>\<open>str::parse::<f64>\<close>: the nearest value to the decimal number.\<close>

definition parse_f64 :: "string \<Rightarrow> f64 option" where
  "parse_f64 s =
     (let (neg, t) = split_sign s;
          l = map ascii_lower t
      in if l = ''inf'' \<or> l = ''infinity'' then Some (if neg then NInf else PInf)
         else if l = ''nan'' then Some NaN
         else map_option (\<lambda>x. f64_of_rat (if neg then - x else x)) (parse_decimal t))"

subsection \<open>Settings and defaults\<close>

text \<open>Raw records hold what the file gives; the other records are the settings after the defaults.\<close>

record raw_vardiff =
  rv_min_floor :: "f64 option"
  rv_initial_pct :: "f64 option"
  rv_target_secs :: "f64 option"
  rv_retarget_secs :: "f64 option"
  rv_variance_percent :: "f64 option"

definition default_vardiff_min_floor :: f64 where
  "default_vardiff_min_floor = f64_of_rat (1 / 1000)"

definition default_vardiff_initial_pct :: f64 where
  "default_vardiff_initial_pct = f64_of_rat (1 / 100)"

definition default_vardiff_target_secs :: f64 where
  "default_vardiff_target_secs = f64_of_rat 20"

definition default_vardiff_retarget_secs :: f64 where
  "default_vardiff_retarget_secs = f64_of_rat 60"

definition default_vardiff_variance_percent :: f64 where
  "default_vardiff_variance_percent = f64_of_rat (30 / 100)"

definition or_default :: "'a option \<Rightarrow> 'a \<Rightarrow> 'a" where
  "or_default v d = (case v of Some x \<Rightarrow> x | None \<Rightarrow> d)"

definition table_or_default :: "('r \<Rightarrow> 's) \<Rightarrow> 's \<Rightarrow> 'r option \<Rightarrow> 's" where
  "table_or_default f d v = (case v of Some r \<Rightarrow> f r | None \<Rightarrow> d)"

record VarDiffSettings =
  vs_min_floor :: f64
  vs_initial_pct :: f64
  vs_target_secs :: f64
  vs_retarget_secs :: f64
  vs_variance_percent :: f64

definition vardiff_settings :: "raw_vardiff \<Rightarrow> VarDiffSettings" where
  "vardiff_settings r =
     \<lparr>vs_min_floor = or_default (rv_min_floor r) default_vardiff_min_floor,
      vs_initial_pct = or_default (rv_initial_pct r) default_vardiff_initial_pct,
      vs_target_secs = or_default (rv_target_secs r) default_vardiff_target_secs,
      vs_retarget_secs = or_default (rv_retarget_secs r) default_vardiff_retarget_secs,
      vs_variance_percent = or_default (rv_variance_percent r) default_vardiff_variance_percent\<rparr>"

definition VarDiffSettings_default :: VarDiffSettings where
  "VarDiffSettings_default =
     \<lparr>vs_min_floor = default_vardiff_min_floor, vs_initial_pct = default_vardiff_initial_pct,
      vs_target_secs = default_vardiff_target_secs, vs_retarget_secs = default_vardiff_retarget_secs,
      vs_variance_percent = default_vardiff_variance_percent\<rparr>"

definition vardiff_config_from :: "VarDiffSettings \<Rightarrow> VarDiffConfig" where
  "vardiff_config_from s =
     \<lparr>vc_min_floor = vs_min_floor s, vc_initial_pct = vs_initial_pct s, vc_target_secs = vs_target_secs s,
      vc_retarget_secs = vs_retarget_secs s, vc_variance_percent = vs_variance_percent s\<rparr>"

record raw_fee =
  rf_enabled :: "bool option"
  rf_fee_bps :: "u32 option"
  rf_fee_address :: "string option"
  rf_fee_script_hex :: "string option"

record FeeSettings =
  fs_enabled :: bool
  fs_fee_bps :: u32
  fs_fee_address :: "string option"
  fs_fee_script_hex :: "string option"

definition default_fee_enabled :: bool where
  "default_fee_enabled = True"

definition default_fee_bps :: u32 where
  "default_fee_bps = 100"

definition fee_settings :: "raw_fee \<Rightarrow> FeeSettings" where
  "fee_settings r =
     \<lparr>fs_enabled = or_default (rf_enabled r) default_fee_enabled, fs_fee_bps = or_default (rf_fee_bps r) default_fee_bps,
      fs_fee_address = rf_fee_address r, fs_fee_script_hex = rf_fee_script_hex r\<rparr>"

definition FeeSettings_default :: FeeSettings where
  "FeeSettings_default = \<lparr>fs_enabled = default_fee_enabled, fs_fee_bps = default_fee_bps, fs_fee_address = None, fs_fee_script_hex = None\<rparr>"

record raw_banning =
  rb_enabled :: "bool option"
  rb_check_threshold :: "u64 option"
  rb_invalid_percent :: "f64 option"

record BanningSettings =
  ba_enabled :: bool
  ba_check_threshold :: u64
  ba_invalid_percent :: f64

definition default_banning_enabled :: bool where
  "default_banning_enabled = True"

definition default_banning_check_threshold :: u64 where
  "default_banning_check_threshold = 50"

definition default_banning_invalid_percent :: f64 where
  "default_banning_invalid_percent = f64_of_rat 50"

definition banning_settings :: "raw_banning \<Rightarrow> BanningSettings" where
  "banning_settings r =
     \<lparr>ba_enabled = or_default (rb_enabled r) default_banning_enabled,
      ba_check_threshold = or_default (rb_check_threshold r) default_banning_check_threshold,
      ba_invalid_percent = or_default (rb_invalid_percent r) default_banning_invalid_percent\<rparr>"

definition BanningSettings_default :: BanningSettings where
  "BanningSettings_default =
     \<lparr>ba_enabled = default_banning_enabled, ba_check_threshold = default_banning_check_threshold,
      ba_invalid_percent = default_banning_invalid_percent\<rparr>"

record raw_pplns =
  rp_n_multiplier :: "f64 option"
  rp_min_payout_sat :: "int option"
  rp_payout_enabled :: "bool option"
  rp_min_confirmations :: "u64 option"
  rp_banning :: "raw_banning option"

record PplnsSettings =
  ps_n_multiplier :: f64
  ps_min_payout_sat :: int
  ps_payout_enabled :: bool
  ps_min_confirmations :: u64
  ps_banning :: BanningSettings

definition default_pplns_n_multiplier :: f64 where
  "default_pplns_n_multiplier = f64_of_rat 2"

definition default_pplns_min_payout_sat :: int where
  "default_pplns_min_payout_sat = DUST_LIMIT"

definition default_pplns_payout_enabled :: bool where
  "default_pplns_payout_enabled = True"

definition default_pplns_min_confirmations :: u64 where
  "default_pplns_min_confirmations = 100"

definition PplnsSettings_default :: PplnsSettings where
  "PplnsSettings_default =
     \<lparr>ps_n_multiplier = default_pplns_n_multiplier, ps_min_payout_sat = default_pplns_min_payout_sat,
      ps_payout_enabled = default_pplns_payout_enabled,
      ps_min_confirmations = default_pplns_min_confirmations, ps_banning = BanningSettings_default\<rparr>"

definition pplns_settings :: "raw_pplns \<Rightarrow> PplnsSettings" where
  "pplns_settings r =
     \<lparr>ps_n_multiplier = or_default (rp_n_multiplier r) default_pplns_n_multiplier,
      ps_min_payout_sat = or_default (rp_min_payout_sat r) default_pplns_min_payout_sat,
      ps_payout_enabled = or_default (rp_payout_enabled r) default_pplns_payout_enabled,
      ps_min_confirmations = or_default (rp_min_confirmations r) default_pplns_min_confirmations,
      ps_banning = table_or_default banning_settings BanningSettings_default (rp_banning r)\<rparr>"

record raw_signing =
  rg_mode :: "string option"
  rg_private_key :: "string option"
  rg_webhook_url :: "string option"
  rg_tx_fee_per_kb :: "int option"

record SigningSettings =
  sn_mode :: string
  sn_private_key :: "string option"
  sn_webhook_url :: "string option"
  sn_tx_fee_per_kb :: int

definition default_signing_mode :: string where
  "default_signing_mode = ''internal''"

definition default_tx_fee_per_kb :: int where
  "default_tx_fee_per_kb = DEFAULT_TX_FEE_PER_KB"

definition SigningSettings_default :: SigningSettings where
  "SigningSettings_default =
     \<lparr>sn_mode = default_signing_mode, sn_private_key = None, sn_webhook_url = None,
      sn_tx_fee_per_kb = default_tx_fee_per_kb\<rparr>"

definition signing_settings :: "raw_signing \<Rightarrow> SigningSettings" where
  "signing_settings r =
     \<lparr>sn_mode = or_default (rg_mode r) default_signing_mode, sn_private_key = rg_private_key r,
      sn_webhook_url = rg_webhook_url r, sn_tx_fee_per_kb = or_default (rg_tx_fee_per_kb r) default_tx_fee_per_kb\<rparr>"

record MiningIdentity =
  mi_payout_address :: "string option"
  mi_payout_script_hex :: "string option"
  mi_coinbase_identity :: "string option"

record raw_pool =
  rl_name :: "string option"
  rl_mining_identity :: "MiningIdentity option"
  rl_fee :: "raw_fee option"
  rl_pplns :: "raw_pplns option"
  rl_signing :: "raw_signing option"

record PoolSettings =
  po_name :: "string option"
  po_mining_identity :: "MiningIdentity option"
  po_fee :: FeeSettings
  po_pplns :: PplnsSettings
  po_signing :: SigningSettings

definition PoolSettings_default :: PoolSettings where
  "PoolSettings_default =
     \<lparr>po_name = None, po_mining_identity = None, po_fee = FeeSettings_default, po_pplns = PplnsSettings_default,
      po_signing = SigningSettings_default\<rparr>"

definition pool_settings :: "raw_pool \<Rightarrow> PoolSettings" where
  "pool_settings r =
     \<lparr>po_name = rl_name r, po_mining_identity = rl_mining_identity r,
      po_fee = table_or_default fee_settings FeeSettings_default (rl_fee r),
      po_pplns = table_or_default pplns_settings PplnsSettings_default (rl_pplns r),
      po_signing = table_or_default signing_settings SigningSettings_default (rl_signing r)\<rparr>"

record raw_rpc =
  rr_url :: "string option"
  rr_rpc_user :: "string option"
  rr_rpc_pass :: "string option"

record BitcoindRpcSettings =
  br_url :: string
  br_rpc_user :: string
  br_rpc_pass :: string

definition default_bitcoind_rpc_url :: string where
  "default_bitcoind_rpc_url = ''http://127.0.0.1:10604''"

definition BitcoindRpcSettings_default :: BitcoindRpcSettings where
  "BitcoindRpcSettings_default = \<lparr>br_url = default_bitcoind_rpc_url, br_rpc_user = [], br_rpc_pass = []\<rparr>"

definition rpc_settings :: "raw_rpc \<Rightarrow> BitcoindRpcSettings" where
  "rpc_settings r =
     \<lparr>br_url = or_default (rr_url r) default_bitcoind_rpc_url, br_rpc_user = or_default (rr_rpc_user r) [],
      br_rpc_pass = or_default (rr_rpc_pass r) []\<rparr>"

definition default_nng_pub_url :: string where
  "default_nng_pub_url = ''ipc:///tmp/lotusd.pub''"

definition default_api_token :: string where
  "default_api_token = ''devtoken''"

record raw_config =
  ra_stratum_bind :: string
  ra_api_bind :: string
  ra_nng_rpc_url :: string
  ra_nng_pub_url :: "string option"
  ra_sqlite_path :: "string option"
  ra_network :: "string option"
  ra_api_token :: "string option"
  ra_vardiff :: "raw_vardiff option"
  ra_pool :: "raw_pool option"
  ra_bitcoind_rpc :: "raw_rpc option"
  ra_debug :: "bool option"

record Config =
  cf_stratum_bind :: string
  cf_api_bind :: string
  cf_nng_rpc_url :: string
  cf_nng_pub_url :: string
  cf_sqlite_path :: string
  cf_network :: string
  cf_api_token :: string
  cf_vardiff :: VarDiffSettings
  cf_pool :: PoolSettings
  cf_bitcoind_rpc :: BitcoindRpcSettings
  cf_debug :: bool

definition config_of :: "raw_config \<Rightarrow> Config" where
  "config_of r =
     \<lparr>cf_stratum_bind = ra_stratum_bind r, cf_api_bind = ra_api_bind r, cf_nng_rpc_url = ra_nng_rpc_url r,
      cf_nng_pub_url = or_default (ra_nng_pub_url r) default_nng_pub_url,
      cf_sqlite_path = or_default (ra_sqlite_path r) [], cf_network = or_default (ra_network r) [],
      cf_api_token = or_default (ra_api_token r) default_api_token,
      cf_vardiff = table_or_default vardiff_settings VarDiffSettings_default (ra_vardiff r),
      cf_pool = table_or_default pool_settings PoolSettings_default (ra_pool r),
      cf_bitcoind_rpc = table_or_default rpc_settings BitcoindRpcSettings_default (ra_bitcoind_rpc r),
      cf_debug = or_default (ra_debug r) False\<rparr>"

subsection \<open>The mining identity\<close>

text \<open>What the configuration uses of the libraries and of its environment: the address and hex
  decoders, the TOML and URL parsers, the environment variables and the files. An error is its
  message.\<close>

record script_lib =
  cl_address_script :: "string \<Rightarrow> string + u8 list"
  cl_is_opreturn :: "u8 list \<Rightarrow> bool"
  cl_hex_decode :: "string \<Rightarrow> string + u8 list"

definition OP_RETURN :: u8 where
  "OP_RETURN = 0x6a"

datatype resolve_error = InvalidAddress string | AddressOpReturn | InvalidScriptHex string | ScriptOpReturn
  | BothDestinations | NoDestination

definition resolve_script :: "script_lib \<Rightarrow> MiningIdentity \<Rightarrow> resolve_error + u8 list" where
  "resolve_script lib m =
     (case (mi_payout_address m, mi_payout_script_hex m) of
        (Some addr, None) \<Rightarrow>
          (case cl_address_script lib addr of
             Inl e \<Rightarrow> Inl (InvalidAddress e)
           | Inr script \<Rightarrow> if cl_is_opreturn lib script then Inl AddressOpReturn else Inr script)
      | (None, Some hex) \<Rightarrow>
          (case cl_hex_decode lib hex of
             Inl e \<Rightarrow> Inl (InvalidScriptHex e)
           | Inr bytes \<Rightarrow> if bytes \<noteq> [] \<and> hd bytes = OP_RETURN then Inl ScriptOpReturn else Inr bytes)
      | (Some _, Some _) \<Rightarrow> Inl BothDestinations
      | (None, None) \<Rightarrow> Inl NoDestination)"

definition as_bytes :: "string \<Rightarrow> u8 list" where
  "as_bytes s = map of_char s"

definition resolve :: "script_lib \<Rightarrow> MiningIdentity \<Rightarrow> resolve_error + u8 list \<times> u8 list option" where
  "resolve lib m =
     (case resolve_script lib m of
        Inl e \<Rightarrow> Inl e
      | Inr coinbase_script \<Rightarrow>
          Inr (coinbase_script,
               (case mi_coinbase_identity m of Some s \<Rightarrow> if s \<noteq> [] then Some (as_bytes s) else None | None \<Rightarrow> None)))"

subsection \<open>Loading\<close>

record load_env =
  le_env :: "string \<Rightarrow> string option"
  le_read_to_string :: "string \<Rightarrow> string + string"
  le_toml :: "string \<Rightarrow> string + raw_config"
  le_url_port :: "string \<Rightarrow> nat option"

datatype load_error = ReadFailed string string | ParseFailed string | UnknownPort "nat option"
  | CreateDirFailed string | UnknownNetwork string

definition set_string :: "load_env \<Rightarrow> string \<Rightarrow> (string \<Rightarrow> 'c \<Rightarrow> 'c) \<Rightarrow> 'c \<Rightarrow> 'c" where
  "set_string io name f c = (case le_env io name of Some v \<Rightarrow> f v c | None \<Rightarrow> c)"

definition set_parsed :: "load_env \<Rightarrow> string \<Rightarrow> (string \<Rightarrow> 'v option) \<Rightarrow> ('v \<Rightarrow> 'c \<Rightarrow> 'c) \<Rightarrow> 'c \<Rightarrow> 'c" where
  "set_parsed io name parse f c =
     (case le_env io name of Some v \<Rightarrow> (case parse v of Some x \<Rightarrow> f x c | None \<Rightarrow> c) | None \<Rightarrow> c)"

definition override_endpoints :: "load_env \<Rightarrow> Config \<Rightarrow> Config" where
  "override_endpoints io cfg =
     (let cfg = set_string io ''NNG_RPC_URL'' (\<lambda>v c. c\<lparr>cf_nng_rpc_url := v\<rparr>) cfg;
          cfg = set_string io ''NNG_PUB_URL'' (\<lambda>v c. c\<lparr>cf_nng_pub_url := v\<rparr>) cfg;
          cfg = set_string io ''STRATUM_API_TOKEN'' (\<lambda>v c. c\<lparr>cf_api_token := v\<rparr>) cfg;
          cfg = set_string io ''DATABASE_PATH'' (\<lambda>v c. c\<lparr>cf_sqlite_path := v\<rparr>) cfg;
          rpc = cf_bitcoind_rpc cfg;
          rpc = set_string io ''BITCOIND_RPC_URL'' (\<lambda>v r. r\<lparr>br_url := v\<rparr>) rpc;
          rpc = set_string io ''BITCOIND_RPC_USER'' (\<lambda>v r. r\<lparr>br_rpc_user := v\<rparr>) rpc;
          rpc = set_string io ''BITCOIND_RPC_PASS'' (\<lambda>v r. r\<lparr>br_rpc_pass := v\<rparr>) rpc
      in cfg\<lparr>cf_bitcoind_rpc := rpc\<rparr>)"

definition identity_or_new :: "MiningIdentity option \<Rightarrow> MiningIdentity" where
  "identity_or_new m =
     (case m of
        Some i \<Rightarrow> i
      | None \<Rightarrow> \<lparr>mi_payout_address = None, mi_payout_script_hex = None, mi_coinbase_identity = None\<rparr>)"

definition override_identity :: "load_env \<Rightarrow> MiningIdentity option \<Rightarrow> MiningIdentity option" where
  "override_identity io m =
     (let m = set_string io ''POOL_PAYOUT_ADDRESS'' (\<lambda>v m. Some ((identity_or_new m)\<lparr>mi_payout_address := Some v\<rparr>)) m
      in set_string io ''POOL_COINBASE_IDENTITY'' (\<lambda>v m. Some ((identity_or_new m)\<lparr>mi_coinbase_identity := Some v\<rparr>)) m)"

definition override_fee :: "load_env \<Rightarrow> FeeSettings \<Rightarrow> FeeSettings" where
  "override_fee io f =
     (let f = set_string io ''POOL_FEE_ENABLED'' (\<lambda>v f. f\<lparr>fs_enabled := v = ''true'' \<or> v = ''1''\<rparr>) f;
          f = set_parsed io ''POOL_FEE_BPS'' parse_u32 (\<lambda>v f. f\<lparr>fs_fee_bps := v\<rparr>) f
      in set_string io ''POOL_FEE_ADDRESS'' (\<lambda>v f. f\<lparr>fs_fee_address := Some v\<rparr>) f)"

definition override_pplns :: "load_env \<Rightarrow> PplnsSettings \<Rightarrow> PplnsSettings" where
  "override_pplns io p =
     (let p = set_parsed io ''POOL_PPLNS_N_MULTIPLIER'' parse_f64 (\<lambda>v p. p\<lparr>ps_n_multiplier := v\<rparr>) p
      in set_parsed io ''POOL_PPLNS_MIN_PAYOUT_SAT'' parse_i64 (\<lambda>v p. p\<lparr>ps_min_payout_sat := v\<rparr>) p)"

definition override_signing :: "load_env \<Rightarrow> SigningSettings \<Rightarrow> SigningSettings" where
  "override_signing io sg =
     (let sg = set_string io ''POOL_SIGNING_MODE'' (\<lambda>v sg. sg\<lparr>sn_mode := v\<rparr>) sg
      in set_string io ''POOL_SIGNING_PRIVATE_KEY'' (\<lambda>v sg. sg\<lparr>sn_private_key := Some v\<rparr>) sg)"

definition apply_env :: "load_env \<Rightarrow> Config \<Rightarrow> Config" where
  "apply_env io cfg =
     (let cfg = override_endpoints io cfg;
          pool = cf_pool cfg;
          pool = pool\<lparr>po_mining_identity := override_identity io (po_mining_identity pool),
                      po_fee := override_fee io (po_fee pool), po_pplns := override_pplns io (po_pplns pool),
                      po_signing := override_signing io (po_signing pool)\<rparr>
      in set_string io ''DEBUG'' (\<lambda>v c. if v = ''true'' \<or> v = ''1'' \<or> v = ''yes'' then c\<lparr>cf_debug := True\<rparr> else c)
           (cfg\<lparr>cf_pool := pool\<rparr>))"

definition rpc_port :: "load_env \<Rightarrow> string \<Rightarrow> nat option" where
  "rpc_port io rpc_url =
     (case le_url_port io rpc_url of
        Some p \<Rightarrow> Some p
      | None \<Rightarrow>
          parse_unsigned 16 (case split_last (CHR '':'') rpc_url of Some (_, p) \<Rightarrow> p | None \<Rightarrow> rpc_url))"

definition detect_network_from_rpc_port :: "load_env \<Rightarrow> string \<Rightarrow> load_error + string" where
  "detect_network_from_rpc_port io rpc_url =
     (let port = rpc_port io rpc_url
      in if port = Some 10604 then Inr ''mainnet''
         else if port = Some 11604 then Inr ''testnet''
         else if port = Some 12604 then Inr ''regtest''
         else Inl (UnknownPort port))"

definition default_db_path_for_network :: "string \<Rightarrow> string" where
  "default_db_path_for_network network = ''./dbs/'' @ network @ ''/stratum-accounting.sqlite3''"

text \<open>\<^verbatim>\<open>Path::parent\<close> on the reversed path: trailing separators and current-directory components do
  not count.\<close>

fun trim_path :: "string \<Rightarrow> string" where
  "trim_path (c # d # r) =
     (if c = CHR ''/'' \<or> c = CHR ''.'' \<and> d = CHR ''/'' then trim_path (d # r) else c # d # r)"
| "trim_path r = r"

definition path_parent :: "string \<Rightarrow> string option" where
  "path_parent path =
     (let r = trim_path (rev path)
      in if r = [] \<or> r = ''/'' then None else Some (rev (trim_path (dropWhile (\<lambda>c. c \<noteq> CHR ''/'') r))))"

definition resolve_network :: "load_env \<Rightarrow> Config \<Rightarrow> load_error + Config" where
  "resolve_network io cfg =
     (if cf_network cfg = []
      then map_sum id (\<lambda>n. cfg\<lparr>cf_network := n\<rparr>) (detect_network_from_rpc_port io (br_url (cf_bitcoind_rpc cfg)))
      else Inr cfg)"

definition resolve_db_path :: "Config \<Rightarrow> Config" where
  "resolve_db_path cfg =
     (if str_contains (cf_sqlite_path cfg) ''stratum-accounting'' \<or> cf_sqlite_path cfg = []
      then cfg\<lparr>cf_sqlite_path := default_db_path_for_network (cf_network cfg)\<rparr> else cfg)"

definition networks :: "string list" where
  "networks = [''mainnet'', ''testnet'', ''regtest'']"

text \<open>The file system is the state; creating a directory changes it even when the network is then
  found to be unknown.\<close>

definition load :: "load_env \<Rightarrow> (string \<Rightarrow> (string, 'fs, unit) op) \<Rightarrow> (load_error, 'fs, Config) op" where
  "load io create_dir_all =
     (let path = or_default (le_env io ''CONFIG_PATH'') ''config.toml''
      in case le_read_to_string io path of
           Inl e \<Rightarrow> errR (ReadFailed path e)
         | Inr raw \<Rightarrow>
             (case le_toml io raw of
                Inl e \<Rightarrow> errR (ParseFailed e)
              | Inr r \<Rightarrow>
                  (case resolve_network io (apply_env io (config_of r)) of
                     Inl e \<Rightarrow> errR e
                   | Inr cfg \<Rightarrow>
                       let cfg = resolve_db_path cfg
                       in bindR
                            (case path_parent (cf_sqlite_path cfg) of
                               Some parent \<Rightarrow>
                                 if parent \<noteq> []
                                 then (\<lambda>s. map_prod (map_sum CreateDirFailed id) id (create_dir_all parent s))
                                 else okR ()
                             | None \<Rightarrow> okR ())
                            (\<lambda>_. if cf_network cfg \<in> set networks then okR cfg
                                 else errR (UnknownNetwork (cf_network cfg))))))"

subsection \<open>Parsing\<close>

lemma parse_show_i64: "- (2 ^ 63) \<le> i \<Longrightarrow> i < 2 ^ 63 \<Longrightarrow> parse_i64 (show_int i) = Some i"
proof (cases "i < 0")
  case True
  assume "- (2 ^ 63) \<le> i" "i < 2 ^ 63"
  with True show ?thesis by (simp add: show_int_def parse_i64_def show_nat_digits read_show_nat nat_le_iff)
next
  case False
  assume i: "- (2 ^ 63) \<le> i" "i < 2 ^ 63"
  have "is_digit (hd (show_nat (nat i)))" by (rule show_nat_no_char [of _ "nat i"]) simp
  then have "hd (show_nat (nat i)) \<noteq> CHR ''-''" by (auto simp: is_digit_def)
  then have "parse_i64 (show_nat (nat i)) = map_option int (parse_unsigned 63 (show_nat (nat i)))"
    by (cases "show_nat (nat i)") (auto simp: parse_i64_def split: char.splits bool.splits)
  moreover have "nat i < 2 ^ 63" using i by (simp add: nat_less_iff)
  ultimately show ?thesis using False by (simp add: parse_show_nat show_int_def)
qed

subsection \<open>Defaults\<close>

text \<open>A table missing from the file and an empty one give the same settings.\<close>

definition empty_pool :: raw_pool where
  "empty_pool = \<lparr>rl_name = None, rl_mining_identity = None, rl_fee = None, rl_pplns = None, rl_signing = None\<rparr>"

lemma missing_tables:
  "vardiff_settings \<lparr>rv_min_floor = None, rv_initial_pct = None, rv_target_secs = None, rv_retarget_secs = None,
     rv_variance_percent = None\<rparr> = VarDiffSettings_default"
  "fee_settings \<lparr>rf_enabled = None, rf_fee_bps = None, rf_fee_address = None, rf_fee_script_hex = None\<rparr> = FeeSettings_default"
  "banning_settings \<lparr>rb_enabled = None, rb_check_threshold = None, rb_invalid_percent = None\<rparr> = BanningSettings_default"
  "pplns_settings \<lparr>rp_n_multiplier = None, rp_min_payout_sat = None, rp_payout_enabled = None,
     rp_min_confirmations = None, rp_banning = None\<rparr> = PplnsSettings_default"
  "signing_settings \<lparr>rg_mode = None, rg_private_key = None, rg_webhook_url = None, rg_tx_fee_per_kb = None\<rparr> = SigningSettings_default"
  "rpc_settings \<lparr>rr_url = None, rr_rpc_user = None, rr_rpc_pass = None\<rparr> = BitcoindRpcSettings_default"
  "pool_settings empty_pool = PoolSettings_default"
  by (simp_all add: or_default_def table_or_default_def vardiff_settings_def VarDiffSettings_default_def
      fee_settings_def FeeSettings_default_def banning_settings_def BanningSettings_default_def
      pplns_settings_def PplnsSettings_default_def signing_settings_def SigningSettings_default_def
      rpc_settings_def BitcoindRpcSettings_default_def pool_settings_def PoolSettings_default_def empty_pool_def)

subsection \<open>What a loaded configuration guarantees\<close>

lemma str_contains_iff: "str_contains s p \<longleftrightarrow> (\<exists>a b. s = a @ p @ b)"
proof (induction s)
  case (Cons c s)
  have "(\<exists>a b. c # s = a @ p @ b) \<longleftrightarrow> (\<exists>b. c # s = p @ b) \<or> (\<exists>a b. s = a @ p @ b)"
    by (metis append_Cons append_Nil list.inject neq_Nil_conv)
  then show ?case using Cons by (simp add: starts_with_iff)
qed auto

lemma default_path_contains: "str_contains (default_db_path_for_network n) ''stratum-accounting''"
proof -
  have "default_db_path_for_network n = (''./dbs/'' @ n @ ''/'') @ ''stratum-accounting'' @ ''.sqlite3''"
    by (simp add: default_db_path_for_network_def)
  then show ?thesis unfolding str_contains_iff by blast
qed

lemma default_path_inj: "default_db_path_for_network m = default_db_path_for_network n \<longleftrightarrow> m = n"
  by (simp add: default_db_path_for_network_def)

lemma resolve_db_path_marker:
  "str_contains (cf_sqlite_path (resolve_db_path c)) ''stratum-accounting'' \<Longrightarrow>
     cf_sqlite_path (resolve_db_path c) = default_db_path_for_network (cf_network (resolve_db_path c))"
  by (auto simp: resolve_db_path_def split: if_splits)

lemma resolve_db_path_nonempty: "cf_sqlite_path (resolve_db_path c) \<noteq> []"
  by (simp add: resolve_db_path_def default_db_path_for_network_def)

lemma load_Inr:
  assumes "load io mk s = (Inr cfg, t)"
  shows "cf_network cfg \<in> set networks \<and> (\<exists>c. cfg = resolve_db_path c)"
proof -
  define path where "path = or_default (le_env io ''CONFIG_PATH'') ''config.toml''"
  obtain raw where raw: "le_read_to_string io path = Inr raw"
    using assms by (cases "le_read_to_string io path") (simp_all add: load_def op_simps path_def)
  obtain r where r: "le_toml io raw = Inr r"
    using assms raw by (cases "le_toml io raw") (simp_all add: load_def op_simps path_def)
  obtain c where c: "resolve_network io (apply_env io (config_of r)) = Inr c"
    using assms raw r
    by (cases "resolve_network io (apply_env io (config_of r))") (simp_all add: load_def op_simps path_def)
  show ?thesis using assms raw r c
    by (auto simp: load_def bindR_def [abs_def] okR_def errR_def path_def [symmetric] Let_def
        split: prod.splits sum.splits if_splits simp del: str_contains.simps)
qed

text \<open>C30: databases of different networks are kept apart. A configuration that loads names one of the three
  networks and a non-empty database path; two loaded configurations that end with the same path
  carrying the default file's name are for the same network, whatever their files and environments
  asked for, because such a path is always replaced by the default one of the network.\<close>

theorem loaded_databases_separate:
  assumes "load io mk s = (Inr cfg, t)" "load io' mk' s' = (Inr cfg', t')"
  shows "cf_network cfg \<in> {''mainnet'', ''testnet'', ''regtest''} \<and> cf_sqlite_path cfg \<noteq> [] \<and>
    (str_contains (cf_sqlite_path cfg) ''stratum-accounting'' \<longrightarrow>
       cf_sqlite_path cfg = default_db_path_for_network (cf_network cfg) \<and>
       (cf_sqlite_path cfg = cf_sqlite_path cfg' \<longrightarrow> cf_network cfg = cf_network cfg'))"
proof -
  obtain c c' where c: "cfg = resolve_db_path c" "cf_network cfg \<in> set networks" "cfg' = resolve_db_path c'"
    using load_Inr [OF assms(1)] load_Inr [OF assms(2)] by blast
  have m: "str_contains (cf_sqlite_path x) ''stratum-accounting'' \<Longrightarrow>
      cf_sqlite_path x = default_db_path_for_network (cf_network x)" if "x \<in> {cfg, cfg'}" for x
    using resolve_db_path_marker c that by blast
  have "cf_sqlite_path cfg \<noteq> []" using resolve_db_path_nonempty c(1) by simp
  moreover have "cf_network cfg = cf_network cfg'"
    if "str_contains (cf_sqlite_path cfg) ''stratum-accounting''" "cf_sqlite_path cfg = cf_sqlite_path cfg'"
  proof -
    have "cf_sqlite_path cfg = default_db_path_for_network (cf_network cfg)" using m [of cfg] that(1) by simp
    moreover have "cf_sqlite_path cfg' = default_db_path_for_network (cf_network cfg')"
      using m [of cfg'] that(1) unfolding that(2) by simp
    ultimately show ?thesis using that(2) default_path_inj by simp
  qed
  ultimately show ?thesis using c(2) m [of cfg] unfolding networks_def list.set by blast
qed

definition sample_raw :: raw_config where
  "sample_raw =
     \<lparr>ra_stratum_bind = ''0.0.0.0:3334'', ra_api_bind = ''127.0.0.1:18080'', ra_nng_rpc_url = ''ipc:///tmp/lotusd.rpc'',
      ra_nng_pub_url = None, ra_sqlite_path = None, ra_network = None, ra_api_token = None, ra_vardiff = None,
      ra_pool = None, ra_bitcoind_rpc = None, ra_debug = None\<rparr>"

definition sample_load_env :: "string option \<Rightarrow> string \<Rightarrow> load_env" where
  "sample_load_env path url =
     \<lparr>le_env = (\<lambda>n. if n = ''DATABASE_PATH'' then path else if n = ''BITCOIND_RPC_URL'' then Some url else None),
      le_read_to_string = (\<lambda>p. if p = ''config.toml'' then Inr ''...'' else Inl ''No such file''),
      le_toml = (\<lambda>r. Inr sample_raw), le_url_port = (\<lambda>u. None)\<rparr>"

definition sample_mkdir :: "string \<Rightarrow> (string, string list, unit) op" where
  "sample_mkdir p fs = (Inr (), p # fs)"

definition sample_loaded :: "string \<Rightarrow> string \<Rightarrow> Config" where
  "sample_loaded url network =
     (config_of sample_raw)\<lparr>cf_network := network, cf_sqlite_path := default_db_path_for_network network,
                            cf_bitcoind_rpc := BitcoindRpcSettings_default\<lparr>br_url := url\<rparr>\<rparr>"

lemmas env_defs = apply_env_def override_endpoints_def override_identity_def override_fee_def
  override_pplns_def override_signing_def set_string_def set_parsed_def sample_load_env_def

text \<open>The path from the environment is lost when it carries the default file's name.\<close>

definition sample_path :: string where
  "sample_path = ''/var/lib/pool/stratum-accounting.db''"

definition sample_url :: string where
  "sample_url = ''http://10.0.0.2:12604''"

lemma sample_env:
  "apply_env (sample_load_env (Some sample_path) sample_url) (config_of sample_raw) =
     (config_of sample_raw)\<lparr>cf_sqlite_path := sample_path,
        cf_bitcoind_rpc := BitcoindRpcSettings_default\<lparr>br_url := sample_url\<rparr>\<rparr>"
  by (simp add: env_defs Let_def config_of_def sample_raw_def table_or_default_def)

lemma sample_port: "parse_unsigned 16 (case split_last (CHR '':'') sample_url of Some (_, p) \<Rightarrow> p | None \<Rightarrow> sample_url) = Some 12604"
proof -
  have "split_last (CHR '':'') (''http://10.0.0.2'' @ CHR '':'' # ''12604'') = Some (''http://10.0.0.2'', ''12604'')"
    by (rule split_last_append) simp
  then show ?thesis by (simp add: sample_url_def parse_unsigned_def is_digit_def digit_val_def read_digits_def)
qed

lemma sample_marker: "str_contains sample_path ''stratum-accounting''"
  by code_simp

lemma sample_parent: "path_parent (default_db_path_for_network ''regtest'') = Some ''./dbs/regtest''"
  by code_simp

lemma sample_network:
  "resolve_network (sample_load_env (Some sample_path) sample_url)
     (apply_env (sample_load_env (Some sample_path) sample_url) (config_of sample_raw)) =
   Inr ((config_of sample_raw)\<lparr>cf_sqlite_path := sample_path, cf_network := ''regtest'',
        cf_bitcoind_rpc := BitcoindRpcSettings_default\<lparr>br_url := sample_url\<rparr>\<rparr>)"
  unfolding sample_env
  by (simp add: resolve_network_def detect_network_from_rpc_port_def rpc_port_def sample_port Let_def
      config_of_def or_default_def sample_raw_def) (simp add: sample_load_env_def sample_port)

lemma database_path_ignored:
  "load (sample_load_env (Some sample_path) sample_url) sample_mkdir [] =
     (Inr (sample_loaded sample_url ''regtest''), [''./dbs/regtest''])"
proof -
  let ?io = "sample_load_env (Some sample_path) sample_url"
  have io: "le_env ?io ''CONFIG_PATH'' = None" "le_read_to_string ?io ''config.toml'' = Inr ''...''"
    "le_toml ?io ''...'' = Inr sample_raw" by (simp_all add: sample_load_env_def)
  show ?thesis
    by (simp add: load_def or_default_def io sample_network resolve_db_path_def sample_marker sample_parent
        op_simps sample_mkdir_def networks_def sample_loaded_def Let_def)
qed

theorem loaded_databases_separate_witness:
  "load (sample_load_env (Some sample_path) sample_url) sample_mkdir [] =
     (Inr (sample_loaded sample_url ''regtest''), [''./dbs/regtest'']) \<and>
   str_contains (cf_sqlite_path (sample_loaded sample_url ''regtest'')) ''stratum-accounting'' \<and>
   cf_sqlite_path (sample_loaded sample_url ''regtest'') = default_db_path_for_network ''regtest''"
  using loaded_databases_separate [OF database_path_ignored database_path_ignored] database_path_ignored
    default_path_contains [of "''regtest''"] by (simp add: sample_loaded_def)

lemma resolve_Inr:
  "resolve lib m = Inr (script, tag) \<longleftrightarrow>
     resolve_script lib m = Inr script \<and>
     tag = (case mi_coinbase_identity m of Some s \<Rightarrow> if s \<noteq> [] then Some (as_bytes s) else None | None \<Rightarrow> None)"
  by (auto simp: resolve_def split: sum.splits)

text \<open>C20: the pool never mines to an output that burns the reward. When the library recognizes the scripts
  that start with OP_RETURN, the script resolved from the configuration never starts with it; it is
  the script of the one destination given, and the tag in the coinbase is never the empty string.\<close>

theorem identity_never_burns:
  assumes op_return: "\<And>s. cl_is_opreturn lib s = (s \<noteq> [] \<and> hd s = OP_RETURN)"
    and resolved: "resolve lib m = Inr (script, tag)"
  shows "(script = [] \<or> hd script \<noteq> OP_RETURN) \<and> tag \<noteq> Some [] \<and>
    (\<exists>d. mi_payout_address m = Some d \<and> mi_payout_script_hex m = None \<and> cl_address_script lib d = Inr script \<or>
         mi_payout_address m = None \<and> mi_payout_script_hex m = Some d \<and> cl_hex_decode lib d = Inr script)"
proof -
  have r: "resolve_script lib m = Inr script"
    "tag = (case mi_coinbase_identity m of Some s \<Rightarrow> if s \<noteq> [] then Some (as_bytes s) else None | None \<Rightarrow> None)"
    using resolved by (simp_all only: resolve_Inr)
  have "tag \<noteq> Some []" using r(2) by (auto simp: as_bytes_def split: option.splits)
  then show ?thesis using r(1) op_return [of script]
    by (cases "mi_payout_address m"; cases "mi_payout_script_hex m") (auto simp: resolve_script_def split: sum.splits if_splits)
qed

definition sample_script_lib :: script_lib where
  "sample_script_lib =
     \<lparr>cl_address_script = (\<lambda>a. if a = ''lotus_pool'' then Inr [0x76, 0xa9] else Inl ''bad address''),
      cl_is_opreturn = (\<lambda>s. s \<noteq> [] \<and> hd s = OP_RETURN),
      cl_hex_decode = (\<lambda>h. case hex_decode_ref h of Some bs \<Rightarrow> Inr bs | None \<Rightarrow> Inl ''bad hex'')\<rparr>"

definition sample_identity :: MiningIdentity where
  "sample_identity =
     \<lparr>mi_payout_address = Some ''lotus_pool'', mi_payout_script_hex = None, mi_coinbase_identity = Some ''pool''\<rparr>"

theorem identity_never_burns_witness:
  "resolve sample_script_lib sample_identity = Inr ([0x76, 0xa9], Some (as_bytes ''pool'')) \<and> hd [0x76, 0xa9] \<noteq> OP_RETURN"
proof -
  have r: "resolve sample_script_lib sample_identity = Inr ([0x76, 0xa9], Some (as_bytes ''pool''))"
    by (simp add: resolve_def resolve_script_def sample_script_lib_def sample_identity_def OP_RETURN_def)
  have "\<And>s. cl_is_opreturn sample_script_lib s = (s \<noteq> [] \<and> hd s = OP_RETURN)" by (simp add: sample_script_lib_def)
  then show ?thesis using identity_never_burns [OF _ r] r by simp
qed

text \<open>An empty script in hex is accepted as the destination of the reward.\<close>

lemma empty_script_accepted:
  "cl_hex_decode lib [] = Inr [] \<Longrightarrow>
     resolve lib \<lparr>mi_payout_address = None, mi_payout_script_hex = Some [], mi_coinbase_identity = None\<rparr> = Inr ([], None)"
  by (simp add: resolve_def resolve_script_def)

end
