(* ===== verification/Shutdown.thy ===== *)
theory Shutdown
  imports Prelude
begin

text \<open>
  Shutdown (src/src/shutdown/mod.rs and the end of src/src/main.rs): the coordinator that tells the
  tasks to stop, waits for them with a time limit and checkpoints the database. The broadcast channel
  of the async runtime is a parameter; a task is known by the time at which it ends.
\<close>

subsection \<open>The coordinator\<close>

text \<open>What the coordinator uses of a broadcast channel: the channel's state, a receiver's position in it,
  and whether a receiver finds a message without waiting.\<close>

record ('ch, 'rx) broadcast =
  bl_subscribe :: "'ch \<Rightarrow> 'rx"
  bl_resubscribe :: "'ch \<Rightarrow> 'rx \<Rightarrow> 'rx"
  bl_send :: "'ch \<Rightarrow> 'ch"
  bl_try_recv :: "'ch \<Rightarrow> 'rx \<Rightarrow> bool"

record ('ch, 'conn, 'task) ShutdownCoordinator =
  sc_channel :: 'ch
  sc_shutdown_timeout_secs :: nat
  sc_flush_timeout_secs :: nat
  sc_db_conn :: "'conn option"
  sc_tasks :: "'task list"

definition coordinator_new :: "'ch \<Rightarrow> ('ch, 'conn, 'task) ShutdownCoordinator" where
  "coordinator_new ch =
     \<lparr>sc_channel = ch, sc_shutdown_timeout_secs = 30, sc_flush_timeout_secs = 5, sc_db_conn = None, sc_tasks = []\<rparr>"

definition with_db_conn :: "'ch \<Rightarrow> 'conn \<Rightarrow> ('ch, 'conn, 'task) ShutdownCoordinator" where
  "with_db_conn ch conn =
     \<lparr>sc_channel = ch, sc_shutdown_timeout_secs = 30, sc_flush_timeout_secs = 5, sc_db_conn = Some conn, sc_tasks = []\<rparr>"

definition shutdown_signal :: "('ch, 'rx) broadcast \<Rightarrow> ('ch, 'conn, 'task) ShutdownCoordinator \<Rightarrow> 'rx" where
  "shutdown_signal lib c = bl_subscribe lib (sc_channel c)"

definition initiate_shutdown ::
  "('ch, 'rx) broadcast \<Rightarrow> ('ch, 'conn, 'task) ShutdownCoordinator \<Rightarrow> ('ch, 'conn, 'task) ShutdownCoordinator" where
  "initiate_shutdown lib c = c\<lparr>sc_channel := bl_send lib (sc_channel c)\<rparr>"

definition initiate_emergency_shutdown ::
  "('ch, 'conn, 'task) ShutdownCoordinator \<Rightarrow> ('ch, 'conn, 'task) ShutdownCoordinator" where
  "initiate_emergency_shutdown c = c"

definition register_task :: "'task \<Rightarrow> ('ch, 'conn, 'task) ShutdownCoordinator \<Rightarrow> ('ch, 'conn, 'task) ShutdownCoordinator" where
  "register_task task c = c\<lparr>sc_tasks := sc_tasks c @ [task]\<rparr>"

definition is_shutdown :: "('ch, 'rx) broadcast \<Rightarrow> 'ch \<Rightarrow> 'rx \<Rightarrow> bool" where
  "is_shutdown lib ch rx = bl_try_recv lib ch (bl_resubscribe lib ch rx)"

text \<open>Times are in milliseconds. The tasks are awaited one after the other; a task that never ends
  holds the loop for ever. The limit covers the whole loop, which is polled before the limit.\<close>

definition await_task :: "('task \<Rightarrow> nat option) \<Rightarrow> 'task \<Rightarrow> nat option \<Rightarrow> nat option" where
  "await_task ends task now =
     (case (now, ends task) of (Some t, Some e) \<Rightarrow> Some (max t e) | _ \<Rightarrow> None)"

definition await_all :: "('task \<Rightarrow> nat option) \<Rightarrow> 'task list \<Rightarrow> nat \<Rightarrow> nat option" where
  "await_all ends tasks now = fold (await_task ends) tasks (Some now)"

definition with_timeout :: "nat \<Rightarrow> nat \<Rightarrow> nat option \<Rightarrow> nat + nat" where
  "with_timeout limit now finished =
     (case finished of
        Some t \<Rightarrow> if t \<le> now + limit then Inr t else Inl (now + limit)
      | None \<Rightarrow> Inl (now + limit))"

definition wait_for_completion ::
  "('task \<Rightarrow> nat option) \<Rightarrow> ('conn \<Rightarrow> (string, 'db, unit) op) \<Rightarrow> nat \<Rightarrow>
     ('ch, 'conn, 'task) ShutdownCoordinator \<Rightarrow> 'db \<Rightarrow>
     (string + unit) \<times> nat \<times> ('ch, 'conn, 'task) ShutdownCoordinator \<times> 'db" where
  "wait_for_completion ends checkpoint now c db =
     (let tasks = sc_tasks c;
          c' = c\<lparr>sc_tasks := []\<rparr>;
          waited = (if tasks = [] then Inr now
                    else with_timeout (1000 * sc_shutdown_timeout_secs c) now (await_all ends tasks now))
      in case waited of
           Inl t \<Rightarrow> (Inl ''shutdown timeout exceeded'', t, c', db)
         | Inr t \<Rightarrow>
             (Inr (), t, c',
              (case sc_db_conn c of Some conn \<Rightarrow> snd (checkpoint conn db) | None \<Rightarrow> db)))"

definition flush_timeout :: "('ch, 'conn, 'task) ShutdownCoordinator \<Rightarrow> nat" where
  "flush_timeout c = 1000 * sc_flush_timeout_secs c"

subsection \<open>Signals to the process\<close>

datatype signal_kind = Interrupt | Terminate | Quit

datatype ShutdownType = Graceful | Emergency

fun wait_for_shutdown_signal :: "signal_kind \<Rightarrow> ShutdownType" where
  "wait_for_shutdown_signal Interrupt = Graceful"
| "wait_for_shutdown_signal Terminate = Graceful"
| "wait_for_shutdown_signal Quit = Emergency"

text \<open>The end of the process: its exit code, the time, whether the node was disconnected, the coordinator
  and the database.\<close>

record ('ch, 'conn, 'task, 'db) process_end =
  pe_exit_code :: nat
  pe_time :: nat
  pe_disconnected :: bool
  pe_coordinator :: "('ch, 'conn, 'task) ShutdownCoordinator"
  pe_db :: 'db

definition end_process ::
  "('ch, 'rx) broadcast \<Rightarrow> ('task \<Rightarrow> nat option) \<Rightarrow> ('conn \<Rightarrow> (string, 'db, unit) op) \<Rightarrow> nat \<Rightarrow> ShutdownType \<Rightarrow>
     ('ch, 'conn, 'task) ShutdownCoordinator \<Rightarrow> 'db \<Rightarrow> ('ch, 'conn, 'task, 'db) process_end" where
  "end_process lib ends checkpoint now kind c db =
     (case kind of
        Graceful \<Rightarrow>
          (case wait_for_completion ends checkpoint now (initiate_shutdown lib c) db of
             (Inl e, t, c', db') \<Rightarrow>
               \<lparr>pe_exit_code = 1, pe_time = t, pe_disconnected = False, pe_coordinator = c', pe_db = db'\<rparr>
           | (Inr _, t, c', db') \<Rightarrow>
               \<lparr>pe_exit_code = 0, pe_time = t, pe_disconnected = True, pe_coordinator = c', pe_db = db'\<rparr>)
      | Emergency \<Rightarrow>
          \<lparr>pe_exit_code = 1, pe_time = now, pe_disconnected = False,
           pe_coordinator = initiate_emergency_shutdown c, pe_db = db\<rparr>)"

subsection \<open>When the process ends\<close>

lemma await_none: "fold (await_task ends) tasks None = None"
  by (induction tasks) (simp_all add: await_task_def)

lemma await_all_le:
  "(\<exists>t. await_all ends tasks now = Some t \<and> t \<le> d) \<longleftrightarrow>
     now \<le> d \<and> (\<forall>task \<in> set tasks. \<exists>e. ends task = Some e \<and> e \<le> d)"
proof (induction tasks arbitrary: now)
  case (Cons task tasks)
  show ?case
  proof (cases "ends task")
    case None
    then show ?thesis by (simp add: await_all_def await_task_def await_none)
  next
    case (Some e)
    then have "await_all ends (task # tasks) now = await_all ends tasks (max now e)"
      by (simp add: await_all_def await_task_def)
    then show ?thesis using Cons [of "max now e"] Some by auto
  qed
qed (simp add: await_all_def)

lemma with_timeout_Inr:
  "with_timeout limit now f = Inr t \<longleftrightarrow> f = Some t \<and> t \<le> now + limit"
  "with_timeout limit now f = Inl t \<longleftrightarrow> t = now + limit \<and> \<not> (\<exists>e. f = Some e \<and> e \<le> now + limit)"
  by (auto simp: with_timeout_def split: option.splits if_splits)

lemma await_all_ge: "await_all ends tasks now = Some t \<Longrightarrow> now \<le> t"
  using await_all_le [of ends tasks now t] by blast

lemma wait_for_completion_eq:
  "wait_for_completion ends checkpoint now c db =
     (case with_timeout (1000 * sc_shutdown_timeout_secs c) now (await_all ends (sc_tasks c) now) of
        Inl t \<Rightarrow> (Inl ''shutdown timeout exceeded'', t, c\<lparr>sc_tasks := []\<rparr>, db)
      | Inr t \<Rightarrow>
          (Inr (), t, c\<lparr>sc_tasks := []\<rparr>, (case sc_db_conn c of Some conn \<Rightarrow> snd (checkpoint conn db) | None \<Rightarrow> db)))"
  by (simp add: wait_for_completion_def Let_def await_all_def with_timeout_def)


text \<open>An emergency leaves the database, the channel and the tasks alone and exits at once.\<close>

lemma emergency_immediate:
  "end_process lib ends checkpoint now Emergency c db =
     \<lparr>pe_exit_code = 1, pe_time = now, pe_disconnected = False, pe_coordinator = c, pe_db = db\<rparr>"
  by (simp add: end_process_def initiate_emergency_shutdown_def)

text \<open>The non-blocking check never sees a shutdown: it asks a receiver that starts at the end of the
  channel, while a receiver that subscribed before finds the message.\<close>

lemma is_shutdown_never:
  assumes "\<And>ch rx. bl_resubscribe lib ch rx = bl_subscribe lib ch"
    and "\<And>ch. \<not> bl_try_recv lib ch (bl_subscribe lib ch)"
    and "\<And>ch. bl_try_recv lib (bl_send lib ch) (bl_subscribe lib ch)"
  shows "bl_try_recv lib (sc_channel (initiate_shutdown lib c)) (shutdown_signal lib c) \<and>
    \<not> is_shutdown lib (sc_channel (initiate_shutdown lib c)) (shutdown_signal lib c)"
  using assms by (simp add: initiate_shutdown_def shutdown_signal_def is_shutdown_def)

end
