(* ===== verification/System.thy ===== *)
theory System
  imports Coinbase Stratum_Server Node_Consumer Http_Api Config Shutdown
begin

text \<open>
  The process (src/src/main.rs): what it sets up before it serves, the phases of its start, and the
  tasks that then run side by side on one database, one job cache and one queue of payout events.
\<close>

subsection \<open>Setting up\<close>

text \<open>\<open>pw_webhook\<close> posts to the webhook at an address; the other fields are the interfaces of the
  components. The JSON-RPC client is an argument of each step, since the node's answers change.\<close>

record ('c, 'h, 'm, 't, 'i, 'sk, 'pk, 'tx) world =
  pw_env :: "('c, 'h, 'm, 't) server_env"
  pw_scripts :: script_lib
  pw_nng :: "'i nng_interface"
  pw_tx :: "('sk, 'pk, 'tx) tx_lib"
  pw_webhook :: "string \<Rightarrow> json \<Rightarrow> webhook_outcome"
  pw_api :: api_env

datatype startup_error =
    DatabaseFailed string
  | NoMiningIdentity
  | BadMiningIdentity resolve_error
  | ConnectFailed string
  | TemplateFailed string
  | JobFailed template_error
  | NoPrivateKey
  | BadPrivateKey "string option"
  | NoWebhookUrl
  | UnknownSigningMode string

datatype phase = Reconciling | ReconcilingPayouts | StartingConsumer | Maturing | StartingPayouts | Ready
  | Failed startup_error | Stopped

type_synonym signer_fn = "http_client \<Rightarrow> SignedBatchData \<Rightarrow> string + string"

record ('c, 'i) system =
  sy_phase :: phase
  sy_db :: db
  sy_nng :: "'i NngRpcClient"
  sy_first_job :: MiningJob
  sy_cache :: "'c JobCache"
  sy_api :: AppState
  sy_server :: "'c stratum_server"
  sy_consumer :: bool
  sy_tip :: int
  sy_broadcast :: "MiningJob list"
  sy_pending :: "PayoutEvent list"
  sy_signer :: "signer_fn option"

definition payout_config_of :: "Config \<Rightarrow> payout_config" where
  "payout_config_of cfg =
     \<lparr>pc_fee_bps = fs_fee_bps (po_fee (cf_pool cfg)), pc_fee_address = fs_fee_address (po_fee (cf_pool cfg)),
      pc_min_payout_sat = ps_min_payout_sat (po_pplns (cf_pool cfg)),
      pc_n_multiplier = ps_n_multiplier (po_pplns (cf_pool cfg))\<rparr>"

definition app_state :: "Config \<Rightarrow> ServerStats \<Rightarrow> AppState" where
  "app_state cfg stats =
     \<lparr>as_stats = stats, as_share_repo = True, as_worker_repo = True, as_round_repo = True,
      as_found_block_repo = True, as_payout_repo = True, as_api_token = cf_api_token cfg,
      as_accounting_service = True, as_payout_config = Some (payout_config_of cfg)\<rparr>"

text \<open>The first job: the template fetched from the node for the configured identity. A template whose
  coinbase burns the reward is only warned about.\<close>

definition first_job ::
  "('c, 'h, 'm, 't, 'i, 'sk, 'pk, 'tx) world \<Rightarrow> Config \<Rightarrow> startup_error + 'i NngRpcClient \<times> MiningJob" where
  "first_job w cfg =
     (case po_mining_identity (cf_pool cfg) of
        None \<Rightarrow> Inl NoMiningIdentity
      | Some mining_id \<Rightarrow>
          (case resolve (pw_scripts w) mining_id of
             Inl e \<Rightarrow> Inl (BadMiningIdentity e)
           | Inr (coinbase_script, coinbase_identity) \<Rightarrow>
               (case nng_connect (pw_nng w) (nng_new (cf_nng_rpc_url cfg) (Some coinbase_script) coinbase_identity) of
                  (Inl e, _) \<Rightarrow> Inl (ConnectFailed e)
                | (Inr _, client) \<Rightarrow>
                    (case get_mining_template (pw_nng w) client of
                       Inl e \<Rightarrow> Inl (TemplateFailed e)
                     | Inr template \<Rightarrow>
                         (case template_to_job (se_ext (pw_env w)) (se_code (pw_env w)) template False of
                            Inl e \<Rightarrow> Inl (JobFailed e)
                          | Inr job \<Rightarrow> Inr (client, job))))))"

text \<open>\<open>opened\<close> is the database once it is opened and has its tables.\<close>

definition boot ::
  "('c, 'h, 'm, 't, 'i, 'sk, 'pk, 'tx) world \<Rightarrow> Config \<Rightarrow> string + db \<Rightarrow> startup_error + ('c, 'i) system" where
  "boot w cfg opened =
     (case opened of
        Inl e \<Rightarrow> Inl (DatabaseFailed e)
      | Inr d \<Rightarrow>
          (case first_job w cfg of
             Inl e \<Rightarrow> Inl e
           | Inr (client, job) \<Rightarrow>
               (let ops = se_ops (pw_env w);
                    cache = job_cache_insert ops job (job_cache_new ops 512);
                    stats = \<lparr>st_uptime_secs = 0, st_connected_miners = 0,
                             st_network_difficulty = Some (mj_network_target_hex job)\<rparr>
                in Inr \<lparr>sy_phase = Reconciling, sy_db = d, sy_nng = client, sy_first_job = job, sy_cache = cache,
                        sy_api = app_state cfg stats, sy_server = stratum_server_new (Some d) cache,
                        sy_consumer = False, sy_tip = 0, sy_broadcast = [], sy_pending = [], sy_signer = None\<rparr>)))"

subsection \<open>The phases of the start\<close>

definition check_payout_tx :: "http_client \<Rightarrow> string \<Rightarrow> string + int option" where
  "check_payout_tx rpc txid =
     (case get_raw_transaction rpc txid of
        Inr tx \<Rightarrow> Inr (Some (case Option.bind (json_get ''confirmations'' tx) as_i64 of Some n \<Rightarrow> n | None \<Rightarrow> 0))
      | Inl e \<Rightarrow> if str_contains e ''No such mempool'' \<or> str_contains e ''Invalid txid'' then Inr None else Inl e)"

definition startup_reconcile :: "http_client \<Rightarrow> db \<Rightarrow> db" where
  "startup_reconcile rpc d =
     (case getblockcount rpc of
        Inr tip_height \<Rightarrow> snd (reconcile_found_blocks tip_height (getblockhash rpc) d)
      | Inl _ \<Rightarrow> d)"

definition startup_maturation :: "http_client \<Rightarrow> u64 \<Rightarrow> db \<Rightarrow> PayoutEvent list \<times> db" where
  "startup_maturation rpc min_confirmations d =
     (case getblockcount rpc of
        Inr tip_height \<Rightarrow>
          (let (r, d') = check_maturation tip_height min_confirmations d
           in (case r of Inr matured \<Rightarrow> map (\<lambda>b. BlockMatured (fb_block_hash b)) matured | Inl _ \<Rightarrow> [], d'))
      | Inl _ \<Rightarrow> ([], d))"

definition select_signer ::
  "('c, 'h, 'm, 't, 'i, 'sk, 'pk, 'tx) world \<Rightarrow> SigningSettings \<Rightarrow> http_client \<Rightarrow> startup_error + signer_fn" where
  "select_signer w sg rpc =
     (if sn_mode sg = ''internal'' then
        (case sn_private_key sg of
           None \<Rightarrow> Inl NoPrivateKey
         | Some key \<Rightarrow>
             (case internal_signer_new (pw_tx w) key rpc (sn_tx_fee_per_kb sg) of
                Inl e \<Rightarrow> Inl (BadPrivateKey e)
              | Inr signer \<Rightarrow> Inr (\<lambda>node. internal_sign_and_submit (pw_tx w) (signer\<lparr>is_rpc_client := node\<rparr>))))
      else if sn_mode sg = ''external'' then
        (case sn_webhook_url sg of
           None \<Rightarrow> Inl NoWebhookUrl
         | Some url \<Rightarrow> Inr (\<lambda>node. external_sign_and_submit (pw_webhook w url)))
      else Inl (UnknownSigningMode (sn_mode sg)))"

text \<open>One phase of the start. \<open>subscribed\<close> tells whether the consumer could subscribe to the node's
  events; when it could not the process goes on without it.\<close>

definition startup_step ::
  "('c, 'h, 'm, 't, 'i, 'sk, 'pk, 'tx) world \<Rightarrow> Config \<Rightarrow> http_client \<Rightarrow> bool \<Rightarrow> ('c, 'i) system \<Rightarrow> ('c, 'i) system" where
  "startup_step w cfg rpc subscribed sy =
     (case sy_phase sy of
        Reconciling \<Rightarrow> sy\<lparr>sy_phase := ReconcilingPayouts, sy_db := startup_reconcile rpc (sy_db sy)\<rparr>
      | ReconcilingPayouts \<Rightarrow>
          sy\<lparr>sy_phase := StartingConsumer, sy_db := snd (reconcile_submitted_payouts (check_payout_tx rpc) (sy_db sy))\<rparr>
      | StartingConsumer \<Rightarrow> sy\<lparr>sy_phase := Maturing, sy_consumer := subscribed\<rparr>
      | Maturing \<Rightarrow>
          (let (evs, d) = startup_maturation rpc (ps_min_confirmations (po_pplns (cf_pool cfg))) (sy_db sy)
           in sy\<lparr>sy_phase := StartingPayouts, sy_db := d, sy_pending := sy_pending sy @ evs\<rparr>)
      | StartingPayouts \<Rightarrow>
          if ps_payout_enabled (po_pplns (cf_pool cfg))
          then (case select_signer w (po_signing (cf_pool cfg)) rpc of
                  Inl e \<Rightarrow> sy\<lparr>sy_phase := Failed e\<rparr>
                | Inr signer \<Rightarrow> sy\<lparr>sy_phase := Ready, sy_signer := Some signer\<rparr>)
          else sy\<lparr>sy_phase := Ready\<rparr>
      | _ \<Rightarrow> sy)"

subsection \<open>The tasks\<close>

definition api_turn ::
  "('c, 'h, 'm, 't, 'i, 'sk, 'pk, 'tx) world \<Rightarrow> http_request \<Rightarrow> ('c, 'i) system \<Rightarrow> ('c, 'i) system" where
  "api_turn w req sy = sy\<lparr>sy_db := snd (serve_http (pw_api w) (sy_api sy) req (sy_db sy))\<rparr>"

definition server_turn ::
  "('c, 'h, 'm, 't, 'i, 'sk, 'pk, 'tx) world \<Rightarrow> Config \<Rightarrow> http_client \<Rightarrow> instant \<Rightarrow> server_event \<Rightarrow>
   ('c, 'i) system \<Rightarrow> ('c, 'i) system" where
  "server_turn w cfg rpc now ev sy =
     (let sv = server_step ((pw_env w)\<lparr>se_json_rpc := Some rpc\<rparr>) (vardiff_config_from (cf_vardiff cfg)) now ev
                 ((sy_server sy)\<lparr>sv_db := Some (sy_db sy), sv_cache := sy_cache sy\<rparr>)
      in sy\<lparr>sy_server := sv, sy_db := (case sv_db sv of Some d \<Rightarrow> d | None \<Rightarrow> sy_db sy)\<rparr>)"

definition consumer_turn ::
  "('c, 'h, 'm, 't, 'i, 'sk, 'pk, 'tx) world \<Rightarrow> Config \<Rightarrow> consumer_event \<Rightarrow> ('c, 'i) system \<Rightarrow> ('c, 'i) system" where
  "consumer_turn w cfg ev sy =
     (let cs = consumer_step (se_ext (pw_env w)) (se_code (pw_env w)) (se_ops (pw_env w))
                 (ps_min_confirmations (po_pplns (cf_pool cfg))) ev
                 \<lparr>cs_db = Some (sy_db sy), cs_tip = sy_tip sy, cs_cache = sy_cache sy,
                  cs_broadcast = sy_broadcast sy, cs_payout_events = sy_pending sy\<rparr>
      in sy\<lparr>sy_db := (case cs_db cs of Some d \<Rightarrow> d | None \<Rightarrow> sy_db sy), sy_tip := cs_tip cs, sy_cache := cs_cache cs,
            sy_broadcast := cs_broadcast cs, sy_pending := cs_payout_events cs\<rparr>)"

definition payout_turn ::
  "('c, 'h, 'm, 't, 'i, 'sk, 'pk, 'tx) world \<Rightarrow> Config \<Rightarrow> http_client \<Rightarrow> ('c, 'i) system \<Rightarrow> ('c, 'i) system" where
  "payout_turn w cfg rpc sy =
     (case (sy_signer sy, sy_pending sy) of
        (Some signer, ev # evs) \<Rightarrow>
          sy\<lparr>sy_pending := evs,
             sy_db := snd (handle_payout_event (se_ext (pw_env w)) (an_order (pw_api w))
                             \<lparr>rpc_get_block = get_block rpc, rpc_get_raw_transaction = get_raw_transaction rpc\<rparr>
                             (signer rpc) (payout_config_of cfg) ev (sy_db sy))\<rparr>
      | _ \<Rightarrow> sy)"

definition stats_turn ::
  "('c, 'h, 'm, 't, 'i, 'sk, 'pk, 'tx) world \<Rightarrow> ('c, 'i) system \<Rightarrow> ('c, 'i) system" where
  "stats_turn w sy =
     sy\<lparr>sy_api := (sy_api sy)\<lparr>as_stats :=
          \<lparr>st_uptime_secs = st_uptime_secs (as_stats (sy_api sy)) + 1,
           st_connected_miners = sv_connected (sy_server sy),
           st_network_difficulty = get_latest_target_hex (se_ops (pw_env w)) (sy_cache sy)\<rparr>\<rparr>\<rparr>"

text \<open>A job reaches a connection only from the broadcast channel; how much of it a slow receiver misses
  is left open.\<close>

fun known_job :: "server_event \<Rightarrow> ('c, 'i) system \<Rightarrow> bool" where
  "known_job (OnConnection i (NewJob job)) sy = (job \<in> set (sy_broadcast sy))"
| "known_job ev sy = True"

definition running :: "('c, 'i) system \<Rightarrow> bool" where
  "running sy = (case sy_phase sy of Failed _ \<Rightarrow> False | Stopped \<Rightarrow> False | _ \<Rightarrow> True)"

text \<open>The tasks take turns in any order. \<open>unfinished\<close> is a turn that other tasks see unfinished: one of its
  sections under the database lock. A process that failed, was stopped or was killed can be started
  again, with any configuration, on the database it left.\<close>

inductive system_step ::
  "('c, 'h, 'm, 't, 'i, 'sk, 'pk, 'tx) world \<Rightarrow> Config \<times> ('c, 'i) system \<Rightarrow> Config \<times> ('c, 'i) system \<Rightarrow> bool"
  for w where
  startup: "running sy \<Longrightarrow> system_step w (cfg, sy) (cfg, startup_step w cfg rpc subscribed sy)"
| api: "running sy \<Longrightarrow> system_step w (cfg, sy) (cfg, api_turn w req sy)"
| server: "sy_phase sy = Ready \<Longrightarrow> known_job ev sy \<Longrightarrow> system_step w (cfg, sy) (cfg, server_turn w cfg rpc now ev sy)"
| consumer: "running sy \<Longrightarrow> sy_consumer sy \<Longrightarrow> system_step w (cfg, sy) (cfg, consumer_turn w cfg ev sy)"
| payouts: "sy_phase sy = Ready \<Longrightarrow> system_step w (cfg, sy) (cfg, payout_turn w cfg rpc sy)"
| stats: "sy_phase sy = Ready \<Longrightarrow> system_step w (cfg, sy) (cfg, stats_turn w sy)"
| unfinished: "running sy \<Longrightarrow> locked_step (sy_db sy) d \<Longrightarrow> system_step w (cfg, sy) (cfg, sy\<lparr>sy_db := d\<rparr>)"
| stop: "sy_phase sy = Ready \<Longrightarrow> system_step w (cfg, sy) (cfg, sy\<lparr>sy_phase := Stopped\<rparr>)"
| restart: "boot w cfg' (Inr (sy_db sy)) = Inr sy' \<Longrightarrow> system_step w (cfg, sy) (cfg', sy')"

subsection \<open>Blocks are never forgotten\<close>

abbreviation keeps_blocks :: "db \<Rightarrow> db \<Rightarrow> bool" where
  "keeps_blocks s t \<equiv> fb_block_hash ` set (db_found_blocks s) \<subseteq> fb_block_hash ` set (db_found_blocks t)"

lemma frame_keeps_blocks: "frame db_found_blocks m \<Longrightarrow> keeps_blocks s (snd (m s))"
  by (simp add: frame_def)

lemma update_blocks_hashes:
  "(\<And>b. fb_block_hash (f b) = fb_block_hash b) \<Longrightarrow> keeps_blocks s (update_blocks P f s)"
proof -
  assume f: "\<And>b. fb_block_hash (f b) = fb_block_hash b"
  have "map fb_block_hash (update_where P f bs) = map fb_block_hash bs" for bs
    by (induction bs) (simp_all add: update_where_def f)
  from arg_cong [OF this, of set] show ?thesis by (simp add: update_blocks_def)
qed

lemma update_keeps_blocks:
  "keeps_blocks s (snd (mark_orphaned h r s))" "keeps_blocks s (snd (un_orphan h s))"
  "keeps_blocks s (snd (block_update_status i st s))" "keeps_blocks s (snd (update_coinbase_txid i txid s))"
  "keeps_blocks s (snd (mark_matured i s))"
  unfolding mark_orphaned_def un_orphan_def block_update_status_def update_coinbase_txid_def mark_matured_def modifyR_def
    snd_conv by (rule update_blocks_hashes, simp)+

lemma found_block_keeps_blocks: "keeps_blocks s (snd (record_found_block_row r h ht w t p c n s))"
  by (auto simp: record_found_block_row_def Let_def op_simps split: if_splits)

lemma locked_step_blocks_kept: "locked_step s t \<Longrightarrow> keeps_blocks s t"
  by (induction rule: locked_step.induct)
    (rule update_keeps_blocks found_block_keeps_blocks | rule frame_keeps_blocks, intro frame_intros; simp | simp)+

lemma locked_steps_blocks_kept: "locked_step\<^sup>*\<^sup>* s t \<Longrightarrow> keeps_blocks s t"
  by (induction rule: rtranclp_induct) (use locked_step_blocks_kept in \<open>blast+\<close>)

subsection \<open>What every turn keeps\<close>

definition pending_known :: "PayoutEvent list \<Rightarrow> db \<Rightarrow> bool" where
  "pending_known evs d \<longleftrightarrow> list_all (\<lambda>ev. case ev of BlockMatured h \<Rightarrow> block_get_by_hash h d \<noteq> None | _ \<Rightarrow> True) evs"

definition system_inv :: "'c cache_ops \<Rightarrow> ('c, 'i) system \<Rightarrow> bool" where
  "system_inv ops sy \<longleftrightarrow>
     db_inv (sy_db sy) \<and> sessions_inv (sy_server sy) \<and> job_store.bounded ops 512 (sy_cache sy) \<and>
     get_latest ops (sy_cache sy) = Some (last (sy_first_job sy # sy_broadcast sy)) \<and>
     pending_known (sy_pending sy) (sy_db sy)"

lemma block_get_known: "block_get_by_hash h d \<noteq> None \<longleftrightarrow> h \<in> fb_block_hash ` set (db_found_blocks d)"
  by (auto simp: block_get_by_hash_def find_None_iff image_iff)

lemma pending_known_steps: "locked_step\<^sup>*\<^sup>* d e \<Longrightarrow> pending_known evs d \<Longrightarrow> pending_known evs e"
proof -
  assume kept: "locked_step\<^sup>*\<^sup>* d e"
  assume "pending_known evs d"
  then show ?thesis unfolding pending_known_def block_get_known
    by (rule list.pred_mono_strong) (use locked_steps_blocks_kept [OF kept] in \<open>auto split: PayoutEvent.splits\<close>)
qed

lemma system_inv_db: "system_inv ops sy \<Longrightarrow> locked_step\<^sup>*\<^sup>* (sy_db sy) d \<Longrightarrow> system_inv ops (sy\<lparr>sy_db := d\<rparr>)"
  by (simp add: system_inv_def locked_steps_inv pending_known_steps)

lemma check_maturation_known:
  assumes "check_maturation tip n s = (Inr bs, t)"
  shows "pending_known (map (\<lambda>b. BlockMatured (fb_block_hash b)) bs) s"
proof -
  have "bs = filter (is_mature tip n) (block_list (Some ''immature'') s)"
    using assms by (auto simp: check_maturation_def op_simps split: prod.splits sum.splits)
  then have "set bs \<subseteq> set (db_found_blocks s)" using block_list_set [of "''immature''" s] by auto
  then show ?thesis unfolding pending_known_def block_get_known by (auto simp: list_all_iff)
qed

lemma maturation_pending:
  assumes "check_maturation tip n s = (r, t)"
  shows "locked_step\<^sup>*\<^sup>* s t \<and>
    pending_known (case r of Inr bs \<Rightarrow> map (\<lambda>b. BlockMatured (fb_block_hash b)) bs | Inl _ \<Rightarrow> []) t"
proof -
  have "locked_step\<^sup>*\<^sup>* s (snd (check_maturation tip n s))" by (intro viaD via_intros)
  then have st: "locked_step\<^sup>*\<^sup>* s t" by (simp add: assms)
  show ?thesis
  proof (cases r)
    case (Inr bs)
    then show ?thesis using pending_known_steps [OF st check_maturation_known] assms st by simp
  qed (simp add: st pending_known_def)
qed

lemma pending_known_append [simp]: "pending_known (a @ b) d \<longleftrightarrow> pending_known a d \<and> pending_known b d"
  by (simp add: pending_known_def)

lemma startup_maturation_pending:
  assumes "startup_maturation rpc n d = (evs, e)"
  shows "locked_step\<^sup>*\<^sup>* d e \<and> pending_known evs e"
proof (cases "getblockcount rpc")
  case (Inr tip)
  obtain r t where m: "check_maturation tip n d = (r, t)" by (rule prod.exhaust)
  show ?thesis using assms maturation_pending [OF m] by (auto simp: startup_maturation_def Inr m)
qed (use assms in \<open>simp add: startup_maturation_def pending_known_def\<close>)

lemma startup_step_inv:
  assumes "system_inv ops sy"
  shows "system_inv ops (startup_step w cfg rpc subscribed sy)"
proof (cases "sy_phase sy")
  case Reconciling
  have "locked_step\<^sup>*\<^sup>* d (snd (reconcile_found_blocks tip f d))" for tip f d by (intro viaD via_intros)
  then have "locked_step\<^sup>*\<^sup>* (sy_db sy) (startup_reconcile rpc (sy_db sy))"
    by (simp add: startup_reconcile_def split: sum.split)
  from system_inv_db [OF assms this] show ?thesis by (simp add: startup_step_def Reconciling system_inv_def)
next
  case ReconcilingPayouts
  have "locked_step\<^sup>*\<^sup>* (sy_db sy) (snd (reconcile_submitted_payouts (check_payout_tx rpc) (sy_db sy)))"
    by (intro viaD via_intros)
  from system_inv_db [OF assms this] show ?thesis by (simp add: startup_step_def ReconcilingPayouts system_inv_def)
next
  case Maturing
  obtain evs d where m: "startup_maturation rpc (ps_min_confirmations (po_pplns (cf_pool cfg))) (sy_db sy) = (evs, d)"
    by (rule prod.exhaust)
  show ?thesis
    using startup_maturation_pending [OF m] system_inv_db [OF assms, of d]
    by (simp add: startup_step_def Maturing m system_inv_def)
next
  case StartingPayouts
  then show ?thesis using assms by (simp add: startup_step_def system_inv_def split: sum.split)
qed (use assms in \<open>simp_all add: startup_step_def system_inv_def\<close>)

lemma api_turn_inv: "system_inv ops sy \<Longrightarrow> system_inv ops (api_turn w req sy)"
  unfolding api_turn_def by (erule system_inv_db) (rule serve_http_via)

lemma server_step_steps: "db_steps (sv_db sv) (sv_db (server_step env cfg now ev sv))"
proof (cases ev)
  case (OnConnection i e)
  then show ?thesis
    using handle_connection_steps [of "sv_db sv" env "sv_cache sv" now e "sv_conns sv ! i"]
    by (simp add: connection_event_def Let_def case_prod_beta)
qed (simp_all add: accept_connection_def Let_def split: option.split)

lemma server_turn_inv:
  assumes "system_inv ops sy"
  shows "system_inv ops (server_turn w cfg rpc now ev sy)"
proof -
  define sv where "sv = server_step ((pw_env w)\<lparr>se_json_rpc := Some rpc\<rparr>) (vardiff_config_from (cf_vardiff cfg)) now ev
    ((sy_server sy)\<lparr>sv_db := Some (sy_db sy), sv_cache := sy_cache sy\<rparr>)"
  have "db_steps (Some (sy_db sy)) (sv_db sv)"
    using server_step_steps [of "(sy_server sy)\<lparr>sv_db := Some (sy_db sy), sv_cache := sy_cache sy\<rparr>"] by (simp add: sv_def)
  then obtain d where d: "sv_db sv = Some d" "locked_step\<^sup>*\<^sup>* (sy_db sy) d" by (cases "sv_db sv") auto
  have "sessions_inv ((sy_server sy)\<lparr>sv_db := Some (sy_db sy), sv_cache := sy_cache sy\<rparr>)"
    using assms by (simp add: system_inv_def sessions_inv_def)
  then have "sessions_inv sv" unfolding sv_def by (rule server_step_sessions)
  then show ?thesis using system_inv_db [OF assms d(2)] d(1)
    unfolding server_turn_def sv_def [symmetric] Let_def by (simp add: system_inv_def)
qed

lemma consumer_step_events:
  assumes "cs_db cs = Some d"
  shows "\<exists>e evs. cs_db (consumer_step ex bc ops n ev cs) = Some e \<and> locked_step\<^sup>*\<^sup>* d e \<and> pending_known evs e \<and>
    cs_payout_events (consumer_step ex bc ops n ev cs) = cs_payout_events cs @ evs"
proof (cases ev)
  case (Connected blk)
  show ?thesis
  proof (cases "x_header_height ex (nb_raw_header blk)")
    case None
    then show ?thesis using assms Connected by (intro exI [of _ d] exI [of _ "[]"]) (simp add: handle_block_connected_def pending_known_def)
  next
    case (Some height)
    let ?tip = "update_block_connected height (cs_tip cs)"
    define s1 where "s1 = snd (reconnect_block (to_hex_be ex (nb_hash blk)) d)"
    obtain r e where m: "check_maturation ?tip n s1 = (r, e)" by (rule prod.exhaust)
    have "locked_step\<^sup>*\<^sup>* d s1" unfolding s1_def by (intro viaD via_intros)
    then have "locked_step\<^sup>*\<^sup>* d e" using maturation_pending [OF m] by (blast intro: rtranclp_trans)
    then show ?thesis using maturation_pending [OF m] assms Connected
      by (intro exI [of _ e]) (simp add: handle_block_connected_def Some s1_def [symmetric] m, simp add: pending_known_def)
  qed
next
  case (Disconnected blk)
  have "locked_step\<^sup>*\<^sup>* d (snd (handle_block_disconnected ex blk d))" by (intro viaD via_intros)
  then show ?thesis using assms Disconnected by (simp add: pending_known_def)
qed (use assms in \<open>auto simp: pending_known_def on_mining_work_changed_def split: option.split\<close>)

lemma consumer_step_cache:
  "cs_cache (consumer_step ex bc ops n ev cs) = cs_cache cs \<and> cs_broadcast (consumer_step ex bc ops n ev cs) = cs_broadcast cs \<or>
   (\<exists>job. cs_cache (consumer_step ex bc ops n ev cs) = job_cache_insert ops job (cs_cache cs) \<and>
          cs_broadcast (consumer_step ex bc ops n ev cs) = cs_broadcast cs @ [job])"
  by (cases ev) (auto simp: on_mining_work_changed_def Let_def case_prod_beta split: option.split)

lemma consumer_turn_inv:
  assumes ops: "job_store (se_ops (pw_env w)) 512" and inv: "system_inv (se_ops (pw_env w)) sy"
  shows "system_inv (se_ops (pw_env w)) (consumer_turn w cfg ev sy)"
proof -
  let ?ops = "se_ops (pw_env w)"
  define cs where "cs = \<lparr>cs_db = Some (sy_db sy), cs_tip = sy_tip sy, cs_cache = sy_cache sy,
    cs_broadcast = sy_broadcast sy, cs_payout_events = sy_pending sy\<rparr>"
  define cs' where "cs' = consumer_step (se_ext (pw_env w)) (se_code (pw_env w)) ?ops
    (ps_min_confirmations (po_pplns (cf_pool cfg))) ev cs"
  have "cs_db cs = Some (sy_db sy)" by (simp add: cs_def)
  from consumer_step_events [OF this] obtain d evs where d: "cs_db cs' = Some d" "locked_step\<^sup>*\<^sup>* (sy_db sy) d"
      "pending_known evs d" "cs_payout_events cs' = sy_pending sy @ evs"
    unfolding cs'_def by (fastforce simp: cs_def)
  have b: "job_store.bounded ?ops 512 (sy_cache sy)" "get_latest ?ops (sy_cache sy) = Some (last (sy_first_job sy # sy_broadcast sy))"
    using inv by (simp_all add: system_inv_def)
  have "cs_cache cs' = sy_cache sy \<and> cs_broadcast cs' = sy_broadcast sy \<or>
    (\<exists>job. cs_cache cs' = job_cache_insert ?ops job (sy_cache sy) \<and> cs_broadcast cs' = sy_broadcast sy @ [job])"
    using consumer_step_cache [of _ _ ?ops _ ev cs] by (simp add: cs'_def cs_def)
  then have "job_store.bounded ?ops 512 (cs_cache cs') \<and>
      get_latest ?ops (cs_cache cs') = Some (last (sy_first_job sy # cs_broadcast cs'))"
    using b job_store.insert_bounded [OF ops b(1)] by auto
  then show ?thesis using system_inv_db [OF inv d(2)] d
    unfolding consumer_turn_def cs_def [symmetric] cs'_def [symmetric] Let_def by (simp add: system_inv_def)
qed

lemma payout_turn_inv: "system_inv ops sy \<Longrightarrow> system_inv ops (payout_turn w cfg rpc sy)"
proof (cases "sy_signer sy"; cases "sy_pending sy")
  fix signer ev evs
  assume inv: "system_inv ops sy" and p: "sy_signer sy = Some signer" "sy_pending sy = ev # evs"
  let ?d = "snd (handle_payout_event (se_ext (pw_env w)) (an_order (pw_api w))
    \<lparr>rpc_get_block = get_block rpc, rpc_get_raw_transaction = get_raw_transaction rpc\<rparr>
    (signer rpc) (payout_config_of cfg) ev (sy_db sy))"
  have "locked_step\<^sup>*\<^sup>* (sy_db sy) ?d" by (intro viaD via_intros)
  from system_inv_db [OF inv this] show ?thesis
    unfolding payout_turn_def p by (simp add: system_inv_def p pending_known_def del: handle_payout_event.simps)
qed (simp_all add: payout_turn_def)

lemma boot_inv:
  assumes ops: "job_store (se_ops (pw_env w)) 512" and "db_inv d" "boot w cfg (Inr d) = Inr sy"
  shows "system_inv (se_ops (pw_env w)) sy"
proof -
  have "job_store.bounded (se_ops (pw_env w)) 512 (job_cache_new (se_ops (pw_env w)) 512)"
    by (rule job_store.bounded_new [OF ops]) simp
  from job_store.insert_bounded [OF ops this] show ?thesis using assms(2,3) sessions_inv_new
    by (auto simp: boot_def Let_def system_inv_def pending_known_def split: sum.splits prod.splits)
qed

lemma system_step_inv:
  assumes ops: "job_store (se_ops (pw_env w)) 512"
    and "system_step w x y" "system_inv (se_ops (pw_env w)) (snd x)"
  shows "system_inv (se_ops (pw_env w)) (snd y)"
  using assms(2,3)
proof (induction rule: system_step.induct)
  case (unfinished sy d cfg)
  then show ?case using system_inv_db by (metis r_into_rtranclp snd_conv)
next
  case (restart cfg' sy sy' cfg)
  then have "db_inv (sy_db sy)" by (simp add: system_inv_def)
  then show ?case using boot_inv [OF ops _ restart.hyps] by simp
qed (simp_all add: startup_step_inv api_turn_inv server_turn_inv consumer_turn_inv [OF ops] payout_turn_inv,
    simp_all add: system_inv_def stats_turn_def)

lemma system_steps_inv:
  assumes "job_store (se_ops (pw_env w)) 512" "(system_step w)\<^sup>*\<^sup>* x y" "system_inv (se_ops (pw_env w)) (snd x)"
  shows "system_inv (se_ops (pw_env w)) (snd y)"
  using assms(2,3) by (induction rule: rtranclp_induct) (use system_step_inv [OF assms(1)] in \<open>blast+\<close>)

subsection \<open>What the running process guarantees\<close>

text \<open>C2: the process as a whole is safe. Started on a new database, through any turns of its tasks, any
  answers of the node, failures and restarts, it never holds two payout batches for one block nor
  two open rounds, counts as connected the connections that have not been closed in order, hands a
  miner that asks for work the job issued last, and never queues a payout for a block that is not
  in the database.\<close>

theorem system_safe:
  assumes "job_store (se_ops (pw_env w)) 512" "boot w cfg (Inr (init_schema now)) = Inr sy0"
    and "(system_step w)\<^sup>*\<^sup>* (cfg, sy0) (cfg', sy)"
  shows "distinct (map batch_block (db_batches (sy_db sy))) \<and> length (open_rounds (sy_db sy)) \<le> 1 \<and>
    sv_connected (sy_server sy) = of_nat (length (filter (\<lambda>cn. cn_status cn \<noteq> Closed) (sv_conns (sy_server sy)))) \<and>
    get_latest (se_ops (pw_env w)) (sy_cache sy) = Some (last (sy_first_job sy # sy_broadcast sy)) \<and>
    list_all (\<lambda>ev. case ev of BlockMatured h \<Rightarrow> block_get_by_hash h (sy_db sy) \<noteq> None | BlockConnected _ \<Rightarrow> True) (sy_pending sy)"
proof -
  have "system_inv (se_ops (pw_env w)) sy0" by (rule boot_inv [OF assms(1) db_inv_init assms(2)])
  then have inv: "system_inv (se_ops (pw_env w)) sy" using system_steps_inv [OF assms(1,3)] by simp
  then have "batches_inv (sy_db sy)" by (simp add: system_inv_def db_inv_def)
  then have "distinct (map batch_block (db_batches (sy_db sy)))" unfolding batches_inv_def using batch_block_key by fastforce
  then show ?thesis using inv
    by (simp add: system_inv_def db_inv_def rounds_inv_def sessions_inv_def pending_known_def)
qed

definition configured :: "('c, 'h, 'm, 't, 'i, 'sk, 'pk, 'tx) world \<Rightarrow> Config \<Rightarrow> ('c, 'i) system \<Rightarrow> bool" where
  "configured w cfg sy \<longleftrightarrow>
     first_job w cfg = Inr (sy_nng sy, sy_first_job sy) \<and> as_api_token (sy_api sy) = cf_api_token cfg \<and>
     as_payout_config (sy_api sy) = Some (payout_config_of cfg) \<and>
     (sy_phase sy = Ready \<longrightarrow>
        (if ps_payout_enabled (po_pplns (cf_pool cfg))
         then \<exists>rpc signer. select_signer w (po_signing (cf_pool cfg)) rpc = Inr signer \<and> sy_signer sy = Some signer
         else sy_signer sy = None)) \<and>
     (sy_phase sy \<in> {Reconciling, ReconcilingPayouts, StartingConsumer, Maturing, StartingPayouts} \<longrightarrow> sy_signer sy = None)"

lemma boot_configured: "boot w cfg opened = Inr sy \<Longrightarrow> configured w cfg sy"
  by (auto simp: boot_def configured_def app_state_def Let_def split: sum.splits prod.splits)

lemma startup_step_configured:
  assumes "configured w cfg sy"
  shows "configured w cfg (startup_step w cfg rpc subscribed sy)"
proof (cases "sy_phase sy")
  case StartingPayouts
  show ?thesis
  proof (cases "select_signer w (po_signing (cf_pool cfg)) rpc")
    case (Inr signer)
    then have "\<exists>rpc. select_signer w (po_signing (cf_pool cfg)) rpc = Inr signer" by blast
    then show ?thesis using assms by (simp add: configured_def startup_step_def StartingPayouts Inr)
  qed (use assms in \<open>simp add: configured_def startup_step_def StartingPayouts\<close>)
qed (use assms in \<open>simp_all add: configured_def startup_step_def Let_def case_prod_beta\<close>)

lemma payout_turn_frame:
  "sy_nng (payout_turn w cfg rpc sy) = sy_nng sy" "sy_first_job (payout_turn w cfg rpc sy) = sy_first_job sy"
  "sy_api (payout_turn w cfg rpc sy) = sy_api sy" "sy_phase (payout_turn w cfg rpc sy) = sy_phase sy"
  "sy_signer (payout_turn w cfg rpc sy) = sy_signer sy"
  by (simp_all add: payout_turn_def split: option.split list.split)

lemma system_step_configured: "system_step w x y \<Longrightarrow> configured w (fst x) (snd x) \<Longrightarrow> configured w (fst y) (snd y)"
proof (induction rule: system_step.induct)
  case (payouts sy cfg rpc)
  then show ?case by (simp add: payout_turn_frame configured_def)
next
  case (restart cfg' sy sy' cfg)
  then show ?case by (simp add: boot_configured)
qed (simp_all add: startup_step_configured, simp_all add: configured_def api_turn_def server_turn_def consumer_turn_def
    stats_turn_def Let_def)

lemma system_steps_configured: "(system_step w)\<^sup>*\<^sup>* x y \<Longrightarrow> configured w (fst x) (snd x) \<Longrightarrow> configured w (fst y) (snd y)"
  by (induction rule: rtranclp_induct) (use system_step_configured in \<open>blast+\<close>)

lemma first_job_client:
  assumes "first_job w cfg = Inr (client, job)"
  shows "\<exists>m script tag. po_mining_identity (cf_pool cfg) = Some m \<and> resolve (pw_scripts w) m = Inr (script, tag) \<and>
    nr_coinbase_script client = Some script \<and> nr_coinbase_identity client = tag \<and> is_connected client"
  using assms by (auto simp: first_job_def nng_connect_def nng_new_def is_connected_def split: option.splits sum.splits prod.splits)


subsection \<open>The start always ends\<close>

lemma startup_completes:
  assumes "sy_phase sy = Reconciling"
  shows "sy_phase ((startup_step w cfg rpc subscribed ^^ 5) sy) =
    (if ps_payout_enabled (po_pplns (cf_pool cfg))
     then case select_signer w (po_signing (cf_pool cfg)) rpc of Inl e \<Rightarrow> Failed e | Inr _ \<Rightarrow> Ready
     else Ready)"
  using assms by (simp add: startup_step_def numeral_eq_Suc Let_def case_prod_beta split: sum.split)

lemma startup_steps:
  "sy_phase sy = Reconciling \<Longrightarrow> (system_step w)\<^sup>*\<^sup>* (cfg, sy) (cfg, (startup_step w cfg rpc subscribed ^^ 5) sy)"
proof -
  assume "sy_phase sy = Reconciling"
  then have r: "running ((startup_step w cfg rpc subscribed ^^ n) sy)" if "n < 5" for n
    using that by (auto simp: numeral_eq_Suc less_Suc_eq running_def startup_step_def Let_def case_prod_beta)
  have "(system_step w)\<^sup>*\<^sup>* (cfg, sy) (cfg, (startup_step w cfg rpc subscribed ^^ n) sy)" if "n \<le> 5" for n
    using that
  proof (induction n)
    case (Suc n)
    then show ?case using system_step.startup [OF r [of n], of w cfg] by (auto intro: rtranclp.rtrancl_into_rtrancl)
  qed simp
  then show ?thesis by blast
qed


subsection \<open>A process\<close>

definition sample_process_config :: Config where
  "sample_process_config =
     (config_of sample_raw)\<lparr>cf_pool := PoolSettings_default\<lparr>po_mining_identity := Some sample_identity,
        po_signing := SigningSettings_default\<lparr>sn_private_key := Some ''key''\<rparr>\<rparr>\<rparr>"

definition sample_world :: "(string \<rightharpoonup> MiningJob, u8 list, unit, u8 list, unit, unit, unit, unit) world" where
  "sample_world =
     \<lparr>pw_env = sample_env, pw_scripts = sample_script_lib,
      pw_nng = \<lparr>ni_open = (\<lambda>_. Inr ()), ni_get_mining_template = (\<lambda>_ _ _ _ _ _. Inr sample_template)\<rparr>,
      pw_tx = sample_lib, pw_webhook = (\<lambda>_ _. WebhookFailed ''down''), pw_api = sample_api_env\<rparr>"

definition sample_booted :: "(string \<rightharpoonup> MiningJob, unit) system" where
  "sample_booted = (case boot sample_world sample_process_config (Inr (init_schema ''0'')) of Inr sy \<Rightarrow> sy)"

definition sample_ready :: "(string \<rightharpoonup> MiningJob, unit) system" where
  "sample_ready = (startup_step sample_world sample_process_config sample_node True ^^ 5) sample_booted"

lemma sample_world_simps [simp]:
  "pw_env sample_world = sample_env" "pw_scripts sample_world = sample_script_lib" "pw_tx sample_world = sample_lib"
  "pw_nng sample_world = \<lparr>ni_open = (\<lambda>_. Inr ()), ni_get_mining_template = (\<lambda>_ _ _ _ _ _. Inr sample_template)\<rparr>"
  by (simp_all add: sample_world_def)

lemma sample_process_simps [simp]:
  "po_mining_identity (cf_pool sample_process_config) = Some sample_identity"
  "ps_payout_enabled (po_pplns (cf_pool sample_process_config))"
  "po_signing (cf_pool sample_process_config) = SigningSettings_default\<lparr>sn_private_key := Some ''key''\<rparr>"
  by (simp_all add: sample_process_config_def PoolSettings_default_def PplnsSettings_default_def default_pplns_payout_enabled_def)

lemma sample_resolved: "resolve sample_script_lib sample_identity = Inr ([0x76, 0xa9], Some (as_bytes ''pool''))"
  by (simp add: resolve_def resolve_script_def sample_script_lib_def sample_identity_def OP_RETURN_def)

lemma sample_first_job: "\<exists>client. first_job sample_world sample_process_config = Inr (client, template_job)"
  by (simp add: first_job_def sample_resolved nng_connect_def nng_new_def get_mining_template_def template_job_ok)

lemma sample_boot: "boot sample_world sample_process_config (Inr (init_schema ''0'')) = Inr sample_booted"
  "sy_phase sample_booted = Reconciling"
  using sample_first_job by (auto simp: sample_booted_def boot_def Let_def)

lemma sample_signer_ok: "\<exists>sg. select_signer sample_world (SigningSettings_default\<lparr>sn_private_key := Some ''key''\<rparr>) rpc = Inr sg"
  by (simp add: select_signer_def SigningSettings_default_def default_signing_mode_def internal_signer_new_def sample_lib_def)

lemma sample_ready_phase: "sy_phase sample_ready = Ready"
  using startup_completes [OF sample_boot(2), of sample_world sample_process_config sample_node True]
    sample_signer_ok [of sample_node] by (auto simp: sample_ready_def)

lemma sample_ready_reached:
  "(system_step sample_world)\<^sup>*\<^sup>* (sample_process_config, sample_booted) (sample_process_config, sample_ready)"
  unfolding sample_ready_def by (rule startup_steps [OF sample_boot(2)])

theorem system_safe_witness:
  "boot sample_world sample_process_config (Inr (init_schema ''0'')) = Inr sample_booted \<and>
   sy_phase sample_ready = Ready \<and> length (open_rounds (sy_db sample_ready)) \<le> 1 \<and>
   get_latest map_ops (sy_cache sample_ready) = Some (last (sy_first_job sample_ready # sy_broadcast sample_ready))"
  using system_safe [OF _ sample_boot(1) sample_ready_reached] sample_boot(1) sample_ready_phase map_store.job_store_axioms
  by simp



end
